(* ===== verification/CM_Prelude.thy ===== *)
theory CM_Prelude
  imports
    Complex_Main
    "HOL-Library.Char_ord"
    "HOL-Library.List_Lexorder"
begin

text \<open>
  Shared vocabulary of the development: Python values (JSON documents, strings, dicts), the
  effect monad in which the stateful code is written (explicit state, exceptions as values of
  a sum type, effects made before an exception kept), the collections of simplification rules,
  and the generic lemmas on lists the components share.
\<close>

named_theorems act_simps \<open>evaluation of the effect monad\<close>
named_theorems py_simps \<open>evaluation of Python string helpers\<close>

section \<open>The effect monad\<close>

text \<open>
  An asynchronous Python function that reads and writes shared state and may raise is a
  function from the state to its result and the new state. A raised exception is \<open>Inl e\<close>;
  what was written before it stays written (a transaction undoes its own writes, see
  \<open>CM_Database\<close>).
\<close>

type_synonym ('e, 's, 'a) act = "'s \<Rightarrow> ('e + 'a) \<times> 's"

definition act_return :: "'a \<Rightarrow> ('e, 's, 'a) act" where
  "act_return x = (\<lambda>s. (Inr x, s))"

definition act_raise :: "'e \<Rightarrow> ('e, 's, 'a) act" where
  "act_raise e = (\<lambda>s. (Inl e, s))"

definition act_bind :: "('e, 's, 'a) act \<Rightarrow> ('a \<Rightarrow> ('e, 's, 'b) act) \<Rightarrow> ('e, 's, 'b) act" where
  "act_bind m f = (\<lambda>s. case m s of (Inl e, s') \<Rightarrow> (Inl e, s') | (Inr x, s') \<Rightarrow> f x s')"

definition act_catch :: "('e, 's, 'a) act \<Rightarrow> ('e \<Rightarrow> ('e, 's, 'a) act) \<Rightarrow> ('e, 's, 'a) act" where
  "act_catch m h = (\<lambda>s. case m s of (Inl e, s') \<Rightarrow> h e s' | (Inr x, s') \<Rightarrow> (Inr x, s'))"

definition act_gets :: "('s \<Rightarrow> 'a) \<Rightarrow> ('e, 's, 'a) act" where
  "act_gets f = (\<lambda>s. (Inr (f s), s))"

definition act_modify :: "('s \<Rightarrow> 's) \<Rightarrow> ('e, 's, unit) act" where
  "act_modify f = (\<lambda>s. (Inr (), f s))"

definition act_lift :: "'e + 'a \<Rightarrow> ('e, 's, 'a) act" where
  "act_lift r = (\<lambda>s. (r, s))"

text \<open>A call whose exceptions are observed as values.\<close>

definition attempted :: "('e, 's, 'a) act \<Rightarrow> ('e, 's, 'e + 'a) act" where
  "attempted m s = (case m s of (r, s') \<Rightarrow> (Inr r, s'))"

lemma act_run_simps [act_simps]:
  "act_return x s = (Inr x, s)"
  "act_raise e s = (Inl e, s)"
  "act_gets f s = (Inr (f s), s)"
  "act_modify g s = (Inr (), g s)"
  "act_lift r s = (r, s)"
  by (simp_all add: act_return_def act_raise_def act_gets_def act_modify_def act_lift_def)

lemma act_bind_run:
  "act_bind m f s = (case m s of (Inl e, s') \<Rightarrow> (Inl e, s') | (Inr x, s') \<Rightarrow> f x s')"
  by (simp add: act_bind_def)

lemma act_bind_simps [act_simps]:
  "m s = (Inl e, s') \<Longrightarrow> act_bind m f s = (Inl e, s')"
  "m s = (Inr x, s') \<Longrightarrow> act_bind m f s = f x s'"
  by (simp_all add: act_bind_def)

lemma act_catch_simps [act_simps]:
  "m s = (Inl e, s') \<Longrightarrow> act_catch m h s = h e s'"
  "m s = (Inr x, s') \<Longrightarrow> act_catch m h s = (Inr x, s')"
  by (simp_all add: act_catch_def)

lemma act_bind_InrE:
  assumes "act_bind m f s = (Inr y, s')"
  obtains x t where "m s = (Inr x, t)" and "f x t = (Inr y, s')"
  using assms by (auto simp: act_bind_def split: prod.splits sum.splits)

lemma act_bind_cases:
  obtains (err) e t where "m s = (Inl e, t)" and "act_bind m f s = (Inl e, t)"
    | (ok) x t where "m s = (Inr x, t)" and "act_bind m f s = f x t"
  by (cases "m s"; cases "fst (m s)") (auto simp: act_bind_def)

text \<open>The monad laws: sequencing in the model is sequencing in the code.\<close>

lemma act_bind_assoc: "act_bind (act_bind m f) g = act_bind m (\<lambda>x. act_bind (f x) g)"
  by (rule ext) (auto simp: act_bind_def split: prod.splits sum.splits)

lemma act_bind_return [simp]: "act_bind m act_return = m"
  by (rule ext) (auto simp: act_bind_def act_return_def split: prod.splits sum.splits)

lemma act_return_bind [simp]: "act_bind (act_return x) f = f x"
  by (rule ext) (simp add: act_bind_def act_return_def)

text \<open>
  A \<^theory_text>\<open>for\<close> loop with effects: the body runs on each element in order, and the
  first exception ends the loop.
\<close>

fun act_foreach :: "('a \<Rightarrow> ('e, 's, unit) act) \<Rightarrow> 'a list \<Rightarrow> ('e, 's, unit) act" where
  "act_foreach f [] = act_return ()"
| "act_foreach f (x # xs) = act_bind (f x) (\<lambda>_. act_foreach f xs)"

text \<open>A relation that every step of an action respects is respected by the whole action.\<close>

definition act_preserves :: "('s \<Rightarrow> 's \<Rightarrow> bool) \<Rightarrow> ('e, 's, 'a) act \<Rightarrow> bool" where
  "act_preserves R m \<longleftrightarrow> (\<forall>s. R s (snd (m s)))"

lemma act_preservesI: "(\<And>s. R s (snd (m s))) \<Longrightarrow> act_preserves R m"
  by (simp add: act_preserves_def)

lemma act_preservesD: "act_preserves R m \<Longrightarrow> m s = (r, s') \<Longrightarrow> R s s'"
  unfolding act_preserves_def by (metis snd_conv)

lemma act_preserves_pure:
  assumes "reflp R"
  shows "act_preserves R (act_return x)" "act_preserves R (act_raise e)"
    "act_preserves R (act_gets g)" "act_preserves R (act_lift r)"
  using assms by (simp_all add: act_preserves_def act_simps reflpD)

lemma act_preserves_bind:
  assumes "transp R" and "act_preserves R m" and "\<And>x. act_preserves R (f x)"
  shows "act_preserves R (act_bind m f)"
proof (rule act_preservesI)
  fix s
  have m: "R s (snd (m s))" using assms(2) by (simp add: act_preserves_def)
  show "R s (snd (act_bind m f s))"
  proof (cases rule: act_bind_cases [of m s f])
    case (err e t)
    with m show ?thesis by simp
  next
    case (ok x t)
    with assms(3) [of x] have "R t (snd (f x t))" by (simp add: act_preserves_def)
    with m ok assms(1) show ?thesis by (auto dest: transpD)
  qed
qed

lemma act_preserves_catch:
  assumes "transp R" and "act_preserves R m" and "\<And>e. act_preserves R (h e)"
  shows "act_preserves R (act_catch m h)"
proof (rule act_preservesI)
  fix s
  have m: "R s (snd (m s))" using assms(2) by (simp add: act_preserves_def)
  obtain r t where rt: "m s = (r, t)" by (cases "m s")
  show "R s (snd (act_catch m h s))"
  proof (cases r)
    case (Inl e)
    with assms(3) [of e] have "R t (snd (h e t))" by (simp add: act_preserves_def)
    with m rt Inl assms(1) show ?thesis by (auto simp: act_catch_def dest: transpD)
  next
    case (Inr x)
    with m rt show ?thesis by (simp add: act_catch_def)
  qed
qed

lemma act_preserves_attempted: "act_preserves R m \<Longrightarrow> act_preserves R (attempted m)"
  by (simp add: act_preserves_def attempted_def case_prod_beta)

lemma act_preserves_foreach:
  assumes "reflp R" and "transp R" and "\<And>x. act_preserves R (f x)"
  shows "act_preserves R (act_foreach f xs)"
  by (induction xs) (auto intro: act_preserves_bind act_preserves_pure assms)

section \<open>JSON documents and Python dicts\<close>

text \<open>
  \<open>dict[str, Any]\<close> values that cross an interface: a JSON document. Floats are exact
  rationals (NaN and the infinities are not represented). A dict is an association list in
  insertion order with its keys distinct; \<open>JTime\<close> is an ISO-8601 timestamp string,
  represented by the instant it denotes, in microseconds.
\<close>

datatype json =
    JNull
  | JBool bool
  | JInt int
  | JFloat rat
  | JStr string
  | JTime int
  | JArr "json list"
  | JObj "(string \<times> json) list"

type_synonym dict = "(string \<times> json) list"

text \<open>\<open>d.get(k)\<close>, \<open>d.get(k, dflt)\<close> and \<open>k in d\<close>.\<close>

definition dict_get :: "dict \<Rightarrow> string \<Rightarrow> json option" where
  "dict_get d k = map_of d k"

definition dict_get_or :: "dict \<Rightarrow> string \<Rightarrow> json \<Rightarrow> json" where
  "dict_get_or d k dflt = (case dict_get d k of None \<Rightarrow> dflt | Some v \<Rightarrow> v)"

definition dict_has :: "dict \<Rightarrow> string \<Rightarrow> bool" where
  "dict_has d k \<longleftrightarrow> k \<in> fst ` set d"

text \<open>\<open>d[k] = v\<close>: an existing key keeps its position, a new one goes last.\<close>

fun dict_put :: "dict \<Rightarrow> string \<Rightarrow> json \<Rightarrow> dict" where
  "dict_put [] k v = [(k, v)]"
| "dict_put ((k', v') # d) k v = (if k' = k then (k, v) # d else (k', v') # dict_put d k v)"

lemma dict_get_put [simp]:
  "dict_get (dict_put d k v) k' = (if k' = k then Some v else dict_get d k')"
  by (induction d k v rule: dict_put.induct) (auto simp: dict_get_def)

lemma dict_has_get: "dict_has d k \<longleftrightarrow> dict_get d k \<noteq> None"
  by (auto simp: dict_has_def dict_get_def map_of_eq_None_iff)

lemma dict_put_keys: "fst ` set (dict_put d k v) = insert k (fst ` set d)"
  by (induction d k v rule: dict_put.induct) auto

lemma dict_put_distinct: "distinct (map fst d) \<Longrightarrow> distinct (map fst (dict_put d k v))"
proof (induction d k v rule: dict_put.induct)
  case (2 k' v' d k v)
  then show ?case using dict_put_keys [of d k v] by (auto simp: image_iff)
qed simp

text \<open>The truth value Python gives a JSON value.\<close>

fun truthy :: "json \<Rightarrow> bool" where
  "truthy JNull = False"
| "truthy (JBool b) = b"
| "truthy (JInt n) = (n \<noteq> 0)"
| "truthy (JFloat q) = (q \<noteq> 0)"
| "truthy (JStr s) = (s \<noteq> [])"
| "truthy (JTime _) = True"
| "truthy (JArr xs) = (xs \<noteq> [])"
| "truthy (JObj d) = (d \<noteq> [])"

section \<open>Python strings\<close>

text \<open>
  A \<open>string\<close> is a list of \<open>char\<close>, one per code point; code points above 255 are not
  represented. The character classes below are Python's on that range.
\<close>

abbreviation code :: "char \<Rightarrow> nat" where
  "code c \<equiv> of_char c"

definition startswith :: "string \<Rightarrow> string \<Rightarrow> bool" where
  "startswith s p \<longleftrightarrow> take (length p) s = p"

definition is_digit :: "char \<Rightarrow> bool" where
  "is_digit c \<longleftrightarrow> 48 \<le> code c \<and> code c \<le> 57"

text \<open>\<open>str.isdigit\<close> also accepts the superscripts one, two and three.\<close>

definition py_isdigit :: "char \<Rightarrow> bool" where
  "py_isdigit c \<longleftrightarrow> is_digit c \<or> code c \<in> {178, 179, 185}"

definition is_ascii_alpha :: "char \<Rightarrow> bool" where
  "is_ascii_alpha c \<longleftrightarrow> (65 \<le> code c \<and> code c \<le> 90) \<or> (97 \<le> code c \<and> code c \<le> 122)"

definition is_ascii_lower :: "char \<Rightarrow> bool" where
  "is_ascii_lower c \<longleftrightarrow> 97 \<le> code c \<and> code c \<le> 122"

definition py_isspace :: "char \<Rightarrow> bool" where
  "py_isspace c \<longleftrightarrow> (9 \<le> code c \<and> code c \<le> 13) \<or> (28 \<le> code c \<and> code c \<le> 32) \<or> code c \<in> {133, 160}"

definition py_isword :: "char \<Rightarrow> bool" where
  "py_isword c \<longleftrightarrow> is_ascii_alpha c \<or> py_isdigit c \<or> code c = 95 \<or>
     code c \<in> {170, 181, 186, 188, 189, 190} \<or> (192 \<le> code c \<and> code c \<notin> {215, 247})"

text \<open>Case conversion on the ASCII letters, which are all the code compares against.\<close>

definition ascii_lower :: "char \<Rightarrow> char" where
  "ascii_lower c = (if 65 \<le> code c \<and> code c \<le> 90 then char_of (code c + 32) else c)"

definition ascii_upper :: "char \<Rightarrow> char" where
  "ascii_upper c = (if 97 \<le> code c \<and> code c \<le> 122 then char_of (code c - 32) else c)"

definition lower :: "string \<Rightarrow> string" where
  "lower s = map ascii_lower s"

definition upper :: "string \<Rightarrow> string" where
  "upper s = map ascii_upper s"

text \<open>\<open>s.split(sep)\<close> for a one-character separator: there is always at least one piece.\<close>

fun split_on :: "char \<Rightarrow> string \<Rightarrow> string list" where
  "split_on d [] = [[]]"
| "split_on d (c # cs) =
     (if c = d then [] # split_on d cs
      else (case split_on d cs of [] \<Rightarrow> [[c]] | p # ps \<Rightarrow> (c # p) # ps))"

text \<open>\<open>sep.join(parts)\<close>.\<close>

fun join :: "string \<Rightarrow> string list \<Rightarrow> string" where
  "join sep [] = []"
| "join sep [p] = p"
| "join sep (p # q # ps) = p @ sep @ join sep (q # ps)"

definition strip :: "string \<Rightarrow> string" where
  "strip s = rev (dropWhile py_isspace (rev (dropWhile py_isspace s)))"

text \<open>\<open>s.split()\<close>: the maximal runs of non-space characters.\<close>

fun split_ws_acc :: "string \<Rightarrow> string \<Rightarrow> string list" where
  "split_ws_acc acc [] = (if acc = [] then [] else [rev acc])"
| "split_ws_acc acc (c # cs) =
     (if py_isspace c then (if acc = [] then split_ws_acc [] cs else rev acc # split_ws_acc [] cs)
      else split_ws_acc (c # acc) cs)"

definition split_ws :: "string \<Rightarrow> string list" where
  "split_ws s = split_ws_acc [] s"

lemma split_on_nonempty: "split_on d s \<noteq> []"
  by (induction d s rule: split_on.induct) (auto split: list.splits)

lemma split_on_pieces: "p \<in> set (split_on d s) \<Longrightarrow> d \<notin> set p"
  by (induction d s arbitrary: p rule: split_on.induct) (auto split: list.splits if_splits)

lemma join_split_on: "join [d] (split_on d s) = s"
proof (induction d s rule: split_on.induct)
  case (2 d c cs)
  obtain p ps where ps: "split_on d cs = p # ps"
    using split_on_nonempty [of d cs] by (cases "split_on d cs") auto
  show ?case
  proof (cases "c = d")
    case True
    with 2 ps show ?thesis by (auto split: if_splits)
  next
    case False
    with 2 ps show ?thesis by (cases ps) auto
  qed
qed simp

lemma split_on_single: "d \<notin> set p \<Longrightarrow> split_on d p = [p]"
  by (induction p) auto

lemma split_on_append: "d \<notin> set p \<Longrightarrow> split_on d (p @ d # s) = p # split_on d s"
  by (induction p) auto

lemma split_ws_acc_no_space:
  assumes "list_all (\<lambda>c. \<not> py_isspace c) acc"
  shows "list_all (\<lambda>p. p \<noteq> [] \<and> list_all (\<lambda>c. \<not> py_isspace c) p) (split_ws_acc acc s)"
  using assms
proof (induction s arbitrary: acc)
  case (Cons c s)
  from Cons.prems Cons.IH [of "[]"] Cons.IH [of "c # acc"] show ?case
    by (simp add: list_all_iff)
qed (simp add: list_all_iff)

lemma split_ws_no_space: "p \<in> set (split_ws s) \<Longrightarrow> p \<noteq> [] \<and> (\<forall>c \<in> set p. \<not> py_isspace c)"
  using split_ws_acc_no_space [of "[]" s] by (simp add: split_ws_def list_all_iff)

text \<open>Injectivity of a separator-joined pair: what makes a composed key unambiguous.\<close>

lemma append_sep_inj:
  fixes a b :: string
  assumes "a @ d # b = a' @ d # b'" and "d \<notin> set a" and "d \<notin> set a'"
  shows "a = a' \<and> b = b'"
proof -
  have "a # split_on d b = a' # split_on d b'"
    using assms split_on_append [of d a b] split_on_append [of d a' b'] by argo
  then have "a = a'" by simp
  with assms(1) show ?thesis by simp
qed

section \<open>Lists as tables\<close>

lemma distinct_map_filter: "distinct (map f xs) \<Longrightarrow> distinct (map f (filter P xs))"
  by (induction xs) auto

lemma find_SomeD: "List.find P xs = Some x \<Longrightarrow> x \<in> set xs \<and> P x"
  by (induction xs) (auto split: if_splits)

lemma distinct_map_unique:
  "distinct (map f xs) \<Longrightarrow> x \<in> set xs \<Longrightarrow> y \<in> set xs \<Longrightarrow> f x = f y \<Longrightarrow> x = y"
  by (auto simp: distinct_map dest: inj_onD)

lemma distinct_map_update:
  assumes "\<And>x. f (g x) = f x" shows "distinct (map f (map g xs)) = distinct (map f xs)"
  using assms by (simp add: o_def)

end
