(* ===== verification/CM_Errors.thy ===== *)
theory CM_Errors
  imports CM_Prelude
begin

text \<open>
  The structured error model of \<open>errors.py\<close>, the exceptions the rest of the code can raise,
  and how an exception leaves the process as an HTTP response (the handler registered in
  \<open>app.py\<close>, and the framework's answers to \<open>HTTPException\<close> and to anything else).
\<close>

section \<open>errors.py\<close>

datatype err_class = Base | Recoverable | Validation | Fatal

record app_error =
  err_kind :: err_class
  err_code :: string
  err_status :: nat
  err_reason :: string
  err_details :: "dict option"

definition AuthInvalidToken :: app_error where
  "AuthInvalidToken = \<lparr>err_kind = Validation, err_code = ''AUTH_INVALID_TOKEN'', err_status = 401,
     err_reason = ''Authentication failed: invalid or unsigned token.'', err_details = None\<rparr>"

definition AuthExpired :: app_error where
  "AuthExpired = \<lparr>err_kind = Validation, err_code = ''AUTH_EXPIRED'', err_status = 401,
     err_reason = ''Authentication failed: token expired.'', err_details = None\<rparr>"

definition AuthTenantMissing :: app_error where
  "AuthTenantMissing = \<lparr>err_kind = Validation, err_code = ''AUTH_TENANT_MISSING'', err_status = 401,
     err_reason = ''Authentication failed: tenant_id claim missing or empty.'', err_details = None\<rparr>"

definition SchemaValidationFailed :: "string \<Rightarrow> string \<Rightarrow> app_error" where
  "SchemaValidationFailed field message =
     \<lparr>err_kind = Validation, err_code = ''SCHEMA_VALIDATION_FAILED'', err_status = 400,
      err_reason = ''Inbound payload does not conform to the documented schema.'',
      err_details = Some [(''field'', JStr field), (''message'', JStr message)]\<rparr>"

definition SchemaVersionUnsupported :: "json \<Rightarrow> string \<Rightarrow> app_error" where
  "SchemaVersionUnsupported requested supported_major =
     \<lparr>err_kind = Validation, err_code = ''SCHEMA_VERSION_UNSUPPORTED'', err_status = 422,
      err_reason = ''Inbound schema_version major is not supported.'',
      err_details = Some [(''requested'', requested), (''supported_major'', JStr supported_major)]\<rparr>"

definition NotFound :: "string \<Rightarrow> string \<Rightarrow> app_error" where
  "NotFound resource identifier =
     \<lparr>err_kind = Validation, err_code = ''NOT_FOUND'', err_status = 404,
      err_reason = resource @ '' not found.'', err_details = Some [(''identifier'', JStr identifier)]\<rparr>"

definition DependencyUnavailable :: "string \<Rightarrow> app_error" where
  "DependencyUnavailable dependency =
     \<lparr>err_kind = Recoverable, err_code = ''DEPENDENCY_UNAVAILABLE'', err_status = 503,
      err_reason = ''Internal dependency unavailable: '' @ dependency @ ''.'',
      err_details = Some [(''dependency'', JStr dependency)]\<rparr>"

text \<open>\<open>to_response().model_dump()\<close>: the four fields, \<open>details\<close> null when absent.\<close>

definition to_response :: "app_error \<Rightarrow> json" where
  "to_response e = JObj
     [(''code'', JStr (err_code e)), (''status'', JInt (int (err_status e))),
      (''reason'', JStr (err_reason e)),
      (''details'', case err_details e of None \<Rightarrow> JNull | Some d \<Rightarrow> JObj d)]"

section \<open>Exceptions\<close>

datatype pg_error =
    UniqueViolation
  | NotNullViolation
  | CheckViolation
  | ForeignKeyViolation
  | RlsViolation
  | DataError
  | RaisedException string

datatype exc =
    App app_error
  | HTTPException nat json
  | RequestInvalid json
  | ValueError string
  | KeyError string
  | IndexError string
  | TypeError string
  | AttributeError string
  | RuntimeError string
  | NotImplementedError string
  | MissingFingerprint string
  | PgError pg_error
  | RedisError string
  | ClientError string

section \<open>HTTP responses\<close>

record http_response =
  resp_status :: nat
  resp_body :: json
  resp_headers :: "(string \<times> string) list"

definition json_response :: "nat \<Rightarrow> json \<Rightarrow> http_response" where
  "json_response st body = \<lparr>resp_status = st, resp_body = body, resp_headers = []\<rparr>"

text \<open>\<open>collectmind_error_handler\<close> in \<open>app.py\<close>.\<close>

definition collectmind_error_handler :: "app_error \<Rightarrow> http_response" where
  "collectmind_error_handler e = json_response (err_status e) (to_response e)"

text \<open>\<open>_to_http_exception\<close> in \<open>auth/dependencies.py\<close> and \<open>auth/operator_principal.py\<close>.\<close>

definition to_http_exception :: "app_error \<Rightarrow> exc" where
  "to_http_exception e = HTTPException (err_status e) (to_response e)"

text \<open>What leaves the process for each exception a handler can raise.\<close>

fun render_exception :: "exc \<Rightarrow> http_response" where
  "render_exception (App e) = collectmind_error_handler e"
| "render_exception (HTTPException st detail) = json_response st (JObj [(''detail'', detail)])"
| "render_exception (RequestInvalid detail) = json_response 422 (JObj [(''detail'', detail)])"
| "render_exception _ = json_response 500 (JStr ''Internal Server Error'')"

definition respond :: "exc + http_response \<Rightarrow> http_response" where
  "respond r = (case r of Inl e \<Rightarrow> render_exception e | Inr resp \<Rightarrow> resp)"

lemma error_status_simps [simp]:
  "err_status AuthInvalidToken = 401" "err_status AuthExpired = 401"
  "err_status AuthTenantMissing = 401" "err_status (SchemaValidationFailed f m) = 400"
  "err_status (SchemaVersionUnsupported rq v) = 422" "err_status (NotFound r i) = 404"
  "err_status (DependencyUnavailable d) = 503"
  by (simp_all add: AuthInvalidToken_def AuthExpired_def AuthTenantMissing_def
      SchemaValidationFailed_def SchemaVersionUnsupported_def NotFound_def DependencyUnavailable_def)

end
