(* ===== verification/CM_Models.thy ===== *)
theory CM_Models
  imports CM_Errors
begin

text \<open>
  The boundary models of \<open>models/finding.py\<close>, \<open>models/policy.py\<close>, \<open>models/erasure.py\<close>
  and the request body of \<open>audit_admin/api.py\<close>: each class is a record, and its
  \<open>model_validate\<close> is the check of the constraints the class declares, reporting errors field
  by field in declaration order and then the forbidden extra keys. How the validation library
  coerces a JSON value to \<open>int\<close>, \<open>float\<close>, \<open>bool\<close> or \<open>datetime\<close> is its own code: a
  parameter of type \<open>pydantic\<close>.
\<close>

section \<open>Validation results\<close>

record pydantic =
  as_int :: "json \<Rightarrow> int option"
  as_float :: "json \<Rightarrow> rat option"
  as_bool :: "json \<Rightarrow> bool option"
  as_datetime :: "json \<Rightarrow> int option"
  verr_msg :: "string \<Rightarrow> string"

text \<open>What the library documents of a value that already has the type asked for.\<close>

definition exact_coercion :: "pydantic \<Rightarrow> bool" where
  "exact_coercion pyd \<longleftrightarrow>
     (\<forall>n. as_int pyd (JInt n) = Some n) \<and> (\<forall>q. as_float pyd (JFloat q) = Some q) \<and>
     (\<forall>b. as_bool pyd (JBool b) = Some b) \<and> (\<forall>t. as_datetime pyd (JTime t) = Some t)"

record verr =
  verr_loc :: "string list"
  verr_type :: string

type_synonym 'a valid = "verr list + 'a"

definition v_fail :: "string list \<Rightarrow> string \<Rightarrow> 'a valid" where
  "v_fail loc t = Inl [\<lparr>verr_loc = loc, verr_type = t\<rparr>]"

definition errs :: "'a valid \<Rightarrow> verr list" where
  "errs r = (case r of Inl es \<Rightarrow> es | Inr _ \<Rightarrow> [])"

fun show_nat :: "nat \<Rightarrow> string" where
  "show_nat n = (if n < 10 then [char_of (n + 48)] else show_nat (n div 10) @ [char_of (n mod 10 + 48)])"

declare show_nat.simps [simp del]

section \<open>Field validators\<close>

definition v_str :: "nat \<Rightarrow> nat option \<Rightarrow> (string \<Rightarrow> bool) \<Rightarrow> string list \<Rightarrow> json \<Rightarrow> string valid" where
  "v_str mn mx pat loc j =
     (case j of
        JStr s \<Rightarrow>
          if length s < mn then v_fail loc ''string_too_short''
          else if (case mx of None \<Rightarrow> False | Some m \<Rightarrow> m < length s) then v_fail loc ''string_too_long''
          else if \<not> pat s then v_fail loc ''string_pattern_mismatch''
          else Inr s
      | _ \<Rightarrow> v_fail loc ''string_type'')"

definition v_int :: "pydantic \<Rightarrow> (int \<Rightarrow> bool) \<Rightarrow> string list \<Rightarrow> json \<Rightarrow> int valid" where
  "v_int pyd P loc j =
     (case as_int pyd j of None \<Rightarrow> v_fail loc ''int_type''
      | Some n \<Rightarrow> if P n then Inr n else v_fail loc ''int_bound'')"

definition v_float :: "pydantic \<Rightarrow> (rat \<Rightarrow> bool) \<Rightarrow> string list \<Rightarrow> json \<Rightarrow> rat valid" where
  "v_float pyd P loc j =
     (case as_float pyd j of None \<Rightarrow> v_fail loc ''float_type''
      | Some q \<Rightarrow> if P q then Inr q else v_fail loc ''float_bound'')"

definition v_bool :: "pydantic \<Rightarrow> string list \<Rightarrow> json \<Rightarrow> bool valid" where
  "v_bool pyd loc j = (case as_bool pyd j of None \<Rightarrow> v_fail loc ''bool_type'' | Some b \<Rightarrow> Inr b)"

definition v_datetime :: "pydantic \<Rightarrow> string list \<Rightarrow> json \<Rightarrow> int valid" where
  "v_datetime pyd loc j =
     (case as_datetime pyd j of None \<Rightarrow> v_fail loc ''datetime_type'' | Some t \<Rightarrow> Inr t)"

definition v_literal :: "string list \<Rightarrow> string list \<Rightarrow> json \<Rightarrow> string valid" where
  "v_literal opts loc j =
     (case j of JStr s \<Rightarrow> if s \<in> set opts then Inr s else v_fail loc ''literal_error''
      | _ \<Rightarrow> v_fail loc ''literal_error'')"

definition v_dict :: "string list \<Rightarrow> json \<Rightarrow> dict valid" where
  "v_dict loc j = (case j of JObj d \<Rightarrow> Inr d | _ \<Rightarrow> v_fail loc ''dict_type'')"

definition v_list :: "nat \<Rightarrow> (string list \<Rightarrow> json \<Rightarrow> 'a valid) \<Rightarrow> string list \<Rightarrow> json \<Rightarrow> 'a list valid" where
  "v_list mn item loc j =
     (case j of
        JArr xs \<Rightarrow>
          let rs = map (\<lambda>(i, x). item (loc @ [show_nat i]) x) (enumerate 0 xs);
              es = concat (map errs rs)
          in if length xs < mn then v_fail loc ''too_short''
             else if es \<noteq> [] then Inl es else Inr (map projr rs)
      | _ \<Rightarrow> v_fail loc ''list_type'')"

definition v_optional :: "(string list \<Rightarrow> json \<Rightarrow> 'a valid) \<Rightarrow> string list \<Rightarrow> json \<Rightarrow> 'a option valid" where
  "v_optional f loc j =
     (if j = JNull then Inr None else (case f loc j of Inl es \<Rightarrow> Inl es | Inr x \<Rightarrow> Inr (Some x)))"

text \<open>A required field, and a field with a default.\<close>

definition v_field :: "dict \<Rightarrow> string list \<Rightarrow> string \<Rightarrow> (string list \<Rightarrow> json \<Rightarrow> 'a valid) \<Rightarrow> 'a valid" where
  "v_field d loc name f =
     (case dict_get d name of None \<Rightarrow> v_fail (loc @ [name]) ''missing'' | Some j \<Rightarrow> f (loc @ [name]) j)"

definition v_field_or ::
  "dict \<Rightarrow> string list \<Rightarrow> string \<Rightarrow> (string list \<Rightarrow> json \<Rightarrow> 'a valid) \<Rightarrow> 'a \<Rightarrow> 'a valid" where
  "v_field_or d loc name f dflt =
     (case dict_get d name of None \<Rightarrow> Inr dflt | Some j \<Rightarrow> f (loc @ [name]) j)"

text \<open>\<open>ConfigDict(extra="forbid")\<close>.\<close>

definition v_extra :: "dict \<Rightarrow> string list \<Rightarrow> string list \<Rightarrow> verr list" where
  "v_extra d loc names =
     map (\<lambda>k. \<lparr>verr_loc = loc @ [k], verr_type = ''extra_forbidden''\<rparr>)
       (filter (\<lambda>k. k \<notin> set names) (map fst d))"

definition any_str :: "string \<Rightarrow> bool" where
  "any_str s = True"

text \<open>\<open>SemverStr\<close>, \<open>NonEmptyStr\<close>, \<open>Sha40\<close>.\<close>

definition is_digits :: "string \<Rightarrow> bool" where
  "is_digits s \<longleftrightarrow> s \<noteq> [] \<and> list_all is_digit s"

definition is_semver :: "string \<Rightarrow> bool" where
  "is_semver s = (case split_on (CHR ''.'') s of [a, b, c] \<Rightarrow> is_digits a \<and> is_digits b \<and> is_digits c | _ \<Rightarrow> False)"

definition is_hex40 :: "string \<Rightarrow> bool" where
  "is_hex40 s \<longleftrightarrow> length s = 40 \<and> list_all (\<lambda>c. is_digit c \<or> (97 \<le> code c \<and> code c \<le> 102)) s"

definition v_semver :: "string list \<Rightarrow> json \<Rightarrow> string valid" where
  "v_semver = v_str 5 None is_semver"

definition v_nonempty :: "string list \<Rightarrow> json \<Rightarrow> string valid" where
  "v_nonempty = v_str 1 None any_str"

definition v_sha40 :: "string list \<Rightarrow> json \<Rightarrow> string valid" where
  "v_sha40 = v_str 40 (Some 40) is_hex40"

section \<open>DiagnosticFinding\<close>

record finding =
  f_schema_version :: string
  f_finding_id :: string
  f_anomaly_type :: string
  f_hypothesis_class :: string
  f_hypothesis_statement :: string
  f_candidate_signals :: "string list"
  f_vehicle_scope :: "string list"
  f_upstream_confidence :: rat

definition finding_fields :: "string list" where
  "finding_fields = [''schema_version'', ''finding_id'', ''anomaly_type'', ''hypothesis_class'',
     ''hypothesis_statement'', ''candidate_signals'', ''vehicle_scope'', ''upstream_confidence'']"

definition validate_finding :: "pydantic \<Rightarrow> json \<Rightarrow> finding valid" where
  "validate_finding pyd j =
     (case j of
        JObj d \<Rightarrow>
          let sv = v_field d [] ''schema_version'' v_semver;
              fi = v_field d [] ''finding_id'' (v_str 1 (Some 256) any_str);
              an = v_field d [] ''anomaly_type'' v_nonempty;
              hc = v_field d [] ''hypothesis_class'' v_nonempty;
              hs = v_field d [] ''hypothesis_statement'' (v_str 1 (Some 4096) any_str);
              cs = v_field d [] ''candidate_signals'' (v_list 1 v_nonempty);
              vs = v_field d [] ''vehicle_scope'' (v_list 1 v_nonempty);
              uc = v_field d [] ''upstream_confidence'' (v_float pyd (\<lambda>q. 0 \<le> q \<and> q \<le> 1));
              es = errs sv @ errs fi @ errs an @ errs hc @ errs hs @ errs cs @ errs vs @ errs uc
                     @ v_extra d [] finding_fields
          in if es \<noteq> [] then Inl es
             else Inr \<lparr>f_schema_version = projr sv, f_finding_id = projr fi,
                    f_anomaly_type = projr an, f_hypothesis_class = projr hc,
                    f_hypothesis_statement = projr hs, f_candidate_signals = projr cs,
                    f_vehicle_scope = projr vs, f_upstream_confidence = projr uc\<rparr>
      | _ \<Rightarrow> v_fail [] ''model_type'')"

section \<open>CollectionPolicySpec\<close>

record signal_spec =
  sig_vss_name :: string
  sig_sample_rate_hz :: rat
  sig_priority :: int

record trigger_spec =
  trg_kind :: string
  trg_params :: dict

record governance_flags =
  gov_pii_consent :: bool
  gov_has_pii_signal :: bool

record origin =
  org_tenant_id :: string
  org_finding_id :: string

record policy_spec =
  p_policy_id :: string
  p_version :: string
  p_signals :: "signal_spec list"
  p_trigger_conditions :: "trigger_spec list"
  p_collection_window_hours :: int
  p_hypothesis :: string
  p_vehicle_scope :: "string list"
  p_data_governance_flags :: governance_flags
  p_confidence_threshold :: rat
  p_generated_from_session_id :: string
  p_originating_finding :: origin
  p_prompt_template_version :: "string option"
  p_slm_repo :: "string option"
  p_slm_revision_sha :: "string option"
  p_slm_runtime :: "string option"
  p_slm_runtime_version :: "string option"
  p_slm_quantization :: "string option"
  p_slm_decoding_seed :: "int option"
  p_created_at :: "int option"

definition validate_signal_spec :: "pydantic \<Rightarrow> string list \<Rightarrow> json \<Rightarrow> signal_spec valid" where
  "validate_signal_spec pyd loc j =
     (case j of
        JObj d \<Rightarrow>
          let vn = v_field d loc ''vss_name'' v_nonempty;
              sr = v_field d loc ''sample_rate_hz'' (v_float pyd (\<lambda>q. 0 < q));
              pr = v_field d loc ''priority'' (v_int pyd (\<lambda>n. 0 \<le> n \<and> n \<le> 10));
              es = errs vn @ errs sr @ errs pr
                     @ v_extra d loc [''vss_name'', ''sample_rate_hz'', ''priority'']
          in if es \<noteq> [] then Inl es
             else Inr \<lparr>sig_vss_name = projr vn, sig_sample_rate_hz = projr sr, sig_priority = projr pr\<rparr>
      | _ \<Rightarrow> v_fail loc ''model_type'')"

definition trigger_kinds :: "string list" where
  "trigger_kinds = [''threshold'', ''time_window'', ''geofence'', ''scheduled'']"

definition validate_trigger_spec :: "string list \<Rightarrow> json \<Rightarrow> trigger_spec valid" where
  "validate_trigger_spec loc j =
     (case j of
        JObj d \<Rightarrow>
          let kd = v_field d loc ''kind'' (v_literal trigger_kinds);
              ps = v_field d loc ''params'' v_dict;
              es = errs kd @ errs ps @ v_extra d loc [''kind'', ''params'']
          in if es \<noteq> [] then Inl es else Inr \<lparr>trg_kind = projr kd, trg_params = projr ps\<rparr>
      | _ \<Rightarrow> v_fail loc ''model_type'')"

text \<open>The model validator \<open>_consent_required_when_pii\<close> runs once the fields are valid.\<close>

definition validate_governance :: "pydantic \<Rightarrow> string list \<Rightarrow> json \<Rightarrow> governance_flags valid" where
  "validate_governance pyd loc j =
     (case j of
        JObj d \<Rightarrow>
          let pc = v_field d loc ''pii_consent'' (v_bool pyd);
              hp = v_field d loc ''has_pii_signal'' (v_bool pyd);
              es = errs pc @ errs hp @ v_extra d loc [''pii_consent'', ''has_pii_signal'']
          in if es \<noteq> [] then Inl es
             else if projr hp \<and> \<not> projr pc then v_fail loc ''value_error''
             else Inr \<lparr>gov_pii_consent = projr pc, gov_has_pii_signal = projr hp\<rparr>
      | _ \<Rightarrow> v_fail loc ''model_type'')"

definition validate_origin :: "string list \<Rightarrow> json \<Rightarrow> origin valid" where
  "validate_origin loc j =
     (case j of
        JObj d \<Rightarrow>
          let ti = v_field d loc ''tenant_id'' v_nonempty;
              fi = v_field d loc ''finding_id'' v_nonempty;
              es = errs ti @ errs fi @ v_extra d loc [''tenant_id'', ''finding_id'']
          in if es \<noteq> [] then Inl es else Inr \<lparr>org_tenant_id = projr ti, org_finding_id = projr fi\<rparr>
      | _ \<Rightarrow> v_fail loc ''model_type'')"

definition slm_runtimes :: "string list" where
  "slm_runtimes = [''vllm'', ''llama_cpp'', ''stub'']"

definition slm_quantizations :: "string list" where
  "slm_quantizations = [''bf16'', ''gguf-q4_k_m'', ''none'']"

definition policy_fields :: "string list" where
  "policy_fields = [''policy_id'', ''version'', ''signals'', ''trigger_conditions'',
     ''collection_window_hours'', ''hypothesis'', ''vehicle_scope'', ''data_governance_flags'',
     ''confidence_threshold'', ''generated_from_session_id'', ''originating_finding'',
     ''prompt_template_version'', ''slm_repo'', ''slm_revision_sha'', ''slm_runtime'',
     ''slm_runtime_version'', ''slm_quantization'', ''slm_decoding_seed'', ''created_at'']"

text \<open>The fields are validated in declaration order; the record is built when none has an error.\<close>

definition build_policy ::
  "string valid \<Rightarrow> string valid \<Rightarrow> signal_spec list valid \<Rightarrow> trigger_spec list valid \<Rightarrow> int valid \<Rightarrow>
   string valid \<Rightarrow> string list valid \<Rightarrow> governance_flags valid \<Rightarrow> rat valid \<Rightarrow> string valid \<Rightarrow>
   origin valid \<Rightarrow> string option valid \<Rightarrow> string option valid \<Rightarrow> string option valid \<Rightarrow>
   string option valid \<Rightarrow> string option valid \<Rightarrow> string option valid \<Rightarrow> int option valid \<Rightarrow>
   int option valid \<Rightarrow> verr list \<Rightarrow> policy_spec valid" where
  "build_policy pid ve si tc cw hy vs dg ct gs og pt rp sh rt rv qu se ca ex =
     (let es = errs pid @ errs ve @ errs si @ errs tc @ errs cw @ errs hy @ errs vs @ errs dg
                 @ errs ct @ errs gs @ errs og @ errs pt @ errs rp @ errs sh @ errs rt
                 @ errs rv @ errs qu @ errs se @ errs ca @ ex
      in if es \<noteq> [] then Inl es
         else Inr \<lparr>p_policy_id = projr pid, p_version = projr ve, p_signals = projr si,
                p_trigger_conditions = projr tc, p_collection_window_hours = projr cw,
                p_hypothesis = projr hy, p_vehicle_scope = projr vs,
                p_data_governance_flags = projr dg, p_confidence_threshold = projr ct,
                p_generated_from_session_id = projr gs, p_originating_finding = projr og,
                p_prompt_template_version = projr pt, p_slm_repo = projr rp,
                p_slm_revision_sha = projr sh, p_slm_runtime = projr rt,
                p_slm_runtime_version = projr rv, p_slm_quantization = projr qu,
                p_slm_decoding_seed = projr se, p_created_at = projr ca\<rparr>)"

definition validate_policy :: "pydantic \<Rightarrow> json \<Rightarrow> policy_spec valid" where
  "validate_policy pyd j =
     (case j of
        JObj d \<Rightarrow>
          build_policy
            (v_field d [] ''policy_id'' v_nonempty)
            (v_field d [] ''version'' v_semver)
            (v_field d [] ''signals'' (v_list 1 (validate_signal_spec pyd)))
            (v_field_or d [] ''trigger_conditions'' (v_list 0 validate_trigger_spec) [])
            (v_field d [] ''collection_window_hours'' (v_int pyd (\<lambda>n. 1 \<le> n \<and> n \<le> 168)))
            (v_field d [] ''hypothesis'' v_nonempty)
            (v_field d [] ''vehicle_scope'' (v_list 1 v_nonempty))
            (v_field d [] ''data_governance_flags'' (validate_governance pyd))
            (v_field d [] ''confidence_threshold'' (v_float pyd (\<lambda>q. 0 \<le> q \<and> q \<le> 1)))
            (v_field d [] ''generated_from_session_id'' v_nonempty)
            (v_field d [] ''originating_finding'' validate_origin)
            (v_field_or d [] ''prompt_template_version'' (v_optional v_semver) None)
            (v_field_or d [] ''slm_repo'' (v_optional (v_str 0 None any_str)) None)
            (v_field_or d [] ''slm_revision_sha'' (v_optional v_sha40) None)
            (v_field_or d [] ''slm_runtime'' (v_optional (v_literal slm_runtimes)) None)
            (v_field_or d [] ''slm_runtime_version'' (v_optional (v_str 0 None any_str)) None)
            (v_field_or d [] ''slm_quantization'' (v_optional (v_literal slm_quantizations)) None)
            (v_field_or d [] ''slm_decoding_seed'' (v_optional (v_int pyd (\<lambda>_. True))) None)
            (v_field_or d [] ''created_at'' (v_optional (v_datetime pyd)) None)
            (v_extra d [] policy_fields)
      | _ \<Rightarrow> v_fail [] ''model_type'')"

section \<open>ErasureRequest and BreakGlassRequest\<close>

record erasure_request =
  er_subject_kind :: string
  er_subject_identifier :: string
  er_mode :: string

definition subject_kinds :: "string list" where
  "subject_kinds = [''vehicle'', ''finding'', ''principal'']"

definition erasure_modes :: "string list" where
  "erasure_modes = [''erased'', ''redacted'']"

definition validate_erasure_request :: "json \<Rightarrow> erasure_request valid" where
  "validate_erasure_request j =
     (case j of
        JObj d \<Rightarrow>
          let sk = v_field d [] ''subject_kind'' (v_literal subject_kinds);
              si = v_field d [] ''subject_identifier'' v_nonempty;
              mo = v_field_or d [] ''mode'' (v_literal erasure_modes) ''erased'';
              es = errs sk @ errs si @ errs mo
                     @ v_extra d [] [''subject_kind'', ''subject_identifier'', ''mode'']
          in if es \<noteq> [] then Inl es
             else Inr \<lparr>er_subject_kind = projr sk, er_subject_identifier = projr si, er_mode = projr mo\<rparr>
      | _ \<Rightarrow> v_fail [] ''model_type'')"

record break_glass_request =
  bg_tenant_scope :: string
  bg_correlation_id :: string
  bg_reason_code :: string

definition is_slug :: "string \<Rightarrow> bool" where
  "is_slug s \<longleftrightarrow> s \<noteq> [] \<and> list_all (\<lambda>c. is_ascii_alpha c \<or> is_digit c \<or> c = CHR ''_'' \<or> c = CHR ''-'') s"

definition break_glass_reasons :: "string list" where
  "break_glass_reasons = [''incident_response'', ''legal_hold'', ''regulator_request'',
     ''support_escalation'', ''operator_self_audit'']"

definition validate_break_glass_request :: "json \<Rightarrow> break_glass_request valid" where
  "validate_break_glass_request j =
     (case j of
        JObj d \<Rightarrow>
          let ts = v_field d [] ''tenant_scope'' (v_str 1 (Some 64) is_slug);
              ci = v_field d [] ''correlation_id'' (v_str 1 (Some 64) is_slug);
              rc = v_field d [] ''reason_code'' (v_literal break_glass_reasons);
              es = errs ts @ errs ci @ errs rc
          in if es \<noteq> [] then Inl es
             else Inr \<lparr>bg_tenant_scope = projr ts, bg_correlation_id = projr ci, bg_reason_code = projr rc\<rparr>
      | _ \<Rightarrow> v_fail [] ''model_type'')"

section \<open>What a validated value satisfies\<close>

lemma errs_simps [simp]: "errs (Inr x) = []" "errs (Inl es) = es" "errs (v_fail loc t) \<noteq> []"
  by (simp_all add: errs_def v_fail_def)

lemma v_str_ok:
  "errs (v_str mn mx pat loc j) = [] \<longleftrightarrow>
     (\<exists>s. j = JStr s \<and> mn \<le> length s \<and> (\<forall>m. mx = Some m \<longrightarrow> length s \<le> m) \<and> pat s)"
  by (auto simp: v_str_def split: json.splits option.splits)

lemma v_str_val:
  "errs (v_str mn mx pat loc j) = [] \<Longrightarrow> v_str mn mx pat loc j = Inr s \<longleftrightarrow> j = JStr s"
  by (auto simp: v_str_def split: json.splits option.splits if_splits)

lemma v_str_Inr:
  "v_str mn mx pat loc j = Inr s \<longleftrightarrow>
     j = JStr s \<and> mn \<le> length s \<and> (\<forall>m. mx = Some m \<longrightarrow> length s \<le> m) \<and> pat s"
  by (auto simp: v_str_def v_fail_def split: json.splits option.splits if_splits)

lemma v_int_Inr: "v_int pyd P loc j = Inr n \<longleftrightarrow> as_int pyd j = Some n \<and> P n"
  by (auto simp: v_int_def v_fail_def split: option.splits if_splits)

lemma v_float_Inr: "v_float pyd P loc j = Inr q \<longleftrightarrow> as_float pyd j = Some q \<and> P q"
  by (auto simp: v_float_def v_fail_def split: option.splits if_splits)

lemma v_bool_Inr: "v_bool pyd loc j = Inr b \<longleftrightarrow> as_bool pyd j = Some b"
  by (auto simp: v_bool_def v_fail_def split: option.splits)

lemma v_datetime_Inr: "v_datetime pyd loc j = Inr t \<longleftrightarrow> as_datetime pyd j = Some t"
  by (auto simp: v_datetime_def v_fail_def split: option.splits)

lemma v_literal_Inr: "v_literal opts loc j = Inr s \<longleftrightarrow> j = JStr s \<and> s \<in> set opts"
  by (auto simp: v_literal_def v_fail_def split: json.splits)

lemma v_dict_Inr: "v_dict loc j = Inr d \<longleftrightarrow> j = JObj d"
  by (auto simp: v_dict_def v_fail_def split: json.splits)

lemma v_optional_Inr:
  "v_optional f loc j = Inr y \<longleftrightarrow>
     (j = JNull \<and> y = None) \<or> (j \<noteq> JNull \<and> (\<exists>x. y = Some x \<and> f loc j = Inr x))"
  by (auto simp: v_optional_def split: sum.splits)

lemma v_field_Inr:
  "v_field d loc n f = Inr x \<longleftrightarrow> (\<exists>j. dict_get d n = Some j \<and> f (loc @ [n]) j = Inr x)"
  by (auto simp: v_field_def v_fail_def split: option.splits)

lemma v_field_or_Inr:
  "v_field_or d loc n f dflt = Inr x \<longleftrightarrow>
     (dict_get d n = None \<and> x = dflt) \<or> (\<exists>j. dict_get d n = Some j \<and> f (loc @ [n]) j = Inr x)"
  by (auto simp: v_field_or_def split: option.splits)

lemma v_extra_Nil: "v_extra d loc names = [] \<longleftrightarrow> fst ` set d \<subseteq> set names"
  by (auto simp: v_extra_def filter_empty_conv)

text \<open>No validator reports failure with an empty list of errors.\<close>

definition proper :: "'a valid \<Rightarrow> bool" where
  "proper r \<longleftrightarrow> r \<noteq> Inl []"

lemma proper_errs: "proper r \<Longrightarrow> errs r = [] \<longleftrightarrow> r = Inr (projr r)"
  by (cases r) (auto simp: proper_def)

lemma proper_fail [simp]: "proper (v_fail loc t)" "proper (Inr x)"
  by (simp_all add: proper_def v_fail_def)

lemma proper_basic [simp]:
  "proper (v_str mn mx pat loc j)" "proper (v_int pyd PI loc j)" "proper (v_float pyd PF loc j)"
  "proper (v_bool pyd loc j)" "proper (v_datetime pyd loc j)" "proper (v_literal opts loc j)"
  "proper (v_dict loc j)"
  by (auto simp: v_str_def v_int_def v_float_def v_bool_def v_datetime_def v_literal_def v_dict_def
      split: json.splits option.splits)

lemma proper_named [simp]:
  "proper (v_semver loc j)" "proper (v_nonempty loc j)" "proper (v_sha40 loc j)"
  by (simp_all add: v_semver_def v_nonempty_def v_sha40_def)

lemma proper_list [simp]: "proper (v_list mn item loc j)"
  by (auto simp: v_list_def proper_def v_fail_def Let_def split: json.splits)

lemma proper_optional [simp]: "(\<And>l x. proper (f l x)) \<Longrightarrow> proper (v_optional f loc j)"
  by (auto simp: v_optional_def proper_def split: sum.splits)

lemma proper_field [simp]: "(\<And>l x. proper (f l x)) \<Longrightarrow> proper (v_field d loc n f)"
  by (auto simp: v_field_def split: option.splits)

lemma proper_field_or [simp]: "(\<And>l x. proper (f l x)) \<Longrightarrow> proper (v_field_or d loc n f dflt)"
  by (auto simp: v_field_or_def split: option.splits)

lemma proper_models [simp]:
  "proper (validate_signal_spec pyd loc j)" "proper (validate_trigger_spec loc j)"
  "proper (validate_governance pyd loc j)" "proper (validate_origin loc j)"
  by (auto simp: validate_signal_spec_def validate_trigger_spec_def validate_governance_def
      validate_origin_def Let_def split: json.splits)
    (simp_all add: proper_def)

lemma v_list_Inr:
  assumes "\<And>l x. proper (item l x)"
  shows "v_list mn item loc j = Inr ys \<longleftrightarrow>
     (\<exists>xs. j = JArr xs \<and> mn \<le> length xs \<and> length ys = length xs \<and>
        (\<forall>i < length xs. item (loc @ [show_nat i]) (xs ! i) = Inr (ys ! i)))"
proof (cases j)
  case (JArr xs)
  define rs where "rs = map (\<lambda>(i, x). item (loc @ [show_nat i]) x) (enumerate 0 xs)"
  have len: "length rs = length xs" by (simp add: rs_def)
  have nth: "rs ! i = item (loc @ [show_nat i]) (xs ! i)" if "i < length xs" for i
    using that by (simp add: rs_def nth_enumerate_eq)
  have pr: "proper r" if "r \<in> set rs" for r
    using that assms by (auto simp: rs_def)
  have "concat (map errs rs) = [] \<longleftrightarrow> (\<forall>r \<in> set rs. errs r = [])" by simp
  also have "\<dots> \<longleftrightarrow> (\<forall>r \<in> set rs. r = Inr (projr r))"
    using pr proper_errs by blast
  also have "\<dots> \<longleftrightarrow> (\<forall>i < length xs. rs ! i = Inr (projr (rs ! i)))"
    by (simp only: all_set_conv_all_nth len)
  finally have "v_list mn item loc j = Inr ys \<longleftrightarrow>
      mn \<le> length xs \<and> (\<forall>i < length xs. rs ! i = Inr (projr (rs ! i))) \<and> ys = map projr rs"
    using JArr by (auto simp: v_list_def rs_def [symmetric] Let_def v_fail_def)
  also have "\<dots> \<longleftrightarrow> mn \<le> length xs \<and> length ys = length xs \<and>
      (\<forall>i < length xs. rs ! i = Inr (ys ! i))"
    using len by (auto intro: nth_equalityI)
  finally show ?thesis using JArr nth by auto
qed (auto simp: v_list_def v_fail_def)

lemma v_nonempty_Inr: "v_nonempty loc j = Inr s \<longleftrightarrow> j = JStr s \<and> s \<noteq> []"
  by (auto simp: v_nonempty_def v_str_Inr any_str_def Suc_le_eq)

lemma v_nonempty_list_Inr:
  "v_list mn v_nonempty loc j = Inr ys \<longleftrightarrow>
     j = JArr (map JStr ys) \<and> mn \<le> length ys \<and> [] \<notin> set ys"
proof
  assume "v_list mn v_nonempty loc j = Inr ys"
  then obtain xs where xs: "j = JArr xs" "mn \<le> length xs" "length ys = length xs"
    "\<forall>i < length xs. xs ! i = JStr (ys ! i) \<and> ys ! i \<noteq> []"
    by (auto simp: v_list_Inr v_nonempty_Inr)
  have "xs = map JStr ys" by (rule nth_equalityI) (use xs(3,4) in simp_all)
  moreover have "[] \<notin> set ys"
  proof
    assume "[] \<in> set ys"
    then obtain i where "i < length ys" and "ys ! i = []" by (auto simp: in_set_conv_nth)
    with xs(3,4) show False by simp
  qed
  ultimately show "j = JArr (map JStr ys) \<and> mn \<le> length ys \<and> [] \<notin> set ys"
    using xs(1,2) by simp
next
  assume "j = JArr (map JStr ys) \<and> mn \<le> length ys \<and> [] \<notin> set ys"
  then show "v_list mn v_nonempty loc j = Inr ys"
    by (simp add: v_list_Inr v_nonempty_Inr) (use nth_mem in fastforce)
qed

lemmas v_Inr = v_str_Inr v_int_Inr v_float_Inr v_bool_Inr v_datetime_Inr v_literal_Inr v_dict_Inr
  v_optional_Inr v_field_Inr v_field_or_Inr v_nonempty_Inr v_nonempty_list_Inr

text \<open>The declared constraints of a finding.\<close>

definition finding_wf :: "finding \<Rightarrow> bool" where
  "finding_wf f \<longleftrightarrow>
     is_semver (f_schema_version f) \<and> 5 \<le> length (f_schema_version f) \<and>
     1 \<le> length (f_finding_id f) \<and> length (f_finding_id f) \<le> 256 \<and>
     f_anomaly_type f \<noteq> [] \<and> f_hypothesis_class f \<noteq> [] \<and>
     1 \<le> length (f_hypothesis_statement f) \<and> length (f_hypothesis_statement f) \<le> 4096 \<and>
     f_candidate_signals f \<noteq> [] \<and> [] \<notin> set (f_candidate_signals f) \<and>
     f_vehicle_scope f \<noteq> [] \<and> [] \<notin> set (f_vehicle_scope f) \<and>
     0 \<le> f_upstream_confidence f \<and> f_upstream_confidence f \<le> 1"

lemma errs_NilD: "errs r = [] \<Longrightarrow> proper r \<Longrightarrow> projr r = x \<Longrightarrow> r = Inr x"
  by (cases r) (auto simp: proper_def)

lemma validate_finding_Inr:
  "validate_finding pyd (JObj d) = Inr f \<longleftrightarrow>
     fst ` set d \<subseteq> set finding_fields \<and>
     v_field d [] ''schema_version'' v_semver = Inr (f_schema_version f) \<and>
     v_field d [] ''finding_id'' (v_str 1 (Some 256) any_str) = Inr (f_finding_id f) \<and>
     v_field d [] ''anomaly_type'' v_nonempty = Inr (f_anomaly_type f) \<and>
     v_field d [] ''hypothesis_class'' v_nonempty = Inr (f_hypothesis_class f) \<and>
     v_field d [] ''hypothesis_statement'' (v_str 1 (Some 4096) any_str) = Inr (f_hypothesis_statement f) \<and>
     v_field d [] ''candidate_signals'' (v_list 1 v_nonempty) = Inr (f_candidate_signals f) \<and>
     v_field d [] ''vehicle_scope'' (v_list 1 v_nonempty) = Inr (f_vehicle_scope f) \<and>
     v_field d [] ''upstream_confidence'' (v_float pyd (\<lambda>q. 0 \<le> q \<and> q \<le> 1)) = Inr (f_upstream_confidence f)"
  (is "?L \<longleftrightarrow> ?R")
proof
  assume ?L
  then show ?R
    by (intro conjI errs_NilD)
      (auto simp: validate_finding_def Let_def v_extra_Nil split: if_splits)
next
  assume ?R
  then show ?L
    by (simp add: validate_finding_def v_extra_Nil)
qed

text \<open>
  Validation accepts exactly the documents that satisfy the declared constraints, and the
  dump of a well-formed finding validates to that finding.
\<close>

lemma is_semver_length: "is_semver s \<Longrightarrow> 5 \<le> length s"
proof -
  assume "is_semver s"
  then obtain a b c where abc: "split_on (CHR ''.'') s = [a, b, c]" "a \<noteq> []" "b \<noteq> []" "c \<noteq> []"
    by (auto simp: is_semver_def is_digits_def split: list.splits)
  then have "s = a @ ''.'' @ b @ ''.'' @ c"
    using join_split_on [of "CHR ''.''" s] by simp
  moreover have "1 \<le> length a" "1 \<le> length b" "1 \<le> length c"
    using abc by (simp_all add: Suc_le_eq)
  ultimately show ?thesis by simp
qed

lemma validate_finding_wf:
  assumes "validate_finding pyd j = Inr f"
  shows "finding_wf f"
proof -
  obtain d where d: "j = JObj d"
    using assms by (auto simp: validate_finding_def v_fail_def split: json.splits)
  from assms show ?thesis unfolding d validate_finding_Inr
    by (auto simp: v_field_Inr v_semver_def v_str_Inr v_nonempty_Inr v_nonempty_list_Inr v_float_Inr
        finding_wf_def)
qed

definition dump_finding :: "finding \<Rightarrow> dict" where
  "dump_finding f =
     [(''schema_version'', JStr (f_schema_version f)), (''finding_id'', JStr (f_finding_id f)),
      (''anomaly_type'', JStr (f_anomaly_type f)), (''hypothesis_class'', JStr (f_hypothesis_class f)),
      (''hypothesis_statement'', JStr (f_hypothesis_statement f)),
      (''candidate_signals'', JArr (map JStr (f_candidate_signals f))),
      (''vehicle_scope'', JArr (map JStr (f_vehicle_scope f))),
      (''upstream_confidence'', JFloat (f_upstream_confidence f))]"

lemma validate_dump_finding:
  assumes "finding_wf f" and "exact_coercion pyd"
  shows "validate_finding pyd (JObj (dump_finding f)) = Inr f"
  using assms unfolding validate_finding_Inr
  by (simp add: dump_finding_def finding_fields_def v_field_Inr v_semver_def v_str_Inr v_nonempty_Inr
      v_nonempty_list_Inr v_float_Inr finding_wf_def exact_coercion_def dict_get_def any_str_def Suc_le_eq)

text \<open>The declared constraints of a policy, and what they say of the raw document.\<close>

definition signal_wf :: "signal_spec \<Rightarrow> bool" where
  "signal_wf s \<longleftrightarrow> sig_vss_name s \<noteq> [] \<and> 0 < sig_sample_rate_hz s \<and>
     0 \<le> sig_priority s \<and> sig_priority s \<le> 10"

definition policy_wf :: "policy_spec \<Rightarrow> bool" where
  "policy_wf p \<longleftrightarrow>
     p_policy_id p \<noteq> [] \<and> is_semver (p_version p) \<and>
     p_signals p \<noteq> [] \<and> list_all signal_wf (p_signals p) \<and>
     1 \<le> p_collection_window_hours p \<and> p_collection_window_hours p \<le> 168 \<and>
     p_hypothesis p \<noteq> [] \<and> p_vehicle_scope p \<noteq> [] \<and> [] \<notin> set (p_vehicle_scope p) \<and>
     (gov_has_pii_signal (p_data_governance_flags p) \<longrightarrow> gov_pii_consent (p_data_governance_flags p)) \<and>
     0 \<le> p_confidence_threshold p \<and> p_confidence_threshold p \<le> 1 \<and>
     p_generated_from_session_id p \<noteq> [] \<and>
     org_tenant_id (p_originating_finding p) \<noteq> [] \<and> org_finding_id (p_originating_finding p) \<noteq> []"

lemma validate_signal_spec_Inr:
  assumes "validate_signal_spec pyd loc j = Inr s"
  shows "signal_wf s \<and> (\<exists>d. j = JObj d \<and> dict_get d ''vss_name'' = Some (JStr (sig_vss_name s)))"
proof -
  obtain d where d: "j = JObj d"
    using assms by (auto simp: validate_signal_spec_def v_fail_def split: json.splits)
  have "v_field d loc ''vss_name'' v_nonempty = Inr (sig_vss_name s)"
    and "v_field d loc ''sample_rate_hz'' (v_float pyd (\<lambda>q. 0 < q)) = Inr (sig_sample_rate_hz s)"
    and "v_field d loc ''priority'' (v_int pyd (\<lambda>n. 0 \<le> n \<and> n \<le> 10)) = Inr (sig_priority s)"
    using assms unfolding d
    by - (rule errs_NilD; auto simp: validate_signal_spec_def Let_def split: if_splits)+
  with d show ?thesis
    by (auto simp: v_field_Inr v_nonempty_Inr v_float_Inr v_int_Inr signal_wf_def)
qed

lemma validate_governance_Inr:
  assumes "validate_governance pyd loc j = Inr g"
  shows "gov_has_pii_signal g \<longrightarrow> gov_pii_consent g"
  using assms by (auto simp: validate_governance_def v_fail_def Let_def split: json.splits if_splits)

lemma validate_origin_Inr:
  assumes "validate_origin loc j = Inr g"
  shows "org_tenant_id g \<noteq> [] \<and> org_finding_id g \<noteq> []"
proof -
  obtain d where d: "j = JObj d"
    using assms by (auto simp: validate_origin_def v_fail_def split: json.splits)
  have "v_field d loc ''tenant_id'' v_nonempty = Inr (org_tenant_id g)"
    and "v_field d loc ''finding_id'' v_nonempty = Inr (org_finding_id g)"
    using assms unfolding d
    by - (rule errs_NilD; auto simp: validate_origin_def Let_def split: if_splits)+
  then show ?thesis by (auto simp: v_field_Inr v_nonempty_Inr)
qed

lemma build_policy_Inr:
  assumes "build_policy pid ve si tc cw hy vs dg ct gs og pt rp sh rt rv qu se ca ex = Inr p"
  shows "errs pid = [] \<and> projr pid = p_policy_id p" "errs ve = [] \<and> projr ve = p_version p"
    "errs si = [] \<and> projr si = p_signals p"
    "errs cw = [] \<and> projr cw = p_collection_window_hours p"
    "errs hy = [] \<and> projr hy = p_hypothesis p" "errs vs = [] \<and> projr vs = p_vehicle_scope p"
    "errs dg = [] \<and> projr dg = p_data_governance_flags p"
    "errs ct = [] \<and> projr ct = p_confidence_threshold p"
    "errs gs = [] \<and> projr gs = p_generated_from_session_id p"
    "errs og = [] \<and> projr og = p_originating_finding p"
    "ex = []"
  using assms by (auto simp: build_policy_def Let_def split: if_splits)

lemma validate_policy_fields:
  assumes "validate_policy pyd (JObj d) = Inr p"
  shows "v_field d [] ''policy_id'' v_nonempty = Inr (p_policy_id p)"
    and "v_field d [] ''version'' v_semver = Inr (p_version p)"
    and "v_field d [] ''signals'' (v_list 1 (validate_signal_spec pyd)) = Inr (p_signals p)"
    and "v_field d [] ''collection_window_hours'' (v_int pyd (\<lambda>n. 1 \<le> n \<and> n \<le> 168)) =
           Inr (p_collection_window_hours p)"
    and "v_field d [] ''hypothesis'' v_nonempty = Inr (p_hypothesis p)"
    and "v_field d [] ''vehicle_scope'' (v_list 1 v_nonempty) = Inr (p_vehicle_scope p)"
    and "v_field d [] ''data_governance_flags'' (validate_governance pyd) = Inr (p_data_governance_flags p)"
    and "v_field d [] ''confidence_threshold'' (v_float pyd (\<lambda>q. 0 \<le> q \<and> q \<le> 1)) =
           Inr (p_confidence_threshold p)"
    and "v_field d [] ''generated_from_session_id'' v_nonempty = Inr (p_generated_from_session_id p)"
    and "v_field d [] ''originating_finding'' validate_origin = Inr (p_originating_finding p)"
  using build_policy_Inr [OF assms [unfolded validate_policy_def json.case]]
  by (auto intro: errs_NilD)

lemma validate_policy_JObj: "validate_policy pyd j = Inr p \<Longrightarrow> \<exists>d. j = JObj d"
  by (auto simp: validate_policy_def v_fail_def split: json.splits)

text \<open>
  What the rest of the pipeline reads of the raw document of a validated policy: the keys are
  there, with the types and values of the specification.
\<close>

definition policy_doc :: "dict \<Rightarrow> policy_spec \<Rightarrow> bool" where
  "policy_doc d p \<longleftrightarrow>
     dict_get d ''policy_id'' = Some (JStr (p_policy_id p)) \<and>
     dict_get d ''version'' = Some (JStr (p_version p)) \<and>
     dict_get d ''vehicle_scope'' = Some (JArr (map JStr (p_vehicle_scope p))) \<and>
     dict_get d ''hypothesis'' = Some (JStr (p_hypothesis p)) \<and>
     dict_get d ''generated_from_session_id'' = Some (JStr (p_generated_from_session_id p)) \<and>
     (\<exists>ss. dict_get d ''signals'' = Some (JArr ss) \<and> length ss = length (p_signals p) \<and>
        (\<forall>i < length ss. \<exists>sd. ss ! i = JObj sd \<and>
           dict_get sd ''vss_name'' = Some (JStr (sig_vss_name (p_signals p ! i))))) \<and>
     dict_has d ''collection_window_hours'' \<and> dict_has d ''data_governance_flags'' \<and>
     dict_has d ''confidence_threshold'' \<and> dict_has d ''originating_finding''"

lemma v_list_signals:
  assumes "v_list 1 (validate_signal_spec pyd) loc j = Inr ss"
  shows "ss \<noteq> [] \<and> list_all signal_wf ss \<and>
    (\<exists>xs. j = JArr xs \<and> length xs = length ss \<and>
       (\<forall>i < length xs. \<exists>sd. xs ! i = JObj sd \<and> dict_get sd ''vss_name'' = Some (JStr (sig_vss_name (ss ! i)))))"
proof -
  obtain xs where xs: "j = JArr xs" "1 \<le> length xs" "length ss = length xs"
    and item: "\<And>i. i < length xs \<Longrightarrow> validate_signal_spec pyd (loc @ [show_nat i]) (xs ! i) = Inr (ss ! i)"
    using assms by (auto simp: v_list_Inr)
  have "ss \<noteq> []" using xs by auto
  moreover have "list_all signal_wf ss"
    using validate_signal_spec_Inr [OF item] xs(3) by (simp add: list_all_length)
  moreover have "\<forall>i < length xs. \<exists>sd. xs ! i = JObj sd \<and>
      dict_get sd ''vss_name'' = Some (JStr (sig_vss_name (ss ! i)))"
    using validate_signal_spec_Inr [OF item] by blast
  ultimately show ?thesis using xs by auto
qed

lemma validate_policy_sound:
  assumes "validate_policy pyd (JObj d) = Inr p"
  shows "policy_wf p \<and> policy_doc d p"
proof -
  note fs = validate_policy_fields [OF assms, unfolded v_field_Inr v_semver_def v_str_Inr v_nonempty_Inr
      v_nonempty_list_Inr v_float_Inr v_int_Inr]
  obtain js where js: "dict_get d ''signals'' = Some js"
    and "v_list 1 (validate_signal_spec pyd) ([] @ [''signals'']) js = Inr (p_signals p)"
    using fs(3) by blast
  from v_list_signals [OF this(2)] have sg: "p_signals p \<noteq> [] \<and> list_all signal_wf (p_signals p)"
    and sd: "\<exists>ss. dict_get d ''signals'' = Some (JArr ss) \<and> length ss = length (p_signals p) \<and>
        (\<forall>i < length ss. \<exists>sd. ss ! i = JObj sd \<and>
           dict_get sd ''vss_name'' = Some (JStr (sig_vss_name (p_signals p ! i))))"
    using js by auto
  obtain jg where "dict_get d ''data_governance_flags'' = Some jg"
    and "gov_has_pii_signal (p_data_governance_flags p) \<longrightarrow> gov_pii_consent (p_data_governance_flags p)"
    using fs(7) validate_governance_Inr by blast
  moreover obtain jo where "dict_get d ''originating_finding'' = Some jo"
    and "org_tenant_id (p_originating_finding p) \<noteq> [] \<and> org_finding_id (p_originating_finding p) \<noteq> []"
    using fs(10) validate_origin_Inr by blast
  ultimately show ?thesis
    using fs(1,2,4-6,8,9) sg sd
    by (auto simp: policy_wf_def policy_doc_def dict_has_get)
qed

end
