(* ===== verification/CM_Validator.thy ===== *)
theory CM_Validator
  imports CM_Models
begin

text \<open>
  The policy validator: \<open>validator/vss.py\<close> (the signal vocabulary), \<open>validator/governance.py\<close>
  (PII-adjacent signals and consent) and \<open>validator/policy_validator.py\<close> (their composition with
  the window check). The vocabulary is the parsed \<open>signals.yaml\<close>; the closest-name search of the
  standard library (\<open>difflib.get_close_matches\<close> with one result) is a parameter.
\<close>

section \<open>validator/vss.py\<close>

record vss_validator =
  vss_signals :: dict

record signal_result =
  sr_ok :: bool
  sr_name :: string
  sr_code :: "string option"
  sr_suggestion :: "string option"

type_synonym close_matches = "string \<Rightarrow> string list \<Rightarrow> string list"

definition vss_from_path :: "json \<Rightarrow> exc + vss_validator" where
  "vss_from_path doc =
     (let signals = (case doc of JObj d \<Rightarrow> dict_get_or d ''signals'' (JObj []) | _ \<Rightarrow> JObj []) in
      case signals of
        JObj sigs \<Rightarrow> Inr \<lparr>vss_signals = sigs\<rparr>
      | _ \<Rightarrow> Inl (AttributeError ''keys''))"

definition vss_is_valid :: "vss_validator \<Rightarrow> string \<Rightarrow> bool" where
  "vss_is_valid v name \<longleftrightarrow> dict_has (vss_signals v) name"

definition vss_metadata :: "vss_validator \<Rightarrow> string \<Rightarrow> json option" where
  "vss_metadata v name = dict_get (vss_signals v) name"

definition vss_all_names :: "vss_validator \<Rightarrow> string list" where
  "vss_all_names v = map fst (vss_signals v)"

definition vss_closest :: "close_matches \<Rightarrow> vss_validator \<Rightarrow> string \<Rightarrow> string option" where
  "vss_closest cm v name =
     (if name = [] then None
      else (case cm name (vss_all_names v) of [] \<Rightarrow> None | m # _ \<Rightarrow> Some m))"

definition validate_signal :: "close_matches \<Rightarrow> vss_validator \<Rightarrow> string \<Rightarrow> signal_result" where
  "validate_signal cm v name =
     (if dict_has (vss_signals v) name
      then \<lparr>sr_ok = True, sr_name = name, sr_code = None, sr_suggestion = None\<rparr>
      else \<lparr>sr_ok = False, sr_name = name, sr_code = Some ''VSS_INVALID_SIGNAL'',
            sr_suggestion = vss_closest cm v name\<rparr>)"

section \<open>validator/governance.py\<close>

record governance_checker =
  gc_branches :: "string list"
  gc_prefix_match :: bool

record governance_decision =
  gd_ok :: bool
  gd_code :: "string option"
  gd_flagged :: "string list"

definition new_checker :: "string list \<Rightarrow> bool \<Rightarrow> governance_checker" where
  "new_checker branches prefix_match = \<lparr>gc_branches = sort branches, gc_prefix_match = prefix_match\<rparr>"

text \<open>
  \<open>from_path\<close> on the parsed document: the branches of every category, in document order. A
  branch that is not a string goes through \<open>str\<close>, a parameter.
\<close>

definition category_branches :: "(json \<Rightarrow> string) \<Rightarrow> json \<Rightarrow> exc + string list" where
  "category_branches str_of cat =
     (case cat of
        JObj c \<Rightarrow>
          (case dict_get_or c ''branches'' (JArr []) of
             JArr bs \<Rightarrow> Inr (map (\<lambda>b. case b of JStr s \<Rightarrow> s | _ \<Rightarrow> str_of b) bs)
           | JStr s \<Rightarrow> Inr (map (\<lambda>ch. [ch]) s)
           | JObj d \<Rightarrow> Inr (map fst d)
           | _ \<Rightarrow> Inl (TypeError ''not iterable''))
      | _ \<Rightarrow> Inl (AttributeError ''get''))"

fun collect_branches :: "(json \<Rightarrow> string) \<Rightarrow> json list \<Rightarrow> exc + string list" where
  "collect_branches str_of [] = Inr []"
| "collect_branches str_of (cat # cats) =
     (case category_branches str_of cat of
        Inl e \<Rightarrow> Inl e
      | Inr bs \<Rightarrow> (case collect_branches str_of cats of Inl e \<Rightarrow> Inl e | Inr bs' \<Rightarrow> Inr (bs @ bs')))"

definition governance_from_path :: "(json \<Rightarrow> string) \<Rightarrow> json \<Rightarrow> exc + governance_checker" where
  "governance_from_path str_of doc =
     (case doc of
        JObj d \<Rightarrow>
          (case dict_get_or d ''categories'' (JObj []) of
             JObj cats \<Rightarrow>
               (case collect_branches str_of (map snd cats) of
                  Inl e \<Rightarrow> Inl e
                | Inr bs \<Rightarrow> Inr (new_checker bs (truthy (dict_get_or d ''prefix_match'' (JBool True)))))
           | _ \<Rightarrow> Inl (AttributeError ''values''))
      | _ \<Rightarrow> Inl (AttributeError ''get''))"

definition is_pii :: "governance_checker \<Rightarrow> string \<Rightarrow> bool" where
  "is_pii g name \<longleftrightarrow>
     name \<in> set (gc_branches g) \<or>
     (gc_prefix_match g \<and> list_ex (\<lambda>b. startswith name (b @ ''.'')) (gc_branches g))"

definition evaluate_signals :: "governance_checker \<Rightarrow> string list \<Rightarrow> bool \<Rightarrow> governance_decision" where
  "evaluate_signals g signals consent =
     (let flagged = sort (remdups (filter (is_pii g) signals)) in
      if flagged \<noteq> [] \<and> \<not> consent
      then \<lparr>gd_ok = False, gd_code = Some ''PII_CONSENT_REQUIRED'', gd_flagged = flagged\<rparr>
      else \<lparr>gd_ok = True, gd_code = None, gd_flagged = flagged\<rparr>)"

text \<open>The shipped \<open>config/vss/v6.0/pii_signals.yaml\<close>.\<close>

definition pii_signals_doc :: json where
  "pii_signals_doc = JObj
     [(''categories'', JObj
        [(''precise_geolocation'', JObj [(''branches'', JArr (map JStr
            [''Vehicle.CurrentLocation'', ''Vehicle.CurrentLocation.Latitude'',
             ''Vehicle.CurrentLocation.Longitude'', ''Vehicle.CurrentLocation.Altitude'',
             ''Vehicle.CurrentLocation.Heading'', ''Vehicle.CurrentLocation.GNSSReceiver'']))]),
         (''driver_biometrics'', JObj [(''branches'', JArr (map JStr
            [''Vehicle.Cabin.Driver.AttentiveProbability'', ''Vehicle.Cabin.Driver.HeartRate'',
             ''Vehicle.Cabin.Driver.IdentifierIssuer'', ''Vehicle.Cabin.Driver.IdentifierSubject'',
             ''Vehicle.Cabin.Driver.IsEyesOnRoad'', ''Vehicle.Cabin.Driver.IsHandsOnWheel'']))]),
         (''personal_usage_patterns'', JObj [(''branches'', JArr (map JStr
            [''Vehicle.Cabin.Driver.DistractionLevel'', ''Vehicle.Cabin.Infotainment.Media.Played.Title'',
             ''Vehicle.Cabin.Infotainment.Media.Played.Artist'', ''Vehicle.Cabin.HVAC.AmbientAirTemperature'',
             ''Vehicle.Cabin.SeatPosOccupancy'']))])]),
      (''prefix_match'', JBool True)]"

section \<open>validator/policy\_validator.py\<close>

record validation_error =
  ve_code :: string
  ve_field :: string
  ve_message :: string
  ve_details :: dict

record validation_result =
  vr_ok :: bool
  vr_errors :: "validation_error list"
  vr_suggestions :: dict

record policy_validator =
  pv_vss :: vss_validator
  pv_governance :: governance_checker
  pv_close :: close_matches

text \<open>The loop over the signals: the invalid names in order, and the suggestions.\<close>

fun check_signals ::
  "policy_validator \<Rightarrow> signal_spec list \<Rightarrow> string list \<Rightarrow> dict \<Rightarrow> string list \<times> dict" where
  "check_signals v [] bad sug = (bad, sug)"
| "check_signals v (s # ss) bad sug =
     (let r = validate_signal (pv_close v) (pv_vss v) (sig_vss_name s) in
      if sr_ok r then check_signals v ss bad sug
      else check_signals v ss (bad @ [sig_vss_name s])
             (case sr_suggestion r of
                None \<Rightarrow> sug
              | Some g \<Rightarrow> if g \<noteq> [] then dict_put sug (sig_vss_name s) (JStr g) else sug))"

definition vss_errors :: "string list \<Rightarrow> validation_error list" where
  "vss_errors invalid_signals =
     (if invalid_signals \<noteq> []
      then [\<lparr>ve_code = ''VSS_INVALID_SIGNAL'', ve_field = ''signals'',
             ve_message = ''One or more signals are not valid VSS v6.0 names.'',
             ve_details = [(''invalid_signals'', JArr (map JStr invalid_signals))]\<rparr>]
      else [])"

definition governance_errors :: "policy_spec \<Rightarrow> governance_decision \<Rightarrow> validation_error list" where
  "governance_errors p d =
     (if \<not> gd_ok d
      then [\<lparr>ve_code = (case gd_code d of None \<Rightarrow> ''PII_CONSENT_REQUIRED''
                        | Some c \<Rightarrow> if c = [] then ''PII_CONSENT_REQUIRED'' else c),
             ve_field = ''data_governance_flags'',
             ve_message = ''PII-adjacent signal selected without explicit consent.'',
             ve_details = [(''flagged_signals'', JArr (map JStr (gd_flagged d)))]\<rparr>]
      else if gd_flagged d \<noteq> [] \<and> \<not> gov_has_pii_signal (p_data_governance_flags p)
      then [\<lparr>ve_code = ''PII_FLAG_INCONSISTENT'', ve_field = ''data_governance_flags.has_pii_signal'',
             ve_message = ''has_pii_signal must be true when a PII-adjacent signal is selected.'',
             ve_details = [(''flagged_signals'', JArr (map JStr (gd_flagged d)))]\<rparr>]
      else [])"

definition window_errors :: "policy_spec \<Rightarrow> validation_error list" where
  "window_errors p =
     (if \<not> (1 \<le> p_collection_window_hours p \<and> p_collection_window_hours p \<le> 168)
      then [\<lparr>ve_code = ''WINDOW_OUT_OF_BOUNDS'', ve_field = ''collection_window_hours'',
             ve_message = ''collection_window_hours must be between 1 and 168 inclusive.'',
             ve_details = [(''value'', JInt (p_collection_window_hours p))]\<rparr>]
      else [])"

definition validate :: "policy_validator \<Rightarrow> policy_spec \<Rightarrow> validation_result" where
  "validate v p =
     (let (invalid_signals, suggestions) = check_signals v (p_signals p) [] [];
          signal_names = map sig_vss_name (p_signals p);
          decision = evaluate_signals (pv_governance v) signal_names
                       (gov_pii_consent (p_data_governance_flags p));
          errors = vss_errors invalid_signals @ governance_errors p decision @ window_errors p
      in \<lparr>vr_ok = (errors = []), vr_errors = errors, vr_suggestions = suggestions\<rparr>)"

text \<open>\<open>ValidationResult.to_retry_context\<close> and the per-error dict the graph node stores.\<close>

definition error_dict :: "validation_error \<Rightarrow> json" where
  "error_dict e = JObj [(''code'', JStr (ve_code e)), (''field'', JStr (ve_field e)),
     (''message'', JStr (ve_message e)), (''details'', JObj (ve_details e))]"

definition to_retry_context :: "validation_result \<Rightarrow> dict" where
  "to_retry_context r = [(''validation_errors'', JArr (map error_dict (vr_errors r))),
     (''suggestions'', JObj (vr_suggestions r))]"

section \<open>Correctness\<close>

lemma check_signals_invalid:
  "fst (check_signals v ss bad sug) =
     bad @ filter (\<lambda>n. \<not> vss_is_valid (pv_vss v) n) (map sig_vss_name ss)"
  by (induction v ss bad sug rule: check_signals.induct)
    (auto simp: Let_def validate_signal_def vss_is_valid_def)

text \<open>Every suggestion recorded is for an invalid signal of the policy.\<close>

lemma check_signals_suggestions:
  assumes "dict_has (snd (check_signals v ss bad sug)) n"
  shows "dict_has sug n \<or> (n \<in> sig_vss_name ` set ss \<and> \<not> vss_is_valid (pv_vss v) n)"
  using assms
  by (induction v ss bad sug rule: check_signals.induct)
    (force simp: Let_def validate_signal_def vss_is_valid_def dict_has_def dict_put_keys
      split: if_splits option.splits)+

lemma is_pii_iff:
  "is_pii g s \<longleftrightarrow> (\<exists>b \<in> set (gc_branches g). s = b \<or> (gc_prefix_match g \<and> startswith s (b @ ''.'')))"
  by (auto simp: is_pii_def list_ex_iff)

lemma startswith_iff: "startswith s p \<longleftrightarrow> (\<exists>r. s = p @ r)"
  unfolding startswith_def by (metis append_eq_conv_conj append_take_drop_id)

lemma evaluate_signals_flagged:
  "set (gd_flagged (evaluate_signals g ss c)) = {s \<in> set ss. is_pii g s}"
  "sorted (gd_flagged (evaluate_signals g ss c))"
  "distinct (gd_flagged (evaluate_signals g ss c))"
  by (auto simp: evaluate_signals_def Let_def)

lemma sort_Nil_iff [simp]: "sort xs = [] \<longleftrightarrow> xs = []"
  by (metis set_sort set_empty)

lemma evaluate_signals_ok: "gd_ok (evaluate_signals g ss c) \<longleftrightarrow> (\<forall>s \<in> set ss. is_pii g s \<longrightarrow> c)"
  by (auto simp: evaluate_signals_def Let_def filter_empty_conv)

lemma evaluate_signals_none:
  "gd_flagged (evaluate_signals g ss c) = [] \<longleftrightarrow> (\<forall>s \<in> set ss. \<not> is_pii g s)"
  by (auto simp: evaluate_signals_def Let_def filter_empty_conv)

lemma vr_ok_iff: "vr_ok (validate v p) \<longleftrightarrow> vr_errors (validate v p) = []"
  by (auto simp: validate_def Let_def split: prod.splits)

lemma vr_errors_eq:
  "vr_errors (validate v p) =
     vss_errors (filter (\<lambda>n. \<not> vss_is_valid (pv_vss v) n) (map sig_vss_name (p_signals p)))
     @ governance_errors p (evaluate_signals (pv_governance v) (map sig_vss_name (p_signals p))
         (gov_pii_consent (p_data_governance_flags p)))
     @ window_errors p"
  using check_signals_invalid [of v "p_signals p" "[]" "[]"]
  by (auto simp: validate_def Let_def split: prod.splits)

text \<open>The codes a failing policy is reported under, in order.\<close>

definition pii_names :: "policy_validator \<Rightarrow> policy_spec \<Rightarrow> string list" where
  "pii_names v p = filter (is_pii (pv_governance v)) (map sig_vss_name (p_signals p))"

lemma governance_errors_codes:
  "map ve_code (governance_errors p (evaluate_signals g ss c)) =
     (if \<exists>s \<in> set ss. is_pii g s
      then (if \<not> c then [''PII_CONSENT_REQUIRED'']
            else if \<not> gov_has_pii_signal (p_data_governance_flags p) then [''PII_FLAG_INCONSISTENT'']
            else [])
      else [])"
proof (cases "\<exists>s \<in> set ss. is_pii g s")
  case True
  then have "filter (is_pii g) ss \<noteq> []" by (auto simp: filter_empty_conv)
  with True show ?thesis by (simp add: governance_errors_def evaluate_signals_def Let_def)
next
  case False
  then have "filter (is_pii g) ss = []" by (auto simp: filter_empty_conv)
  with False show ?thesis by (simp add: governance_errors_def evaluate_signals_def Let_def)
qed

lemma validate_codes:
  "map ve_code (vr_errors (validate v p)) =
     (if \<exists>s \<in> set (p_signals p). \<not> vss_is_valid (pv_vss v) (sig_vss_name s)
      then [''VSS_INVALID_SIGNAL''] else [])
     @ (if pii_names v p \<noteq> []
        then (if \<not> gov_pii_consent (p_data_governance_flags p) then [''PII_CONSENT_REQUIRED'']
              else if \<not> gov_has_pii_signal (p_data_governance_flags p) then [''PII_FLAG_INCONSISTENT'']
              else [])
        else [])
     @ (if 1 \<le> p_collection_window_hours p \<and> p_collection_window_hours p \<le> 168 then []
        else [''WINDOW_OUT_OF_BOUNDS''])"
  unfolding vr_errors_eq map_append governance_errors_codes
  by (auto simp: vss_errors_def window_errors_def pii_names_def filter_empty_conv)

text \<open>
  C5. The validator accepts a policy exactly when every selected signal is a VSS name, every
  PII-adjacent signal is covered by both the consent flag and the disclosure flag, and the window
  lies within 1 to 168 hours; otherwise it reports at least one error.
\<close>

theorem validate_accepts_iff:
  "vr_ok (validate v p) \<longleftrightarrow>
     (\<forall>s \<in> set (p_signals p). vss_is_valid (pv_vss v) (sig_vss_name s)) \<and>
     (\<forall>s \<in> set (p_signals p). is_pii (pv_governance v) (sig_vss_name s) \<longrightarrow>
        gov_pii_consent (p_data_governance_flags p) \<and> gov_has_pii_signal (p_data_governance_flags p)) \<and>
     1 \<le> p_collection_window_hours p \<and> p_collection_window_hours p \<le> 168"
proof -
  have "vr_ok (validate v p) \<longleftrightarrow> map ve_code (vr_errors (validate v p)) = []"
    by (simp add: vr_ok_iff)
  then show ?thesis
    unfolding validate_codes by (auto simp: pii_names_def filter_empty_conv)
qed

text \<open>
  A PII-adjacent branch covers its whole subtree: with prefix matching on, every signal below a
  flagged signal is flagged as well.
\<close>

theorem is_pii_subtree:
  assumes "gc_prefix_match g" and "is_pii g s"
  shows "is_pii g (s @ ''.'' @ t)"
proof -
  from assms obtain b where b: "b \<in> set (gc_branches g)" and "s = b \<or> startswith s (b @ ''.'')"
    by (auto simp: is_pii_iff)
  then have "startswith (s @ ''.'' @ t) (b @ ''.'')" by (auto simp: startswith_iff)
  with b assms(1) show ?thesis by (auto simp: is_pii_iff)
qed

section \<open>Concrete runs\<close>

text \<open>A two-signal vocabulary, the shipped PII branches, and a policy that needs consent.\<close>

definition shipped_governance :: governance_checker where
  "shipped_governance =
     (case governance_from_path (\<lambda>_. []) pii_signals_doc of Inr g \<Rightarrow> g | Inl _ \<Rightarrow> new_checker [] True)"

definition sample_validator :: policy_validator where
  "sample_validator =
     \<lparr>pv_vss = \<lparr>vss_signals = [(''Vehicle.Speed'', JObj []), (''Vehicle.CurrentLocation.Latitude'', JObj [])]\<rparr>,
      pv_governance = \<lparr>gc_branches = [''Vehicle.CurrentLocation''], gc_prefix_match = True\<rparr>,
      pv_close = (\<lambda>_ _. [])\<rparr>"

definition sample_policy :: policy_spec where
  "sample_policy =
     \<lparr>p_policy_id = ''p1'', p_version = ''1.0.0'',
      p_signals = [\<lparr>sig_vss_name = ''Vehicle.Speed'', sig_sample_rate_hz = 1, sig_priority = 5\<rparr>,
                   \<lparr>sig_vss_name = ''Vehicle.CurrentLocation.Latitude'', sig_sample_rate_hz = 1, sig_priority = 5\<rparr>],
      p_trigger_conditions = [], p_collection_window_hours = 24, p_hypothesis = ''h'',
      p_vehicle_scope = [''veh-1''],
      p_data_governance_flags = \<lparr>gov_pii_consent = True, gov_has_pii_signal = True\<rparr>,
      p_confidence_threshold = 1/2, p_generated_from_session_id = ''s1'',
      p_originating_finding = \<lparr>org_tenant_id = ''t1'', org_finding_id = ''f1''\<rparr>,
      p_prompt_template_version = None, p_slm_repo = None, p_slm_revision_sha = None,
      p_slm_runtime = None, p_slm_runtime_version = None, p_slm_quantization = None,
      p_slm_decoding_seed = None, p_created_at = None\<rparr>"

theorem validate_accepts_iff_witness:
  "vr_ok (validate sample_validator sample_policy) \<and>
   is_pii (pv_governance sample_validator) ''Vehicle.CurrentLocation.Latitude'' \<and>
   \<not> vr_ok (validate sample_validator
       (sample_policy\<lparr>p_data_governance_flags := \<lparr>gov_pii_consent = False, gov_has_pii_signal = True\<rparr>\<rparr>))"
  unfolding validate_accepts_iff
  by (simp add: sample_validator_def sample_policy_def vss_is_valid_def dict_has_def is_pii_def
      startswith_def)

theorem is_pii_subtree_witness:
  "gc_prefix_match shipped_governance \<and> is_pii shipped_governance ''Vehicle.Cabin.SeatPosOccupancy'' \<and>
   is_pii shipped_governance ''Vehicle.Cabin.SeatPosOccupancy.Row1''"
proof -
  have 1: "gc_prefix_match shipped_governance"
    "is_pii shipped_governance ''Vehicle.Cabin.SeatPosOccupancy''"
    by (simp_all add: shipped_governance_def governance_from_path_def pii_signals_doc_def dict_get_or_def
        dict_get_def category_branches_def new_checker_def is_pii_def)
  then show ?thesis
    using is_pii_subtree [of shipped_governance "''Vehicle.Cabin.SeatPosOccupancy''" "''Row1''"] by simp
qed

end
