(* ===== verification/CM_Database.thy ===== *)
theory CM_Database
  imports CM_Models
begin

text \<open>
  The policy registry's database: \<open>registry/db.py\<close> (pooled connections, the tenant-scoped and the
  service-principal context managers) and the schema of \<open>registry/migrations/sql\<close> (tables, checks,
  keys, row-level security). A table is the list of its rows in insertion order; a statement is
  a function of the connection's security context and the database, raising \<open>PgError\<close> where
  PostgreSQL rejects it. \<open>world\<close> is the state the application code runs in: the database, the
  clock, the supply of fresh identifiers and the log of metric increments.
\<close>

section \<open>Connections and row-level security\<close>

datatype role = Superuser | TenantRole

record conn =
  c_role :: role
  c_app_tenant :: "string option"
  c_erasure :: "string option"

text \<open>
  The policies of migrations 012, 014 and 015: a permissive baseline and one restrictive policy that
  asks for a non-empty \<open>app.tenant_id\<close> equal to the row's tenant; the superuser bypasses them.
\<close>

definition rls_using :: "conn \<Rightarrow> string \<Rightarrow> bool" where
  "rls_using c row_tenant \<longleftrightarrow>
     (case c_app_tenant c of None \<Rightarrow> False | Some t \<Rightarrow> t \<noteq> [] \<and> row_tenant = t)"

definition visible :: "conn \<Rightarrow> string \<Rightarrow> bool" where
  "visible c row_tenant \<longleftrightarrow> (case c_role c of Superuser \<Rightarrow> True | TenantRole \<Rightarrow> rls_using c row_tenant)"

text \<open>
  A pooled session. \<open>SET LOCAL ROLE\<close> and a transaction-local \<open>set_config\<close> hold until the end of
  the transaction; then the role is the session role again, and a custom setting that the
  session had never set reads as the empty string.
\<close>

definition new_session :: conn where
  "new_session = \<lparr>c_role = Superuser, c_app_tenant = None, c_erasure = None\<rparr>"

definition set_local_role :: "conn \<Rightarrow> conn" where
  "set_local_role c = c\<lparr>c_role := TenantRole\<rparr>"

definition set_app_tenant :: "string \<Rightarrow> conn \<Rightarrow> conn" where
  "set_app_tenant t c = c\<lparr>c_app_tenant := Some t\<rparr>"

definition set_erasure :: "string \<Rightarrow> conn \<Rightarrow> conn" where
  "set_erasure v c = c\<lparr>c_erasure := Some v\<rparr>"

definition revert :: "string option \<Rightarrow> string option \<Rightarrow> string option" where
  "revert before after =
     (case before of Some v \<Rightarrow> Some v | None \<Rightarrow> (case after of None \<Rightarrow> None | Some _ \<Rightarrow> Some []))"

definition end_transaction :: "conn \<Rightarrow> conn \<Rightarrow> conn" where
  "end_transaction before after =
     \<lparr>c_role = c_role before, c_app_tenant = revert (c_app_tenant before) (c_app_tenant after),
      c_erasure = revert (c_erasure before) (c_erasure after)\<rparr>"

definition tenant_conn :: "string \<Rightarrow> conn \<Rightarrow> conn" where
  "tenant_conn t c = set_app_tenant t (set_local_role c)"

lemma visible_tenant_conn [simp]: "visible (tenant_conn t c) r \<longleftrightarrow> t \<noteq> [] \<and> r = t"
  by (simp add: visible_def rls_using_def tenant_conn_def set_app_tenant_def set_local_role_def)

lemma visible_set_erasure [simp]: "visible (set_erasure v c) r = visible c r"
  by (cases "c_role c") (simp_all add: visible_def rls_using_def set_erasure_def)

lemma visible_Superuser: "c_role c = Superuser \<Longrightarrow> visible c r"
  by (simp add: visible_def)

section \<open>Column types\<close>

text \<open>
  What the driver and the column types do with a Python value: a \<open>TEXT\<close> parameter must be a string,
  \<open>NUMERIC(p,3)\<close> rounds half away from zero to three places, \<open>INTEGER\<close> and \<open>BIGINT\<close> are bounded.
  \<open>JSONB\<close> keeps the document.
\<close>

definition col_text :: "json \<Rightarrow> exc + string" where
  "col_text j = (case j of JStr s \<Rightarrow> Inr s | JNull \<Rightarrow> Inl (PgError NotNullViolation) | _ \<Rightarrow> Inl (PgError DataError))"

definition round3 :: "rat \<Rightarrow> rat" where
  "round3 q = (if 0 \<le> q then of_int \<lfloor>q * 1000 + 1/2\<rfloor> / 1000 else - (of_int \<lfloor>- q * 1000 + 1/2\<rfloor> / 1000))"

definition fits_integer :: "int \<Rightarrow> bool" where
  "fits_integer n \<longleftrightarrow> - (2 ^ 31) \<le> n \<and> n < 2 ^ 31"

definition fits_bigint :: "int \<Rightarrow> bool" where
  "fits_bigint n \<longleftrightarrow> - (2 ^ 63) \<le> n \<and> n < 2 ^ 63"

definition nonempty_array :: "json \<Rightarrow> bool" where
  "nonempty_array j = (case j of JArr xs \<Rightarrow> xs \<noteq> [] | _ \<Rightarrow> False)"

text \<open>\<open>j @> jsonb_build_object(k, v)\<close> and \<open>j @> jsonb_build_array(v)\<close> for a text \<open>v\<close>.\<close>

definition contains_entry :: "json \<Rightarrow> string \<Rightarrow> string \<Rightarrow> bool" where
  "contains_entry j k v = (case j of JObj d \<Rightarrow> dict_get d k = Some (JStr v) | _ \<Rightarrow> False)"

definition contains_elem :: "json \<Rightarrow> string \<Rightarrow> bool" where
  "contains_elem j v = (case j of JArr xs \<Rightarrow> JStr v \<in> set xs | _ \<Rightarrow> False)"

section \<open>Rows\<close>

record finding_row =
  df_tenant_id :: string
  df_finding_id :: string
  df_schema_version :: string
  df_anomaly_type :: string
  df_hypothesis_class :: string
  df_hypothesis_statement :: string
  df_candidate_signals :: "string list"
  df_vehicle_scope :: "string list"
  df_upstream_confidence :: rat
  df_received_at :: int
  df_payload_sha :: string

record policy_row =
  cp_tenant_id :: string
  cp_policy_id :: string
  cp_version :: string
  cp_signal_spec :: json
  cp_trigger_conditions :: json
  cp_window_hours :: int
  cp_vehicle_scope :: json
  cp_hypothesis :: string
  cp_governance_flags :: json
  cp_confidence :: rat
  cp_session_id :: string
  cp_originating_finding :: json
  cp_prompt_template_version :: string
  cp_slm_repo :: string
  cp_slm_revision_sha :: string
  cp_slm_runtime :: string
  cp_slm_runtime_version :: string
  cp_slm_quantization :: string
  cp_slm_decoding_seed :: int
  cp_payload_signature :: string
  cp_signature_key_id :: string
  cp_created_at :: int

record deployment_row =
  dt_deployment_id :: string
  dt_tenant_id :: string
  dt_policy_id :: string
  dt_version :: string
  dt_environment :: string
  dt_vehicle_scope :: json
  dt_status :: string
  dt_downstream_response :: json
  dt_requested_at :: int
  dt_accepted_at :: "int option"
  dt_expires_at :: "int option"

record outcome_row =
  po_outcome_id :: string
  po_tenant_id :: string
  po_originating_finding :: json
  po_policy_id :: string
  po_version :: string
  po_hypothesis_state :: string
  po_evaluated_at :: int
  po_evidence_summary :: json
  po_signals_collected_count :: int
  po_data_quality_score :: rat

record audit_row =
  ae_event_id :: string
  ae_tenant_id :: string
  ae_kind :: string
  ae_originating_finding :: json
  ae_policy_ref :: json
  ae_deployment_ref :: json
  ae_outcome_ref :: json
  ae_slm_repo :: "string option"
  ae_slm_revision_sha :: "string option"
  ae_slm_runtime :: "string option"
  ae_slm_runtime_version :: "string option"
  ae_slm_quantization :: "string option"
  ae_slm_decoding_seed :: "int option"
  ae_prompt_template_version :: "string option"
  ae_inbound_schema_version :: "string option"
  ae_time_acceleration_factor :: "rat option"
  ae_principal_subject :: string
  ae_correlation_id :: string
  ae_occurred_at :: int

record telemetry_row =
  to_tenant_id :: string
  to_vehicle_id :: string
  to_signal_name :: string
  to_value :: rat
  to_observed_at :: int
  to_policy_ref :: json
  to_source :: string

record erasure_row =
  eq_request_id :: string
  eq_tenant_id :: string
  eq_subject_kind :: string
  eq_subject_identifier :: string
  eq_requested_by :: string
  eq_requested_at :: int
  eq_target_completion_at :: int
  eq_status :: string
  eq_per_store_status :: json
  eq_mode :: string
  eq_completed_at :: "int option"

record config_row =
  tc_tenant_id :: string
  tc_inbound_sustained_rps :: int
  tc_inbound_burst_capacity :: int
  tc_query_sustained_rps :: int
  tc_query_burst_capacity :: int
  tc_updated_at :: int
  tc_updated_by_subject :: string

record vehicle_row =
  tv_vehicle_id :: string
  tv_tenant_id :: string
  tv_assigned_at :: int
  tv_assigned_by_subject :: string
  tv_reason_code :: string

record history_row =
  vh_vehicle_id :: string
  vh_prev_tenant_id :: "string option"
  vh_new_tenant_id :: string
  vh_operator_subject :: string
  vh_reason_code :: string
  vh_transition_at :: int
  vh_correlation_id :: string

record db =
  db_tenants :: "string list"
  db_findings :: "finding_row list"
  db_policies :: "policy_row list"
  db_deployments :: "deployment_row list"
  db_outcomes :: "outcome_row list"
  db_audit :: "audit_row list"
  db_telemetry :: "telemetry_row list"
  db_erasures :: "erasure_row list"
  db_config :: "config_row list"
  db_vehicles :: "vehicle_row list"
  db_history :: "history_row list"

definition policy_key :: "policy_row \<Rightarrow> string \<times> string \<times> string" where
  "policy_key r = (cp_tenant_id r, cp_policy_id r, cp_version r)"

definition audit_key :: "audit_row \<Rightarrow> string \<times> string" where
  "audit_key r = (ae_correlation_id r, ae_kind r)"

section \<open>Constraints\<close>

definition is_array :: "json \<Rightarrow> bool" where
  "is_array j = (case j of JArr _ \<Rightarrow> True | _ \<Rightarrow> False)"

definition finding_checks :: "finding_row \<Rightarrow> bool" where
  "finding_checks r \<longleftrightarrow>
     df_finding_id r \<noteq> [] \<and> is_semver (df_schema_version r) \<and> df_hypothesis_class r \<noteq> [] \<and>
     1 \<le> length (df_hypothesis_statement r) \<and> length (df_hypothesis_statement r) \<le> 4096 \<and>
     df_candidate_signals r \<noteq> [] \<and> df_vehicle_scope r \<noteq> [] \<and>
     0 \<le> df_upstream_confidence r \<and> df_upstream_confidence r \<le> 1 \<and> length (df_payload_sha r) = 32"

definition policy_checks :: "policy_row \<Rightarrow> bool" where
  "policy_checks r \<longleftrightarrow>
     cp_policy_id r \<noteq> [] \<and> is_semver (cp_version r) \<and> nonempty_array (cp_signal_spec r) \<and>
     is_array (cp_trigger_conditions r) \<and> 1 \<le> cp_window_hours r \<and> cp_window_hours r \<le> 168 \<and>
     nonempty_array (cp_vehicle_scope r) \<and> 0 \<le> cp_confidence r \<and> cp_confidence r \<le> 1 \<and>
     cp_session_id r \<noteq> [] \<and> is_semver (cp_prompt_template_version r) \<and>
     length (cp_slm_revision_sha r) = 40 \<and> cp_slm_runtime r \<in> set slm_runtimes \<and>
     cp_slm_quantization r \<in> set slm_quantizations \<and> fits_bigint (cp_slm_decoding_seed r)"

definition deployment_checks :: "deployment_row \<Rightarrow> bool" where
  "deployment_checks r \<longleftrightarrow>
     dt_deployment_id r \<noteq> [] \<and> is_semver (dt_version r) \<and>
     dt_environment r \<in> {''dev'', ''staging'', ''prod''} \<and> nonempty_array (dt_vehicle_scope r) \<and>
     dt_status r \<in> {''requested'', ''accepted'', ''rejected'', ''expired''}"

definition outcome_checks :: "outcome_row \<Rightarrow> bool" where
  "outcome_checks r \<longleftrightarrow>
     po_outcome_id r \<noteq> [] \<and> is_semver (po_version r) \<and>
     po_hypothesis_state r \<in> {''confirmed'', ''ruled_out'', ''no_data''} \<and>
     0 \<le> po_signals_collected_count r \<and> fits_integer (po_signals_collected_count r) \<and>
     0 \<le> po_data_quality_score r \<and> po_data_quality_score r \<le> 1"

definition audit_kinds :: "string list" where
  "audit_kinds = [''accepted'', ''rejected'', ''generated'', ''validated'', ''deployed'', ''outcome'',
     ''erasure'', ''break_glass'', ''tenant_config_change'', ''deployment_rejected'',
     ''vehicle_assignment_change'']"

definition full_fingerprint :: "audit_row \<Rightarrow> bool" where
  "full_fingerprint r \<longleftrightarrow>
     ae_slm_repo r \<noteq> None \<and> ae_slm_revision_sha r \<noteq> None \<and> ae_slm_runtime r \<noteq> None \<and>
     ae_slm_runtime_version r \<noteq> None \<and> ae_slm_quantization r \<noteq> None \<and>
     ae_slm_decoding_seed r \<noteq> None \<and> ae_prompt_template_version r \<noteq> None"

definition audit_checks :: "audit_row \<Rightarrow> bool" where
  "audit_checks r \<longleftrightarrow>
     ae_event_id r \<noteq> [] \<and> ae_kind r \<in> set audit_kinds \<and> ae_principal_subject r \<noteq> [] \<and>
     ae_correlation_id r \<noteq> [] \<and> (ae_kind r = ''generated'' \<longrightarrow> full_fingerprint r) \<and>
     pred_option fits_bigint (ae_slm_decoding_seed r) \<and>
     pred_option (\<lambda>q. \<bar>q\<bar> < 10 ^ 7) (ae_time_acceleration_factor r)"

definition telemetry_checks :: "telemetry_row \<Rightarrow> bool" where
  "telemetry_checks r \<longleftrightarrow>
     to_vehicle_id r \<noteq> [] \<and> to_signal_name r \<noteq> [] \<and> to_source r \<in> {''simulator'', ''real''}"

definition erasure_checks :: "erasure_row \<Rightarrow> bool" where
  "erasure_checks r \<longleftrightarrow>
     eq_request_id r \<noteq> [] \<and> eq_subject_kind r \<in> {''vehicle'', ''finding'', ''principal''} \<and>
     eq_subject_identifier r \<noteq> [] \<and> eq_requested_by r \<noteq> [] \<and>
     eq_status r \<in> {''requested'', ''in_progress'', ''completed'', ''partial''} \<and>
     eq_mode r \<in> {''erased'', ''redacted''}"

definition config_checks :: "config_row \<Rightarrow> bool" where
  "config_checks r \<longleftrightarrow>
     0 < tc_inbound_sustained_rps r \<and> tc_inbound_sustained_rps r \<le> tc_inbound_burst_capacity r \<and>
     0 < tc_query_sustained_rps r \<and> tc_query_sustained_rps r \<le> tc_query_burst_capacity r \<and>
     fits_integer (tc_inbound_burst_capacity r) \<and> fits_integer (tc_query_burst_capacity r) \<and>
     tc_updated_by_subject r \<noteq> []"

definition reason_codes :: "string list" where
  "reason_codes = [''initial_provisioning'', ''resale'', ''fleet_reassignment'', ''oem_handoff'',
     ''lease_return'', ''totaled'', ''other'']"

definition vehicle_checks :: "vehicle_row \<Rightarrow> bool" where
  "vehicle_checks r \<longleftrightarrow>
     tv_vehicle_id r \<noteq> [] \<and> tv_assigned_by_subject r \<noteq> [] \<and> tv_reason_code r \<in> set reason_codes"

definition history_checks :: "history_row \<Rightarrow> bool" where
  "history_checks r \<longleftrightarrow>
     vh_operator_subject r \<noteq> [] \<and> vh_reason_code r \<in> set reason_codes \<and> vh_correlation_id r \<noteq> []"

text \<open>The schema as an invariant: keys unique, checks hold, references resolve.\<close>

definition table_wf :: "('r \<Rightarrow> 'k) \<Rightarrow> ('r \<Rightarrow> bool) \<Rightarrow> 'r list \<Rightarrow> bool" where
  "table_wf key ok rows \<longleftrightarrow> distinct (map key rows) \<and> list_all ok rows"

definition db_wf :: "db \<Rightarrow> bool" where
  "db_wf d \<longleftrightarrow>
     [] \<notin> set (db_tenants d) \<and>
     table_wf (\<lambda>r. (df_tenant_id r, df_finding_id r))
       (\<lambda>r. finding_checks r \<and> df_tenant_id r \<in> set (db_tenants d)) (db_findings d) \<and>
     table_wf policy_key (\<lambda>r. policy_checks r \<and> cp_tenant_id r \<in> set (db_tenants d)) (db_policies d) \<and>
     table_wf dt_deployment_id
       (\<lambda>r. deployment_checks r \<and> dt_tenant_id r \<in> set (db_tenants d) \<and>
          (dt_tenant_id r, dt_policy_id r, dt_version r) \<in> policy_key ` set (db_policies d))
       (db_deployments d) \<and>
     table_wf po_outcome_id
       (\<lambda>r. outcome_checks r \<and> po_tenant_id r \<in> set (db_tenants d) \<and>
          (po_tenant_id r, po_policy_id r, po_version r) \<in> policy_key ` set (db_policies d))
       (db_outcomes d) \<and>
     table_wf ae_event_id (\<lambda>r. audit_checks r \<and> ae_tenant_id r \<in> set (db_tenants d)) (db_audit d) \<and>
     distinct (map audit_key (db_audit d)) \<and>
     list_all (\<lambda>r. telemetry_checks r \<and> to_tenant_id r \<in> set (db_tenants d)) (db_telemetry d) \<and>
     table_wf eq_request_id (\<lambda>r. erasure_checks r \<and> eq_tenant_id r \<in> set (db_tenants d)) (db_erasures d) \<and>
     table_wf tc_tenant_id (\<lambda>r. config_checks r \<and> tc_tenant_id r \<in> set (db_tenants d)) (db_config d) \<and>
     table_wf tv_vehicle_id (\<lambda>r. vehicle_checks r \<and> tv_tenant_id r \<in> set (db_tenants d)) (db_vehicles d) \<and>
     list_all history_checks (db_history d)"

lemma table_wf_snoc:
  "table_wf key ok (rows @ [r]) \<longleftrightarrow> table_wf key ok rows \<and> ok r \<and> key r \<notin> key ` set rows"
  by (auto simp: table_wf_def)

lemma table_wf_mono:
  "table_wf key ok rows \<Longrightarrow> (\<And>r. r \<in> set rows \<Longrightarrow> ok r \<Longrightarrow> ok' r) \<Longrightarrow> table_wf key ok' rows"
  by (auto simp: table_wf_def list_all_iff)

lemma table_wf_map:
  assumes "table_wf key ok rows" and "\<And>r. r \<in> set rows \<Longrightarrow> key (f r) = key r"
    and "\<And>r. r \<in> set rows \<Longrightarrow> ok r \<Longrightarrow> ok (f r)"
  shows "table_wf key ok (map f rows)"
  using assms by (auto simp: table_wf_def list_all_iff cong: map_cong)

section \<open>Statements\<close>

text \<open>
  \<open>INSERT\<close>: the row-level security check, then the column checks, then the key, then the foreign
  keys (which are looked up as the table owner, past row-level security).
\<close>

definition insert_row ::
  "conn \<Rightarrow> ('r \<Rightarrow> string) \<Rightarrow> ('r \<Rightarrow> bool) \<Rightarrow> ('r \<Rightarrow> 'k) \<Rightarrow> ('r \<Rightarrow> bool) \<Rightarrow> 'r \<Rightarrow> 'r list \<Rightarrow> exc + 'r list" where
  "insert_row c ten chk key fk r rows =
     (if \<not> visible c (ten r) then Inl (PgError RlsViolation)
      else if \<not> chk r then Inl (PgError CheckViolation)
      else if key r \<in> key ` set rows then Inl (PgError UniqueViolation)
      else if \<not> fk r then Inl (PgError ForeignKeyViolation)
      else Inr (rows @ [r]))"

lemma insert_row_Inr:
  "insert_row c ten chk key fk r rows = Inr rows' \<longleftrightarrow>
     visible c (ten r) \<and> chk r \<and> key r \<notin> key ` set rows \<and> fk r \<and> rows' = rows @ [r]"
  by (auto simp: insert_row_def)

text \<open>\<open>SELECT ... WHERE\<close> under row-level security, and \<open>ORDER BY\<close> as a stable sort.\<close>

definition select :: "conn \<Rightarrow> ('r \<Rightarrow> string) \<Rightarrow> ('r \<Rightarrow> bool) \<Rightarrow> 'r list \<Rightarrow> 'r list" where
  "select c ten P rows = filter (\<lambda>r. visible c (ten r) \<and> P r) rows"

definition order_desc :: "('r \<Rightarrow> int) \<Rightarrow> 'r list \<Rightarrow> 'r list" where
  "order_desc k rows = sort_key (\<lambda>r. - k r) rows"

definition first_row :: "'r list \<Rightarrow> 'r option" where
  "first_row rows = (case rows of [] \<Rightarrow> None | r # _ \<Rightarrow> Some r)"

lemma first_row_desc:
  assumes "first_row (order_desc k rows) = Some r"
  shows "r \<in> set rows" and "\<And>r'. r' \<in> set rows \<Longrightarrow> k r' \<le> k r"
proof -
  from assms obtain rs where rs: "sort_key (\<lambda>r. - k r) rows = r # rs"
    by (auto simp: first_row_def order_desc_def split: list.splits)
  then have st: "set (r # rs) = set rows" by (metis set_sort)
  then show "r \<in> set rows" by auto
  have "sorted (map (\<lambda>r. - k r) (r # rs))" by (metis rs sorted_sort_key)
  then show "\<And>r'. r' \<in> set rows \<Longrightarrow> k r' \<le> k r" using st by auto
qed

lemma first_row_None: "first_row (order_desc k rows) = None \<longleftrightarrow> rows = []"
  by (auto simp: first_row_def order_desc_def split: list.splits)
    (metis length_0_conv length_sort)

section \<open>The application's world\<close>

text \<open>
  \<open>w_clock\<close> and \<open>w_ids\<close> are what the clock and the identifier generator will answer, \<open>w_ticks\<close>
  and \<open>w_nids\<close> how often they have been asked; \<open>w_random\<close> and \<open>w_draws\<close> are the random
  stream of the telemetry generator. \<open>w_session\<close> is the pooled connection as it is
  handed out, \<open>w_pool\<close> whether \<open>connect\<close> has been called.
\<close>

record world =
  w_db :: db
  w_pool :: bool
  w_session :: conn
  w_clock :: "nat \<Rightarrow> int"
  w_ticks :: nat
  w_ids :: "nat \<Rightarrow> string"
  w_nids :: nat
  w_random :: "nat \<Rightarrow> rat"
  w_draws :: nat
  w_metrics :: "(string \<times> string list) list"

definition now :: "(exc, 'z world_scheme, int) act" where
  "now w = (Inr (w_clock w (w_ticks w)), w\<lparr>w_ticks := Suc (w_ticks w)\<rparr>)"

definition ulid_new :: "(exc, 'z world_scheme, string) act" where
  "ulid_new w = (Inr (w_ids w (w_nids w)), w\<lparr>w_nids := Suc (w_nids w)\<rparr>)"

definition metric_inc :: "string \<Rightarrow> string list \<Rightarrow> (exc, 'z world_scheme, unit) act" where
  "metric_inc name labels = act_modify (\<lambda>w. w\<lparr>w_metrics := w_metrics w @ [(name, labels)]\<rparr>)"

text \<open>One statement on the open connection.\<close>

definition sql :: "(db \<Rightarrow> exc + ('a \<times> db)) \<Rightarrow> (exc, 'z world_scheme, 'a) act" where
  "sql st w = (case st (w_db w) of Inl e \<Rightarrow> (Inl e, w) | Inr (x, d) \<Rightarrow> (Inr x, w\<lparr>w_db := d\<rparr>))"

definition query :: "(db \<Rightarrow> 'a) \<Rightarrow> (exc, 'z world_scheme, 'a) act" where
  "query q = act_gets (\<lambda>w. q (w_db w))"

text \<open>\<open>conn.transaction()\<close>: an exception undoes the statements.\<close>

definition transaction :: "(exc, 'z world_scheme, 'a) act \<Rightarrow> (exc, 'z world_scheme, 'a) act" where
  "transaction body w =
     (case body w of
        (Inl e, w') \<Rightarrow> (Inl e, w'\<lparr>w_db := w_db w\<rparr>)
      | (Inr x, w') \<Rightarrow> (Inr x, w'))"

definition acquire :: "string \<Rightarrow> (conn \<Rightarrow> (exc, 'z world_scheme, 'a) act) \<Rightarrow> (exc, 'z world_scheme, 'a) act" where
  "acquire t body w =
     (if \<not> w_pool w then (Inl (RuntimeError ''database pool is not initialized''), w)
      else transaction (body (tenant_conn t (w_session w))) w)"

definition acquire_service_principal ::
  "(conn \<Rightarrow> (exc, 'z world_scheme, 'a) act) \<Rightarrow> (exc, 'z world_scheme, 'a) act" where
  "acquire_service_principal body w =
     (if \<not> w_pool w then (Inl (RuntimeError ''database pool is not initialized''), w)
      else body (w_session w) w)"

definition ping :: "(exc, 'z world_scheme, bool) act" where
  "ping = act_gets w_pool"

definition connect :: "(exc, 'z world_scheme, unit) act" where
  "connect = act_modify (\<lambda>w. w\<lparr>w_pool := True\<rparr>)"

definition close :: "(exc, 'z world_scheme, unit) act" where
  "close = act_modify (\<lambda>w. w\<lparr>w_pool := False\<rparr>)"

section \<open>What a tenant's code may do to the database\<close>

text \<open>The rows of one tenant.\<close>

definition tenant_view :: "string \<Rightarrow> db \<Rightarrow> db" where
  "tenant_view t d =
     \<lparr>db_tenants = filter (\<lambda>x. x = t) (db_tenants d),
      db_findings = filter (\<lambda>r. df_tenant_id r = t) (db_findings d),
      db_policies = filter (\<lambda>r. cp_tenant_id r = t) (db_policies d),
      db_deployments = filter (\<lambda>r. dt_tenant_id r = t) (db_deployments d),
      db_outcomes = filter (\<lambda>r. po_tenant_id r = t) (db_outcomes d),
      db_audit = filter (\<lambda>r. ae_tenant_id r = t) (db_audit d),
      db_telemetry = filter (\<lambda>r. to_tenant_id r = t) (db_telemetry d),
      db_erasures = filter (\<lambda>r. eq_tenant_id r = t) (db_erasures d),
      db_config = filter (\<lambda>r. tc_tenant_id r = t) (db_config d),
      db_vehicles = filter (\<lambda>r. tv_tenant_id r = t) (db_vehicles d),
      db_history = filter (\<lambda>r. vh_prev_tenant_id r = Some t \<or> vh_new_tenant_id r = t) (db_history d)\<rparr>"

text \<open>
  \<open>tenant_frame t\<close>: the schema invariant is kept and no row of another tenant is touched.
  \<open>tenant_step t\<close>: moreover findings, policies, outcomes and audit rows are only ever added.
\<close>

definition tenant_frame :: "string \<Rightarrow> db \<Rightarrow> db \<Rightarrow> bool" where
  "tenant_frame t d d' \<longleftrightarrow>
     (db_wf d \<longrightarrow> db_wf d') \<and> (\<forall>t'. t' \<noteq> t \<longrightarrow> tenant_view t' d' = tenant_view t' d)"

definition rows_kept :: "db \<Rightarrow> db \<Rightarrow> bool" where
  "rows_kept d d' \<longleftrightarrow>
     (\<exists>n. db_findings d' = db_findings d @ n) \<and> (\<exists>n. db_policies d' = db_policies d @ n) \<and>
     (\<exists>n. db_outcomes d' = db_outcomes d @ n) \<and> (\<exists>n. db_audit d' = db_audit d @ n)"

definition tenant_step :: "string \<Rightarrow> db \<Rightarrow> db \<Rightarrow> bool" where
  "tenant_step t d d' \<longleftrightarrow> tenant_frame t d d' \<and> rows_kept d d'"

text \<open>
  What no operation of a running application changes (the pool, its session, the clock and the
  identifier supply), and that the supplies are only drawn from.
\<close>

definition env_kept :: "'z world_scheme \<Rightarrow> 'z world_scheme \<Rightarrow> bool" where
  "env_kept w w' \<longleftrightarrow>
     w_pool w' = w_pool w \<and> w_session w' = w_session w \<and> w_clock w' = w_clock w \<and> w_ids w' = w_ids w \<and>
     w_ticks w \<le> w_ticks w' \<and> w_nids w \<le> w_nids w'"

definition on_db :: "(db \<Rightarrow> db \<Rightarrow> bool) \<Rightarrow> 'z world_scheme \<Rightarrow> 'z world_scheme \<Rightarrow> bool" where
  "on_db R w w' \<longleftrightarrow> R (w_db w) (w_db w') \<and> env_kept w w'"

named_theorems keeps \<open>actions that respect a relation on the database\<close>

lemma tenant_frame_order: "reflp (tenant_frame t)" "transp (tenant_frame t)"
  by (auto simp: tenant_frame_def intro!: reflpI transpI)

lemma rows_kept_order: "reflp rows_kept" "transp rows_kept"
  by (auto simp: rows_kept_def intro!: reflpI transpI)

lemma tenant_step_order: "reflp (tenant_step t)" "transp (tenant_step t)"
  using tenant_frame_order [of t] rows_kept_order unfolding tenant_step_def
  by (auto intro!: reflpI transpI dest: reflpD transpD)

lemmas tenant_orders = tenant_frame_order tenant_step_order

lemma env_kept_order: "env_kept w w" "env_kept w w' \<Longrightarrow> env_kept w' w'' \<Longrightarrow> env_kept w w''"
  by (auto simp: env_kept_def)

lemma on_db_order: "reflp R \<Longrightarrow> reflp (on_db R)" "transp R \<Longrightarrow> transp (on_db R)"
  by (auto simp: on_db_def intro!: reflpI transpI intro: env_kept_order dest: reflpD transpD)

text \<open>The rules by which a component's operations inherit such a relation from their statements.\<close>

lemma keeps_pure [keeps]:
  assumes "reflp R"
  shows "act_preserves (on_db R) (act_return x)" "act_preserves (on_db R) (act_raise e)"
    "act_preserves (on_db R) (act_gets g)" "act_preserves (on_db R) (act_lift r)"
    "act_preserves (on_db R) now" "act_preserves (on_db R) ulid_new"
    "act_preserves (on_db R) (metric_inc nm ls)" "act_preserves (on_db R) (query q)"
  using assms
  by (auto simp: act_preserves_def on_db_def env_kept_def act_simps now_def ulid_new_def metric_inc_def
      query_def dest: reflpD)

lemma keeps_bind:
  assumes "transp R" and "act_preserves (on_db R) m" and "\<And>x. act_preserves (on_db R) (f x)"
  shows "act_preserves (on_db R) (act_bind m f)"
  using assms by (intro act_preserves_bind on_db_order)

lemma keeps_catch:
  assumes "transp R" and "act_preserves (on_db R) m" and "\<And>e. act_preserves (on_db R) (h e)"
  shows "act_preserves (on_db R) (act_catch m h)"
  using assms by (intro act_preserves_catch on_db_order)

lemma keeps_sql:
  assumes "reflp R" and "\<And>d x d'. st d = Inr (x, d') \<Longrightarrow> R d d'"
  shows "act_preserves (on_db R) (sql st)"
  using assms
  by (auto simp: act_preserves_def on_db_def env_kept_def sql_def split: sum.splits prod.splits dest: reflpD)

lemma keeps_transaction:
  assumes "reflp R" and "act_preserves (on_db R) m"
  shows "act_preserves (on_db R) (transaction m)"
proof (rule act_preservesI)
  fix w
  obtain r w' where m: "m w = (r, w')" by (cases "m w")
  then have "on_db R w w'" using assms(2) act_preservesD by fastforce
  then show "on_db R w (snd (transaction m w))"
    using assms(1) m by (auto simp: transaction_def on_db_def env_kept_def split: sum.splits dest: reflpD)
qed

lemma keeps_acquire:
  assumes "reflp R" and "\<And>c. act_preserves (on_db R) (body (tenant_conn t c))"
  shows "act_preserves (on_db R) (acquire t body)"
  using keeps_transaction [OF assms(1) assms(2)] assms(1)
  by (auto simp: act_preserves_def acquire_def on_db_def env_kept_order dest: reflpD)

lemma keeps_case_option:
  assumes "act_preserves R n" and "\<And>x. act_preserves R (s x)"
  shows "act_preserves R (case_option n s o')"
  using assms by (cases o') auto

lemma keeps_case_sum:
  assumes "\<And>x. act_preserves R (l x)" and "\<And>x. act_preserves R (r x)"
  shows "act_preserves R (case_sum l r o')"
  using assms by (cases o') auto

lemma keeps_case_prod:
  assumes "\<And>x y. act_preserves R (f x y)"
  shows "act_preserves R (case_prod f p)"
  using assms by (cases p) auto

lemma keeps_if:
  assumes "act_preserves R m" and "act_preserves R n"
  shows "act_preserves R (if b then m else n)"
  using assms by simp

lemmas keeps_rules = keeps_bind keeps_catch keeps_acquire keeps_case_option keeps_case_sum
  keeps_case_prod keeps_if

text \<open>Adding one row that passed its checks is a step of the row's tenant.\<close>

lemma tenant_step_finding:
  assumes "df_tenant_id r = t" and "finding_checks r" and "t \<in> set (db_tenants d)"
    and "(t, df_finding_id r) \<notin> (\<lambda>r. (df_tenant_id r, df_finding_id r)) ` set (db_findings d)"
  shows "tenant_step t d (d\<lparr>db_findings := db_findings d @ [r]\<rparr>)"
  using assms
  by (auto simp: tenant_step_def tenant_frame_def rows_kept_def db_wf_def table_wf_snoc tenant_view_def)

lemma tenant_step_policy:
  assumes "cp_tenant_id r = t" and "policy_checks r" and "t \<in> set (db_tenants d)"
    and "policy_key r \<notin> policy_key ` set (db_policies d)"
  shows "tenant_step t d (d\<lparr>db_policies := db_policies d @ [r]\<rparr>)"
  using assms
  by (auto simp: tenant_step_def tenant_frame_def rows_kept_def db_wf_def table_wf_snoc tenant_view_def
      elim!: table_wf_mono)

lemma tenant_step_deployment:
  assumes "dt_tenant_id r = t" and "deployment_checks r" and "t \<in> set (db_tenants d)"
    and "dt_deployment_id r \<notin> dt_deployment_id ` set (db_deployments d)"
    and "(t, dt_policy_id r, dt_version r) \<in> policy_key ` set (db_policies d)"
  shows "tenant_step t d (d\<lparr>db_deployments := db_deployments d @ [r]\<rparr>)"
  using assms
  by (auto simp: tenant_step_def tenant_frame_def rows_kept_def db_wf_def table_wf_snoc tenant_view_def)

lemma tenant_step_outcome:
  assumes "po_tenant_id r = t" and "outcome_checks r" and "t \<in> set (db_tenants d)"
    and "po_outcome_id r \<notin> po_outcome_id ` set (db_outcomes d)"
    and "(t, po_policy_id r, po_version r) \<in> policy_key ` set (db_policies d)"
  shows "tenant_step t d (d\<lparr>db_outcomes := db_outcomes d @ [r]\<rparr>)"
  using assms
  by (auto simp: tenant_step_def tenant_frame_def rows_kept_def db_wf_def table_wf_snoc tenant_view_def)

lemma tenant_step_audit:
  assumes "ae_tenant_id r = t" and "audit_checks r" and "t \<in> set (db_tenants d)"
    and "ae_event_id r \<notin> ae_event_id ` set (db_audit d)"
    and "audit_key r \<notin> audit_key ` set (db_audit d)"
  shows "tenant_step t d (d\<lparr>db_audit := db_audit d @ [r]\<rparr>)"
  using assms
  by (auto simp: tenant_step_def tenant_frame_def rows_kept_def db_wf_def table_wf_snoc tenant_view_def)

lemma tenant_step_telemetry:
  assumes "to_tenant_id r = t" and "telemetry_checks r" and "t \<in> set (db_tenants d)"
  shows "tenant_step t d (d\<lparr>db_telemetry := db_telemetry d @ [r]\<rparr>)"
  using assms
  by (auto simp: tenant_step_def tenant_frame_def rows_kept_def db_wf_def tenant_view_def)

lemma tenant_step_erasure:
  assumes "eq_tenant_id r = t" and "erasure_checks r" and "t \<in> set (db_tenants d)"
    and "eq_request_id r \<notin> eq_request_id ` set (db_erasures d)"
  shows "tenant_step t d (d\<lparr>db_erasures := db_erasures d @ [r]\<rparr>)"
  using assms
  by (auto simp: tenant_step_def tenant_frame_def rows_kept_def db_wf_def table_wf_snoc tenant_view_def)

lemmas tenant_steps = tenant_step_finding tenant_step_policy tenant_step_deployment
  tenant_step_outcome tenant_step_audit tenant_step_telemetry tenant_step_erasure

section \<open>The pooled session\<close>

text \<open>
  The session state a transaction leaves behind, for the finding below: the role is the
  superuser's again, so row-level security does not apply to it.
\<close>

definition after_acquire :: "string \<Rightarrow> conn \<Rightarrow> conn" where
  "after_acquire t c = end_transaction c (tenant_conn t c)"

text \<open>
  Inside \<open>acquire\<close> a tenant's connection sees exactly the rows of that tenant, whatever
  session the pool handed out, and none at all for an empty tenant id.
\<close>

theorem acquire_scopes_rows:
  "select (tenant_conn t c) ten P rows = (if t = [] then [] else filter (\<lambda>r. ten r = t \<and> P r) rows)"
  by (simp add: select_def)

text \<open>
  Once the transaction has ended, the pooled session is the superuser again with an empty
  \<open>app.tenant_id\<close>: the restrictive policies do not filter a query made on it.
\<close>

theorem released_session_unfiltered:
  "c_app_tenant (after_acquire t new_session) = Some [] \<and>
   select (after_acquire t new_session) ten P rows = filter P rows"
  by (simp add: after_acquire_def end_transaction_def new_session_def revert_def tenant_conn_def
      set_app_tenant_def set_local_role_def select_def visible_def)

section \<open>A freshly migrated database\<close>

text \<open>
  After the migrations the tables are empty but for the tenants; the identifier supply below is
  one concrete instance, used by the runs of the other theories.
\<close>

definition empty_db :: "string list \<Rightarrow> db" where
  "empty_db tenants =
     \<lparr>db_tenants = tenants, db_findings = [], db_policies = [], db_deployments = [], db_outcomes = [],
      db_audit = [], db_telemetry = [], db_erasures = [], db_config = [], db_vehicles = [], db_history = []\<rparr>"

definition sample_world :: world where
  "sample_world =
     \<lparr>w_db = empty_db [''t1'', ''t2''], w_pool = True, w_session = new_session,
      w_clock = int, w_ticks = 0, w_ids = (\<lambda>n. replicate (Suc n) (CHR ''i'')), w_nids = 0,
      w_random = (\<lambda>_. 0), w_draws = 0, w_metrics = []\<rparr>"

lemma empty_db_wf: "[] \<notin> set ts \<Longrightarrow> db_wf (empty_db ts)"
  by (simp add: db_wf_def empty_db_def table_wf_def)

lemma sample_world_wf: "db_wf (w_db sample_world)"
  by (simp add: sample_world_def empty_db_wf)

lemma sample_world_simps [simp]:
  "w_db sample_world = empty_db [''t1'', ''t2'']" "w_pool sample_world"
  "w_session sample_world = new_session" "w_clock sample_world = int" "w_ticks sample_world = 0"
  "w_ids sample_world n = replicate (Suc n) (CHR ''i'')" "w_nids sample_world = 0"
  "w_random sample_world n = 0" "w_draws sample_world = 0" "w_metrics sample_world = []"
  by (simp_all add: sample_world_def)

lemma empty_db_simps [simp]:
  "db_tenants (empty_db ts) = ts" "db_findings (empty_db ts) = []" "db_policies (empty_db ts) = []"
  "db_deployments (empty_db ts) = []" "db_outcomes (empty_db ts) = []" "db_audit (empty_db ts) = []"
  "db_telemetry (empty_db ts) = []" "db_erasures (empty_db ts) = []" "db_config (empty_db ts) = []"
  "db_vehicles (empty_db ts) = []" "db_history (empty_db ts) = []"
  by (simp_all add: empty_db_def)

end
