(* ===== verification/CM_Audit.thy ===== *)
theory CM_Audit
  imports CM_Database
begin

text \<open>
  The audit trail, \<open>registry/audit.py\<close>: the per-kind minimum field sets, \<open>AuditEventWriter.write\<close>
  with its \<open>ON CONFLICT (correlation_id, kind) DO NOTHING\<close> insert, and the reads.
\<close>

section \<open>Arguments and minimum field sets\<close>

record audit_args =
  aa_tenant_id :: string
  aa_kind :: string
  aa_correlation_id :: string
  aa_principal_subject :: string
  aa_originating_finding :: "dict option"
  aa_policy_ref :: "dict option"
  aa_deployment_ref :: "dict option"
  aa_outcome_ref :: "dict option"
  aa_error :: "dict option"
  aa_slm_repo :: "string option"
  aa_slm_revision_sha :: "string option"
  aa_slm_runtime :: "string option"
  aa_slm_runtime_version :: "string option"
  aa_slm_quantization :: "string option"
  aa_slm_decoding_seed :: "int option"
  aa_prompt_template_version :: "string option"
  aa_inbound_schema_version :: "string option"
  aa_time_acceleration_factor :: "rat option"

definition audit_call :: "string \<Rightarrow> string \<Rightarrow> string \<Rightarrow> string \<Rightarrow> audit_args" where
  "audit_call tenant_id kind correlation_id principal_subject =
     \<lparr>aa_tenant_id = tenant_id, aa_kind = kind, aa_correlation_id = correlation_id,
      aa_principal_subject = principal_subject, aa_originating_finding = None, aa_policy_ref = None,
      aa_deployment_ref = None, aa_outcome_ref = None, aa_error = None, aa_slm_repo = None,
      aa_slm_revision_sha = None, aa_slm_runtime = None, aa_slm_runtime_version = None,
      aa_slm_quantization = None, aa_slm_decoding_seed = None, aa_prompt_template_version = None,
      aa_inbound_schema_version = None, aa_time_acceleration_factor = None\<rparr>"

definition KIND_MIN_FIELDS :: "(string \<times> string list) list" where
  "KIND_MIN_FIELDS =
     [(''break_glass'', [''operator_principal_subject'', ''tenant_scope'', ''reason_code'']),
      (''tenant_config_change'', [''service_principal_subject'', ''target_tenant_id'']),
      (''deployment_rejected'', [''policy_ref'', ''target_vehicle_id'', ''policy_declared_tenant_id'',
         ''vehicle_owning_tenant_id'']),
      (''vehicle_assignment_change'', [''service_principal_subject'', ''vehicle_id'', ''new_tenant_id'',
         ''reason_code''])]"

definition generated_missing :: "audit_args \<Rightarrow> string list" where
  "generated_missing a =
     (if aa_slm_repo a = None then [''slm_repo''] else []) @
     (if aa_slm_revision_sha a = None then [''slm_revision_sha''] else []) @
     (if aa_slm_runtime a = None then [''slm_runtime''] else []) @
     (if aa_slm_runtime_version a = None then [''slm_runtime_version''] else []) @
     (if aa_slm_quantization a = None then [''slm_quantization''] else []) @
     (if aa_slm_decoding_seed a = None then [''slm_decoding_seed''] else []) @
     (if aa_prompt_template_version a = None then [''prompt_template_version''] else [])"

definition missing_fields :: "audit_args \<Rightarrow> string list" where
  "missing_fields a =
     (if aa_kind a = ''generated'' then generated_missing a
      else (case map_of KIND_MIN_FIELDS (aa_kind a) of
              None \<Rightarrow> []
            | Some required \<Rightarrow>
                filter (\<lambda>f. \<not> dict_has (case aa_originating_finding a of None \<Rightarrow> [] | Some d \<Rightarrow> d) f) required))"

definition repr_list :: "string list \<Rightarrow> string" where
  "repr_list xs = ''['' @ join '', '' (map (\<lambda>x. [CHR 0x27] @ x @ [CHR 0x27]) xs) @ '']''"

section \<open>write\<close>

text \<open>The document stored in \<open>originating_finding\<close>: the caller's, with the error under \<open>_extras\<close>.\<close>

definition originating_with_extras :: "audit_args \<Rightarrow> dict" where
  "originating_with_extras a =
     (let d = (case aa_originating_finding a of None \<Rightarrow> [] | Some d \<Rightarrow> d) in
      case aa_error a of
        None \<Rightarrow> d
      | Some e \<Rightarrow> if dict_has d ''_extras'' then d
                  else dict_put d ''_extras'' (JObj [(''error'', JObj e)]))"

text \<open>\<open>json.dumps(x) if x else None\<close>.\<close>

definition dump_or_null :: "dict option \<Rightarrow> json" where
  "dump_or_null x = (case x of None \<Rightarrow> JNull | Some d \<Rightarrow> if d = [] then JNull else JObj d)"

definition audit_event_row :: "audit_args \<Rightarrow> string \<Rightarrow> int \<Rightarrow> audit_row" where
  "audit_event_row a event_id occurred_at =
     \<lparr>ae_event_id = event_id, ae_tenant_id = aa_tenant_id a, ae_kind = aa_kind a,
      ae_originating_finding = dump_or_null (Some (originating_with_extras a)),
      ae_policy_ref = dump_or_null (aa_policy_ref a),
      ae_deployment_ref = dump_or_null (aa_deployment_ref a),
      ae_outcome_ref = dump_or_null (aa_outcome_ref a),
      ae_slm_repo = aa_slm_repo a, ae_slm_revision_sha = aa_slm_revision_sha a,
      ae_slm_runtime = aa_slm_runtime a, ae_slm_runtime_version = aa_slm_runtime_version a,
      ae_slm_quantization = aa_slm_quantization a, ae_slm_decoding_seed = aa_slm_decoding_seed a,
      ae_prompt_template_version = aa_prompt_template_version a,
      ae_inbound_schema_version = aa_inbound_schema_version a,
      ae_time_acceleration_factor = map_option round3 (aa_time_acceleration_factor a),
      ae_principal_subject = aa_principal_subject a, ae_correlation_id = aa_correlation_id a,
      ae_occurred_at = occurred_at\<rparr>"

text \<open>\<open>INSERT ... ON CONFLICT (correlation_id, kind) DO NOTHING RETURNING event_id\<close>.\<close>

definition insert_audit :: "conn \<Rightarrow> audit_row \<Rightarrow> db \<Rightarrow> exc + (string option \<times> db)" where
  "insert_audit c r d =
     (if \<not> visible c (ae_tenant_id r) then Inl (PgError RlsViolation)
      else if \<not> audit_checks r then Inl (PgError CheckViolation)
      else if audit_key r \<in> audit_key ` set (db_audit d) then Inr (None, d)
      else if ae_event_id r \<in> ae_event_id ` set (db_audit d) then Inl (PgError UniqueViolation)
      else if ae_tenant_id r \<notin> set (db_tenants d) then Inl (PgError ForeignKeyViolation)
      else Inr (Some (ae_event_id r), d\<lparr>db_audit := db_audit d @ [r]\<rparr>))"

definition existing_event :: "conn \<Rightarrow> string \<Rightarrow> string \<Rightarrow> db \<Rightarrow> string option" where
  "existing_event c correlation_id kind d =
     map_option ae_event_id
       (first_row (select c ae_tenant_id (\<lambda>r. ae_correlation_id r = correlation_id \<and> ae_kind r = kind)
          (db_audit d)))"

definition audit_write :: "audit_args \<Rightarrow> (exc, 'z world_scheme, string) act" where
  "audit_write a =
     (if missing_fields a \<noteq> []
      then act_raise (ValueError (''audit kind='' @ aa_kind a @ '' missing required fields: ''
             @ repr_list (missing_fields a)))
      else
        act_bind ulid_new (\<lambda>event_id.
        acquire (aa_tenant_id a) (\<lambda>c.
          act_bind now (\<lambda>t.
          act_bind (sql (insert_audit c (audit_event_row a event_id t))) (\<lambda>row.
          case row of
            Some eid \<Rightarrow> act_return eid
          | None \<Rightarrow>
              act_bind (query (existing_event c (aa_correlation_id a) (aa_kind a))) (\<lambda>existing.
              case existing of
                None \<Rightarrow> act_raise (RuntimeError
                  (''audit upsert returned no row and no existing row for (correlation_id=''
                   @ aa_correlation_id a @ '', kind='' @ aa_kind a @ '')''))
              | Some eid \<Rightarrow> act_return eid))))))"

section \<open>Reads\<close>

definition opt_str :: "string option \<Rightarrow> json" where
  "opt_str x = (case x of None \<Rightarrow> JNull | Some s \<Rightarrow> JStr s)"

definition row_error :: "audit_row \<Rightarrow> json" where
  "row_error r =
     (case ae_originating_finding r of
        JObj d \<Rightarrow> (case dict_get d ''_extras'' of
                     Some (JObj extras) \<Rightarrow> dict_get_or extras ''error'' JNull
                   | _ \<Rightarrow> JNull)
      | _ \<Rightarrow> JNull)"

definition row_to_event :: "audit_row \<Rightarrow> json" where
  "row_to_event r = JObj
     [(''event_id'', JStr (ae_event_id r)), (''tenant_id'', JStr (ae_tenant_id r)),
      (''kind'', JStr (ae_kind r)), (''correlation_id'', JStr (ae_correlation_id r)),
      (''principal_subject'', JStr (ae_principal_subject r)), (''occurred_at'', JTime (ae_occurred_at r)),
      (''originating_finding'', ae_originating_finding r), (''policy_ref'', ae_policy_ref r),
      (''deployment_ref'', ae_deployment_ref r), (''outcome_ref'', ae_outcome_ref r),
      (''error'', row_error r), (''slm_repo'', opt_str (ae_slm_repo r)),
      (''slm_revision_sha'', opt_str (ae_slm_revision_sha r)), (''slm_runtime'', opt_str (ae_slm_runtime r)),
      (''slm_runtime_version'', opt_str (ae_slm_runtime_version r)),
      (''slm_quantization'', opt_str (ae_slm_quantization r)),
      (''slm_decoding_seed'', case ae_slm_decoding_seed r of None \<Rightarrow> JNull | Some n \<Rightarrow> JInt n),
      (''prompt_template_version'', opt_str (ae_prompt_template_version r)),
      (''inbound_schema_version'', opt_str (ae_inbound_schema_version r)),
      (''time_acceleration_factor'',
         case ae_time_acceleration_factor r of None \<Rightarrow> JNull | Some q \<Rightarrow> JFloat q)]"

definition correlation_rows :: "conn \<Rightarrow> string \<Rightarrow> string \<Rightarrow> db \<Rightarrow> audit_row list" where
  "correlation_rows c tenant_id correlation_id d =
     sort_key ae_occurred_at
       (select c ae_tenant_id (\<lambda>r. ae_tenant_id r = tenant_id \<and> ae_correlation_id r = correlation_id)
          (db_audit d))"

definition list_for_correlation :: "string \<Rightarrow> string \<Rightarrow> (exc, 'z world_scheme, json list) act" where
  "list_for_correlation tenant_id correlation_id =
     act_bind (acquire tenant_id (\<lambda>c. query (correlation_rows c tenant_id correlation_id)))
       (\<lambda>rows. act_return (map row_to_event rows))"

section \<open>Correctness\<close>

lemma insert_audit_step:
  assumes "insert_audit (tenant_conn t c) r d = Inr (x, d')"
  shows "tenant_step t d d'"
  using assms tenant_step_order(1) [of t]
  by (auto simp: insert_audit_def split: if_splits intro: tenant_step_audit dest: reflpD)

lemma audit_write_step [keeps]: "act_preserves (on_db (tenant_step (aa_tenant_id a))) (audit_write a)"
  unfolding audit_write_def
  by (auto intro!: keeps_rules keeps_sql keeps tenant_orders intro: insert_audit_step)

text \<open>The two outcomes of a write that returns: a new row, or the tenant's earlier row.\<close>

definition writes_new :: "audit_args \<Rightarrow> 'z world_scheme \<Rightarrow> bool" where
  "writes_new a w \<longleftrightarrow> (aa_correlation_id a, aa_kind a) \<notin> audit_key ` set (db_audit (w_db w))"

lemma audit_event_row_simps [simp]:
  "ae_event_id (audit_event_row a e t) = e" "ae_tenant_id (audit_event_row a e t) = aa_tenant_id a"
  "ae_kind (audit_event_row a e t) = aa_kind a"
  "ae_correlation_id (audit_event_row a e t) = aa_correlation_id a"
  "audit_key (audit_event_row a e t) = (aa_correlation_id a, aa_kind a)"
  by (simp_all add: audit_event_row_def audit_key_def)

lemma existing_event_Some:
  assumes "existing_event c cid k d = Some e"
  obtains r where "r \<in> set (db_audit d)" and "audit_key r = (cid, k)" and "ae_event_id r = e"
    and "visible c (ae_tenant_id r)"
proof -
  from assms obtain r rs where "select c ae_tenant_id (\<lambda>r. ae_correlation_id r = cid \<and> ae_kind r = k) (db_audit d) = r # rs"
    and e: "ae_event_id r = e"
    by (auto simp: existing_event_def first_row_def split: list.splits)
  then have "r \<in> set (select c ae_tenant_id (\<lambda>r. ae_correlation_id r = cid \<and> ae_kind r = k) (db_audit d))"
    by simp
  then show thesis using that [of r] e by (auto simp: select_def audit_key_def)
qed

lemma existing_event_unique:
  assumes "r \<in> set (db_audit d)" and "distinct (map audit_key (db_audit d))"
    and "visible c (ae_tenant_id r)" and "audit_key r = (cid, k)"
  shows "existing_event c cid k d = Some (ae_event_id r)"
proof -
  let ?P = "\<lambda>r. ae_correlation_id r = cid \<and> ae_kind r = k"
  have "r \<in> set (select c ae_tenant_id ?P (db_audit d))" using assms by (auto simp: select_def audit_key_def)
  then obtain r' rs where s: "select c ae_tenant_id ?P (db_audit d) = r' # rs"
    by (cases "select c ae_tenant_id ?P (db_audit d)") auto
  then have "r' \<in> set (select c ae_tenant_id ?P (db_audit d))" by simp
  then have "r' \<in> set (db_audit d)" and "audit_key r' = (cid, k)" by (auto simp: select_def audit_key_def)
  then have "r' = r" using assms distinct_map_unique [of audit_key] by metis
  with s show ?thesis by (simp add: existing_event_def first_row_def)
qed

text \<open>What a successful write leaves, as a case distinction the clients use.\<close>

lemma audit_write_InrE:
  assumes "audit_write a w = (Inr eid, w')"
  obtains (new) t where "w_pool w" and "missing_fields a = []" and "eid = w_ids w (w_nids w)"
      and "db_audit (w_db w') = db_audit (w_db w) @ [audit_event_row a eid t]"
      and "w_db w' = (w_db w)\<lparr>db_audit := db_audit (w_db w) @ [audit_event_row a eid t]\<rparr>"
      and "audit_checks (audit_event_row a eid t)" and "aa_tenant_id a \<noteq> []" and "writes_new a w"
      and "aa_tenant_id a \<in> set (db_tenants (w_db w))"
    | (old) r t where "w_pool w" and "missing_fields a = []" and "w_db w' = w_db w"
      and "r \<in> set (db_audit (w_db w))"
      and "audit_key r = (aa_correlation_id a, aa_kind a)" and "ae_event_id r = eid"
      and "ae_tenant_id r = aa_tenant_id a" and "aa_tenant_id a \<noteq> []"
      and "audit_checks (audit_event_row a (w_ids w (w_nids w)) t)"
proof (cases "missing_fields a = [] \<and> w_pool w")
  case False
  with assms have False
    by (cases "missing_fields a = []")
      (auto simp: audit_write_def act_bind_run ulid_new_def acquire_def act_raise_def)
  then show thesis ..
next
  case True
  let ?c = "tenant_conn (aa_tenant_id a) (w_session w)"
  let ?r = "audit_event_row a (w_ids w (w_nids w)) (w_clock w (w_ticks w))"
  note run = audit_write_def act_bind_run ulid_new_def acquire_def transaction_def now_def sql_def
    query_def act_run_simps
  show thesis
  proof (cases "insert_audit ?c ?r (w_db w)")
    case (Inl e)
    with True assms show thesis by (simp add: run)
  next
    case (Inr xd)
    obtain x d where xd: "xd = (x, d)" by (cases xd)
    show thesis
    proof (cases x)
      case (Some y)
      with Inr xd have "d = (w_db w)\<lparr>db_audit := db_audit (w_db w) @ [?r]\<rparr>" "y = w_ids w (w_nids w)"
        "audit_checks ?r" "aa_tenant_id a \<noteq> []" "writes_new a w"
        "aa_tenant_id a \<in> set (db_tenants (w_db w))"
        by (auto simp: insert_audit_def writes_new_def split: if_splits)
      with Some Inr xd True assms new show thesis by (fastforce simp: run)
    next
      case None
      with Inr xd have d: "d = w_db w" "audit_checks ?r" "aa_tenant_id a \<noteq> []"
        by (auto simp: insert_audit_def split: if_splits)
      with None Inr xd True assms
      have "existing_event ?c (aa_correlation_id a) (aa_kind a) (w_db w) = Some eid" "w_db w' = w_db w"
        by (auto simp: run split: option.splits)
      then show thesis using True d old by (auto elim!: existing_event_Some)
    qed
  qed
qed

lemma transaction_static:
  assumes "w_pool (snd (body w)) = w_pool w" and "w_ids (snd (body w)) = w_ids w"
  shows "w_pool (snd (transaction body w)) = w_pool w" "w_ids (snd (transaction body w)) = w_ids w"
  using assms by (auto simp: transaction_def split: prod.splits sum.splits)

lemma audit_write_static:
  "w_pool (snd (audit_write a w)) = w_pool w" "w_ids (snd (audit_write a w)) = w_ids w"
  by (auto simp: audit_write_def act_bind_run ulid_new_def acquire_def transaction_def now_def sql_def
      query_def act_run_simps split: prod.splits sum.splits option.splits if_splits)

lemma audit_checks_event_id:
  "audit_checks (audit_event_row a e t) \<Longrightarrow> e' \<noteq> [] \<Longrightarrow> audit_checks (audit_event_row a e' t')"
  by (simp add: audit_checks_def audit_event_row_def full_fingerprint_def)

text \<open>A write that meets a row of its own tenant under the same key returns that row's id.\<close>

lemma audit_write_existing:
  assumes "w_pool w" and "missing_fields a = []" and "aa_tenant_id a \<noteq> []"
    and "audit_checks (audit_event_row a (w_ids w (w_nids w)) (w_clock w (w_ticks w)))"
    and "(aa_correlation_id a, aa_kind a) \<in> audit_key ` set (db_audit (w_db w))"
  shows "fst (audit_write a w) =
      (case existing_event (tenant_conn (aa_tenant_id a) (w_session w)) (aa_correlation_id a) (aa_kind a) (w_db w)
       of None \<Rightarrow> Inl (RuntimeError (''audit upsert returned no row and no existing row for (correlation_id=''
                   @ aa_correlation_id a @ '', kind='' @ aa_kind a @ '')''))
        | Some eid \<Rightarrow> Inr eid)"
    and "w_db (snd (audit_write a w)) = w_db w"
  using assms
  by (auto simp: audit_write_def act_bind_run ulid_new_def acquire_def transaction_def now_def sql_def
      query_def act_run_simps insert_audit_def split: option.splits)

lemma key_filter_unique:
  assumes "distinct (map f xs)" and "x \<in> set xs"
  shows "filter (\<lambda>y. f y = f x) xs = [x]"
  using assms
proof (induction xs)
  case (Cons a xs)
  show ?case
  proof (cases "x = a")
    case True
    with Cons.prems have "\<forall>y \<in> set xs. f y \<noteq> f x" by (auto simp: image_iff)
    with True show ?thesis by (simp add: filter_empty_conv)
  next
    case False
    with Cons show ?thesis by (auto simp: image_iff)
  qed
qed simp

lemma audit_write_row:
  assumes "db_wf (w_db w)" and "audit_write a w = (Inr eid, w')"
  obtains r where "r \<in> set (db_audit (w_db w'))" and "audit_key r = (aa_correlation_id a, aa_kind a)"
    and "ae_event_id r = eid" and "ae_tenant_id r = aa_tenant_id a"
    and "distinct (map audit_key (db_audit (w_db w')))"
proof -
  have "tenant_step (aa_tenant_id a) (w_db w) (w_db w')"
    using act_preservesD [OF audit_write_step assms(2)] by (simp add: on_db_def)
  with assms(1) have "distinct (map audit_key (db_audit (w_db w')))"
    by (auto simp: tenant_step_def tenant_frame_def db_wf_def)
  with assms(2) show thesis
    by (cases rule: audit_write_InrE) (auto intro: that)
qed

text \<open>
  C4. The audit writer is retry-safe: after a write that returned, there is exactly one audit row
  under its \<open>(correlation_id, kind)\<close>, it is the writer's tenant's and carries the returned id, and
  repeating the call returns the same id and changes nothing.
\<close>

theorem audit_write_retry_safe:
  assumes "db_wf (w_db w)" and "\<forall>n. w_ids w n \<noteq> []" and "audit_write a w = (Inr eid, w')"
  shows "\<exists>r. filter (\<lambda>r. audit_key r = (aa_correlation_id a, aa_kind a)) (db_audit (w_db w')) = [r] \<and>
           ae_event_id r = eid \<and> ae_tenant_id r = aa_tenant_id a \<and>
           fst (audit_write a w') = Inr eid \<and> w_db (snd (audit_write a w')) = w_db w'"
proof -
  obtain r where r: "r \<in> set (db_audit (w_db w'))" "audit_key r = (aa_correlation_id a, aa_kind a)"
    "ae_event_id r = eid" "ae_tenant_id r = aa_tenant_id a" "distinct (map audit_key (db_audit (w_db w')))"
    using audit_write_row [OF assms(1,3)] by blast
  then have one: "filter (\<lambda>r. audit_key r = (aa_correlation_id a, aa_kind a)) (db_audit (w_db w')) = [r]"
    using key_filter_unique [of audit_key "db_audit (w_db w')" r] by auto
  have st: "w_pool w' = w_pool w" "w_ids w' = w_ids w" using audit_write_static [of a w] assms(3) by auto
  have ok: "w_pool w" "missing_fields a = []" "aa_tenant_id a \<noteq> []"
    and "\<exists>e t. audit_checks (audit_event_row a e t)"
    using assms(3) by (cases rule: audit_write_InrE; auto)+
  then have "audit_checks (audit_event_row a (w_ids w' (w_nids w')) (w_clock w' (w_ticks w')))"
    using assms(2) st audit_checks_event_id by metis
  moreover have "(aa_correlation_id a, aa_kind a) \<in> audit_key ` set (db_audit (w_db w'))"
    using r(1,2) by (metis image_eqI)
  ultimately have "fst (audit_write a w') = Inr eid" "w_db (snd (audit_write a w')) = w_db w'"
    using audit_write_existing [of w' a] existing_event_unique [OF r(1,5) _ r(2)] ok st r(3,4) by simp_all
  with one r(3,4) show ?thesis by blast
qed

lemma audit_write_clash:
  assumes "db_wf (w_db w)" and "w_pool w" and "missing_fields a = []" and "aa_tenant_id a \<noteq> []"
    and "audit_checks (audit_event_row a (w_ids w (w_nids w)) (w_clock w (w_ticks w)))"
    and "r \<in> set (db_audit (w_db w))" and "audit_key r = (aa_correlation_id a, aa_kind a)"
    and "ae_tenant_id r \<noteq> aa_tenant_id a"
  shows "(\<exists>msg. fst (audit_write a w) = Inl (RuntimeError msg)) \<and> w_db (snd (audit_write a w)) = w_db w"
proof -
  let ?c = "tenant_conn (aa_tenant_id a) (w_session w)"
  have "existing_event ?c (aa_correlation_id a) (aa_kind a) (w_db w) = None"
  proof (rule ccontr)
    assume "existing_event ?c (aa_correlation_id a) (aa_kind a) (w_db w) \<noteq> None"
    then obtain r' where "r' \<in> set (db_audit (w_db w))" "audit_key r' = audit_key r"
      "ae_tenant_id r' = aa_tenant_id a"
      using assms(7) by (auto elim!: existing_event_Some)
    moreover have "distinct (map audit_key (db_audit (w_db w)))" using assms(1) by (simp add: db_wf_def)
    ultimately show False using assms(6,8) distinct_map_unique by metis
  qed
  moreover have "(aa_correlation_id a, aa_kind a) \<in> audit_key ` set (db_audit (w_db w))"
    using assms(6,7) by (metis image_eqI)
  ultimately show ?thesis using audit_write_existing [of w a] assms by simp
qed

text \<open>
  The unique key is global while the writer reads under row-level security: when another
  tenant already holds the same \<open>(correlation_id, kind)\<close>, a well-formed write raises
  \<open>RuntimeError\<close> and leaves no audit row.
\<close>

theorem audit_write_foreign_key_lost:
  assumes "db_wf (w_db w)" and "w_pool w" and "missing_fields a = []" and "aa_tenant_id a \<noteq> []"
    and "audit_checks (audit_event_row a (w_ids w (w_nids w)) (w_clock w (w_ticks w)))"
    and "r \<in> set (db_audit (w_db w))" and "audit_key r = (aa_correlation_id a, aa_kind a)"
    and "ae_tenant_id r \<noteq> aa_tenant_id a"
  shows "(\<exists>msg. fst (audit_write a w) = Inl (RuntimeError msg)) \<and> w_db (snd (audit_write a w)) = w_db w"
  using assms by (rule audit_write_clash)

text \<open>The document kept for an event still has every key the caller supplied.\<close>

lemma originating_keeps_keys:
  "dict_has (case aa_originating_finding a of None \<Rightarrow> [] | Some d \<Rightarrow> d) k \<Longrightarrow>
     dict_has (originating_with_extras a) k"
  by (auto simp: originating_with_extras_def Let_def dict_has_def dict_put_keys split: option.splits)

lemma missing_fields_Nil:
  assumes "missing_fields a = []"
  shows "aa_kind a = ''generated'' \<Longrightarrow> generated_missing a = []"
    and "map_of KIND_MIN_FIELDS (aa_kind a) = Some req \<Longrightarrow> aa_kind a \<noteq> ''generated'' \<Longrightarrow> f \<in> set req \<Longrightarrow>
      dict_has (originating_with_extras a) f"
  using assms originating_keeps_keys
  by (auto simp: missing_fields_def filter_empty_conv split: if_splits)

lemma KIND_MIN_generated: "map_of KIND_MIN_FIELDS ''generated'' = None"
  by (simp add: KIND_MIN_FIELDS_def)

text \<open>
  Every row the writer adds carries its kind's minimum field set: the seven model-fingerprint
  columns for \<open>generated\<close>, and for each of the other listed kinds the required keys in the
  stored document.
\<close>

theorem audit_write_minimum_fields:
  assumes "audit_write a w = (Inr eid, w')" and "writes_new a w"
  shows "\<exists>r. db_audit (w_db w') = db_audit (w_db w) @ [r] \<and> ae_kind r = aa_kind a \<and>
     (ae_kind r = ''generated'' \<longrightarrow> full_fingerprint r) \<and>
     (\<forall>req f. map_of KIND_MIN_FIELDS (ae_kind r) = Some req \<longrightarrow> f \<in> set req \<longrightarrow>
        (\<exists>d. ae_originating_finding r = JObj d \<and> dict_has d f))"
  using assms(1)
proof (cases rule: audit_write_InrE)
  case (new t)
  let ?r = "audit_event_row a eid t"
  have "\<exists>d. ae_originating_finding ?r = JObj d \<and> dict_has d f"
    if "map_of KIND_MIN_FIELDS (aa_kind a) = Some req" "f \<in> set req" for req f
  proof -
    have "aa_kind a \<noteq> ''generated''" using that(1) KIND_MIN_generated by auto
    then have "dict_has (originating_with_extras a) f" using missing_fields_Nil(2) new(2) that by blast
    then show ?thesis by (auto simp: audit_event_row_def dump_or_null_def dict_has_def)
  qed
  with new show ?thesis by (auto simp: audit_checks_def)
next
  case (old r t)
  with assms(2) have False by (auto simp: writes_new_def image_iff)
  then show ?thesis ..
qed

text \<open>
  Reading a correlation back returns exactly the tenant's own events under that correlation
  id, in the order they occurred; a tenant never reads another tenant's event.
\<close>

theorem list_for_correlation_exact:
  assumes "w_pool w" and "t \<noteq> []"
  shows "\<exists>rows. list_for_correlation t cid w = (Inr (map row_to_event rows), w) \<and>
     sorted (map ae_occurred_at rows) \<and>
     set rows = {r \<in> set (db_audit (w_db w)). ae_tenant_id r = t \<and> ae_correlation_id r = cid}"
  using assms
  by (auto simp: list_for_correlation_def act_bind_run acquire_def transaction_def query_def
      act_run_simps correlation_rows_def select_def)

text \<open>An error handed to the writer is read back from the event.\<close>

lemma row_error_round_trip:
  assumes "aa_error a = Some e" and "\<not> dict_has (case aa_originating_finding a of None \<Rightarrow> [] | Some d \<Rightarrow> d) ''_extras''"
  shows "row_error (audit_event_row a eid t) = JObj e"
proof -
  let ?d = "case aa_originating_finding a of None \<Rightarrow> [] | Some d \<Rightarrow> d"
  have 1: "originating_with_extras a = dict_put ?d ''_extras'' (JObj [(''error'', JObj e)])"
    using assms by (simp add: originating_with_extras_def Let_def)
  have "dict_put ?d ''_extras'' (JObj [(''error'', JObj e)]) \<noteq> []"
    using dict_put_keys [of ?d "''_extras''" "JObj [(''error'', JObj e)]"] by force
  then show ?thesis using 1 by (simp add: row_error_def audit_event_row_def dump_or_null_def)
      (simp add: dict_get_or_def dict_get_def)
qed

section \<open>Concrete runs\<close>

definition sample_audit :: audit_args where
  "sample_audit = (audit_call ''t1'' ''deployment_rejected'' ''corr'' ''svc'')
     \<lparr>aa_originating_finding := Some [(''policy_ref'', JObj []), (''target_vehicle_id'', JStr ''v''),
        (''policy_declared_tenant_id'', JStr ''t1''), (''vehicle_owning_tenant_id'', JStr ''t2'')]\<rparr>"

definition audited_world :: world where
  "audited_world = snd (audit_write sample_audit sample_world)"

lemmas audit_run = audit_write_def act_bind_run ulid_new_def acquire_def transaction_def now_def
  sql_def query_def act_run_simps insert_audit_def

lemma sample_audit_run:
  "audit_write sample_audit sample_world = (Inr ''i'', audited_world)"
  "db_audit (w_db audited_world) = [audit_event_row sample_audit ''i'' 0]"
  "w_pool audited_world"
  by (simp_all add: audited_world_def audit_run sample_audit_def audit_call_def missing_fields_def
      KIND_MIN_FIELDS_def dict_has_def audit_checks_def audit_kinds_def audit_event_row_def)

theorem audit_write_retry_safe_witness:
  "audit_write sample_audit sample_world = (Inr ''i'', audited_world) \<and>
   fst (audit_write sample_audit audited_world) = Inr ''i'' \<and>
   w_db (snd (audit_write sample_audit audited_world)) = w_db audited_world"
  using audit_write_retry_safe [OF sample_world_wf _ sample_audit_run(1)] sample_audit_run(1) by auto

theorem audit_write_foreign_key_lost_witness:
  "(\<exists>msg. fst (audit_write (sample_audit\<lparr>aa_tenant_id := ''t2''\<rparr>) audited_world) = Inl (RuntimeError msg)) \<and>
   w_db (snd (audit_write (sample_audit\<lparr>aa_tenant_id := ''t2''\<rparr>) audited_world)) = w_db audited_world"
proof (rule audit_write_foreign_key_lost [where r = "audit_event_row sample_audit ''i'' 0"])
  have "tenant_step (aa_tenant_id sample_audit) (w_db sample_world) (w_db audited_world)"
    using act_preservesD [OF audit_write_step sample_audit_run(1)] by (simp add: on_db_def)
  then show "db_wf (w_db audited_world)"
    using sample_world_wf by (simp add: tenant_step_def tenant_frame_def)
  have "w_ids audited_world (w_nids audited_world) \<noteq> []"
    using audit_write_static(2) [of sample_audit sample_world] by (simp add: audited_world_def)
  then show "audit_checks (audit_event_row (sample_audit\<lparr>aa_tenant_id := ''t2''\<rparr>)
      (w_ids audited_world (w_nids audited_world)) (w_clock audited_world (w_ticks audited_world)))"
    by (simp add: audit_checks_def audit_event_row_def sample_audit_def audit_call_def audit_kinds_def)
qed (simp_all add: sample_audit_run, simp_all add: sample_audit_def audit_call_def missing_fields_def
      KIND_MIN_FIELDS_def dict_has_def)

theorem audit_write_minimum_fields_witness:
  "\<exists>r. db_audit (w_db audited_world) = [r] \<and>
     (\<exists>d. ae_originating_finding r = JObj d \<and> dict_has d ''target_vehicle_id'')"
proof -
  have "writes_new sample_audit sample_world" by (simp add: writes_new_def)
  from audit_write_minimum_fields [OF sample_audit_run(1) this]
  obtain r where r: "db_audit (w_db audited_world) = [r]" "ae_kind r = ''deployment_rejected''"
    "\<forall>req f. map_of KIND_MIN_FIELDS (ae_kind r) = Some req \<longrightarrow> f \<in> set req \<longrightarrow>
        (\<exists>d. ae_originating_finding r = JObj d \<and> dict_has d f)"
    by (auto simp: sample_audit_def audit_call_def)
  then show ?thesis by (simp add: KIND_MIN_FIELDS_def)
qed

theorem list_for_correlation_exact_witness:
  "\<exists>rows. list_for_correlation ''t1'' ''corr'' audited_world = (Inr (map row_to_event rows), audited_world) \<and>
     set rows = {audit_event_row sample_audit ''i'' 0}"
  using list_for_correlation_exact [OF sample_audit_run(3), of "''t1''" "''corr''"]
  by (auto simp: sample_audit_run) (auto simp: sample_audit_def audit_call_def)

end
