(* ===== verification/CM_Json.thy ===== *)
theory CM_Json
  imports CM_Models "HOL-Library.Multiset"
begin

text \<open>
  What the code uses of Python's \<open>json\<close> and \<open>str\<close>: \<open>json.dumps\<close> with its separators, \<open>sort_keys\<close>,
  \<open>ensure_ascii\<close> and \<open>indent\<close>, and \<open>str.replace\<close>. How a float, a timestamp or another value is
  rendered as text, and how text is parsed back, are the fields of the interpreter record
  \<open>pyrt\<close>. On top of it the canonical payload of \<open>deployer/signing.py\<close>.
\<close>

section \<open>The interpreter record\<close>

record pyrt =
  rt_float :: "string \<Rightarrow> rat option"
  rt_iso :: "string \<Rightarrow> int option"
  rt_str :: "json \<Rightarrow> string"
  rt_repr :: "rat \<Rightarrow> string"
  rt_isoformat :: "int \<Rightarrow> string"
  rt_loads :: "string \<Rightarrow> json option"

section \<open>Python conversions\<close>

definition res_bind :: "'e + 'a \<Rightarrow> ('a \<Rightarrow> 'e + 'b) \<Rightarrow> 'e + 'b" where
  "res_bind r f = (case r of Inl e \<Rightarrow> Inl e | Inr x \<Rightarrow> f x)"

lemma res_bind_simps [simp]: "res_bind (Inl e) f = Inl e" "res_bind (Inr x) f = f x"
  by (simp_all add: res_bind_def)

lemma res_bind_Inr: "res_bind r f = Inr y \<longleftrightarrow> (\<exists>x. r = Inr x \<and> f x = Inr y)"
  by (cases r) auto

definition digits_value :: "string \<Rightarrow> int" where
  "digits_value s = foldl (\<lambda>n c. 10 * n + (int (code c) - 48)) 0 s"

definition int_of_text :: "string \<Rightarrow> int option" where
  "int_of_text s =
     (let s = strip s;
          (sgn, body) = (case s of
             c # r \<Rightarrow> if c = CHR ''-'' then (- 1, r) else if c = CHR ''+'' then (1, r) else (1 :: int, s)
           | [] \<Rightarrow> (1, []));
          parts = split_on (CHR ''_'') body
      in if list_all is_digits parts then Some (sgn * digits_value (concat parts)) else None)"

definition py_int :: "json \<Rightarrow> exc + int" where
  "py_int j =
     (case j of
        JInt n \<Rightarrow> Inr n
      | JBool b \<Rightarrow> Inr (if b then 1 else 0)
      | JFloat q \<Rightarrow> Inr (if 0 \<le> q then \<lfloor>q\<rfloor> else \<lceil>q\<rceil>)
      | JStr s \<Rightarrow> (case int_of_text s of Some n \<Rightarrow> Inr n | None \<Rightarrow> Inl (ValueError ''int''))
      | JTime _ \<Rightarrow> Inl (ValueError ''int'')
      | _ \<Rightarrow> Inl (TypeError ''int''))"

definition py_float :: "pyrt \<Rightarrow> json \<Rightarrow> exc + rat" where
  "py_float rt j =
     (case j of
        JFloat q \<Rightarrow> Inr q
      | JInt n \<Rightarrow> Inr (of_int n)
      | JBool b \<Rightarrow> Inr (if b then 1 else 0)
      | JStr s \<Rightarrow> (case rt_float rt s of Some q \<Rightarrow> Inr q | None \<Rightarrow> Inl (ValueError ''float''))
      | JTime _ \<Rightarrow> Inl (ValueError ''float'')
      | _ \<Rightarrow> Inl (TypeError ''float''))"

definition dict_req :: "dict \<Rightarrow> string \<Rightarrow> exc + json" where
  "dict_req d k = (case dict_get d k of None \<Rightarrow> Inl (KeyError k) | Some v \<Rightarrow> Inr v)"

lemma dict_req_Inr: "dict_req d k = Inr v \<longleftrightarrow> dict_get d k = Some v"
  by (simp add: dict_req_def split: option.splits)

section \<open>json.dumps\<close>

definition hex_digit :: "nat \<Rightarrow> char" where
  "hex_digit n = (if n < 10 then char_of (n + 48) else char_of (n + 87))"

definition esc_char :: "char \<Rightarrow> string" where
  "esc_char c =
     (if c = CHR 0x22 then [CHR 0x5C, CHR 0x22]
      else if c = CHR 0x5C then [CHR 0x5C, CHR 0x5C]
      else if c = CHR 0x0A then [CHR 0x5C, CHR ''n'']
      else if c = CHR 0x0D then [CHR 0x5C, CHR ''r'']
      else if c = CHR 0x09 then [CHR 0x5C, CHR ''t'']
      else if c = CHR 0x0C then [CHR 0x5C, CHR ''f'']
      else if c = CHR 0x08 then [CHR 0x5C, CHR ''b'']
      else if 32 \<le> code c \<and> code c \<le> 126 then [c]
      else [CHR 0x5C, CHR ''u'', CHR ''0'', CHR ''0'', hex_digit (code c div 16), hex_digit (code c mod 16)])"

definition esc_str :: "string \<Rightarrow> string" where
  "esc_str s = [CHR 0x22] @ concat (map esc_char s) @ [CHR 0x22]"

definition show_int :: "int \<Rightarrow> string" where
  "show_int n = (if n < 0 then CHR ''-'' # show_nat (nat (- n)) else show_nat (nat n))"

fun json_dumps :: "pyrt \<Rightarrow> string \<Rightarrow> string \<Rightarrow> json \<Rightarrow> string" where
  "json_dumps rt isep ksep JNull = ''null''"
| "json_dumps rt isep ksep (JBool b) = (if b then ''true'' else ''false'')"
| "json_dumps rt isep ksep (JInt n) = show_int n"
| "json_dumps rt isep ksep (JFloat q) = rt_repr rt q"
| "json_dumps rt isep ksep (JStr s) = esc_str s"
| "json_dumps rt isep ksep (JTime t) = esc_str (rt_isoformat rt t)"
| "json_dumps rt isep ksep (JArr xs) = ''['' @ join isep (map (json_dumps rt isep ksep) xs) @ '']''"
| "json_dumps rt isep ksep (JObj d) =
     ''{'' @ join isep (map (\<lambda>(k, v). esc_str k @ ksep @ json_dumps rt isep ksep v) d) @ ''}''"

text \<open>\<open>json.dumps(x)\<close> with its default separators, and with \<open>indent=2\<close>.\<close>

definition dumps :: "pyrt \<Rightarrow> json \<Rightarrow> string" where
  "dumps rt j = json_dumps rt '', '' '': '' j"

definition newline_indent :: "nat \<Rightarrow> string" where
  "newline_indent n = CHR 0x0A # replicate (2 * n) (CHR '' '')"

fun dumps_indent :: "pyrt \<Rightarrow> nat \<Rightarrow> json \<Rightarrow> string" where
  "dumps_indent rt n (JArr xs) =
     (if xs = [] then ''[]''
      else ''['' @ newline_indent (Suc n)
             @ join ('','' @ newline_indent (Suc n)) (map (dumps_indent rt (Suc n)) xs)
             @ newline_indent n @ '']'')"
| "dumps_indent rt n (JObj d) =
     (if d = [] then ''{}''
      else ''{'' @ newline_indent (Suc n)
             @ join ('','' @ newline_indent (Suc n))
                 (map (\<lambda>(k, v). esc_str k @ '': '' @ dumps_indent rt (Suc n) v) d)
             @ newline_indent n @ ''}'')"
| "dumps_indent rt n j = json_dumps rt '', '' '': '' j"

text \<open>\<open>sort_keys=True\<close> orders every object, at every depth, by key.\<close>

fun sort_keys :: "json \<Rightarrow> json" where
  "sort_keys (JArr xs) = JArr (map sort_keys xs)"
| "sort_keys (JObj d) = JObj (sort_key fst (map (\<lambda>(k, v). (k, sort_keys v)) d))"
| "sort_keys j = j"

section \<open>str.replace\<close>

function replace_all :: "string \<Rightarrow> string \<Rightarrow> string \<Rightarrow> string" where
  "replace_all pat rep s =
     (if pat = [] \<or> s = [] then s
      else if startswith s pat then rep @ replace_all pat rep (drop (length pat) s)
      else hd s # replace_all pat rep (tl s))"
  by pat_completeness auto
termination by (relation "measure (\<lambda>(pat, rep, s). length s)") auto

declare replace_all.simps [simp del]

lemma replace_all_absent:
  assumes "\<And>n. \<not> startswith (drop n s) pat"
  shows "replace_all pat rep s = s"
  using assms
proof (induction s)
  case (Cons c s)
  have "\<not> startswith (c # s) pat" using Cons.prems [of 0] by simp
  moreover have "replace_all pat rep s = s"
    using Cons.prems [of "Suc n" for n] by (intro Cons.IH) simp
  ultimately show ?case by (subst replace_all.simps) auto
qed (simp add: replace_all.simps)

section \<open>deployer/signing.py\<close>

definition canonical_payload :: "pyrt \<Rightarrow> dict \<Rightarrow> string" where
  "canonical_payload rt payload = json_dumps rt '','' '':'' (sort_keys (JObj payload))"

text \<open>
  \<open>LocalKeySigner\<close>: the Ed25519 primitives are parameters. The documented behaviour the code relies
  on is that a signature verifies under the matching public key.
\<close>

record ('sk, 'pk) signer =
  sg_private :: 'sk
  sg_public :: 'pk
  sg_key_id :: string

definition sign :: "('sk \<Rightarrow> string \<Rightarrow> string) \<Rightarrow> pyrt \<Rightarrow> ('sk, 'pk) signer \<Rightarrow> dict \<Rightarrow> string \<times> string" where
  "sign ed_sign rt s payload = (ed_sign (sg_private s) (canonical_payload rt payload), sg_key_id s)"

definition verify ::
  "('pk \<Rightarrow> string \<Rightarrow> string \<Rightarrow> bool) \<Rightarrow> pyrt \<Rightarrow> ('sk, 'pk) signer \<Rightarrow> dict \<Rightarrow> string \<Rightarrow> string \<Rightarrow> bool" where
  "verify ed_verify rt s payload signature key_id =
     (if key_id \<noteq> sg_key_id s then False
      else ed_verify (sg_public s) signature (canonical_payload rt payload))"

lemma sort_key_perm:
  assumes "mset xs = mset ys" and "distinct (map f xs)"
  shows "sort_key f xs = sort_key f ys"
proof -
  have "inj_on f (set xs)" using assms(2) by (simp add: distinct_map)
  then show ?thesis
    using assms(1) by (intro sort_key_inj_key_eq) (auto dest: mset_eq_setD)
qed

lemma canonical_payload_key_order:
  assumes "mset d = mset d'" and "distinct (map fst d)"
  shows "canonical_payload rt d = canonical_payload rt d'"
proof -
  let ?g = "\<lambda>(k, v). (k, sort_keys v)"
  have ms: "mset (map ?g d) = mset (map ?g d')" using assms(1) by simp
  have "map fst (map ?g d) = map fst d" by (induction d) auto
  with assms(2) have "distinct (map fst (map ?g d))" by (simp only:)
  with ms have "sort_key fst (map ?g d) = sort_key fst (map ?g d')" by (rule sort_key_perm)
  then show ?thesis by (simp add: canonical_payload_def)
qed

text \<open>
  C11. A payload verifies against its own signature, whatever order its keys are in when it is
  verified, and never under another key id.
\<close>

theorem verify_sign:
  assumes "\<forall>m. ed_verify (sg_public s) (ed_sign (sg_private s) m) m"
    and "sign ed_sign rt s payload = (signature, key_id)"
    and "mset payload = mset payload'" and "distinct (map fst payload)"
  shows "verify ed_verify rt s payload' signature key_id \<and>
    (\<forall>other. other \<noteq> key_id \<longrightarrow> \<not> verify ed_verify rt s payload' signature other)"
  using assms canonical_payload_key_order [OF assms(3,4), of rt]
  by (auto simp: sign_def verify_def)

text \<open>A signer whose primitives tag the message with the key.\<close>

definition tag_signer :: "(string, string) signer" where
  "tag_signer = \<lparr>sg_private = ''k'', sg_public = ''k'', sg_key_id = ''dev-key-1''\<rparr>"

definition plain_rt :: pyrt where
  "plain_rt = \<lparr>rt_float = (\<lambda>_. None), rt_iso = (\<lambda>_. Some 0), rt_str = (\<lambda>_. []), rt_repr = (\<lambda>_. ''0''),
     rt_isoformat = show_int, rt_loads = (\<lambda>_. None)\<rparr>"

theorem verify_sign_witness:
  "verify (\<lambda>pk sg m. sg = pk @ m) plain_rt tag_signer [(''b'', JNull), (''a'', JInt 1)]
     (fst (sign (@) plain_rt tag_signer [(''a'', JInt 1), (''b'', JNull)])) ''dev-key-1''"
  using verify_sign [of "\<lambda>pk sg m. sg = pk @ m" tag_signer "(@)" plain_rt "[(''a'', JInt 1), (''b'', JNull)]"
      "fst (sign (@) plain_rt tag_signer [(''a'', JInt 1), (''b'', JNull)])" "''dev-key-1''"
      "[(''b'', JNull), (''a'', JInt 1)]"]
  by (simp add: sign_def tag_signer_def)

end
