(* ===== verification/CM_Repository.thy ===== *)
theory CM_Repository
  imports CM_Audit CM_Json
begin

text \<open>
  \<open>registry/repository.py\<close>: the policy, deployment and outcome repositories. A repository takes the
  dicts the graph produces; reading a missing key raises \<open>KeyError\<close>, and \<open>int\<close> and \<open>float\<close> are
  applied to the values as Python does.
\<close>

section \<open>Arguments\<close>

definition req_text :: "dict \<Rightarrow> string \<Rightarrow> exc + string" where
  "req_text d k = res_bind (dict_req d k) col_text"

lemma col_text_Inr: "col_text j = Inr s \<longleftrightarrow> j = JStr s"
  by (simp add: col_text_def split: json.splits)

lemma req_text_Inr: "req_text d k = Inr s \<longleftrightarrow> dict_get d k = Some (JStr s)"
  by (auto simp: req_text_def res_bind_Inr dict_req_Inr col_text_Inr)

text \<open>\<open>_parse_iso\<close>.\<close>

definition parse_iso :: "pyrt \<Rightarrow> json \<Rightarrow> exc + int option" where
  "parse_iso rt j =
     (case j of
        JNull \<Rightarrow> Inr None
      | JTime t \<Rightarrow> Inr (Some t)
      | JStr s \<Rightarrow> (case rt_iso rt s of Some t \<Rightarrow> Inr (Some t) | None \<Rightarrow> Inl (ValueError ''isoformat''))
      | _ \<Rightarrow> Inl (AttributeError ''replace''))"

section \<open>PolicyRepository\<close>

text \<open>The statement's arguments, evaluated in order.\<close>

definition policy_row_of :: "pyrt \<Rightarrow> string \<Rightarrow> dict \<Rightarrow> dict \<Rightarrow> int \<Rightarrow> exc + policy_row" where
  "policy_row_of rt tenant_id policy audit_meta created_at =
     res_bind (req_text policy ''policy_id'') (\<lambda>pid.
     res_bind (req_text policy ''version'') (\<lambda>ver.
     res_bind (dict_req policy ''signals'') (\<lambda>signals.
     res_bind (res_bind (dict_req policy ''collection_window_hours'') py_int) (\<lambda>window.
     res_bind (dict_req policy ''vehicle_scope'') (\<lambda>scope.
     res_bind (col_text (dict_get_or policy ''hypothesis'' (JStr []))) (\<lambda>hyp.
     res_bind (dict_req policy ''data_governance_flags'') (\<lambda>flags.
     res_bind (res_bind (dict_req policy ''confidence_threshold'') (py_float rt)) (\<lambda>conf.
     res_bind (req_text policy ''generated_from_session_id'') (\<lambda>session.
     res_bind (dict_req policy ''originating_finding'') (\<lambda>origin.
     res_bind (req_text audit_meta ''prompt_template_version'') (\<lambda>ptv.
     res_bind (req_text audit_meta ''slm_repo'') (\<lambda>repo.
     res_bind (req_text audit_meta ''slm_revision_sha'') (\<lambda>sha.
     res_bind (req_text audit_meta ''slm_runtime'') (\<lambda>runtime.
     res_bind (req_text audit_meta ''slm_runtime_version'') (\<lambda>rtver.
     res_bind (req_text audit_meta ''slm_quantization'') (\<lambda>quant.
     res_bind (res_bind (dict_req audit_meta ''slm_decoding_seed'') py_int) (\<lambda>seed.
     res_bind (req_text audit_meta ''payload_signature'') (\<lambda>signature.
     res_bind (req_text audit_meta ''signature_key_id'') (\<lambda>key_id.
     Inr \<lparr>cp_tenant_id = tenant_id, cp_policy_id = pid, cp_version = ver, cp_signal_spec = signals,
       cp_trigger_conditions = dict_get_or policy ''trigger_conditions'' (JArr []),
       cp_window_hours = window, cp_vehicle_scope = scope, cp_hypothesis = hyp,
       cp_governance_flags = flags, cp_confidence = round3 conf, cp_session_id = session,
       cp_originating_finding = origin, cp_prompt_template_version = ptv, cp_slm_repo = repo,
       cp_slm_revision_sha = sha, cp_slm_runtime = runtime, cp_slm_runtime_version = rtver,
       cp_slm_quantization = quant, cp_slm_decoding_seed = seed, cp_payload_signature = signature,
       cp_signature_key_id = key_id, cp_created_at = created_at\<rparr>)))))))))))))))))))"

definition insert_policy_row :: "conn \<Rightarrow> policy_row \<Rightarrow> db \<Rightarrow> exc + (unit \<times> db)" where
  "insert_policy_row c r d =
     res_bind (insert_row c cp_tenant_id policy_checks policy_key
                 (\<lambda>r. cp_tenant_id r \<in> set (db_tenants d)) r (db_policies d))
       (\<lambda>rows. Inr ((), d\<lparr>db_policies := rows\<rparr>))"

definition policy_insert :: "pyrt \<Rightarrow> string \<Rightarrow> dict \<Rightarrow> dict \<Rightarrow> (exc, 'z world_scheme, unit) act" where
  "policy_insert rt tenant_id policy audit_meta =
     acquire tenant_id (\<lambda>c.
       act_bind now (\<lambda>t.
       act_bind (act_lift (policy_row_of rt tenant_id policy audit_meta t)) (\<lambda>r.
       sql (insert_policy_row c r))))"

text \<open>\<open>_row_to_policy\<close>.\<close>

definition row_to_policy :: "policy_row \<Rightarrow> dict" where
  "row_to_policy r =
     [(''policy_id'', JStr (cp_policy_id r)), (''version'', JStr (cp_version r)),
      (''signals'', cp_signal_spec r), (''trigger_conditions'', cp_trigger_conditions r),
      (''collection_window_hours'', JInt (cp_window_hours r)), (''hypothesis'', JStr (cp_hypothesis r)),
      (''vehicle_scope'', cp_vehicle_scope r), (''data_governance_flags'', cp_governance_flags r),
      (''confidence_threshold'', JFloat (cp_confidence r)),
      (''generated_from_session_id'', JStr (cp_session_id r)),
      (''originating_finding'', cp_originating_finding r),
      (''prompt_template_version'', JStr (cp_prompt_template_version r)),
      (''slm_repo'', JStr (cp_slm_repo r)), (''slm_revision_sha'', JStr (cp_slm_revision_sha r)),
      (''slm_runtime'', JStr (cp_slm_runtime r)),
      (''slm_runtime_version'', JStr (cp_slm_runtime_version r)),
      (''slm_quantization'', JStr (cp_slm_quantization r)),
      (''slm_decoding_seed'', JInt (cp_slm_decoding_seed r)), (''created_at'', JTime (cp_created_at r))]"

text \<open>The \<open>SELECT\<close>s, as functions of the connection and the database.\<close>

definition select_policy :: "conn \<Rightarrow> string \<Rightarrow> string \<Rightarrow> string option \<Rightarrow> db \<Rightarrow> policy_row option" where
  "select_policy c tenant_id policy_id version d =
     (case version of
        None \<Rightarrow> first_row (order_desc cp_created_at
                  (select c cp_tenant_id (\<lambda>r. cp_tenant_id r = tenant_id \<and> cp_policy_id r = policy_id)
                     (db_policies d)))
      | Some v \<Rightarrow> first_row
                  (select c cp_tenant_id
                     (\<lambda>r. cp_tenant_id r = tenant_id \<and> cp_policy_id r = policy_id \<and> cp_version r = v)
                     (db_policies d)))"

definition select_versions :: "conn \<Rightarrow> string \<Rightarrow> string \<Rightarrow> nat \<Rightarrow> db \<Rightarrow> policy_row list" where
  "select_versions c tenant_id policy_id limit d =
     take limit (order_desc cp_created_at
       (select c cp_tenant_id (\<lambda>r. cp_tenant_id r = tenant_id \<and> cp_policy_id r = policy_id) (db_policies d)))"

definition select_by_finding :: "conn \<Rightarrow> string \<Rightarrow> string \<Rightarrow> db \<Rightarrow> policy_row option" where
  "select_by_finding c tenant_id finding_id d =
     first_row (order_desc cp_created_at
       (select c cp_tenant_id
          (\<lambda>r. cp_tenant_id r = tenant_id \<and> contains_entry (cp_originating_finding r) ''finding_id'' finding_id)
          (db_policies d)))"

text \<open>The join lists a policy once per matching accepted deployment.\<close>

definition select_active :: "conn \<Rightarrow> string \<Rightarrow> string \<Rightarrow> db \<Rightarrow> policy_row option" where
  "select_active c tenant_id vehicle_id d =
     first_row (order_desc cp_created_at
       (concat (map (\<lambda>cp. map (\<lambda>_. cp)
            (select c dt_tenant_id
               (\<lambda>dt. dt_tenant_id dt = cp_tenant_id cp \<and> dt_policy_id dt = cp_policy_id cp \<and>
                     dt_version dt = cp_version cp \<and> dt_status dt = ''accepted'')
               (db_deployments d)))
          (select c cp_tenant_id
             (\<lambda>cp. cp_tenant_id cp = tenant_id \<and> contains_elem (cp_vehicle_scope cp) vehicle_id)
             (db_policies d)))))"

definition policy_get :: "string \<Rightarrow> string \<Rightarrow> string option \<Rightarrow> (exc, 'z world_scheme, dict option) act" where
  "policy_get tenant_id policy_id version =
     acquire tenant_id (\<lambda>c. act_bind (query (select_policy c tenant_id policy_id version))
       (\<lambda>row. act_return (map_option row_to_policy row)))"

definition list_versions :: "string \<Rightarrow> string \<Rightarrow> nat \<Rightarrow> (exc, 'z world_scheme, dict list) act" where
  "list_versions tenant_id policy_id limit =
     acquire tenant_id (\<lambda>c. act_bind (query (select_versions c tenant_id policy_id limit))
       (\<lambda>rows. act_return (map row_to_policy rows)))"

definition find_by_finding :: "string \<Rightarrow> string \<Rightarrow> (exc, 'z world_scheme, dict option) act" where
  "find_by_finding tenant_id finding_id =
     acquire tenant_id (\<lambda>c. act_bind (query (select_by_finding c tenant_id finding_id))
       (\<lambda>row. act_return (map_option row_to_policy row)))"

definition find_active_for_vehicle :: "string \<Rightarrow> string \<Rightarrow> (exc, 'z world_scheme, dict option) act" where
  "find_active_for_vehicle tenant_id vehicle_id =
     acquire tenant_id (\<lambda>c. act_bind (query (select_active c tenant_id vehicle_id))
       (\<lambda>row. act_return (map_option row_to_policy row)))"

section \<open>DeploymentRepository\<close>

definition PUBLIC :: string where
  "PUBLIC = ''feature-001-default''"

definition deployment_row_of :: "pyrt \<Rightarrow> string \<Rightarrow> dict \<Rightarrow> int \<Rightarrow> exc + deployment_row" where
  "deployment_row_of rt tenant_id rcd requested_at =
     res_bind (req_text rcd ''deployment_id'') (\<lambda>did.
     res_bind (req_text rcd ''policy_id'') (\<lambda>pid.
     res_bind (req_text rcd ''version'') (\<lambda>ver.
     res_bind (col_text (dict_get_or rcd ''environment'' (JStr ''dev''))) (\<lambda>env.
     res_bind (dict_req rcd ''vehicle_scope'') (\<lambda>scope.
     res_bind (req_text rcd ''status'') (\<lambda>status.
     res_bind (parse_iso rt (dict_get_or rcd ''deployed_at'' JNull)) (\<lambda>accepted.
     res_bind (parse_iso rt (dict_get_or rcd ''expires_at'' JNull)) (\<lambda>expires.
     Inr \<lparr>dt_deployment_id = did, dt_tenant_id = tenant_id, dt_policy_id = pid, dt_version = ver,
       dt_environment = env, dt_vehicle_scope = scope, dt_status = status,
       dt_downstream_response = dict_get_or rcd ''downstream_response'' (JObj []),
       dt_requested_at = requested_at, dt_accepted_at = accepted, dt_expires_at = expires\<rparr>))))))))"

definition policy_fk :: "db \<Rightarrow> string \<Rightarrow> string \<Rightarrow> string \<Rightarrow> bool" where
  "policy_fk d t pid ver \<longleftrightarrow> t \<in> set (db_tenants d) \<and> (t, pid, ver) \<in> policy_key ` set (db_policies d)"

definition insert_deployment_row :: "conn \<Rightarrow> deployment_row \<Rightarrow> db \<Rightarrow> exc + (unit \<times> db)" where
  "insert_deployment_row c r d =
     res_bind (insert_row c dt_tenant_id deployment_checks dt_deployment_id
                 (\<lambda>r. policy_fk d (dt_tenant_id r) (dt_policy_id r) (dt_version r)) r (db_deployments d))
       (\<lambda>rows. Inr ((), d\<lparr>db_deployments := rows\<rparr>))"

definition deployment_insert :: "pyrt \<Rightarrow> string \<Rightarrow> dict \<Rightarrow> (exc, 'z world_scheme, unit) act" where
  "deployment_insert rt tenant_id rcd =
     acquire tenant_id (\<lambda>c.
       act_bind now (\<lambda>t.
       act_bind (act_lift (deployment_row_of rt tenant_id rcd t)) (\<lambda>r.
       sql (insert_deployment_row c r))))"

definition due :: "int \<Rightarrow> deployment_row \<Rightarrow> bool" where
  "due t r \<longleftrightarrow> dt_status r = ''accepted'' \<and> (case dt_expires_at r of None \<Rightarrow> False | Some e \<Rightarrow> e \<le> t)"

definition select_due :: "conn \<Rightarrow> int \<Rightarrow> db \<Rightarrow> deployment_row list" where
  "select_due c t d =
     take 100 (sort_key (\<lambda>r. case dt_expires_at r of None \<Rightarrow> 0 | Some e \<Rightarrow> e)
       (select c dt_tenant_id (due t) (db_deployments d)))"

definition list_due :: "int \<Rightarrow> (exc, 'z world_scheme, deployment_row list) act" where
  "list_due t = acquire PUBLIC (\<lambda>c. query (select_due c t))"

definition expire_row :: "conn \<Rightarrow> string \<Rightarrow> deployment_row \<Rightarrow> deployment_row" where
  "expire_row c deployment_id r =
     (if visible c (dt_tenant_id r) \<and> dt_deployment_id r = deployment_id
      then r\<lparr>dt_status := ''expired''\<rparr> else r)"

definition mark_expired :: "string \<Rightarrow> (exc, 'z world_scheme, unit) act" where
  "mark_expired deployment_id =
     acquire PUBLIC (\<lambda>c. sql (\<lambda>d.
       Inr ((), d\<lparr>db_deployments := map (expire_row c deployment_id) (db_deployments d)\<rparr>)))"

section \<open>OutcomeRepository\<close>

definition outcome_row_of :: "pyrt \<Rightarrow> string \<Rightarrow> dict \<Rightarrow> exc + outcome_row" where
  "outcome_row_of rt tenant_id outcome =
     res_bind (req_text outcome ''outcome_id'') (\<lambda>oid.
     res_bind (dict_req outcome ''originating_finding'') (\<lambda>origin.
     res_bind (req_text outcome ''policy_id'') (\<lambda>pid.
     res_bind (req_text outcome ''version'') (\<lambda>ver.
     res_bind (req_text outcome ''hypothesis_state'') (\<lambda>state.
     res_bind (dict_req outcome ''evaluated_at'') (\<lambda>ev.
     res_bind (case ev of JTime t \<Rightarrow> Inr t | _ \<Rightarrow> Inl (PgError DataError)) (\<lambda>t.
     res_bind (py_int (dict_get_or outcome ''signals_collected_count'' (JInt 0))) (\<lambda>n.
     res_bind (py_float rt (dict_get_or outcome ''data_quality_score'' (JFloat 0))) (\<lambda>q.
     Inr \<lparr>po_outcome_id = oid, po_tenant_id = tenant_id, po_originating_finding = origin,
       po_policy_id = pid, po_version = ver, po_hypothesis_state = state, po_evaluated_at = t,
       po_evidence_summary = dict_get_or outcome ''evidence_summary'' (JObj []),
       po_signals_collected_count = n, po_data_quality_score = round3 q\<rparr>)))))))))"

definition insert_outcome_row :: "conn \<Rightarrow> outcome_row \<Rightarrow> db \<Rightarrow> exc + (unit \<times> db)" where
  "insert_outcome_row c r d =
     res_bind (insert_row c po_tenant_id outcome_checks po_outcome_id
                 (\<lambda>r. policy_fk d (po_tenant_id r) (po_policy_id r) (po_version r)) r (db_outcomes d))
       (\<lambda>rows. Inr ((), d\<lparr>db_outcomes := rows\<rparr>))"

definition outcome_insert :: "pyrt \<Rightarrow> string \<Rightarrow> dict \<Rightarrow> (exc, 'z world_scheme, unit) act" where
  "outcome_insert rt tenant_id outcome =
     acquire tenant_id (\<lambda>c.
       act_bind (act_lift (outcome_row_of rt tenant_id outcome)) (\<lambda>r.
       sql (insert_outcome_row c r)))"

definition row_to_outcome :: "outcome_row \<Rightarrow> dict" where
  "row_to_outcome r =
     [(''outcome_id'', JStr (po_outcome_id r)), (''originating_finding'', po_originating_finding r),
      (''policy_ref'', JObj [(''tenant_id'', JStr (po_tenant_id r)),
         (''policy_id'', JStr (po_policy_id r)), (''version'', JStr (po_version r))]),
      (''hypothesis_state'', JStr (po_hypothesis_state r)), (''evaluated_at'', JTime (po_evaluated_at r)),
      (''signals_collected_count'', JInt (po_signals_collected_count r)),
      (''data_quality_score'', JFloat (po_data_quality_score r)),
      (''evidence_summary'', po_evidence_summary r)]"

definition select_outcome :: "conn \<Rightarrow> string \<Rightarrow> string \<Rightarrow> db \<Rightarrow> outcome_row option" where
  "select_outcome c tenant_id finding_id d =
     first_row (order_desc po_evaluated_at
       (select c po_tenant_id
          (\<lambda>r. po_tenant_id r = tenant_id \<and> contains_entry (po_originating_finding r) ''finding_id'' finding_id)
          (db_outcomes d)))"

definition get_by_finding :: "string \<Rightarrow> string \<Rightarrow> (exc, 'z world_scheme, dict option) act" where
  "get_by_finding tenant_id finding_id =
     acquire tenant_id (\<lambda>c. act_bind (query (select_outcome c tenant_id finding_id))
       (\<lambda>row. act_return (map_option row_to_outcome row)))"

section \<open>Inserts are steps of their tenant\<close>

lemma policy_row_of_Inr:
  assumes "policy_row_of rt t policy meta at0 = Inr r"
  shows "cp_tenant_id r = t" and "cp_created_at r = at0"
    and "dict_get policy ''policy_id'' = Some (JStr (cp_policy_id r))"
    and "dict_get policy ''version'' = Some (JStr (cp_version r))"
    and "dict_get policy ''signals'' = Some (cp_signal_spec r)"
    and "dict_get policy ''vehicle_scope'' = Some (cp_vehicle_scope r)"
    and "dict_get policy ''originating_finding'' = Some (cp_originating_finding r)"
    and "dict_get policy ''data_governance_flags'' = Some (cp_governance_flags r)"
    and "cp_trigger_conditions r = dict_get_or policy ''trigger_conditions'' (JArr [])"
  using assms
  by (auto simp: policy_row_of_def res_bind_Inr req_text_Inr dict_req_Inr)

lemma deployment_row_of_Inr:
  assumes "deployment_row_of rt t rcd at0 = Inr r"
  shows "dt_tenant_id r = t" and "dict_get rcd ''deployment_id'' = Some (JStr (dt_deployment_id r))"
    and "dict_get rcd ''policy_id'' = Some (JStr (dt_policy_id r))"
    and "dict_get rcd ''version'' = Some (JStr (dt_version r))"
    and "dict_get rcd ''status'' = Some (JStr (dt_status r))"
  using assms
  by (auto simp: deployment_row_of_def res_bind_Inr req_text_Inr dict_req_Inr)

lemma outcome_row_of_Inr:
  assumes "outcome_row_of rt t rcd = Inr r"
  shows "po_tenant_id r = t"
  using assms by (auto simp: outcome_row_of_def res_bind_Inr)

lemma insert_policy_row_step:
  assumes "insert_policy_row (tenant_conn t c) r d = Inr (x, d')"
  shows "tenant_step t d d'"
  using assms by (auto simp: insert_policy_row_def res_bind_Inr insert_row_Inr intro!: tenant_steps)

lemma insert_deployment_row_step:
  assumes "insert_deployment_row (tenant_conn t c) r d = Inr (x, d')"
  shows "tenant_step t d d'"
  using assms
  by (auto simp: insert_deployment_row_def res_bind_Inr insert_row_Inr policy_fk_def intro!: tenant_steps)

lemma insert_outcome_row_step:
  assumes "insert_outcome_row (tenant_conn t c) r d = Inr (x, d')"
  shows "tenant_step t d d'"
  using assms
  by (auto simp: insert_outcome_row_def res_bind_Inr insert_row_Inr policy_fk_def intro!: tenant_steps)

lemma policy_insert_step [keeps]: "act_preserves (on_db (tenant_step t)) (policy_insert rt t policy meta)"
  unfolding policy_insert_def
  by (auto intro!: keeps_rules keeps_sql keeps tenant_orders intro: insert_policy_row_step)

lemma deployment_insert_step [keeps]: "act_preserves (on_db (tenant_step t)) (deployment_insert rt t rcd)"
  unfolding deployment_insert_def
  by (auto intro!: keeps_rules keeps_sql keeps tenant_orders intro: insert_deployment_row_step)

lemma outcome_insert_step [keeps]: "act_preserves (on_db (tenant_step t)) (outcome_insert rt t outcome)"
  unfolding outcome_insert_def
  by (auto intro!: keeps_rules keeps_sql keeps tenant_orders intro: insert_outcome_row_step)

lemma expire_row_simps [simp]:
  "dt_tenant_id (expire_row c i r) = dt_tenant_id r" "dt_deployment_id (expire_row c i r) = dt_deployment_id r"
  "dt_policy_id (expire_row c i r) = dt_policy_id r" "dt_version (expire_row c i r) = dt_version r"
  "deployment_checks r \<Longrightarrow> deployment_checks (expire_row c i r)"
  by (auto simp: expire_row_def deployment_checks_def)

lemma expire_rows_step:
  "tenant_step t d (d\<lparr>db_deployments := map (expire_row (tenant_conn t c) i) (db_deployments d)\<rparr>)"
proof -
  have "filter (\<lambda>r. dt_tenant_id r = t') (map (expire_row (tenant_conn t c) i) rows) =
      filter (\<lambda>r. dt_tenant_id r = t') rows" if "t' \<noteq> t" for t' rows
    using that by (induction rows) (auto simp: expire_row_def)
  then show ?thesis
    by (auto simp: tenant_step_def tenant_frame_def rows_kept_def tenant_view_def db_wf_def
        intro!: table_wf_map)
qed

lemma mark_expired_step [keeps]: "act_preserves (on_db (tenant_step PUBLIC)) (mark_expired i)"
  unfolding mark_expired_def
  by (auto intro!: keeps_rules keeps_sql tenant_orders expire_rows_step)

lemma read_only [keeps]:
  assumes "reflp R" and "transp R"
  shows "act_preserves (on_db R) (policy_get t p v)" "act_preserves (on_db R) (list_versions t p n)"
    "act_preserves (on_db R) (find_by_finding t f)" "act_preserves (on_db R) (find_active_for_vehicle t vid)"
    "act_preserves (on_db R) (list_due at0)" "act_preserves (on_db R) (get_by_finding t f)"
    "act_preserves (on_db R) (list_for_correlation t cid)"
  unfolding policy_get_def list_versions_def find_by_finding_def find_active_for_vehicle_def list_due_def
    get_by_finding_def list_for_correlation_def
  by (auto intro!: keeps_rules keeps assms)

section \<open>Non-interference\<close>

text \<open>
  The contract of a tenant-scoped read: its answer is a function of the tenant's own rows. A step
  of another tenant then cannot change it.
\<close>

locale scoped_read =
  fixes read :: "string \<Rightarrow> conn \<Rightarrow> db \<Rightarrow> 'a"
  assumes scoped: "tenant_view t d = tenant_view t d' \<Longrightarrow> read t (tenant_conn t c) d = read t (tenant_conn t c) d'"
begin

lemma not_influenced:
  assumes "tenant_frame t' d d'" and "t' \<noteq> t"
  shows "read t (tenant_conn t c) d' = read t (tenant_conn t c) d"
  using assms scoped [of t d' d c] by (simp add: tenant_frame_def)

lemma not_influenced_by_run:
  assumes "act_preserves (on_db (tenant_frame t')) m" and "t' \<noteq> t"
  shows "read t (tenant_conn t c) (w_db (snd (m w))) = read t (tenant_conn t c) (w_db w)"
proof (rule not_influenced [OF _ assms(2)])
  show "tenant_frame t' (w_db w) (w_db (snd (m w)))"
    using assms(1) by (simp add: act_preserves_def on_db_def)
qed

lemma unaffected:
  assumes "on_db (tenant_frame t') w w'" and "t' \<noteq> t"
  shows "fst (acquire t (\<lambda>c. act_bind (query (read t c)) (\<lambda>x. act_return (g x))) w') =
    fst (acquire t (\<lambda>c. act_bind (query (read t c)) (\<lambda>x. act_return (g x))) w)"
  using assms not_influenced [of t' "w_db w" "w_db w'" t "w_session w"]
  by (auto simp: acquire_def transaction_def act_bind_run query_def act_run_simps on_db_def env_kept_def)

end

lemma select_view:
  "select (tenant_conn t c) cp_tenant_id P1 (db_policies d) = filter (\<lambda>r. t \<noteq> [] \<and> P1 r) (db_policies (tenant_view t d))"
  "select (tenant_conn t c) dt_tenant_id P2 (db_deployments d) = filter (\<lambda>r. t \<noteq> [] \<and> P2 r) (db_deployments (tenant_view t d))"
  "select (tenant_conn t c) po_tenant_id P3 (db_outcomes d) = filter (\<lambda>r. t \<noteq> [] \<and> P3 r) (db_outcomes (tenant_view t d))"
  "select (tenant_conn t c) ae_tenant_id P4 (db_audit d) = filter (\<lambda>r. t \<noteq> [] \<and> P4 r) (db_audit (tenant_view t d))"
  "select (tenant_conn t c) df_tenant_id P5 (db_findings d) = filter (\<lambda>r. t \<noteq> [] \<and> P5 r) (db_findings (tenant_view t d))"
  "select (tenant_conn t c) eq_tenant_id P6 (db_erasures d) = filter (\<lambda>r. t \<noteq> [] \<and> P6 r) (db_erasures (tenant_view t d))"
  "select (tenant_conn t c) tc_tenant_id P7 (db_config d) = filter (\<lambda>r. t \<noteq> [] \<and> P7 r) (db_config (tenant_view t d))"
  "select (tenant_conn t c) to_tenant_id P8 (db_telemetry d) = filter (\<lambda>r. t \<noteq> [] \<and> P8 r) (db_telemetry (tenant_view t d))"
  by (auto simp: select_def tenant_view_def intro: filter_cong)

interpretation sr_policy: scoped_read "\<lambda>t c. select_policy c t pid v"
  by unfold_locales (auto simp: select_policy_def select_view split: option.splits)

interpretation sr_versions: scoped_read "\<lambda>t c. select_versions c t pid n"
  by unfold_locales (simp add: select_versions_def select_view)

interpretation sr_by_finding: scoped_read "\<lambda>t c. select_by_finding c t fid"
  by unfold_locales (simp add: select_by_finding_def select_view)

interpretation sr_active: scoped_read "\<lambda>t c. select_active c t vid"
  by unfold_locales (simp add: select_active_def select_view)

interpretation sr_outcome: scoped_read "\<lambda>t c. select_outcome c t fid"
  by unfold_locales (simp add: select_outcome_def select_view)

interpretation sr_correlation: scoped_read "\<lambda>t c. correlation_rows c t cid"
  by unfold_locales (simp add: correlation_rows_def select_view)

section \<open>Correctness\<close>

lemma run_policy_get:
  assumes "w_pool w"
  shows "policy_get t pid v w =
    (Inr (map_option row_to_policy (select_policy (tenant_conn t (w_session w)) t pid v (w_db w))), w)"
  using assms
  by (simp add: policy_get_def acquire_def transaction_def act_bind_run query_def act_run_simps)

lemma policy_insert_InrE:
  assumes "policy_insert rt t policy meta w = (Inr (), w')"
  obtains r at0 where "w_pool w" and "w_pool w'" and "policy_row_of rt t policy meta at0 = Inr r"
    and "db_policies (w_db w') = db_policies (w_db w) @ [r]"
    and "w_db w' = (w_db w)\<lparr>db_policies := db_policies (w_db w) @ [r]\<rparr>"
    and "policy_key r \<notin> policy_key ` set (db_policies (w_db w))" and "policy_checks r" and "t \<noteq> []"
    and "t \<in> set (db_tenants (w_db w))"
proof -
  from assms have pool: "w_pool w"
    by (auto simp: policy_insert_def acquire_def split: if_splits)
  let ?at = "w_clock w (w_ticks w)"
  show thesis
  proof (cases "policy_row_of rt t policy meta ?at")
    case (Inl e)
    with pool assms show thesis
      by (simp add: policy_insert_def acquire_def transaction_def act_bind_run now_def act_run_simps)
  next
    case (Inr r)
    have t: "cp_tenant_id r = t" using policy_row_of_Inr(1) [OF Inr] .
    show thesis
    proof (cases "insert_policy_row (tenant_conn t (w_session w)) r (w_db w)")
      case (Inl e)
      with Inr pool assms show thesis
        by (simp add: policy_insert_def acquire_def transaction_def act_bind_run now_def act_run_simps sql_def)
    next
      case ins: (Inr xd)
      then have "w_pool w'" "w_db w' = snd xd"
        using Inr pool assms
        by (auto simp: policy_insert_def acquire_def transaction_def act_bind_run now_def act_run_simps sql_def
            split: prod.splits)
      with ins t pool Inr show thesis
        by (intro that [of ?at r]) (auto simp: insert_policy_row_def res_bind_Inr insert_row_Inr)
    qed
  qed
qed

lemma select_policy_unique:
  assumes "db_wf d" and "r \<in> set (db_policies d)" and "policy_key r = (t, pid, v)" and "t \<noteq> []"
  shows "select_policy (tenant_conn t c) t pid (Some v) d = Some r"
proof -
  have dist: "distinct (map policy_key (db_policies d))" using assms(1) by (simp add: db_wf_def table_wf_def)
  have "filter (\<lambda>x. policy_key x = policy_key r) (db_policies d) = [r]"
    using dist assms(2) by (rule key_filter_unique)
  moreover have "select (tenant_conn t c) cp_tenant_id
      (\<lambda>r. cp_tenant_id r = t \<and> cp_policy_id r = pid \<and> cp_version r = v) (db_policies d) =
      filter (\<lambda>x. policy_key x = policy_key r) (db_policies d)"
    using assms(3,4) by (auto simp: select_def policy_key_def intro!: filter_cong)
  ultimately show ?thesis by (simp add: select_policy_def first_row_def)
qed

lemma select_policy_SomeD:
  assumes "select_policy (tenant_conn t c) t pid (Some v) d = Some r"
  shows "r \<in> set (db_policies d)" and "policy_key r = (t, pid, v)" and "t \<noteq> []"
proof -
  from assms have "r \<in> set (select (tenant_conn t c) cp_tenant_id
      (\<lambda>r. cp_tenant_id r = t \<and> cp_policy_id r = pid \<and> cp_version r = v) (db_policies d))"
    by (auto simp: select_policy_def first_row_def split: list.splits)
  then show "r \<in> set (db_policies d)" "policy_key r = (t, pid, v)" "t \<noteq> []"
    by (auto simp: select_def policy_key_def)
qed

definition stored_verbatim :: "string list" where
  "stored_verbatim = [''policy_id'', ''version'', ''signals'', ''vehicle_scope'', ''data_governance_flags'',
     ''originating_finding'']"

lemma row_to_policy_get:
  "dict_get (row_to_policy r) ''policy_id'' = Some (JStr (cp_policy_id r))"
  "dict_get (row_to_policy r) ''version'' = Some (JStr (cp_version r))"
  "dict_get (row_to_policy r) ''signals'' = Some (cp_signal_spec r)"
  "dict_get (row_to_policy r) ''vehicle_scope'' = Some (cp_vehicle_scope r)"
  "dict_get (row_to_policy r) ''data_governance_flags'' = Some (cp_governance_flags r)"
  "dict_get (row_to_policy r) ''originating_finding'' = Some (cp_originating_finding r)"
  by (simp_all add: row_to_policy_def dict_get_def)

lemma row_to_policy_verbatim:
  assumes "policy_row_of rt t policy meta at0 = Inr r" and "k \<in> set stored_verbatim"
  shows "dict_get (row_to_policy r) k = dict_get policy k"
  using assms(2) policy_row_of_Inr(3-8) [OF assms(1)]
  by (auto simp: stored_verbatim_def row_to_policy_get)



text \<open>
  Asked without a version, the repository returns the tenant's most recently created version
  of that policy, and nothing only when there is none.
\<close>

theorem policy_get_latest:
  assumes "w_pool w" and "t \<noteq> []"
  shows "case fst (policy_get t pid None w) of
      Inl _ \<Rightarrow> False
    | Inr None \<Rightarrow> \<not> (\<exists>r \<in> set (db_policies (w_db w)). cp_tenant_id r = t \<and> cp_policy_id r = pid)
    | Inr (Some doc) \<Rightarrow> (\<exists>r \<in> set (db_policies (w_db w)). doc = row_to_policy r \<and> cp_tenant_id r = t \<and>
        cp_policy_id r = pid \<and> (\<forall>r' \<in> set (db_policies (w_db w)). cp_tenant_id r' = t \<longrightarrow>
          cp_policy_id r' = pid \<longrightarrow> cp_created_at r' \<le> cp_created_at r))"
proof -
  let ?rows = "select (tenant_conn t (w_session w)) cp_tenant_id
    (\<lambda>r. cp_tenant_id r = t \<and> cp_policy_id r = pid) (db_policies (w_db w))"
  have run: "fst (policy_get t pid None w) =
      Inr (map_option row_to_policy (first_row (order_desc cp_created_at ?rows)))"
    using assms(1) by (simp add: run_policy_get select_policy_def)
  have mem: "set ?rows = {r \<in> set (db_policies (w_db w)). cp_tenant_id r = t \<and> cp_policy_id r = pid}"
    using assms(2) by (auto simp: select_def)
  show ?thesis
  proof (cases "first_row (order_desc cp_created_at ?rows)")
    case None
    then have "?rows = []" by (simp add: first_row_None)
    then have "set ?rows = {}" by simp
    with mem None run show ?thesis by auto
  next
    case (Some r)
    have "r \<in> set ?rows" "\<And>r'. r' \<in> set ?rows \<Longrightarrow> cp_created_at r' \<le> cp_created_at r"
      using first_row_desc [OF Some] by blast+
    with mem Some run show ?thesis by auto
  qed
qed

lemma run_list_due:
  assumes "w_pool w"
  shows "list_due at0 w = (Inr (select_due (tenant_conn PUBLIC (w_session w)) at0 (w_db w)), w)"
  using assms by (simp add: list_due_def acquire_def transaction_def query_def act_run_simps)

lemma run_mark_expired:
  assumes "w_pool w"
  shows "w_db (snd (mark_expired i w)) =
    (w_db w)\<lparr>db_deployments := map (expire_row (tenant_conn PUBLIC (w_session w)) i) (db_deployments (w_db w))\<rparr>"
  using assms by (simp add: mark_expired_def acquire_def transaction_def sql_def)

text \<open>
  C12. The expiry queries run as the built-in tenant: under row-level security \<open>list_due\<close> returns
  only that tenant's deployments and \<open>mark_expired\<close> leaves every other tenant's deployment as it
  was, so those are never evaluated or expired.
\<close>

theorem expiry_only_public_tenant:
  assumes "w_pool w"
  shows "(\<exists>rows. list_due at0 w = (Inr rows, w) \<and> (\<forall>r \<in> set rows. dt_tenant_id r = PUBLIC)) \<and>
    (\<forall>r \<in> set (db_deployments (w_db w)). dt_tenant_id r \<noteq> PUBLIC \<longrightarrow>
       r \<in> set (db_deployments (w_db (snd (mark_expired i w)))))"
proof -
  let ?c = "tenant_conn PUBLIC (w_session w)"
  have "dt_tenant_id r = PUBLIC" if "r \<in> set (select_due ?c at0 (w_db w))" for r
    using set_take_subset [of 100 "sort_key (\<lambda>r. case dt_expires_at r of None \<Rightarrow> 0 | Some e \<Rightarrow> e)
        (select ?c dt_tenant_id (due at0) (db_deployments (w_db w)))"] that
    by (auto simp: select_due_def select_def)
  moreover have "r \<in> set (map (expire_row ?c i) (db_deployments (w_db w)))"
    if "r \<in> set (db_deployments (w_db w))" "dt_tenant_id r \<noteq> PUBLIC" for r
  proof -
    have "r = expire_row ?c i r" using that(2) by (simp add: expire_row_def)
    with that(1) show ?thesis by (auto intro: rev_image_eqI)
  qed
  ultimately show ?thesis using assms by (simp add: run_list_due run_mark_expired)
qed

section \<open>Concrete runs\<close>

definition sample_policy_doc :: dict where
  "sample_policy_doc =
     [(''policy_id'', JStr ''p''), (''version'', JStr ''1.0.0''),
      (''signals'', JArr [JObj [(''vss_name'', JStr ''Vehicle.Speed''), (''sample_rate_hz'', JFloat 1),
         (''priority'', JInt 5)]]),
      (''collection_window_hours'', JInt 24), (''hypothesis'', JStr ''h''),
      (''vehicle_scope'', JArr [JStr ''v1'']),
      (''data_governance_flags'', JObj [(''pii_consent'', JBool False), (''has_pii_signal'', JBool False)]),
      (''confidence_threshold'', JFloat (1/2)), (''generated_from_session_id'', JStr ''s''),
      (''originating_finding'', JObj [(''tenant_id'', JStr ''t1''), (''finding_id'', JStr ''f1'')])]"

definition sample_meta :: dict where
  "sample_meta =
     [(''prompt_template_version'', JStr ''1.0.0''), (''slm_repo'', JStr ''r''),
      (''slm_revision_sha'', JStr (replicate 40 (CHR ''0''))), (''slm_runtime'', JStr ''stub''),
      (''slm_runtime_version'', JStr ''x''), (''slm_quantization'', JStr ''none''),
      (''slm_decoding_seed'', JInt 7), (''payload_signature'', JStr ''sig''), (''signature_key_id'', JStr ''k'')]"

definition registry_world :: world where
  "registry_world = snd (policy_insert plain_rt ''t1'' sample_policy_doc sample_meta sample_world)"

lemma sample_policy_gets:
  "dict_get sample_policy_doc ''policy_id'' = Some (JStr ''p'')"
  "dict_get sample_policy_doc ''version'' = Some (JStr ''1.0.0'')"
  by (simp_all add: sample_policy_doc_def dict_get_def)

lemma semver_100: "is_semver ''1.0.0''"
  by (simp add: is_semver_def is_digits_def is_digit_def)

lemma sample_policy_insert: "policy_insert plain_rt ''t1'' sample_policy_doc sample_meta sample_world = (Inr (), registry_world)"
proof -
  have "\<exists>r. policy_row_of plain_rt ''t1'' sample_policy_doc sample_meta 0 = Inr r \<and> policy_checks r \<and>
      cp_tenant_id r = ''t1''"
    by (simp add: policy_row_of_def sample_policy_doc_def sample_meta_def req_text_def dict_req_def
        dict_get_def dict_get_or_def col_text_def py_int_def py_float_def policy_checks_def semver_100
        nonempty_array_def is_array_def round3_def slm_runtimes_def slm_quantizations_def fits_bigint_def)
  then obtain r where r: "policy_row_of plain_rt ''t1'' sample_policy_doc sample_meta 0 = Inr r"
    "policy_checks r" "cp_tenant_id r = ''t1''" by blast
  then show ?thesis
    by (simp add: registry_world_def policy_insert_def acquire_def transaction_def act_bind_run now_def
        act_run_simps sql_def insert_policy_row_def insert_row_def)
qed


lemma registry_world_facts: "w_pool registry_world" "db_wf (w_db registry_world)"
  "length (db_policies (w_db registry_world)) = 1"
proof -
  from sample_policy_insert obtain r where "w_pool registry_world"
    "db_policies (w_db registry_world) = db_policies (w_db sample_world) @ [r]"
    by (rule policy_insert_InrE) blast
  then show "w_pool registry_world" "length (db_policies (w_db registry_world)) = 1" by simp_all
  have "tenant_step ''t1'' (w_db sample_world) (w_db registry_world)"
    using act_preservesD [OF policy_insert_step sample_policy_insert] by (simp add: on_db_def)
  then show "db_wf (w_db registry_world)"
    using sample_world_wf by (simp add: tenant_step_def tenant_frame_def)
qed

lemma registry_row:
  obtains r where "db_policies (w_db registry_world) = [r]" and "policy_key r = (''t1'', ''p'', ''1.0.0'')"
proof -
  from sample_policy_insert obtain r at0 where
    "db_policies (w_db registry_world) = db_policies (w_db sample_world) @ [r]"
    and "policy_row_of plain_rt ''t1'' sample_policy_doc sample_meta at0 = Inr r"
    by (rule policy_insert_InrE) blast
  then show thesis
    using policy_row_of_Inr(1,3,4) [of plain_rt "''t1''" sample_policy_doc sample_meta at0 r] sample_policy_gets
    by (intro that [of r]) (auto simp: policy_key_def)
qed


theorem policy_get_latest_witness:
  "\<exists>doc r. fst (policy_get ''t1'' ''p'' None registry_world) = Inr (Some doc) \<and> doc = row_to_policy r \<and>
     r \<in> set (db_policies (w_db registry_world)) \<and> cp_policy_id r = ''p''"
proof -
  obtain r where r: "db_policies (w_db registry_world) = [r]" "policy_key r = (''t1'', ''p'', ''1.0.0'')"
    by (rule registry_row)
  with policy_get_latest [OF registry_world_facts(1), of "''t1''" "''p''"] show ?thesis
    by (auto simp: policy_key_def split: sum.splits option.splits)
qed

definition due_deployment :: deployment_row where
  "due_deployment =
     \<lparr>dt_deployment_id = ''d'', dt_tenant_id = ''t1'', dt_policy_id = ''p'', dt_version = ''1.0.0'',
      dt_environment = ''dev'', dt_vehicle_scope = JArr [JStr ''v1''], dt_status = ''accepted'',
      dt_downstream_response = JObj [], dt_requested_at = 0, dt_accepted_at = Some 0, dt_expires_at = Some 5\<rparr>"

definition due_world :: world where
  "due_world = sample_world\<lparr>w_db := (empty_db [''t1''])\<lparr>db_deployments := [due_deployment]\<rparr>\<rparr>"

theorem expiry_only_public_tenant_witness:
  "due 10 due_deployment \<and> db_deployments (w_db due_world) = [due_deployment] \<and>
   due_deployment \<in> set (db_deployments (w_db (snd (mark_expired ''d'' due_world)))) \<and>
   fst (list_due 10 due_world) = Inr []"
proof -
  have w: "db_deployments (w_db due_world) = [due_deployment]" "w_pool due_world"
    "dt_tenant_id due_deployment \<noteq> PUBLIC" "due 10 due_deployment"
    by (simp_all add: due_world_def due_deployment_def PUBLIC_def due_def)
  have "fst (list_due 10 due_world) = Inr []"
    using w by (simp add: run_list_due select_due_def select_def)
  with expiry_only_public_tenant [OF w(2), of 10 "''d''"] w show ?thesis by auto
qed

end
