(* ===== verification/CM_Regex.thy ===== *)
theory CM_Regex
  imports CM_Prelude
begin

text \<open>
  The fragment of Python's \<open>re\<close> the code uses, with its backtracking semantics. A match
  state is what has been consumed (reversed), what is left, and the captured groups.
  \<open>re_run\<close> returns the states a pattern can reach, in the order the engine tries them, so
  that the head is the match Python returns. In this code a repetition is always over one
  character class and always greedy.
\<close>

datatype re =
    Eps
  | Cls "char \<Rightarrow> bool"
  | Lit string
  | Seq re re
  | Alt re re
  | Opt re
  | Rep nat "nat option" "char \<Rightarrow> bool"
  | Grp nat re
  | Bol
  | Eol
  | WordB

type_synonym caps = "(nat \<times> string) list"
type_synonym mstate = "string \<times> string \<times> caps"

definition re_seq :: "re list \<Rightarrow> re" where
  "re_seq rs = foldr Seq rs Eps"

text \<open>How far a greedy repetition can go, and the states from the longest to the shortest.\<close>

definition rep_max :: "nat option \<Rightarrow> (char \<Rightarrow> bool) \<Rightarrow> string \<Rightarrow> nat" where
  "rep_max n P s = (let k = length (takeWhile P s) in case n of None \<Rightarrow> k | Some m \<Rightarrow> min m k)"

definition consume :: "nat \<Rightarrow> mstate \<Rightarrow> mstate" where
  "consume i st = (case st of (p, s, g) \<Rightarrow> (rev (take i s) @ p, drop i s, g))"

definition word_at :: "string \<Rightarrow> bool" where
  "word_at s = (case s of [] \<Rightarrow> False | c # _ \<Rightarrow> py_isword c)"

fun re_run :: "re \<Rightarrow> mstate \<Rightarrow> mstate list" where
  "re_run Eps st = [st]"
| "re_run (Cls P) (p, s, g) = (case s of [] \<Rightarrow> [] | c # cs \<Rightarrow> if P c then [(c # p, cs, g)] else [])"
| "re_run (Lit w) (p, s, g) = (if startswith s w then [consume (length w) (p, s, g)] else [])"
| "re_run (Seq a b) st = concat (map (re_run b) (re_run a st))"
| "re_run (Alt a b) st = re_run a st @ re_run b st"
| "re_run (Opt a) st = re_run a st @ [st]"
| "re_run (Rep m n P) (p, s, g) =
     map (\<lambda>i. consume i (p, s, g)) (rev [m..<Suc (rep_max n P s)])"
| "re_run (Grp i a) (p, s, g) =
     map (\<lambda>(p', s', g'). (p', s', (i, rev (take (length p' - length p) p')) # g')) (re_run a (p, s, g))"
| "re_run Bol (p, s, g) = (if p = [] then [(p, s, g)] else [])"
| "re_run Eol (p, s, g) = (if s = [] \<or> s = [CHR 0x0A] then [(p, s, g)] else [])"
| "re_run WordB (p, s, g) = (if word_at p \<noteq> word_at s then [(p, s, g)] else [])"

text \<open>\<open>p.match(s)\<close>: the first match that starts at the beginning.\<close>

definition re_match :: "re \<Rightarrow> string \<Rightarrow> mstate option" where
  "re_match r s = (case re_run r ([], s, []) of [] \<Rightarrow> None | st # _ \<Rightarrow> Some st)"

definition group :: "mstate \<Rightarrow> nat \<Rightarrow> string" where
  "group st i = (case st of (_, _, g) \<Rightarrow> (case map_of g i of None \<Rightarrow> [] | Some w \<Rightarrow> w))"

text \<open>\<open>p.search(s)\<close>: the leftmost position with a match.\<close>

fun re_search_from :: "re \<Rightarrow> string \<Rightarrow> string \<Rightarrow> mstate option" where
  "re_search_from r p [] = (case re_run r (p, [], []) of [] \<Rightarrow> None | st # _ \<Rightarrow> Some st)"
| "re_search_from r p (c # cs) =
     (case re_run r (p, c # cs, []) of [] \<Rightarrow> re_search_from r (c # p) cs | st # _ \<Rightarrow> Some st)"

definition re_search :: "re \<Rightarrow> string \<Rightarrow> mstate option" where
  "re_search r s = re_search_from r [] s"

text \<open>
  \<open>p.sub(repl, s)\<close> for a pattern that never matches the empty string: replace the leftmost
  match and go on behind it.
\<close>

function re_sub_from :: "re \<Rightarrow> string \<Rightarrow> string \<Rightarrow> string \<Rightarrow> string" where
  "re_sub_from r repl p s =
     (case s of
        [] \<Rightarrow> []
      | c # cs \<Rightarrow>
          (case re_run r (p, s, []) of
             [] \<Rightarrow> c # re_sub_from r repl (c # p) cs
           | (p', s', _) # _ \<Rightarrow>
               if length s' < length s then repl @ re_sub_from r repl p' s'
               else c # re_sub_from r repl (c # p) cs))"
  by pat_completeness auto
termination
  by (relation "measure (\<lambda>(r, repl, p, s). length s)") auto

declare re_sub_from.simps [simp del]

definition re_sub :: "re \<Rightarrow> string \<Rightarrow> string \<Rightarrow> string" where
  "re_sub r repl s = re_sub_from r repl [] s"

section \<open>What the engine guarantees\<close>

text \<open>A match consumes a prefix of what was left and records it, reversed.\<close>

lemma startswith_append: "startswith s p \<longleftrightarrow> (\<exists>t. s = p @ t)"
  by (metis append_eq_conv_conj append_take_drop_id startswith_def)

lemma re_run_consumes:
  "(p', s', g') \<in> set (re_run r (p, s, g)) \<Longrightarrow> \<exists>u. s = u @ s' \<and> p' = rev u @ p"
proof (induction r "(p, s, g)" arbitrary: p s g p' s' g' rule: re_run.induct)
  case (3 w p s g)
  then show ?case
    by (auto simp: consume_def startswith_def split: if_splits) (metis append_take_drop_id)
next
  case (4 a b p s g)
  then show ?case by fastforce
next
  case (7 m n P p s g)
  then show ?case by (auto simp: consume_def)
next
  case (8 i a p s g)
  then show ?case by fastforce
qed (auto split: list.splits if_splits)

lemma rep_max_le: "rep_max n P s \<le> length (takeWhile P s)"
  by (auto simp: rep_max_def Let_def split: option.splits)

lemma rep_max_bound: "rep_max (Some m) P s \<le> m"
  by (simp add: rep_max_def Let_def)

lemma takeWhile_take_all: "i \<le> length (takeWhile P s) \<Longrightarrow> c \<in> set (take i s) \<Longrightarrow> P c"
proof -
  assume i: "i \<le> length (takeWhile P s)" and c: "c \<in> set (take i s)"
  have "take i s = take i (takeWhile P s)"
    using i by (metis append_eq_conv_conj takeWhile_dropWhile_id take_append
        take_take take_all_iff min.absorb1 diff_is_0_eq' take_eq_Nil append_Nil2)
  with c have "c \<in> set (takeWhile P s)" by (metis in_set_takeD)
  then show "P c" by (rule set_takeWhileD [THEN conjunct2])
qed

text \<open>A repetition consumes between \<open>m\<close> and \<open>n\<close> characters of the class.\<close>

lemma re_run_Rep_iff:
  "(p', s', g') \<in> set (re_run (Rep m n P) (p, s, g)) \<longleftrightarrow>
     (\<exists>u. s = u @ s' \<and> p' = rev u @ p \<and> g' = g \<and> m \<le> length u \<and>
        (\<forall>k. n = Some k \<longrightarrow> length u \<le> k) \<and> (\<forall>c \<in> set u. P c))"
proof
  assume "(p', s', g') \<in> set (re_run (Rep m n P) (p, s, g))"
  then obtain i where i: "m \<le> i" "i \<le> rep_max n P s" and st: "(p', s', g') = consume i (p, s, g)"
    by auto
  from i(2) rep_max_le [of n P s] have le: "i \<le> length (takeWhile P s)" by simp
  then have "i \<le> length s" using length_takeWhile_le [of P s] by simp
  moreover have "\<forall>k. n = Some k \<longrightarrow> i \<le> k" using i(2) rep_max_bound order_trans by blast
  ultimately show "\<exists>u. s = u @ s' \<and> p' = rev u @ p \<and> g' = g \<and> m \<le> length u \<and>
      (\<forall>k. n = Some k \<longrightarrow> length u \<le> k) \<and> (\<forall>c \<in> set u. P c)"
    using i(1) st le by (intro exI [of _ "take i s"]) (auto simp: consume_def takeWhile_take_all)
next
  assume "\<exists>u. s = u @ s' \<and> p' = rev u @ p \<and> g' = g \<and> m \<le> length u \<and>
      (\<forall>k. n = Some k \<longrightarrow> length u \<le> k) \<and> (\<forall>c \<in> set u. P c)"
  then obtain u where u: "s = u @ s'" "p' = rev u @ p" "g' = g" "m \<le> length u"
    "\<forall>k. n = Some k \<longrightarrow> length u \<le> k" "\<forall>c \<in> set u. P c" by blast
  have "length u \<le> rep_max n P s"
    using u(1,5,6) by (auto simp: rep_max_def Let_def split: option.splits)
  with u show "(p', s', g') \<in> set (re_run (Rep m n P) (p, s, g))"
    by (auto simp: consume_def intro!: image_eqI [of _ _ "length u"])
qed

lemma re_match_None_iff: "re_match r s = None \<longleftrightarrow> set (re_run r ([], s, [])) = {}"
  by (auto simp: re_match_def split: list.splits)

lemma re_match_Some_in: "re_match r s = Some st \<Longrightarrow> st \<in> set (re_run r ([], s, []))"
  by (auto simp: re_match_def split: list.splits)

text \<open>
  An anchored repetition of one class, \<open>^[P]{m,n}$\<close>: the shape of the code's identifier
  patterns. The dollar also matches before a final newline, so a newline may follow.
\<close>

definition anchored :: "nat \<Rightarrow> nat option \<Rightarrow> (char \<Rightarrow> bool) \<Rightarrow> re" where
  "anchored m n P = Seq Bol (Seq (Rep m n P) Eol)"

lemma anchored_match:
  "re_match (anchored m n P) s \<noteq> None \<longleftrightarrow>
     (\<exists>u t. s = u @ t \<and> (t = [] \<or> t = [CHR 0x0A]) \<and> m \<le> length u \<and>
        (\<forall>k. n = Some k \<longrightarrow> length u \<le> k) \<and> (\<forall>c \<in> set u. P c))"
proof -
  have "re_match (anchored m n P) s \<noteq> None \<longleftrightarrow>
      (\<exists>p' s' g'. (p', s', g') \<in> set (re_run (Rep m n P) ([], s, [])) \<and> (s' = [] \<or> s' = [CHR 0x0A]))"
    unfolding re_match_None_iff anchored_def
    by (force simp del: re_run.simps(7) split: if_splits)
  also have "\<dots> \<longleftrightarrow> (\<exists>u t. s = u @ t \<and> (t = [] \<or> t = [CHR 0x0A]) \<and> m \<le> length u \<and>
        (\<forall>k. n = Some k \<longrightarrow> length u \<le> k) \<and> (\<forall>c \<in> set u. P c))"
    unfolding re_run_Rep_iff by blast
  finally show ?thesis .
qed

text \<open>A search that finds nothing anywhere leaves the string unchanged.\<close>

lemma re_sub_from_no_match:
  "(\<And>u v. s = u @ v \<Longrightarrow> v \<noteq> [] \<Longrightarrow> re_run r (rev u @ p, v, []) = []) \<Longrightarrow> re_sub_from r repl p s = s"
proof (induction s arbitrary: p)
  case Nil
  then show ?case by (simp add: re_sub_from.simps)
next
  case (Cons c cs)
  have no: "re_run r (p, c # cs, []) = []" using Cons.prems [of "[]"] by simp
  have "re_sub_from r repl (c # p) cs = cs"
  proof (rule Cons.IH)
    fix u v assume "cs = u @ v" and "v \<noteq> []"
    then show "re_run r (rev u @ c # p, v, []) = []" using Cons.prems [of "c # u" v] by simp
  qed
  with no show ?case by (simp add: re_sub_from.simps [of r repl p "c # cs"])
qed

end
