(* ===== verification/CM_Slm.thy ===== *)
theory CM_Slm
  imports CM_Repository CM_Regex
begin

text \<open>
  The policy-generator clients of \<open>slm/\<close>: the request and response types of \<open>slm/client.py\<close>, the
  fingerprint stub, the dev-default client, and the two HTTP clients (vLLM and llama.cpp). The
  hash, the stub's corpus directory, the HTTP transport and the environment are parameters.
  \<open>policy_client\<close> is the contract the graph relies on, interpreted on each of the four.
\<close>

section \<open>slm/client.py\<close>

record runtime_info =
  ri_slm_repo :: string
  ri_slm_revision_sha :: string
  ri_slm_runtime :: string
  ri_slm_runtime_version :: string
  ri_slm_quantization :: string
  ri_constrained_decoding_library :: string
  ri_constraint_violation_count :: int

definition info_dict :: "runtime_info \<Rightarrow> dict" where
  "info_dict i =
     [(''slm_repo'', JStr (ri_slm_repo i)), (''slm_revision_sha'', JStr (ri_slm_revision_sha i)),
      (''slm_runtime'', JStr (ri_slm_runtime i)), (''slm_runtime_version'', JStr (ri_slm_runtime_version i)),
      (''slm_quantization'', JStr (ri_slm_quantization i)),
      (''constrained_decoding_library'', JStr (ri_constrained_decoding_library i)),
      (''constraint_violation_count'', JInt (ri_constraint_violation_count i))]"

record gen_request =
  gr_session_id :: string
  gr_prompt_template_version :: string
  gr_prompt :: string
  gr_schema :: json
  gr_decoding :: dict
  gr_retry_context :: "dict option"

definition request_dict :: "gen_request \<Rightarrow> dict" where
  "request_dict r =
     [(''session_id'', JStr (gr_session_id r)),
      (''prompt_template_version'', JStr (gr_prompt_template_version r)),
      (''prompt'', JStr (gr_prompt r)), (''schema'', gr_schema r), (''decoding'', JObj (gr_decoding r)),
      (''retry_context'', case gr_retry_context r of None \<Rightarrow> JNull | Some d \<Rightarrow> JObj d)]"

record gen_response =
  rs_policy :: json
  rs_runtime_info :: dict
  rs_usage :: json

section \<open>slm/stub\_client.py\<close>

definition fingerprint_payload :: "gen_request \<Rightarrow> dict" where
  "fingerprint_payload r =
     (let body = request_dict r;
          decoding = (case dict_get body ''decoding'' of Some (JObj d) \<Rightarrow> d | _ \<Rightarrow> [])
      in [(''prompt_template_version'', dict_get_or body ''prompt_template_version'' JNull),
          (''temperature'', dict_get_or decoding ''temperature'' JNull),
          (''top_p'', dict_get_or decoding ''top_p'' JNull),
          (''top_k'', dict_get_or decoding ''top_k'' JNull),
          (''seed'', dict_get_or decoding ''seed'' JNull),
          (''schema'', dict_get_or body ''schema'' JNull),
          (''prompt'', dict_get_or body ''prompt'' JNull)])"

definition compute_fingerprint :: "(string \<Rightarrow> string) \<Rightarrow> pyrt \<Rightarrow> gen_request \<Rightarrow> string" where
  "compute_fingerprint sha256 rt r = sha256 (canonical_payload rt (fingerprint_payload r))"

definition stub_runtime_info :: runtime_info where
  "stub_runtime_info =
     \<lparr>ri_slm_repo = ''Qwen/Qwen2.5-7B-Instruct'', ri_slm_revision_sha = replicate 40 (CHR ''0''),
      ri_slm_runtime = ''stub'', ri_slm_runtime_version = ''adr-0004'', ri_slm_quantization = ''none'',
      ri_constrained_decoding_library = ''outlines==1.2.13'', ri_constraint_violation_count = 0\<rparr>"

text \<open>A corpus entry: the text of \<open>output.json\<close> and, when the file exists, of \<open>usage.json\<close>.\<close>

type_synonym corpus = "string \<Rightarrow> (string \<times> string option) option"

definition loads :: "pyrt \<Rightarrow> string \<Rightarrow> exc + json" where
  "loads rt s = (case rt_loads rt s of Some j \<Rightarrow> Inr j | None \<Rightarrow> Inl (ValueError ''JSONDecodeError''))"

definition stub_generate ::
  "(string \<Rightarrow> string) \<Rightarrow> pyrt \<Rightarrow> corpus \<Rightarrow> gen_request \<Rightarrow> (exc, 'z world_scheme, gen_response) act" where
  "stub_generate sha256 rt corpus_root r =
     (let fingerprint = compute_fingerprint sha256 rt r in
      case corpus_root fingerprint of
        None \<Rightarrow> act_raise (MissingFingerprint fingerprint)
      | Some (output, usage) \<Rightarrow>
          act_bind (act_lift (loads rt output)) (\<lambda>policy.
          act_bind (case usage of None \<Rightarrow> act_return (JObj []) | Some u \<Rightarrow> act_lift (loads rt u)) (\<lambda>usage.
          act_return \<lparr>rs_policy = policy, rs_runtime_info = info_dict stub_runtime_info, rs_usage = usage\<rparr>)))"

section \<open>slm/dev\_default\_client.py\<close>

definition dev_runtime_info :: runtime_info where
  "dev_runtime_info =
     \<lparr>ri_slm_repo = ''dev/default'', ri_slm_revision_sha = replicate 40 (CHR ''0''),
      ri_slm_runtime = ''stub'', ri_slm_runtime_version = ''dev-default'', ri_slm_quantization = ''none'',
      ri_constrained_decoding_library = ''none'', ri_constraint_violation_count = 0\<rparr>"

definition signal_doc :: "string \<Rightarrow> rat \<Rightarrow> int \<Rightarrow> json" where
  "signal_doc name rate prio =
     JObj [(''vss_name'', JStr name), (''sample_rate_hz'', JFloat rate), (''priority'', JInt prio)]"

definition DEFAULT_BRAKE_SIGNALS :: "json list" where
  "DEFAULT_BRAKE_SIGNALS =
     [signal_doc ''Vehicle.Chassis.Axle.Row1.Wheel.Left.Brake.PadWear'' 1 5,
      signal_doc ''Vehicle.Chassis.Axle.Row1.Wheel.Right.Brake.PadWear'' 1 5,
      signal_doc ''Vehicle.Powertrain.CombustionEngine.EngineOil.Temperature'' 2 4]"

definition field_re :: "string \<Rightarrow> re \<Rightarrow> re" where
  "field_re label value = Seq (Lit label) (Seq (Rep 0 None py_isspace) (Grp 1 value))"

definition token_re :: re where
  "token_re = Rep 1 None (\<lambda>c. \<not> py_isspace c)"

definition bracket_re :: re where
  "bracket_re = Seq (Lit ''['') (Seq (Rep 0 None (\<lambda>c. c \<noteq> CHR '']'')) (Lit '']''))"

definition session_re :: re where
  "session_re =
     Seq (Lit (''Sets '' @ [CHR 0x60] @ ''generated_from_session_id'' @ [CHR 0x60] @ '' to '' @ [CHR 0x60, CHR 0x22]))
       (Seq (Grp 1 (Rep 1 None (\<lambda>c. c \<noteq> CHR 0x22))) (Lit [CHR 0x22, CHR 0x60]))"

text \<open>\<open>_match(pat) or dflt\<close>.\<close>

definition match_or :: "re \<Rightarrow> string \<Rightarrow> string \<Rightarrow> string" where
  "match_or r prompt dflt =
     (case re_search r prompt of None \<Rightarrow> dflt | Some m \<Rightarrow> if group m 1 = [] then dflt else group m 1)"

record extracted =
  ex_tenant_id :: string
  ex_finding_id :: string
  ex_vehicle_scope :: "json list"
  ex_confidence :: rat
  ex_session_id :: string
  ex_candidate_signals :: "string list"

text \<open>\<open>list(json.loads(raw))\<close>, and the default when parsing fails.\<close>

definition loads_list :: "pyrt \<Rightarrow> string \<Rightarrow> json list option" where
  "loads_list rt raw =
     (case rt_loads rt raw of
        Some (JArr xs) \<Rightarrow> Some xs
      | Some (JObj d) \<Rightarrow> Some (map (\<lambda>(k, _). JStr k) d)
      | Some (JStr s) \<Rightarrow> Some (map (\<lambda>ch. JStr [ch]) s)
      | _ \<Rightarrow> None)"

definition extract_finding :: "pyrt \<Rightarrow> (string \<Rightarrow> string option) \<Rightarrow> string \<Rightarrow> extracted" where
  "extract_finding rt env prompt =
     (let finding_id = match_or (field_re ''Finding:'' token_re) prompt ''F-default-001'';
          tenant_id = match_or (field_re ''Tenant:'' token_re) prompt
            (case env ''DEV_DEFAULT_TENANT'' of None \<Rightarrow> ''feature-001-default'' | Some v \<Rightarrow> v);
          vehicle_scope_raw = match_or (field_re ''Vehicle scope:'' bracket_re) prompt [];
          vehicle_scope =
            (if vehicle_scope_raw \<noteq> []
             then (case loads_list rt vehicle_scope_raw of Some xs \<Rightarrow> xs | None \<Rightarrow> [JStr ''VIN-default-001''])
             else [JStr ''VIN-default-001'']);
          confidence_raw = match_or (field_re ''Upstream confidence:'' (Rep 1 None (\<lambda>c. is_digit c \<or> c = CHR ''.'')))
            prompt ''0.7'';
          confidence = (case rt_float rt confidence_raw of Some q \<Rightarrow> q | None \<Rightarrow> 7 / 10);
          session_id = match_or session_re prompt ''session-default-001'';
          candidate_raw = match_or (field_re ''Candidate signals (optional hints):'' bracket_re) prompt [];
          candidate_signals =
            (if candidate_raw \<noteq> []
             then (case loads_list rt candidate_raw of
                     Some xs \<Rightarrow> map (\<lambda>x. case x of JStr s \<Rightarrow> s | _ \<Rightarrow> rt_str rt x) xs
                   | None \<Rightarrow> [])
             else [])
      in \<lparr>ex_tenant_id = tenant_id, ex_finding_id = finding_id, ex_vehicle_scope = vehicle_scope,
          ex_confidence = confidence, ex_session_id = session_id, ex_candidate_signals = candidate_signals\<rparr>)"

definition dev_policy :: "extracted \<Rightarrow> dict" where
  "dev_policy x =
     [(''policy_id'', JStr (''policy-'' @ ex_finding_id x)),
      (''version'', JStr ''1.0.0''),
      (''signals'', JArr (if ex_candidate_signals x \<noteq> []
         then map (\<lambda>s. signal_doc s 1 5) (ex_candidate_signals x) else DEFAULT_BRAKE_SIGNALS)),
      (''trigger_conditions'', JArr [JObj [(''kind'', JStr ''time_window''),
         (''params'', JObj [(''window_hours'', JInt 72)])]]),
      (''collection_window_hours'', JInt 72),
      (''hypothesis'', JStr ''rotor temperature excursions correlated with mileage''),
      (''vehicle_scope'', JArr (ex_vehicle_scope x)),
      (''data_governance_flags'', JObj [(''pii_consent'', JBool False), (''has_pii_signal'', JBool False)]),
      (''confidence_threshold'', JFloat (max 0 (min 1 (ex_confidence x - 1 / 10)))),
      (''generated_from_session_id'', JStr (ex_session_id x)),
      (''originating_finding'', JObj [(''tenant_id'', JStr (ex_tenant_id x)),
         (''finding_id'', JStr (ex_finding_id x))])]"

definition dev_generate ::
  "pyrt \<Rightarrow> (string \<Rightarrow> string option) \<Rightarrow> gen_request \<Rightarrow> (exc, 'z world_scheme, gen_response) act" where
  "dev_generate rt env r =
     act_return \<lparr>rs_policy = JObj (dev_policy (extract_finding rt env (gr_prompt r))),
       rs_runtime_info = info_dict dev_runtime_info,
       rs_usage = JObj [(''input_tokens'', JInt 0), (''output_tokens'', JInt 0),
         (''generation_latency_ms'', JInt 0)]\<rparr>"

section \<open>slm/vllm\_client.py and slm/llamacpp\_client.py\<close>

definition PINNED_REPO :: string where
  "PINNED_REPO = ''Qwen/Qwen2.5-7B-Instruct''"

definition PINNED_SHA :: string where
  "PINNED_SHA = ''a09a35458c702b33eeacc393d103063234e8bc28''"

definition vllm_runtime_info :: "string \<Rightarrow> string \<Rightarrow> runtime_info" where
  "vllm_runtime_info runtime_version library =
     \<lparr>ri_slm_repo = PINNED_REPO, ri_slm_revision_sha = PINNED_SHA, ri_slm_runtime = ''vllm'',
      ri_slm_runtime_version = runtime_version, ri_slm_quantization = ''bf16'',
      ri_constrained_decoding_library = library, ri_constraint_violation_count = 0\<rparr>"

definition llamacpp_runtime_info :: "string \<Rightarrow> string \<Rightarrow> runtime_info" where
  "llamacpp_runtime_info runtime_version library =
     \<lparr>ri_slm_repo = PINNED_REPO, ri_slm_revision_sha = PINNED_SHA, ri_slm_runtime = ''llama_cpp'',
      ri_slm_runtime_version = runtime_version, ri_slm_quantization = ''gguf-q4_k_m'',
      ri_constrained_decoding_library = library, ri_constraint_violation_count = 0\<rparr>"

text \<open>Indexing of a JSON value: \<open>x[k]\<close> and \<open>x[0]\<close>.\<close>

definition json_key :: "string \<Rightarrow> json \<Rightarrow> exc + json" where
  "json_key k j = (case j of JObj d \<Rightarrow> dict_req d k | _ \<Rightarrow> Inl (TypeError k))"

definition json_first :: "json \<Rightarrow> exc + json" where
  "json_first j =
     (case j of JArr (x # _) \<Rightarrow> Inr x | JArr [] \<Rightarrow> Inl (IndexError ''0'') | JStr (ch # _) \<Rightarrow> Inr (JStr [ch])
      | JStr [] \<Rightarrow> Inl (IndexError ''0'') | JObj _ \<Rightarrow> Inl (KeyError ''0'') | _ \<Rightarrow> Inl (TypeError ''0''))"

definition completion_message :: "json \<Rightarrow> exc + json" where
  "completion_message completion =
     res_bind (json_key ''choices'' completion) (\<lambda>choices.
     res_bind (json_first choices) (\<lambda>choice.
     res_bind (json_key ''message'' choice) (json_key ''content'')))"

definition completion_usage :: "json \<Rightarrow> exc + json" where
  "completion_usage completion =
     (case completion of
        JObj d \<Rightarrow> (case dict_get_or d ''usage'' (JObj []) of JObj u \<Rightarrow> Inr (JObj u) | _ \<Rightarrow> Inl (TypeError ''dict''))
      | _ \<Rightarrow> Inl (AttributeError ''get''))"

definition parse_completion :: "pyrt \<Rightarrow> runtime_info \<Rightarrow> json \<Rightarrow> exc + gen_response" where
  "parse_completion rt info completion =
     res_bind (completion_message completion) (\<lambda>message.
     res_bind (case message of JStr s \<Rightarrow> loads rt s | _ \<Rightarrow> Inl (TypeError ''json.loads'')) (\<lambda>policy.
     res_bind (completion_usage completion) (\<lambda>usage.
     Inr \<lparr>rs_policy = policy, rs_runtime_info = info_dict info, rs_usage = usage\<rparr>)))"

text \<open>
  Principle XIV: in CI a request with non-deterministic decoding parameters is refused before it is
  sent.
\<close>

definition deterministic_decoding :: "pyrt \<Rightarrow> dict \<Rightarrow> exc + bool" where
  "deterministic_decoding rt decoding =
     res_bind (py_float rt (dict_get_or decoding ''temperature'' (JFloat 0))) (\<lambda>temp.
     res_bind (py_float rt (dict_get_or decoding ''top_p'' (JFloat 1))) (\<lambda>top_p.
     res_bind (py_int (dict_get_or decoding ''top_k'' (JInt (- 1)))) (\<lambda>top_k.
     Inr (\<not> (\<bar>temp\<bar> > 1 / 10 ^ 9 \<or> \<bar>top_p - 1\<bar> > 1 / 10 ^ 9 \<or> top_k \<notin> {- 1, 0})))))"

definition chat_payload :: "gen_request \<Rightarrow> dict" where
  "chat_payload r =
     [(''messages'', JArr [JObj [(''role'', JStr ''user''), (''content'', JStr (gr_prompt r))]]),
      (''temperature'', dict_get_or (gr_decoding r) ''temperature'' (JFloat 0)),
      (''top_p'', dict_get_or (gr_decoding r) ''top_p'' (JFloat 1)),
      (''seed'', dict_get_or (gr_decoding r) ''seed'' (JInt 0)),
      (''max_tokens'', dict_get_or (gr_decoding r) ''max_tokens'' (JInt 2048))]"

definition vllm_payload :: "gen_request \<Rightarrow> json" where
  "vllm_payload r =
     JObj ([(''model'', JStr PINNED_REPO)] @ chat_payload r
             @ [(''extra_body'', JObj [(''guided_json'', gr_schema r)])])"

definition llamacpp_payload :: "gen_request \<Rightarrow> json" where
  "llamacpp_payload r =
     JObj (chat_payload r
             @ [(''response_format'', JObj [(''type'', JStr ''json_object''), (''schema'', gr_schema r)])])"

text \<open>The transport: posting a document to \<open>/v1/chat/completions\<close>, error statuses raised.\<close>

type_synonym 'z transport = "json \<Rightarrow> (exc, 'z world_scheme, json) act"

definition vllm_generate ::
  "pyrt \<Rightarrow> (string \<Rightarrow> string option) \<Rightarrow> 'z transport \<Rightarrow> runtime_info \<Rightarrow> gen_request \<Rightarrow>
   (exc, 'z world_scheme, gen_response) act" where
  "vllm_generate rt env post info r =
     act_bind
       (if env ''CI'' \<noteq> None \<and> env ''CI'' \<noteq> Some []
        then act_bind (act_lift (deterministic_decoding rt (gr_decoding r))) (\<lambda>ok.
             if ok then act_return ()
             else act_raise (RuntimeError ''CI builds require deterministic decoding (Principle XIV)''))
        else act_return ())
       (\<lambda>_. act_bind (post (vllm_payload r)) (\<lambda>completion. act_lift (parse_completion rt info completion)))"

definition llamacpp_generate ::
  "pyrt \<Rightarrow> 'z transport \<Rightarrow> runtime_info \<Rightarrow> gen_request \<Rightarrow> (exc, 'z world_scheme, gen_response) act" where
  "llamacpp_generate rt post info r =
     act_bind (post (llamacpp_payload r)) (\<lambda>completion. act_lift (parse_completion rt info completion))"

text \<open>\<open>VLLMClient.warmup\<close>: the server must report the pinned revision, or none.\<close>

definition vllm_warmup :: "json \<Rightarrow> exc + unit" where
  "vllm_warmup info =
     (case info of
        JObj d \<Rightarrow>
          (case dict_get_or d ''slm_revision_sha'' JNull of
             JNull \<Rightarrow> Inr ()
           | JStr s \<Rightarrow> if s = PINNED_SHA then Inr ()
                       else Inl (RuntimeError ''vLLM /info reports unexpected revision'')
           | JArr _ \<Rightarrow> Inl (TypeError ''unhashable'')
           | JObj _ \<Rightarrow> Inl (TypeError ''unhashable'')
           | _ \<Rightarrow> Inl (RuntimeError ''vLLM /info reports unexpected revision''))
      | _ \<Rightarrow> Inl (AttributeError ''get''))"

section \<open>The contract of a policy-generator client\<close>

text \<open>
  What the audit trail and the registry need of a response's runtime information: the five
  identifying fields are strings that pass the schema's checks.
\<close>

definition complete_info :: "dict \<Rightarrow> bool" where
  "complete_info d \<longleftrightarrow>
     (\<exists>repo sha rt ver quant.
        dict_get d ''slm_repo'' = Some (JStr repo) \<and> dict_get d ''slm_revision_sha'' = Some (JStr sha) \<and>
        dict_get d ''slm_runtime'' = Some (JStr rt) \<and> dict_get d ''slm_runtime_version'' = Some (JStr ver) \<and>
        dict_get d ''slm_quantization'' = Some (JStr quant) \<and>
        length sha = 40 \<and> rt \<in> set slm_runtimes \<and> quant \<in> set slm_quantizations)"

locale policy_client =
  fixes generate :: "gen_request \<Rightarrow> (exc, 'z world_scheme, gen_response) act"
  assumes generate_keeps_db: "act_preserves (on_db (=)) (generate rq)"
    and generate_info: "generate rq w = (Inr rs, w') \<Longrightarrow> complete_info (rs_runtime_info rs)"
begin

lemma generate_db: "generate rq w = (r, w') \<Longrightarrow> w_db w' = w_db w"
  using generate_keeps_db act_preservesD by (fastforce simp: on_db_def)

lemma generate_keeps: "reflp R \<Longrightarrow> act_preserves (on_db R) (generate rq)"
  using generate_keeps_db [of rq] by (auto simp: act_preserves_def on_db_def dest: reflpD)

end

lemma eq_order: "reflp (=)" "transp (=)"
  by (auto intro: reflpI transpI)

lemma complete_info_dict:
  assumes "length (ri_slm_revision_sha i) = 40" and "ri_slm_runtime i \<in> set slm_runtimes"
    and "ri_slm_quantization i \<in> set slm_quantizations"
  shows "complete_info (info_dict i)"
  using assms by (simp add: complete_info_def info_dict_def dict_get_def)

lemma runtime_infos_complete:
  "complete_info (info_dict stub_runtime_info)" "complete_info (info_dict dev_runtime_info)"
  "complete_info (info_dict (vllm_runtime_info v l))" "complete_info (info_dict (llamacpp_runtime_info v l))"
  by (rule complete_info_dict; simp add: stub_runtime_info_def dev_runtime_info_def vllm_runtime_info_def
      llamacpp_runtime_info_def PINNED_SHA_def slm_runtimes_def slm_quantizations_def)+

interpretation stub: policy_client "stub_generate sha256 rt corpus_root"
proof
  show "act_preserves (on_db (=)) (stub_generate sha256 rt corpus_root rq)" for rq
    unfolding stub_generate_def Let_def
    by (auto intro!: keeps_rules keeps eq_order)
  show "complete_info (rs_runtime_info rs)" if "stub_generate sha256 rt corpus_root rq w = (Inr rs, w')" for rq w rs w'
    using that runtime_infos_complete(1)
    by (auto simp: stub_generate_def Let_def act_simps act_bind_run split: option.splits prod.splits sum.splits)
qed

interpretation dev: policy_client "dev_generate rt env"
  by unfold_locales
    (auto simp: dev_generate_def act_simps runtime_infos_complete intro: keeps eq_order)

lemma parse_completion_info:
  "parse_completion rt info j = Inr rs \<Longrightarrow> rs_runtime_info rs = info_dict info"
  by (auto simp: parse_completion_def res_bind_Inr)

text \<open>The HTTP clients meet the contract over any transport that does not write to the registry.\<close>

lemma vllm_policy_client:
  assumes "\<And>p. act_preserves (on_db (=)) (post p)"
  shows "policy_client (vllm_generate rt env post (vllm_runtime_info v l))"
proof
  show "act_preserves (on_db (=)) (vllm_generate rt env post (vllm_runtime_info v l) rq)" for rq
    unfolding vllm_generate_def by (auto intro!: keeps_rules keeps eq_order assms)
  show "complete_info (rs_runtime_info rs)"
    if "vllm_generate rt env post (vllm_runtime_info v l) rq w = (Inr rs, w')" for rq w rs w'
    using that runtime_infos_complete(3) parse_completion_info
    by (auto simp: vllm_generate_def act_simps elim!: act_bind_InrE)
qed

lemma llamacpp_policy_client:
  assumes "\<And>p. act_preserves (on_db (=)) (post p)"
  shows "policy_client (llamacpp_generate rt post (llamacpp_runtime_info v l))"
proof
  show "act_preserves (on_db (=)) (llamacpp_generate rt post (llamacpp_runtime_info v l) rq)" for rq
    unfolding llamacpp_generate_def by (auto intro!: keeps_rules keeps eq_order assms)
  show "complete_info (rs_runtime_info rs)"
    if "llamacpp_generate rt post (llamacpp_runtime_info v l) rq w = (Inr rs, w')" for rq w rs w'
    using that runtime_infos_complete(4) parse_completion_info
    by (auto simp: llamacpp_generate_def act_simps elim!: act_bind_InrE)
qed

section \<open>The dev-default policy is schema-valid\<close>

lemma match_or_nonempty: "dflt \<noteq> [] \<Longrightarrow> match_or r prompt dflt \<noteq> []"
  by (simp add: match_or_def split: option.splits)

lemma extract_finding_ids:
  "ex_finding_id (extract_finding rt env prompt) \<noteq> []" "ex_session_id (extract_finding rt env prompt) \<noteq> []"
  "env ''DEV_DEFAULT_TENANT'' \<noteq> Some [] \<Longrightarrow> ex_tenant_id (extract_finding rt env prompt) \<noteq> []"
  by (auto simp: extract_finding_def Let_def intro!: match_or_nonempty split: option.splits)

lemma signal_doc_valid:
  assumes "exact_coercion pyd" and "name \<noteq> []" and "0 < rate" and "0 \<le> prio" and "prio \<le> 10"
  shows "validate_signal_spec pyd loc (signal_doc name rate prio) =
    Inr \<lparr>sig_vss_name = name, sig_sample_rate_hz = rate, sig_priority = prio\<rparr>"
  using assms
  by (cases name) (simp_all add: validate_signal_spec_def signal_doc_def Let_def v_field_def dict_get_def
      v_nonempty_def v_str_def v_float_def v_int_def any_str_def exact_coercion_def v_extra_def)

lemma signals_valid:
  assumes "\<And>j. j \<in> set js \<Longrightarrow> \<exists>s. \<forall>l. validate_signal_spec pyd l j = Inr s" and "js \<noteq> []"
  shows "\<exists>ss. v_list 1 (validate_signal_spec pyd) loc (JArr js) = Inr ss"
proof -
  have "\<forall>j. \<exists>s. j \<in> set js \<longrightarrow> (\<forall>l. validate_signal_spec pyd l j = Inr s)" using assms(1) by blast
  then obtain f where "\<And>j l. j \<in> set js \<Longrightarrow> validate_signal_spec pyd l j = Inr (f j)" by metis
  then have "v_list 1 (validate_signal_spec pyd) loc (JArr js) = Inr (map f js)"
    using assms(2) by (simp add: v_list_Inr Suc_le_eq)
  then show ?thesis by blast
qed

lemma dev_signals_valid:
  assumes "exact_coercion pyd" and "[] \<notin> set (ex_candidate_signals x)"
  shows "\<exists>ss. v_list 1 (validate_signal_spec pyd) loc (JArr (if ex_candidate_signals x \<noteq> []
         then map (\<lambda>s. signal_doc s 1 5) (ex_candidate_signals x) else DEFAULT_BRAKE_SIGNALS)) = Inr ss"
proof (cases "ex_candidate_signals x = []")
  case True
  have "\<exists>ss. v_list 1 (validate_signal_spec pyd) loc (JArr DEFAULT_BRAKE_SIGNALS) = Inr ss"
    by (rule signals_valid) (auto simp: DEFAULT_BRAKE_SIGNALS_def signal_doc_valid [OF assms(1)])
  with True show ?thesis by simp
next
  case False
  have "\<exists>ss. v_list 1 (validate_signal_spec pyd) loc
      (JArr (map (\<lambda>s. signal_doc s 1 5) (ex_candidate_signals x))) = Inr ss"
  proof (rule signals_valid)
    fix j assume "j \<in> set (map (\<lambda>s. signal_doc s 1 5) (ex_candidate_signals x))"
    then obtain s where s: "s \<in> set (ex_candidate_signals x)" "j = signal_doc s 1 5" by auto
    with assms(2) have "s \<noteq> []" by auto
    with signal_doc_valid [OF assms(1), of s 1 5] s(2)
    show "\<exists>sp. \<forall>l. validate_signal_spec pyd l j = Inr sp" by auto
  qed (use False in simp)
  with False show ?thesis by simp
qed

lemma dev_policy_gets:
  "dict_get (dev_policy x) ''policy_id'' = Some (JStr (''policy-'' @ ex_finding_id x))"
  "dict_get (dev_policy x) ''version'' = Some (JStr ''1.0.0'')"
  "dict_get (dev_policy x) ''signals'' = Some (JArr (if ex_candidate_signals x \<noteq> []
         then map (\<lambda>s. signal_doc s 1 5) (ex_candidate_signals x) else DEFAULT_BRAKE_SIGNALS))"
  "dict_get (dev_policy x) ''trigger_conditions'' = Some (JArr [JObj [(''kind'', JStr ''time_window''),
         (''params'', JObj [(''window_hours'', JInt 72)])]])"
  "dict_get (dev_policy x) ''collection_window_hours'' = Some (JInt 72)"
  "dict_get (dev_policy x) ''hypothesis'' = Some (JStr ''rotor temperature excursions correlated with mileage'')"
  "dict_get (dev_policy x) ''vehicle_scope'' = Some (JArr (ex_vehicle_scope x))"
  "dict_get (dev_policy x) ''data_governance_flags'' =
     Some (JObj [(''pii_consent'', JBool False), (''has_pii_signal'', JBool False)])"
  "dict_get (dev_policy x) ''confidence_threshold'' = Some (JFloat (max 0 (min 1 (ex_confidence x - 1 / 10))))"
  "dict_get (dev_policy x) ''generated_from_session_id'' = Some (JStr (ex_session_id x))"
  "dict_get (dev_policy x) ''originating_finding'' = Some (JObj [(''tenant_id'', JStr (ex_tenant_id x)),
         (''finding_id'', JStr (ex_finding_id x))])"
  by (simp_all add: dev_policy_def dict_get_def)

lemma dev_policy_absent:
  "dict_get (dev_policy x) ''prompt_template_version'' = None" "dict_get (dev_policy x) ''slm_repo'' = None"
  "dict_get (dev_policy x) ''slm_revision_sha'' = None" "dict_get (dev_policy x) ''slm_runtime'' = None"
  "dict_get (dev_policy x) ''slm_runtime_version'' = None" "dict_get (dev_policy x) ''slm_quantization'' = None"
  "dict_get (dev_policy x) ''slm_decoding_seed'' = None" "dict_get (dev_policy x) ''created_at'' = None"
  "v_extra (dev_policy x) [] policy_fields = []"
  by (simp_all add: dev_policy_def dict_get_def v_extra_def policy_fields_def)

lemma build_policy_total:
  "build_policy (Inr pid) (Inr ve) (Inr si) (Inr tc) (Inr cw) (Inr hy) (Inr vs) (Inr dg) (Inr ct) (Inr gs)
     (Inr og) (Inr pt) (Inr rp) (Inr sh) (Inr rt) (Inr rv) (Inr qu) (Inr se) (Inr ca) [] =
   Inr \<lparr>p_policy_id = pid, p_version = ve, p_signals = si, p_trigger_conditions = tc,
     p_collection_window_hours = cw, p_hypothesis = hy, p_vehicle_scope = vs, p_data_governance_flags = dg,
     p_confidence_threshold = ct, p_generated_from_session_id = gs, p_originating_finding = og,
     p_prompt_template_version = pt, p_slm_repo = rp, p_slm_revision_sha = sh, p_slm_runtime = rt,
     p_slm_runtime_version = rv, p_slm_quantization = qu, p_slm_decoding_seed = se, p_created_at = ca\<rparr>"
  by (simp add: build_policy_def)

lemma dev_policy_valid:
  assumes "exact_coercion pyd" and "ex_finding_id x \<noteq> []" and "ex_session_id x \<noteq> []" and "ex_tenant_id x \<noteq> []"
    and "ex_vehicle_scope x = map JStr vs" and "vs \<noteq> []" and "[] \<notin> set vs"
    and "[] \<notin> set (ex_candidate_signals x)"
  shows "\<exists>p. validate_policy pyd (JObj (dev_policy x)) = Inr p \<and> p_vehicle_scope p = vs \<and>
    p_originating_finding p = \<lparr>org_tenant_id = ex_tenant_id x, org_finding_id = ex_finding_id x\<rparr>"
proof -
  obtain ss where ss: "v_list 1 (validate_signal_spec pyd) ([] @ [''signals'']) (JArr (if ex_candidate_signals x \<noteq> []
         then map (\<lambda>s. signal_doc s 1 5) (ex_candidate_signals x) else DEFAULT_BRAKE_SIGNALS)) = Inr ss"
    using dev_signals_valid [OF assms(1,8)] by blast
  have sv: "is_semver ''1.0.0''" by (simp add: is_semver_def is_digits_def is_digit_def)
  have tc: "v_list 0 validate_trigger_spec l (JArr [JObj [(''kind'', JStr ''time_window''),
         (''params'', JObj [(''window_hours'', JInt 72)])]]) =
      Inr [\<lparr>trg_kind = ''time_window'', trg_params = [(''window_hours'', JInt 72)]\<rparr>]" for l
    by (simp add: v_list_def validate_trigger_spec_def v_field_def dict_get_def v_literal_def v_dict_def
        trigger_kinds_def v_extra_def Let_def)
  have dg: "validate_governance pyd l (JObj [(''pii_consent'', JBool False), (''has_pii_signal'', JBool False)]) =
      Inr \<lparr>gov_pii_consent = False, gov_has_pii_signal = False\<rparr>" for l
    using assms(1) by (simp add: validate_governance_def v_field_def dict_get_def v_bool_def v_extra_def
        exact_coercion_def Let_def)
  have og: "validate_origin l (JObj [(''tenant_id'', JStr (ex_tenant_id x)), (''finding_id'', JStr (ex_finding_id x))]) =
      Inr \<lparr>org_tenant_id = ex_tenant_id x, org_finding_id = ex_finding_id x\<rparr>" for l
    using assms(2,4) by (simp add: validate_origin_def v_field_def dict_get_def v_nonempty_def v_str_def any_str_def
        v_extra_def Let_def Suc_le_eq)
  have vs: "v_list 1 v_nonempty l (JArr (map JStr vs)) = Inr vs" for l
    using assms(6,7) by (simp add: v_nonempty_list_Inr Suc_le_eq)
  show ?thesis
    unfolding validate_policy_def json.case v_field_def v_field_or_def dev_policy_gets dev_policy_absent option.case
      assms(5) vs ss tc dg og
    using assms(1-4)
    by (simp add: v_nonempty_def v_semver_def v_str_def any_str_def sv v_int_def v_float_def exact_coercion_def
        build_policy_total)
qed

text \<open>
  The dev-default client's policy passes the policy schema whenever the vehicle scope and the
  candidate signals it read from the prompt are lists of non-empty strings, and then covers exactly
  that scope.
\<close>

theorem dev_generate_schema_valid:
  assumes "exact_coercion pyd" and "env ''DEV_DEFAULT_TENANT'' \<noteq> Some []"
    and "ex_vehicle_scope (extract_finding rt env (gr_prompt rq)) = map JStr vs" and "vs \<noteq> []" and "[] \<notin> set vs"
    and "[] \<notin> set (ex_candidate_signals (extract_finding rt env (gr_prompt rq)))"
  shows "\<exists>rs p. dev_generate rt env rq w = (Inr rs, w) \<and> validate_policy pyd (rs_policy rs) = Inr p \<and>
    p_vehicle_scope p = vs"
  using dev_policy_valid [OF assms(1) extract_finding_ids(1,2) extract_finding_ids(3) [of env, OF assms(2)] assms(3-6)]
  by (auto simp: dev_generate_def act_simps)

text \<open>A coercion that accepts exactly the JSON type asked for.\<close>

definition strict_pydantic :: pydantic where
  "strict_pydantic =
     \<lparr>as_int = (\<lambda>j. case j of JInt n \<Rightarrow> Some n | _ \<Rightarrow> None),
      as_float = (\<lambda>j. case j of JFloat q \<Rightarrow> Some q | JInt n \<Rightarrow> Some (of_int n) | _ \<Rightarrow> None),
      as_bool = (\<lambda>j. case j of JBool b \<Rightarrow> Some b | _ \<Rightarrow> None),
      as_datetime = (\<lambda>j. case j of JTime t \<Rightarrow> Some t | _ \<Rightarrow> None), verr_msg = (\<lambda>s. s)\<rparr>"

lemma strict_exact: "exact_coercion strict_pydantic"
  by (simp add: exact_coercion_def strict_pydantic_def)

definition no_env :: "string \<Rightarrow> string option" where
  "no_env k = None"

definition bare_request :: gen_request where
  "bare_request = \<lparr>gr_session_id = ''s'', gr_prompt_template_version = ''1.0.0'', gr_prompt = [],
     gr_schema = JNull, gr_decoding = [], gr_retry_context = None\<rparr>"

theorem dev_generate_schema_valid_witness:
  "\<exists>rs p. dev_generate plain_rt no_env bare_request sample_world = (Inr rs, sample_world) \<and>
     validate_policy strict_pydantic (rs_policy rs) = Inr p \<and> p_vehicle_scope p = [''VIN-default-001'']"
proof (rule dev_generate_schema_valid [OF strict_exact])
  show "ex_vehicle_scope (extract_finding plain_rt no_env (gr_prompt bare_request)) = map JStr [''VIN-default-001'']"
    "[] \<notin> set (ex_candidate_signals (extract_finding plain_rt no_env (gr_prompt bare_request)))"
    by (simp_all add: extract_finding_def Let_def bare_request_def match_or_def re_search_def field_re_def
        bracket_re_def startswith_def)
qed (simp_all add: no_env_def)

end
