(* ===== verification/CM_Deployer.thy ===== *)
theory CM_Deployer
  imports CM_Slm
begin

text \<open>
  The Collector AI clients of \<open>deployer/\<close>: the response type of \<open>client.py\<close>, the in-process simulator
  with failure injection, and the real client's stub; and the logical-time scheduler of
  \<open>feedback/scheduler.py\<close>, with which the simulator shares the acceleration factor.
\<close>

section \<open>Logical time\<close>

text \<open>
  \<open>timedelta(seconds=q)\<close> in microseconds, rounded half to even. Instants are microseconds.
\<close>

definition round_even :: "rat \<Rightarrow> int" where
  "round_even q =
     (let f = \<lfloor>q\<rfloor>; d = q - of_int f in
      if d < 1 / 2 then f else if d > 1 / 2 then f + 1 else if even f then f else f + 1)"

definition timedelta_seconds :: "rat \<Rightarrow> int" where
  "timedelta_seconds q = round_even (q * 1000000)"

text \<open>\<open>float(os.environ.get("TIME_ACCELERATION_FACTOR", "1.0") or 1.0) or 1.0\<close>.\<close>

definition acceleration_env :: "pyrt \<Rightarrow> (string \<Rightarrow> string option) \<Rightarrow> exc + rat" where
  "acceleration_env rt env =
     (case env ''TIME_ACCELERATION_FACTOR'' of
        None \<Rightarrow> Inr 1
      | Some s \<Rightarrow>
          if s = [] then Inr 1
          else (case rt_float rt s of
                  None \<Rightarrow> Inl (ValueError ''could not convert string to float'')
                | Some q \<Rightarrow> Inr (if q = 0 then 1 else q)))"

definition new_scheduler :: "pyrt \<Rightarrow> (string \<Rightarrow> string option) \<Rightarrow> rat option \<Rightarrow> exc + rat" where
  "new_scheduler rt env factor =
     res_bind (case factor of None \<Rightarrow> acceleration_env rt env | Some f \<Rightarrow> Inr f) (\<lambda>f.
       if f \<le> 0 then Inl (ValueError ''TIME_ACCELERATION_FACTOR must be > 0'') else Inr f)"

definition scheduler_expires_at :: "rat \<Rightarrow> int \<Rightarrow> int \<Rightarrow> int" where
  "scheduler_expires_at factor opened_at window_hours =
     opened_at + timedelta_seconds (of_int (window_hours * 3600) / factor)"

lemma round_even_bounds: "of_int (round_even q) \<ge> q - 1 / 2" "of_int (round_even q) \<le> q + 1 / 2"
  unfolding round_even_def Let_def
  by (auto simp: algebra_simps) (use floor_correct [of q] in linarith)+

section \<open>deployer/client.py\<close>

record deploy_response =
  dr_deployment_id :: string
  dr_status :: string
  dr_downstream_response :: json
  dr_accepted_at :: json
  dr_expires_at :: json

record deploy_args =
  da_tenant_id :: string
  da_policy_id :: json
  da_version :: json
  da_vehicle_scope :: "json list"
  da_payload :: dict
  da_payload_signature :: string
  da_signature_key_id :: string

section \<open>deployer/simulator.py\<close>

text \<open>The simulator's own state: its random stream and the deployments in flight.\<close>

record sim_world = world +
  sim_random :: "nat \<Rightarrow> rat"
  sim_draws :: nat
  sim_inflight :: "(string \<times> deploy_response) list"

record simulator =
  sim_inject_failure_rate :: rat
  sim_failure_status :: string

definition simulator_from_env :: "pyrt \<Rightarrow> (string \<Rightarrow> string option) \<Rightarrow> exc + simulator" where
  "simulator_from_env rt env =
     (let raw = (case env ''COLLECTOR_AI_FAIL_RATE'' of None \<Rightarrow> ''0.0'' | Some s \<Rightarrow> s) in
      case rt_float rt raw of
        None \<Rightarrow> Inl (ValueError ''could not convert string to float'')
      | Some q \<Rightarrow> Inr \<lparr>sim_inject_failure_rate = q, sim_failure_status = ''rejected''\<rparr>)"

definition draw_random :: "(exc, 'z sim_world_scheme, rat) act" where
  "draw_random w = (Inr (sim_random w (sim_draws w)), w\<lparr>sim_draws := Suc (sim_draws w)\<rparr>)"

definition window_hours_of :: "dict \<Rightarrow> exc + int" where
  "window_hours_of payload =
     (case dict_get_or payload ''collection_window_hours'' (JInt 24) of
        JNull \<Rightarrow> Inr 24 | JArr _ \<Rightarrow> Inr 24 | JObj _ \<Rightarrow> Inr 24
      | v \<Rightarrow> py_int v)"

text \<open>The short-circuit test \<open>rate > 0 and random() < rate\<close> draws only when the rate is positive.\<close>

definition inject_failure :: "simulator \<Rightarrow> (exc, 'z sim_world_scheme, bool) act" where
  "inject_failure sim =
     (if sim_inject_failure_rate sim > 0
      then act_bind draw_random (\<lambda>x. act_return (x < sim_inject_failure_rate sim))
      else act_return False)"

definition simulator_deploy ::
  "pyrt \<Rightarrow> (string \<Rightarrow> string option) \<Rightarrow> simulator \<Rightarrow> deploy_args \<Rightarrow> (exc, 'z sim_world_scheme, deploy_response) act" where
  "simulator_deploy rt env sim a =
     (if da_vehicle_scope a = []
      then act_return \<lparr>dr_deployment_id = [], dr_status = ''rejected'',
             dr_downstream_response = JObj [(''reason'', JStr ''empty vehicle_scope'')],
             dr_accepted_at = JNull, dr_expires_at = JNull\<rparr>
      else
        act_bind (inject_failure sim) (\<lambda>failed.
        if failed
        then act_bind ulid_new (\<lambda>did. act_return
               \<lparr>dr_deployment_id = did, dr_status = sim_failure_status sim,
                dr_downstream_response = JObj [(''reason'', JStr ''injected failure'')],
                dr_accepted_at = JNull, dr_expires_at = JNull\<rparr>)
        else
          act_bind now (\<lambda>t.
          act_bind (act_lift (window_hours_of (da_payload a))) (\<lambda>window_hours.
          act_bind (act_lift (acceleration_env rt env)) (\<lambda>accel.
          act_bind ulid_new (\<lambda>did.
          let response =
            \<lparr>dr_deployment_id = did, dr_status = ''accepted'',
             dr_downstream_response = JObj [(''tenant_id'', JStr (da_tenant_id a)),
               (''policy_id'', da_policy_id a), (''version'', da_version a),
               (''vehicles'', JArr (da_vehicle_scope a)),
               (''signature_key_id'', JStr (da_signature_key_id a))],
             dr_accepted_at = JTime t,
             dr_expires_at = JTime (t + timedelta_seconds (of_int (window_hours * 3600) / accel))\<rparr>
          in act_bind (act_modify (\<lambda>w. w\<lparr>sim_inflight := (did, response) # sim_inflight w\<rparr>))
               (\<lambda>_. act_return response)))))))"

definition simulator_get :: "string \<Rightarrow> 'z sim_world_scheme \<Rightarrow> deploy_response option" where
  "simulator_get deployment_id w = map_of (sim_inflight w) deployment_id"

section \<open>deployer/real\_stub.py\<close>

definition real_enabled :: "(string \<Rightarrow> string option) \<Rightarrow> bool option \<Rightarrow> bool" where
  "real_enabled env enabled =
     (case enabled of
        Some b \<Rightarrow> b
      | None \<Rightarrow> lower (case env ''COLLECTOR_AI_REAL_ENABLED'' of None \<Rightarrow> ''0'' | Some s \<Rightarrow> s)
                  \<in> {''1'', ''true'', ''yes''})"

definition not_implemented :: app_error where
  "not_implemented =
     \<lparr>err_kind = Base, err_code = ''NOT_IMPLEMENTED'', err_status = 501,
      err_reason = ''RealCollectorAIClient is not implemented in feature 001.'',
      err_details = Some [(''feature'', JStr ''001-policy-loop-vertical-slice''),
        (''see'', JStr ''docs/adr/0005-slm-hosting-topology.md'')]\<rparr>"

definition real_deploy :: "bool \<Rightarrow> deploy_args \<Rightarrow> (exc, 'z world_scheme, deploy_response) act" where
  "real_deploy enabled a =
     (if \<not> enabled then act_raise (App not_implemented)
      else act_raise (NotImplementedError ''real Collector AI integration is deferred''))"

section \<open>The contract of a collector client\<close>

text \<open>
  The graph relies on a client that leaves the registry alone and that, when it accepts, names the
  deployment and says when it expires.
\<close>

locale collector_client =
  fixes deploy :: "deploy_args \<Rightarrow> (exc, 'z world_scheme, deploy_response) act"
  assumes deploy_keeps_db: "act_preserves (on_db (=)) (deploy a)"
    and deploy_accepted: "deploy a w = (Inr r, w') \<Longrightarrow> dr_status r = ''accepted'' \<Longrightarrow>
      da_vehicle_scope a \<noteq> [] \<and> (\<exists>t. dr_expires_at r = JTime t) \<and> (\<exists>n. dr_deployment_id r = w_ids w n)"
begin

lemma deploy_db: "deploy a w = (r, w') \<Longrightarrow> w_db w' = w_db w"
  using deploy_keeps_db act_preservesD by (fastforce simp: on_db_def)

lemma deploy_keeps: "reflp R \<Longrightarrow> act_preserves (on_db R) (deploy a)"
  using deploy_keeps_db [of a] by (auto simp: act_preserves_def on_db_def dest: reflpD)

text \<open>An empty vehicle scope is never accepted.\<close>

lemma empty_scope_not_accepted:
  "da_vehicle_scope a = [] \<Longrightarrow> deploy a w = (Inr r, w') \<Longrightarrow> dr_status r \<noteq> ''accepted''"
  using deploy_accepted by blast

end

lemma draw_random_keeps: "reflp R \<Longrightarrow> act_preserves (on_db R) draw_random"
  by (auto simp: act_preserves_def on_db_def env_kept_def draw_random_def dest: reflpD)

lemma sim_modify_keeps: "reflp R \<Longrightarrow> act_preserves (on_db R) (act_modify (\<lambda>w. w\<lparr>sim_inflight := f w\<rparr>))"
  by (auto simp: act_preserves_def on_db_def env_kept_def act_simps dest: reflpD)

lemma simulator_keeps_db: "act_preserves (on_db (=)) (simulator_deploy rt env sim a)"
  unfolding simulator_deploy_def inject_failure_def Let_def
  by (auto intro!: keeps_rules keeps eq_order draw_random_keeps sim_modify_keeps)

lemma inject_failure_world:
  assumes "inject_failure sim w = (Inr b, w')"
  shows "w_ids w' = w_ids w" "w_nids w' = w_nids w" "w_db w' = w_db w"
  using assms
  by (auto simp: inject_failure_def act_bind_run draw_random_def act_simps split: if_splits)

text \<open>What the simulator answers when it accepts.\<close>

lemma simulator_accepts:
  assumes "simulator_deploy rt env sim a w = (Inr r, w')" and "dr_status r = ''accepted''"
    and "sim_failure_status sim \<noteq> ''accepted''"
  shows "da_vehicle_scope a \<noteq> []"
    and "\<exists>t wh acc. window_hours_of (da_payload a) = Inr wh \<and> acceleration_env rt env = Inr acc \<and>
      dr_accepted_at r = JTime t \<and>
      dr_expires_at r = JTime (t + timedelta_seconds (of_int (wh * 3600) / acc))"
    and "\<exists>n. dr_deployment_id r = w_ids w n" and "simulator_get (dr_deployment_id r) w' = Some r"
proof -
  show scope: "da_vehicle_scope a \<noteq> []"
    using assms by (auto simp: simulator_deploy_def act_simps)
  from assms(1) scope obtain b w1 where b: "inject_failure sim w = (Inr b, w1)"
    by (auto simp: simulator_deploy_def elim!: act_bind_InrE)
  note ids = inject_failure_world [OF b]
  from assms scope b have nb: "\<not> b"
    by (auto simp: simulator_deploy_def act_simps act_bind_run ulid_new_def)
  note run = simulator_deploy_def act_bind_run now_def ulid_new_def act_run_simps Let_def
  from assms(1) scope b nb
  show "\<exists>t wh acc. window_hours_of (da_payload a) = Inr wh \<and> acceleration_env rt env = Inr acc \<and>
      dr_accepted_at r = JTime t \<and>
      dr_expires_at r = JTime (t + timedelta_seconds (of_int (wh * 3600) / acc))"
    by (cases "window_hours_of (da_payload a)"; cases "acceleration_env rt env") (auto simp: run)
  from assms(1) scope b nb ids(1) show "\<exists>n. dr_deployment_id r = w_ids w n"
    by (cases "window_hours_of (da_payload a)"; cases "acceleration_env rt env") (auto simp: run)
  from assms(1) scope b nb show "simulator_get (dr_deployment_id r) w' = Some r"
    by (cases "window_hours_of (da_payload a)"; cases "acceleration_env rt env")
      (auto simp: run simulator_get_def)
qed

definition default_simulator :: simulator where
  "default_simulator = \<lparr>sim_inject_failure_rate = 0, sim_failure_status = ''rejected''\<rparr>"

interpretation sim: collector_client "simulator_deploy rt env default_simulator"
proof
  show "act_preserves (on_db (=)) (simulator_deploy rt env default_simulator a)" for a
    by (rule simulator_keeps_db)
  show "da_vehicle_scope a \<noteq> [] \<and> (\<exists>t. dr_expires_at r = JTime t) \<and> (\<exists>n. dr_deployment_id r = w_ids w n)"
    if "simulator_deploy rt env default_simulator a w = (Inr r, w')" "dr_status r = ''accepted''" for a w r w'
    using simulator_accepts [OF that] by (auto simp: default_simulator_def)
qed

interpretation real: collector_client "real_deploy enabled"
  by unfold_locales
    (auto simp: real_deploy_def act_simps intro: keeps eq_order split: if_splits)

section \<open>Expiry\<close>

lemma expiry_after_acceptance:
  fixes acc :: rat
  assumes "0 < acc" and "acc \<le> 3600000000" and "1 \<le> wh"
  shows "0 < timedelta_seconds (of_int (wh * 3600) / acc)"
proof -
  let ?q = "of_int (wh * 3600) / acc * 1000000"
  have "3600 \<le> (of_int (wh * 3600) :: rat)" using assms(3) by simp
  then have "1 \<le> ?q" using assms by (simp add: field_simps)
  then have "0 < (of_int (round_even ?q) :: rat)" using round_even_bounds(1) [of ?q] by linarith
  then show ?thesis by (simp add: timedelta_seconds_def)
qed

text \<open>
  A deployment the simulator accepts is for at least one vehicle, is retrievable by its id, and,
  for a window of at least one hour and a positive acceleration of at most one hour per microsecond,
  expires strictly after it was accepted.
\<close>

theorem simulator_accepts_window:
  assumes "simulator_deploy rt env default_simulator a w = (Inr r, w')" and "dr_status r = ''accepted''"
    and "window_hours_of (da_payload a) = Inr wh" and "1 \<le> wh"
    and "acceleration_env rt env = Inr acc" and "0 < acc" and "acc \<le> 3600000000"
  shows "da_vehicle_scope a \<noteq> [] \<and> simulator_get (dr_deployment_id r) w' = Some r \<and>
    (\<exists>t e. dr_accepted_at r = JTime t \<and> dr_expires_at r = JTime e \<and> t < e)"
  using simulator_accepts [OF assms(1,2)] expiry_after_acceptance [OF assms(6,7,4)] assms(3,5)
  by (auto simp: default_simulator_def)

definition sim_start :: sim_world where
  "sim_start = world.extend sample_world (sim_world.fields (\<lambda>_. 0) 0 [])"

definition sample_deploy :: deploy_args where
  "sample_deploy = \<lparr>da_tenant_id = ''t1'', da_policy_id = JStr ''p'', da_version = JStr ''1.0.0'',
     da_vehicle_scope = [JStr ''v1''], da_payload = [(''collection_window_hours'', JInt 24)],
     da_payload_signature = ''sig'', da_signature_key_id = ''k''\<rparr>"

theorem simulator_accepts_window_witness:
  "\<exists>r w'. simulator_deploy plain_rt no_env default_simulator sample_deploy sim_start = (Inr r, w') \<and>
     dr_status r = ''accepted'' \<and> (\<exists>t e. dr_accepted_at r = JTime t \<and> dr_expires_at r = JTime e \<and> t < e)"
proof -
  obtain r w' where r: "simulator_deploy plain_rt no_env default_simulator sample_deploy sim_start = (Inr r, w')"
    "dr_status r = ''accepted''"
    by (simp add: simulator_deploy_def sample_deploy_def default_simulator_def inject_failure_def act_bind_run
        now_def ulid_new_def act_run_simps Let_def window_hours_of_def dict_get_or_def dict_get_def py_int_def
        acceleration_env_def no_env_def)
  have "window_hours_of (da_payload sample_deploy) = Inr 24" "acceleration_env plain_rt no_env = Inr 1"
    by (simp_all add: window_hours_of_def sample_deploy_def dict_get_or_def dict_get_def py_int_def
        acceleration_env_def no_env_def)
  from simulator_accepts_window [OF r this(1) _ this(2)] r show ?thesis by auto
qed

end
