(* ===== verification/CM_Graph.thy ===== *)
theory CM_Graph
  imports CM_Validator CM_Deployer
begin

text \<open>
  The policy-generation graph of \<open>graph/\<close>: the session object, the orchestrator, the generator with
  its prompt renderer, the validator and deployer nodes, and the bounded retry loop of
  \<open>CollectMindGraph.run\<close>. The language-model client and the collector client are arguments; the
  prompt files, the JSON schema and the signer are fields of the configuration record.
\<close>

section \<open>graph/session.py\<close>

record session =
  ses_session_id :: string
  ses_tenant_id :: string
  ses_correlation_id :: string
  ses_originating_finding :: dict
  ses_execution_plan :: "string list"
  ses_retry_count :: int
  ses_retry_budget :: int
  ses_validation_errors :: "json list"
  ses_generated_policy :: json
  ses_deployment_record :: "dict option"
  ses_outcome_record :: "dict option"
  ses_started_at :: int
  ses_last_runtime_info :: "dict option"
  ses_last_decoding_seed :: "int option"
  ses_prompt_template_version :: string

definition make_session :: "string \<Rightarrow> string \<Rightarrow> string \<Rightarrow> dict \<Rightarrow> int \<Rightarrow> exc + session" where
  "make_session session_id tenant_id correlation_id finding started_at =
     (if session_id = [] \<or> tenant_id = [] \<or> correlation_id = [] then Inl (ValueError ''string_too_short'')
      else Inr \<lparr>ses_session_id = session_id, ses_tenant_id = tenant_id, ses_correlation_id = correlation_id,
             ses_originating_finding = finding, ses_execution_plan = [''generate'', ''validate'', ''deploy''],
             ses_retry_count = 0, ses_retry_budget = 3, ses_validation_errors = [],
             ses_generated_policy = JNull, ses_deployment_record = None, ses_outcome_record = None,
             ses_started_at = started_at, ses_last_runtime_info = None, ses_last_decoding_seed = None,
             ses_prompt_template_version = ''1.0.0''\<rparr>)"

definition retry_budget_exhausted :: "session \<Rightarrow> bool" where
  "retry_budget_exhausted s \<longleftrightarrow> ses_retry_count s \<ge> ses_retry_budget s"

section \<open>Configuration\<close>

record graph_cfg =
  g_rt :: pyrt
  g_pyd :: pydantic
  g_message :: "verr list \<Rightarrow> string"
  g_schema :: json
  g_system_prompt :: string
  g_user_prompt :: string
  g_validator :: policy_validator
  g_sign :: "dict \<Rightarrow> string \<times> string"

section \<open>graph/orchestrator.py\<close>

datatype route = RDeploy | RRetry | RDeadLetter | RDone

definition initial_plan :: "session \<Rightarrow> session" where
  "initial_plan s = s\<lparr>ses_execution_plan := [''generate'', ''validate'', ''deploy'']\<rparr>"

definition route_after_validation :: "session \<Rightarrow> bool \<Rightarrow> (exc, 'z world_scheme, session \<times> route) act" where
  "route_after_validation s valid =
     (if valid then act_return (s, RDeploy)
      else if retry_budget_exhausted s then act_return (s, RDeadLetter)
      else act_bind (metric_inc ''policy_retry_total'' [ses_tenant_id s])
             (\<lambda>_. act_return (s\<lparr>ses_retry_count := ses_retry_count s + 1\<rparr>, RRetry)))"

definition route_after_deploy :: "bool \<Rightarrow> route" where
  "route_after_deploy deploy_ok = (if deploy_ok then RDone else RDeadLetter)"

section \<open>graph/policy\_generator.py\<close>

definition DEFAULT_DECODING_SEED :: int where
  "DEFAULT_DECODING_SEED = 0xC0FFEE"

text \<open>\<open>str.replace\<close> refuses a replacement that is not a string.\<close>

definition str_arg :: "pyrt \<Rightarrow> json \<Rightarrow> exc + string" where
  "str_arg rt j =
     (case j of JStr s \<Rightarrow> Inr s | JTime t \<Rightarrow> Inr (rt_isoformat rt t) | _ \<Rightarrow> Inl (TypeError ''replace''))"

definition py_str :: "pyrt \<Rightarrow> json \<Rightarrow> string" where
  "py_str rt j =
     (case j of JStr s \<Rightarrow> s | JTime t \<Rightarrow> rt_isoformat rt t | JInt n \<Rightarrow> show_int n | JFloat q \<Rightarrow> rt_repr rt q
      | _ \<Rightarrow> rt_str rt j)"

text \<open>\<open>s.index(pat)\<close>.\<close>

fun sub_index :: "string \<Rightarrow> string \<Rightarrow> nat option" where
  "sub_index pat [] = (if pat = [] then Some 0 else None)"
| "sub_index pat (c # cs) = (if startswith (c # cs) pat then Some 0 else map_option Suc (sub_index pat cs))"

definition render_fields :: "graph_cfg \<Rightarrow> session \<Rightarrow> exc + string" where
  "render_fields cfg s =
     (let f = ses_originating_finding s; rt = g_rt cfg in
      res_bind (str_arg rt (dict_get_or f ''finding_id'' (JStr []))) (\<lambda>fid.
      res_bind (str_arg rt (dict_get_or f ''anomaly_type'' (JStr []))) (\<lambda>an.
      res_bind (str_arg rt (dict_get_or f ''hypothesis_class'' (JStr []))) (\<lambda>hc.
      res_bind (str_arg rt (dict_get_or f ''hypothesis_statement'' (JStr []))) (\<lambda>hs.
      Inr
       (replace_all ''{{ session_id }}'' (ses_session_id s)
       (replace_all ''{{ upstream_confidence }}'' (py_str rt (dict_get_or f ''upstream_confidence'' (JFloat 0)))
       (replace_all ''{{ candidate_signals_json }}'' (dumps rt (dict_get_or f ''candidate_signals'' (JArr [])))
       (replace_all ''{{ vehicle_scope_json }}'' (dumps rt (dict_get_or f ''vehicle_scope'' (JArr [])))
       (replace_all ''{{ hypothesis_statement }}'' hs
       (replace_all ''{{ hypothesis_class }}'' hc
       (replace_all ''{{ anomaly_type }}'' an
       (replace_all ''{{ finding_id }}'' fid
       (replace_all ''{{ tenant_id }}'' (ses_tenant_id s) (g_user_prompt cfg)))))))))))))))"

definition if_open :: string where
  "if_open = ''{% if retry_context %}''"

definition if_close :: string where
  "if_close = ''{% endif %}''"

definition render_retry :: "graph_cfg \<Rightarrow> session \<Rightarrow> string \<Rightarrow> exc + string" where
  "render_retry cfg s rendered =
     (case sub_index if_open rendered of
        None \<Rightarrow> Inr rendered
      | Some start \<Rightarrow>
          if ses_validation_errors s = []
          then (case sub_index if_close rendered of
                  None \<Rightarrow> Inl (ValueError ''substring not found'')
                | Some stop \<Rightarrow> Inr (take start rendered @ drop (stop + length if_close) rendered))
          else Inr (replace_all ''{{ retry_context_json }}''
                 (dumps_indent (g_rt cfg) 0 (JObj [(''validation_errors'', JArr (ses_validation_errors s))]))
                 (replace_all if_close [] (replace_all if_open [] rendered))))"

definition render_prompt :: "graph_cfg \<Rightarrow> session \<Rightarrow> exc + string" where
  "render_prompt cfg s =
     res_bind (render_fields cfg s) (\<lambda>rendered.
     res_bind (render_retry cfg s rendered) (\<lambda>rendered.
     Inr (g_system_prompt cfg @ [CHR 0x0A, CHR 0x0A] @ rendered)))"

definition generation_request :: "graph_cfg \<Rightarrow> session \<Rightarrow> string \<Rightarrow> gen_request" where
  "generation_request cfg s prompt =
     \<lparr>gr_session_id = ses_session_id s, gr_prompt_template_version = ses_prompt_template_version s,
      gr_prompt = prompt, gr_schema = g_schema cfg,
      gr_decoding = [(''temperature'', JFloat 0), (''top_p'', JFloat 1), (''top_k'', JInt (- 1)),
        (''seed'', JInt DEFAULT_DECODING_SEED)],
      gr_retry_context = (if ses_validation_errors s \<noteq> []
        then Some [(''validation_errors'', JArr (ses_validation_errors s))] else None)\<rparr>"

type_synonym 'w slm_client = "gen_request \<Rightarrow> (exc, 'w, gen_response) act"
type_synonym 'w collector = "deploy_args \<Rightarrow> (exc, 'w, deploy_response) act"

definition generate :: "graph_cfg \<Rightarrow> 'z world_scheme slm_client \<Rightarrow> session \<Rightarrow> (exc, 'z world_scheme, session) act" where
  "generate cfg slm s =
     act_bind (act_lift (render_prompt cfg s)) (\<lambda>prompt.
     act_bind (slm (generation_request cfg s prompt)) (\<lambda>response.
     act_return (s\<lparr>ses_generated_policy := rs_policy response,
       ses_last_runtime_info := Some (rs_runtime_info response),
       ses_last_decoding_seed := Some DEFAULT_DECODING_SEED\<rparr>)))"

section \<open>graph/policy\_validator.py\<close>

definition validate_node :: "graph_cfg \<Rightarrow> session \<Rightarrow> exc + (session \<times> bool)" where
  "validate_node cfg s =
     (if ses_generated_policy s = JNull
      then Inl (RuntimeError ''validator invoked before generator produced a policy'')
      else
        (case validate_policy (g_pyd cfg) (ses_generated_policy s) of
           Inl es \<Rightarrow>
             Inr (s\<lparr>ses_validation_errors := [JObj [(''code'', JStr ''SCHEMA_VALIDATION_FAILED''),
                    (''field'', JStr ''generated_policy''), (''message'', JStr (g_message cfg es))]]\<rparr>, False)
         | Inr spec \<Rightarrow>
             let result = validate (g_validator cfg) spec in
             Inr (s\<lparr>ses_validation_errors :=
                    (if \<not> vr_ok result then map error_dict (vr_errors result) else [])\<rparr>, vr_ok result)))"

section \<open>graph/policy\_deployer.py\<close>

definition policy_dict :: "session \<Rightarrow> dict" where
  "policy_dict s = (case ses_generated_policy s of JObj d \<Rightarrow> d | _ \<Rightarrow> [])"

text \<open>\<open>list(policy.get("vehicle_scope", []))\<close>.\<close>

definition scope_list :: "dict \<Rightarrow> exc + json list" where
  "scope_list policy =
     (case dict_get_or policy ''vehicle_scope'' (JArr []) of
        JArr xs \<Rightarrow> Inr xs
      | JObj d \<Rightarrow> Inr (map (\<lambda>(k, _). JStr k) d)
      | JStr s \<Rightarrow> Inr (map (\<lambda>ch. JStr [ch]) s)
      | _ \<Rightarrow> Inl (TypeError ''not iterable''))"

definition deploy_request :: "graph_cfg \<Rightarrow> session \<Rightarrow> json list \<Rightarrow> deploy_args" where
  "deploy_request cfg s scope =
     \<lparr>da_tenant_id = ses_tenant_id s,
      da_policy_id = dict_get_or (policy_dict s) ''policy_id'' (JStr []),
      da_version = dict_get_or (policy_dict s) ''version'' (JStr ''1.0.0''),
      da_vehicle_scope = scope, da_payload = policy_dict s,
      da_payload_signature = fst (g_sign cfg (policy_dict s)),
      da_signature_key_id = snd (g_sign cfg (policy_dict s))\<rparr>"

definition deploy_record :: "session \<Rightarrow> json list \<Rightarrow> deploy_response \<Rightarrow> string \<Rightarrow> int \<Rightarrow> dict" where
  "deploy_record s scope response did t =
     [(''deployment_id'', JStr did), (''tenant_id'', JStr (ses_tenant_id s)),
      (''policy_id'', dict_get_or (policy_dict s) ''policy_id'' (JStr [])),
      (''version'', dict_get_or (policy_dict s) ''version'' (JStr ''1.0.0'')),
      (''vehicle_scope'', JArr scope), (''status'', JStr (dr_status response)),
      (''deployed_at'', JTime t), (''expires_at'', dr_expires_at response),
      (''downstream_response'', dr_downstream_response response)]"

definition deploy_node ::
  "graph_cfg \<Rightarrow> 'z world_scheme collector \<Rightarrow> session \<Rightarrow> (exc, 'z world_scheme, session \<times> bool) act" where
  "deploy_node cfg col s =
     act_bind (act_lift (scope_list (policy_dict s))) (\<lambda>scope.
     act_bind (col (deploy_request cfg s scope)) (\<lambda>response.
     act_bind (if dr_deployment_id response \<noteq> [] then act_return (dr_deployment_id response) else ulid_new) (\<lambda>did.
     act_bind now (\<lambda>t.
     act_return (s\<lparr>ses_deployment_record := Some (deploy_record s scope response did t)\<rparr>,
       dr_status response = ''accepted'')))))"

section \<open>graph/build.py\<close>

record graph_result =
  run_session :: session
  run_final_state :: string
  run_validation_attempts :: nat

text \<open>One round of the loop up to the routing decision.\<close>

definition attempt ::
  "graph_cfg \<Rightarrow> 'z world_scheme slm_client \<Rightarrow> session \<Rightarrow> (exc, 'z world_scheme, session \<times> route) act" where
  "attempt cfg slm s =
     act_bind (generate cfg slm s) (\<lambda>s.
     act_bind (act_lift (validate_node cfg s)) (\<lambda>(s, ok).
     route_after_validation s ok))"

lemma attempt_retry:
  assumes "attempt cfg slm s w = (Inr (s', r), w')"
  shows "ses_retry_budget s' = ses_retry_budget s"
    and "r = RRetry \<Longrightarrow> ses_retry_count s < ses_retry_budget s \<and> ses_retry_count s' = ses_retry_count s + 1"
  using assms
  by (auto simp: attempt_def generate_def validate_node_def route_after_validation_def
      retry_budget_exhausted_def act_simps Let_def elim!: act_bind_InrE split: if_splits sum.splits)

text \<open>
  The \<open>while True\<close> loop: a retry uses up one unit of the budget, so it ends. The result is the
  session, whether to deploy, and the number of rounds.
\<close>

function graph_loop ::
  "graph_cfg \<Rightarrow> 'z world_scheme slm_client \<Rightarrow> session \<Rightarrow> nat \<Rightarrow> 'z world_scheme \<Rightarrow>
   (exc + session \<times> bool \<times> nat) \<times> 'z world_scheme" where
  "graph_loop cfg slm s attempts w =
     (case attempt cfg slm s w of
        (Inl e, w') \<Rightarrow> (Inl e, w')
      | (Inr (s', r), w') \<Rightarrow>
          if r = RDeploy then (Inr (s', True, Suc attempts), w')
          else if r = RRetry then graph_loop cfg slm s' (Suc attempts) w'
          else (Inr (s', False, Suc attempts), w'))"
  by pat_completeness auto
termination
proof (relation "measure (\<lambda>(cfg, slm, s, n, w). nat (ses_retry_budget s - ses_retry_count s))", goal_cases)
  case 1
  then show ?case by simp
next
  case (2 cfg slm s n w r0 w' x s' r)
  then have at: "attempt cfg slm s w = (Inr (s', r), w')" by simp
  from attempt_retry [OF at] 2 show ?case by simp
qed

declare graph_loop.simps [simp del]

definition graph_run ::
  "graph_cfg \<Rightarrow> 'z world_scheme slm_client \<Rightarrow> 'z world_scheme collector \<Rightarrow> session \<Rightarrow>
   (exc, 'z world_scheme, graph_result) act" where
  "graph_run cfg slm col s =
     act_bind (graph_loop cfg slm (initial_plan s) 0) (\<lambda>(s, to_deploy, attempts).
     if \<not> to_deploy
     then act_return \<lparr>run_session = s, run_final_state = ''dead_letter'', run_validation_attempts = attempts\<rparr>
     else act_bind (deploy_node cfg col s) (\<lambda>(s, deploy_ok).
       act_return \<lparr>run_session = s,
         run_final_state = (if route_after_deploy deploy_ok = RDone then ''completed'' else ''dead_letter''),
         run_validation_attempts = attempts\<rparr>))"

section \<open>Correctness\<close>

text \<open>What identifies a session: no node changes it.\<close>

definition session_ident :: "session \<Rightarrow> string \<times> string \<times> string \<times> dict \<times> string" where
  "session_ident s = (ses_session_id s, ses_tenant_id s, ses_correlation_id s, ses_originating_finding s,
     ses_prompt_template_version s)"

definition policy_accepted :: "graph_cfg \<Rightarrow> session \<Rightarrow> policy_spec \<Rightarrow> bool" where
  "policy_accepted cfg s p \<longleftrightarrow>
     validate_policy (g_pyd cfg) (ses_generated_policy s) = Inr p \<and> vr_ok (validate (g_validator cfg) p)"

lemma validate_node_Inr:
  assumes "validate_node cfg s = Inr (s', ok)"
  shows "session_ident s' = session_ident s" and "ses_generated_policy s' = ses_generated_policy s"
    and "ses_last_runtime_info s' = ses_last_runtime_info s"
    and "ses_last_decoding_seed s' = ses_last_decoding_seed s"
    and "ses_deployment_record s' = ses_deployment_record s"
    and "ses_generated_policy s \<noteq> JNull"
    and "ok \<longleftrightarrow> (\<exists>p. policy_accepted cfg s' p)" and "ok \<longleftrightarrow> ses_validation_errors s' = []"
  using assms
  by (auto simp: validate_node_def session_ident_def policy_accepted_def Let_def vr_ok_iff
      split: if_splits sum.splits)

lemma attempt_InrE:
  assumes "attempt cfg slm s w = (Inr (s', r), w')"
  obtains rq rs w1 where "slm rq w = (Inr rs, w1)" and "session_ident s' = session_ident s"
    and "ses_generated_policy s' = rs_policy rs" and "rs_policy rs \<noteq> JNull"
    and "ses_last_runtime_info s' = Some (rs_runtime_info rs)"
    and "ses_last_decoding_seed s' = Some DEFAULT_DECODING_SEED"
    and "ses_deployment_record s' = ses_deployment_record s"
    and "r = RDeploy \<longleftrightarrow> (\<exists>p. policy_accepted cfg s' p)"
    and "r \<noteq> RDeploy \<longleftrightarrow> ses_validation_errors s' \<noteq> []"
    and "r \<noteq> RDone" and "r = RDeadLetter \<Longrightarrow> ses_retry_budget s \<le> ses_retry_count s"
proof -
  from assms obtain s1 w2 where g: "generate cfg slm s w = (Inr s1, w2)"
    and rest: "act_bind (act_lift (validate_node cfg s1)) (\<lambda>(s, ok). route_after_validation s ok) w2 = (Inr (s', r), w')"
    unfolding attempt_def by (erule act_bind_InrE)
  from g obtain rq rs w1 where gen: "slm rq w = (Inr rs, w1)"
    and s1: "s1 = s\<lparr>ses_generated_policy := rs_policy rs, ses_last_runtime_info := Some (rs_runtime_info rs),
       ses_last_decoding_seed := Some DEFAULT_DECODING_SEED\<rparr>"
    by (auto simp: generate_def act_simps elim!: act_bind_InrE)
  from rest obtain s2 ok where v: "validate_node cfg s1 = Inr (s2, ok)"
    and ro: "route_after_validation s2 ok w2 = (Inr (s', r), w')"
    by (auto simp: act_simps elim!: act_bind_InrE)
  note vn = validate_node_Inr [OF v]
  have rt: "ses_retry_count s2 = ses_retry_count s \<and> ses_retry_budget s2 = ses_retry_budget s"
    using v s1 by (auto simp: validate_node_def Let_def split: if_splits sum.splits)
  from ro have same: "session_ident s' = session_ident s2" "ses_generated_policy s' = ses_generated_policy s2"
    "ses_last_runtime_info s' = ses_last_runtime_info s2" "ses_last_decoding_seed s' = ses_last_decoding_seed s2"
    "ses_deployment_record s' = ses_deployment_record s2" "ses_validation_errors s' = ses_validation_errors s2"
    "r = RDeploy \<longleftrightarrow> ok" "r \<noteq> RDone" "r = RDeadLetter \<Longrightarrow> retry_budget_exhausted s2"
    by (auto simp: route_after_validation_def session_ident_def metric_inc_def act_simps split: if_splits
        elim!: act_bind_InrE)
  have acc: "policy_accepted cfg s' = policy_accepted cfg s2"
    using same(2) by (auto simp: policy_accepted_def fun_eq_iff)
  show thesis
    by (rule that [OF gen]) (use same vn s1 rt acc in \<open>auto simp: session_ident_def retry_budget_exhausted_def\<close>)
qed

text \<open>What the loop establishes of the session it returns.\<close>

definition loop_spec ::
  "graph_cfg \<Rightarrow> 'z world_scheme slm_client \<Rightarrow> session \<Rightarrow> nat \<Rightarrow> session \<Rightarrow> bool \<Rightarrow> nat \<Rightarrow> bool" where
  "loop_spec cfg slm s n s' b k \<longleftrightarrow>
    session_ident s' = session_ident s \<and> ses_deployment_record s' = ses_deployment_record s \<and>
    ses_generated_policy s' \<noteq> JNull \<and> ses_last_decoding_seed s' = Some DEFAULT_DECODING_SEED \<and>
    (\<exists>rq rs w0 w1. slm rq w0 = (Inr rs, w1) \<and> ses_last_runtime_info s' = Some (rs_runtime_info rs)) \<and>
    (b \<longleftrightarrow> (\<exists>p. policy_accepted cfg s' p)) \<and> (b \<longleftrightarrow> ses_validation_errors s' = []) \<and>
    n < k \<and> k \<le> n + 1 + nat (ses_retry_budget s - ses_retry_count s) \<and>
    (\<not> b \<longrightarrow> k = n + 1 + nat (ses_retry_budget s - ses_retry_count s))"

lemma graph_loop_Inr:
  assumes "graph_loop cfg slm s n w = (Inr (s', b, k), w')"
  shows "loop_spec cfg slm s n s' b k"
  using assms
proof (induction cfg slm s n w rule: graph_loop.induct)
  case (1 cfg slm s n w)
  obtain a w1 where at0: "attempt cfg slm s w = (a, w1)" by (cases "attempt cfg slm s w")
  show ?case
  proof (cases a)
    case (Inl e)
    with at0 "1.prems" show ?thesis by (simp add: graph_loop.simps)
  next
    case (Inr sr)
    obtain s1 r where sr: "sr = (s1, r)" by (cases sr)
    with Inr at0 have at: "attempt cfg slm s w = (Inr (s1, r), w1)" by simp
    show ?thesis
    proof (cases "r = RRetry")
      case True
      then have step: "graph_loop cfg slm s n w = graph_loop cfg slm s1 (Suc n) w1"
        using at by (simp add: graph_loop.simps [of cfg slm s])
      have IH: "loop_spec cfg slm s1 (Suc n) s' b k"
        using "1.IH" [OF at0 [symmetric] Inr sr [symmetric]] True "1.prems" step by simp
      have "session_ident s1 = session_ident s" "ses_deployment_record s1 = ses_deployment_record s"
        by (rule attempt_InrE [OF at]; simp)+
      with IH attempt_retry [OF at] True show ?thesis by (auto simp: loop_spec_def)
    next
      case False
      with at "1.prems" have res: "s' = s1" "k = Suc n" "b \<longleftrightarrow> r = RDeploy"
        by (auto simp: graph_loop.simps [of cfg slm s] split: if_splits)
      show ?thesis unfolding loop_spec_def
        by (rule attempt_InrE [OF at]) (use res False in \<open>cases r; auto\<close>)
    qed
  qed
qed

lemma policy_accepted_doc:
  assumes "policy_accepted cfg s p"
  shows "ses_generated_policy s = JObj (policy_dict s)" and "policy_doc (policy_dict s) p" and "policy_wf p"
proof -
  obtain d where "ses_generated_policy s = JObj d"
    using assms validate_policy_JObj unfolding policy_accepted_def by blast
  then show "ses_generated_policy s = JObj (policy_dict s)" "policy_doc (policy_dict s) p" "policy_wf p"
    using assms validate_policy_sound by (auto simp: policy_accepted_def policy_dict_def)
qed

lemma deploy_node_InrE:
  assumes "deploy_node cfg col s w = (Inr (s', ok), w')"
  obtains scope resp w1 did t where "scope_list (policy_dict s) = Inr scope"
    and "col (deploy_request cfg s scope) w = (Inr resp, w1)"
    and "s' = s\<lparr>ses_deployment_record := Some (deploy_record s scope resp did t)\<rparr>"
    and "ok \<longleftrightarrow> dr_status resp = ''accepted''"
    and "did = (if dr_deployment_id resp \<noteq> [] then dr_deployment_id resp else w_ids w1 (w_nids w1))"
  using assms
  by (auto simp: deploy_node_def act_simps ulid_new_def elim!: act_bind_InrE split: if_splits)

lemma graph_run_InrE:
  assumes "graph_run cfg slm col s w = (Inr run, w')"
  obtains (dead) s1 k where "loop_spec cfg slm (initial_plan s) 0 s1 False k"
      and "graph_loop cfg slm (initial_plan s) 0 w = (Inr (s1, False, k), w')"
      and "run = \<lparr>run_session = s1, run_final_state = ''dead_letter'', run_validation_attempts = k\<rparr>"
    | (deployed) s1 k w1 s2 ok where "loop_spec cfg slm (initial_plan s) 0 s1 True k"
      and "graph_loop cfg slm (initial_plan s) 0 w = (Inr (s1, True, k), w1)"
      and "deploy_node cfg col s1 w1 = (Inr (s2, ok), w')"
      and "run = \<lparr>run_session = s2,
         run_final_state = (if ok then ''completed'' else ''dead_letter''), run_validation_attempts = k\<rparr>"
proof -
  from assms obtain s1 b k w1 where l: "graph_loop cfg slm (initial_plan s) 0 w = (Inr (s1, b, k), w1)"
    and r: "(if \<not> b then act_return \<lparr>run_session = s1, run_final_state = ''dead_letter'', run_validation_attempts = k\<rparr>
      else act_bind (deploy_node cfg col s1) (\<lambda>(s, deploy_ok).
       act_return \<lparr>run_session = s,
         run_final_state = (if route_after_deploy deploy_ok = RDone then ''completed'' else ''dead_letter''),
         run_validation_attempts = k\<rparr>)) w1 = (Inr run, w')"
    unfolding graph_run_def by (auto elim!: act_bind_InrE)
  note spec = graph_loop_Inr [OF l]
  show thesis
  proof (cases b)
    case True
    with r obtain s2 ok where "deploy_node cfg col s1 w1 = (Inr (s2, ok), w')"
      "run = \<lparr>run_session = s2, run_final_state = (if ok then ''completed'' else ''dead_letter''),
         run_validation_attempts = k\<rparr>"
      by (auto simp: act_simps route_after_deploy_def elim!: act_bind_InrE)
    with True spec l show thesis by (intro deployed) auto
  next
    case False
    with r have "w' = w1" "run = \<lparr>run_session = s1, run_final_state = ''dead_letter'', run_validation_attempts = k\<rparr>"
      by (auto simp: act_simps)
    with False spec l show thesis by (intro dead) auto
  qed
qed

text \<open>
  C3. Only a validated policy is ever deployed: when a run leaves a deployment record, the policy in
  the session passed the schema and the policy validator, the record is for that policy and version
  and for exactly its vehicle scope, and it is the session's tenant's.
\<close>

theorem graph_deploys_validated:
  assumes "graph_run cfg slm col s w = (Inr run, w')" and "ses_deployment_record s = None"
    and "ses_deployment_record (run_session run) = Some rcd"
  shows "\<exists>p. policy_accepted cfg (run_session run) p \<and>
    dict_get rcd ''tenant_id'' = Some (JStr (ses_tenant_id s)) \<and>
    dict_get rcd ''policy_id'' = Some (JStr (p_policy_id p)) \<and>
    dict_get rcd ''version'' = Some (JStr (p_version p)) \<and>
    dict_get rcd ''vehicle_scope'' = Some (JArr (map JStr (p_vehicle_scope p))) \<and> p_vehicle_scope p \<noteq> []"
  using assms(1)
proof (cases rule: graph_run_InrE)
  case (dead s1 k)
  with assms(2,3) show ?thesis by (auto simp: loop_spec_def initial_plan_def)
next
  case (deployed s1 k w1 s2 ok)
  from deployed(1) obtain p where p: "policy_accepted cfg s1 p" by (auto simp: loop_spec_def)
  from deployed(3) obtain scope resp w2 did t where sc: "scope_list (policy_dict s1) = Inr scope"
    and s2: "s2 = s1\<lparr>ses_deployment_record := Some (deploy_record s1 scope resp did t)\<rparr>"
    by (rule deploy_node_InrE)
  have ten: "ses_tenant_id s1 = ses_tenant_id s"
    using deployed(1) by (auto simp: loop_spec_def session_ident_def initial_plan_def)
  have doc: "policy_doc (policy_dict s1) p" "policy_wf p" using policy_accepted_doc [OF p] by auto
  then have "scope = map JStr (p_vehicle_scope p)"
    using sc by (auto simp: scope_list_def policy_doc_def dict_get_or_def)
  moreover have "policy_accepted cfg s2 p" using p s2 by (simp add: policy_accepted_def)
  ultimately show ?thesis
    using doc s2 deployed(4) assms(3) ten
    by (auto simp: deploy_record_def dict_get_def policy_doc_def dict_get_or_def policy_wf_def)
qed

text \<open>
  C8. The retry loop is bounded: a run makes at least one and at most \<open>retry_budget + 1\<close> generation
  rounds, and it dead-letters without a deployment only after exactly that many, every one of which
  failed validation.
\<close>

theorem graph_retries_bounded:
  assumes "graph_run cfg slm col s w = (Inr run, w')" and "ses_retry_count s = 0" and "0 \<le> ses_retry_budget s"
    and "ses_deployment_record s = None"
  shows "1 \<le> run_validation_attempts run \<and> int (run_validation_attempts run) \<le> ses_retry_budget s + 1 \<and>
    (ses_deployment_record (run_session run) = None \<longrightarrow>
       int (run_validation_attempts run) = ses_retry_budget s + 1 \<and> run_final_state run = ''dead_letter'' \<and>
       ses_validation_errors (run_session run) \<noteq> [])"
  using assms(1)
proof (cases rule: graph_run_InrE)
  case (dead s1 k)
  with assms(2-4) show ?thesis by (auto simp: loop_spec_def initial_plan_def)
next
  case (deployed s1 k w1 s2 ok)
  from deployed(3) obtain r where "ses_deployment_record s2 = Some r"
    by (rule deploy_node_InrE) simp
  with deployed assms(2,3) show ?thesis by (auto simp: loop_spec_def initial_plan_def)
qed

text \<open>
  A run whose policies never validate does not reach the collector: its outcome is the same
  whatever the collector client does.
\<close>

theorem graph_unvalidated_not_deployed:
  assumes "fst (graph_loop cfg slm (initial_plan s) 0 w) = Inr (s1, False, k)"
  shows "graph_run cfg slm col s w = graph_run cfg slm col' s w"
  using assms by (cases "graph_loop cfg slm (initial_plan s) 0 w") (auto simp: graph_run_def act_bind_run)

section \<open>The registry is not touched\<close>

lemma graph_loop_preserves:
  assumes "reflp R" and "transp R" and "\<And>s. act_preserves R (attempt cfg slm s)"
  shows "R w (snd (graph_loop cfg slm s n w))"
  using assms(3)
proof (induction cfg slm s n w rule: graph_loop.induct)
  case (1 cfg slm s n w)
  obtain a w1 where at0: "attempt cfg slm s w = (a, w1)" by (cases "attempt cfg slm s w")
  have R1: "R w w1" by (rule act_preservesD [OF "1.prems" at0])
  show ?case
  proof (cases a)
    case (Inl e)
    with at0 R1 show ?thesis by (simp add: graph_loop.simps)
  next
    case (Inr sr)
    obtain s1 r where sr: "sr = (s1, r)" by (cases sr)
    show ?thesis
    proof (cases "r = RRetry")
      case True
      then have "R w1 (snd (graph_loop cfg slm s1 (Suc n) w1))"
        using "1.IH" [OF at0 [symmetric] Inr sr [symmetric]] "1.prems" by simp
      with R1 assms(2) True at0 Inr sr show ?thesis
        by (auto simp: graph_loop.simps [of cfg slm s] dest: transpD)
    next
      case False
      with at0 Inr sr R1 show ?thesis by (auto simp: graph_loop.simps [of cfg slm s])
    qed
  qed
qed

text \<open>With clients that meet their contracts, a graph run leaves the registry as it was.\<close>

lemma attempt_keeps:
  assumes "policy_client slm"
  shows "act_preserves (on_db (=)) (attempt cfg slm s)"
  unfolding attempt_def generate_def route_after_validation_def
  by (auto intro!: keeps_rules keeps eq_order policy_client.generate_keeps [OF assms])

lemma graph_run_keeps:
  assumes "policy_client slm" and "collector_client col"
  shows "act_preserves (on_db (=)) (graph_run cfg slm col s)"
proof -
  have "act_preserves (on_db (=)) (graph_loop cfg slm s n)" for s n
    using graph_loop_preserves [OF on_db_order(1) [OF eq_order(1)] on_db_order(2) [OF eq_order(2)] attempt_keeps [OF assms(1)]]
    by (auto simp: act_preserves_def)
  then show ?thesis
    unfolding graph_run_def deploy_node_def
    by (auto intro!: keeps_rules keeps eq_order collector_client.deploy_keeps [OF assms(2)])
qed

text \<open>After a run the session carries the runtime information of a response, complete.\<close>

lemma graph_run_info:
  assumes "policy_client slm" and "graph_run cfg slm col s w = (Inr run, w')"
  shows "session_ident (run_session run) = session_ident s"
    and "\<exists>info. ses_last_runtime_info (run_session run) = Some info \<and> complete_info info"
    and "ses_last_decoding_seed (run_session run) = Some DEFAULT_DECODING_SEED"
    and "ses_generated_policy (run_session run) \<noteq> JNull"
proof -
  have loop: "session_ident s1 = session_ident s \<and> ses_generated_policy s1 \<noteq> JNull \<and>
      ses_last_decoding_seed s1 = Some DEFAULT_DECODING_SEED \<and>
      (\<exists>info. ses_last_runtime_info s1 = Some info \<and> complete_info info)"
    if "loop_spec cfg slm (initial_plan s) 0 s1 b k" for s1 b k
    using that policy_client.generate_info [OF assms(1)]
    by (auto simp: loop_spec_def session_ident_def initial_plan_def)
  have "session_ident (run_session run) = session_ident s \<and> ses_generated_policy (run_session run) \<noteq> JNull \<and>
      ses_last_decoding_seed (run_session run) = Some DEFAULT_DECODING_SEED \<and>
      (\<exists>info. ses_last_runtime_info (run_session run) = Some info \<and> complete_info info)"
    using assms(2)
  proof (cases rule: graph_run_InrE)
    case (dead s1 k)
    with loop show ?thesis by auto
  next
    case (deployed s1 k w1 s2 ok)
    from deployed(3) show ?thesis
      by (rule deploy_node_InrE) (use loop [OF deployed(1)] deployed(4) in \<open>auto simp: session_ident_def\<close>)
  qed
  then show "session_ident (run_session run) = session_ident s"
    and "\<exists>info. ses_last_runtime_info (run_session run) = Some info \<and> complete_info info"
    and "ses_last_decoding_seed (run_session run) = Some DEFAULT_DECODING_SEED"
    and "ses_generated_policy (run_session run) \<noteq> JNull" by auto
qed

section \<open>Concrete runs\<close>

definition sample_cfg :: graph_cfg where
  "sample_cfg = \<lparr>g_rt = plain_rt, g_pyd = strict_pydantic, g_message = (\<lambda>_. ''m''), g_schema = JNull,
     g_system_prompt = [], g_user_prompt = [], g_validator = sample_validator,
     g_sign = sign (@) plain_rt tag_signer\<rparr>"

definition sample_session :: session where
  "sample_session = projr (make_session ''s'' ''t1'' ''c'' [(''finding_id'', JStr ''f1'')] 0)"

definition fixed_slm :: "json \<Rightarrow> gen_request \<Rightarrow> (exc, 'z world_scheme, gen_response) act" where
  "fixed_slm policy rq = act_return \<lparr>rs_policy = policy, rs_runtime_info = info_dict stub_runtime_info,
     rs_usage = JObj []\<rparr>"

definition sample_spec :: policy_spec where
  "sample_spec = \<lparr>p_policy_id = ''p'', p_version = ''1.0.0'',
     p_signals = [\<lparr>sig_vss_name = ''Vehicle.Speed'', sig_sample_rate_hz = 1, sig_priority = 5\<rparr>],
     p_trigger_conditions = [], p_collection_window_hours = 24, p_hypothesis = ''h'',
     p_vehicle_scope = [''v1''],
     p_data_governance_flags = \<lparr>gov_pii_consent = False, gov_has_pii_signal = False\<rparr>,
     p_confidence_threshold = 1/2, p_generated_from_session_id = ''s'',
     p_originating_finding = \<lparr>org_tenant_id = ''t1'', org_finding_id = ''f1''\<rparr>,
     p_prompt_template_version = None, p_slm_repo = None, p_slm_revision_sha = None, p_slm_runtime = None,
     p_slm_runtime_version = None, p_slm_quantization = None, p_slm_decoding_seed = None, p_created_at = None\<rparr>"

lemma sample_session_simps [simp]:
  "ses_session_id sample_session = ''s''" "ses_tenant_id sample_session = ''t1''"
  "ses_correlation_id sample_session = ''c''"
  "ses_originating_finding sample_session = [(''finding_id'', JStr ''f1'')]"
  "ses_retry_count sample_session = 0" "ses_retry_budget sample_session = 3"
  "ses_validation_errors sample_session = []" "ses_deployment_record sample_session = None"
  "ses_prompt_template_version sample_session = ''1.0.0''"
  by (simp_all add: sample_session_def make_session_def)

lemma strict_simps [simp]:
  "as_int strict_pydantic (JInt n) = Some n" "as_float strict_pydantic (JFloat q) = Some q"
  "as_bool strict_pydantic (JBool b) = Some b" "as_datetime strict_pydantic (JTime t) = Some t"
  by (simp_all add: strict_pydantic_def)

lemma sample_doc_gets:
  "dict_get sample_policy_doc ''policy_id'' = Some (JStr ''p'')"
  "dict_get sample_policy_doc ''version'' = Some (JStr ''1.0.0'')"
  "dict_get sample_policy_doc ''signals'' = Some (JArr [signal_doc ''Vehicle.Speed'' 1 5])"
  "dict_get sample_policy_doc ''trigger_conditions'' = None"
  "dict_get sample_policy_doc ''collection_window_hours'' = Some (JInt 24)"
  "dict_get sample_policy_doc ''hypothesis'' = Some (JStr ''h'')"
  "dict_get sample_policy_doc ''vehicle_scope'' = Some (JArr [JStr ''v1''])"
  "dict_get sample_policy_doc ''data_governance_flags'' =
     Some (JObj [(''pii_consent'', JBool False), (''has_pii_signal'', JBool False)])"
  "dict_get sample_policy_doc ''confidence_threshold'' = Some (JFloat (1/2))"
  "dict_get sample_policy_doc ''generated_from_session_id'' = Some (JStr ''s'')"
  "dict_get sample_policy_doc ''originating_finding'' =
     Some (JObj [(''tenant_id'', JStr ''t1''), (''finding_id'', JStr ''f1'')])"
  "dict_get sample_policy_doc ''prompt_template_version'' = None" "dict_get sample_policy_doc ''slm_repo'' = None"
  "dict_get sample_policy_doc ''slm_revision_sha'' = None" "dict_get sample_policy_doc ''slm_runtime'' = None"
  "dict_get sample_policy_doc ''slm_runtime_version'' = None" "dict_get sample_policy_doc ''slm_quantization'' = None"
  "dict_get sample_policy_doc ''slm_decoding_seed'' = None" "dict_get sample_policy_doc ''created_at'' = None"
  "v_extra sample_policy_doc [] policy_fields = []"
  by (simp_all add: sample_policy_doc_def dict_get_def signal_doc_def v_extra_def policy_fields_def)

lemma sample_spec_valid: "validate_policy strict_pydantic (JObj sample_policy_doc) = Inr sample_spec"
proof -
  have sig: "v_list 1 (validate_signal_spec strict_pydantic) l (JArr [signal_doc ''Vehicle.Speed'' 1 5]) =
      Inr [\<lparr>sig_vss_name = ''Vehicle.Speed'', sig_sample_rate_hz = 1, sig_priority = 5\<rparr>]" for l
    by (simp add: v_list_def signal_doc_valid [OF strict_exact])
  have gov: "validate_governance strict_pydantic l (JObj [(''pii_consent'', JBool False), (''has_pii_signal'', JBool False)]) =
      Inr \<lparr>gov_pii_consent = False, gov_has_pii_signal = False\<rparr>" for l
    by (simp add: validate_governance_def v_field_def dict_get_def v_bool_def v_extra_def Let_def)
  have org: "validate_origin l (JObj [(''tenant_id'', JStr ''t1''), (''finding_id'', JStr ''f1'')]) =
      Inr \<lparr>org_tenant_id = ''t1'', org_finding_id = ''f1''\<rparr>" for l
    by (simp add: validate_origin_def v_field_def dict_get_def v_nonempty_def v_str_def any_str_def v_extra_def Let_def)
  have scope: "v_list 1 v_nonempty l (JArr [JStr ''v1'']) = Inr [''v1'']" for l
    by (simp add: v_nonempty_list_Inr)
  show ?thesis
    unfolding validate_policy_def json.case v_field_def v_field_or_def sample_doc_gets option.case sig gov org scope
    by (simp add: v_nonempty_def v_semver_def v_str_def any_str_def semver_100 v_int_def v_float_def
        build_policy_total sample_spec_def)
qed

lemma sample_spec_ok: "vr_ok (validate sample_validator sample_spec)"
proof -
  have "map ve_code (vr_errors (validate sample_validator sample_spec)) = []"
    unfolding validate_codes
    by (simp add: sample_validator_def sample_spec_def vss_is_valid_def dict_has_def pii_names_def is_pii_def
        startswith_def)
  then show ?thesis by (simp add: vr_ok_iff)
qed

lemma sample_accepted:
  "ses_generated_policy s = JObj sample_policy_doc \<Longrightarrow> policy_accepted sample_cfg s sample_spec"
  by (simp add: policy_accepted_def sample_cfg_def sample_spec_valid sample_spec_ok)

lemma render_sample:
  assumes "ses_originating_finding s = [(''finding_id'', JStr ''f1'')]"
  shows "\<exists>prompt. render_prompt sample_cfg s = Inr prompt"
  using assms
  by (simp add: render_prompt_def render_fields_def sample_cfg_def dict_get_or_def dict_get_def str_arg_def Let_def
      replace_all.simps render_retry_def if_open_def)

lemma sample_attempt:
  assumes "ses_originating_finding s = [(''finding_id'', JStr ''f1'')]"
  shows "attempt sample_cfg (fixed_slm (JObj sample_policy_doc)) s w =
    (Inr (s\<lparr>ses_generated_policy := JObj sample_policy_doc,
       ses_last_runtime_info := Some (info_dict stub_runtime_info),
       ses_last_decoding_seed := Some DEFAULT_DECODING_SEED, ses_validation_errors := []\<rparr>, RDeploy), w)"
proof -
  obtain prompt where "render_prompt sample_cfg s = Inr prompt" using render_sample [OF assms] by blast
  moreover have "g_pyd sample_cfg = strict_pydantic" "g_validator sample_cfg = sample_validator"
    by (simp_all add: sample_cfg_def)
  ultimately show ?thesis
    by (simp add: attempt_def generate_def act_bind_run act_run_simps fixed_slm_def validate_node_def
        sample_spec_valid sample_spec_ok Let_def route_after_validation_def)
qed

definition deployed_session :: session where
  "deployed_session = (initial_plan sample_session)\<lparr>ses_generated_policy := JObj sample_policy_doc,
       ses_last_runtime_info := Some (info_dict stub_runtime_info),
       ses_last_decoding_seed := Some DEFAULT_DECODING_SEED, ses_validation_errors := []\<rparr>"

lemma sample_loop:
  "graph_loop sample_cfg (fixed_slm (JObj sample_policy_doc)) (initial_plan sample_session) 0 w =
    (Inr (deployed_session, True, 1), w)"
  by (simp add: graph_loop.simps sample_attempt initial_plan_def deployed_session_def)

lemma sample_deploy_node:
  "\<exists>s2 w'. deploy_node sample_cfg (simulator_deploy plain_rt no_env default_simulator) deployed_session sim_start =
     (Inr (s2, True), w') \<and> ses_deployment_record s2 \<noteq> None"
proof -
  have d: "policy_dict deployed_session = sample_policy_doc" by (simp add: policy_dict_def deployed_session_def)
  have sc: "scope_list sample_policy_doc = Inr [JStr ''v1'']"
    by (simp add: scope_list_def dict_get_or_def sample_doc_gets)
  have wh: "window_hours_of sample_policy_doc = Inr 24"
    by (simp add: window_hours_of_def dict_get_or_def sample_doc_gets py_int_def)
  have ac: "acceleration_env plain_rt no_env = Inr 1" by (simp add: acceleration_env_def no_env_def)
  show ?thesis
    by (simp add: deploy_node_def d sc act_bind_run act_run_simps deploy_request_def simulator_deploy_def
        inject_failure_def default_simulator_def now_def ulid_new_def wh ac Let_def)
qed

lemma sample_run:
  obtains run w' where "graph_run sample_cfg (fixed_slm (JObj sample_policy_doc))
      (simulator_deploy plain_rt no_env default_simulator) sample_session sim_start = (Inr run, w')"
    and "ses_deployment_record (run_session run) \<noteq> None" and "run_final_state run = ''completed''"
proof -
  obtain s2 w' where "deploy_node sample_cfg (simulator_deploy plain_rt no_env default_simulator) deployed_session
      sim_start = (Inr (s2, True), w')" "ses_deployment_record s2 \<noteq> None"
    using sample_deploy_node by blast
  then show thesis
    by (intro that [of "\<lparr>run_session = s2, run_final_state = ''completed'', run_validation_attempts = 1\<rparr>" w'])
      (simp_all add: graph_run_def act_bind_run sample_loop act_run_simps route_after_deploy_def)
qed

theorem graph_deploys_validated_witness:
  "\<exists>run w' rcd p. graph_run sample_cfg (fixed_slm (JObj sample_policy_doc))
      (simulator_deploy plain_rt no_env default_simulator) sample_session sim_start = (Inr run, w') \<and>
    ses_deployment_record (run_session run) = Some rcd \<and> policy_accepted sample_cfg (run_session run) p \<and>
    dict_get rcd ''vehicle_scope'' = Some (JArr (map JStr (p_vehicle_scope p)))"
proof -
  obtain run w' where run: "graph_run sample_cfg (fixed_slm (JObj sample_policy_doc))
      (simulator_deploy plain_rt no_env default_simulator) sample_session sim_start = (Inr run, w')"
    "ses_deployment_record (run_session run) \<noteq> None"
    by (rule sample_run)
  then obtain rcd where "ses_deployment_record (run_session run) = Some rcd" by blast
  with graph_deploys_validated [OF run(1) _ this] run(1) show ?thesis by auto
qed

theorem graph_retries_bounded_witness:
  "\<exists>run w'. graph_run sample_cfg (fixed_slm (JObj sample_policy_doc))
      (simulator_deploy plain_rt no_env default_simulator) sample_session sim_start = (Inr run, w') \<and>
    1 \<le> run_validation_attempts run \<and> int (run_validation_attempts run) \<le> 4"
proof -
  obtain run w' where run: "graph_run sample_cfg (fixed_slm (JObj sample_policy_doc))
      (simulator_deploy plain_rt no_env default_simulator) sample_session sim_start = (Inr run, w')"
    by (rule sample_run)
  from graph_retries_bounded [OF run] run show ?thesis by auto
qed

definition empty_budget_session :: session where
  "empty_budget_session = sample_session\<lparr>ses_retry_budget := 0\<rparr>"

lemma failing_loop:
  "\<exists>s1. graph_loop sample_cfg (fixed_slm (JObj [])) (initial_plan empty_budget_session) 0 w =
     (Inr (s1, False, 1), w) \<and> ses_generated_policy s1 = JObj []"
proof -
  let ?s = "initial_plan empty_budget_session"
  have "ses_originating_finding ?s = [(''finding_id'', JStr ''f1'')]"
    by (simp add: initial_plan_def empty_budget_session_def)
  from render_sample [OF this] obtain prompt where p: "render_prompt sample_cfg ?s = Inr prompt" by blast
  have "\<exists>es. validate_policy strict_pydantic (JObj []) = Inl es"
    by (auto simp: validate_policy_def v_field_def dict_get_def build_policy_def Let_def)
  then obtain es where es: "validate_policy strict_pydantic (JObj []) = Inl es" ..
  have cfg: "g_pyd sample_cfg = strict_pydantic" by (simp add: sample_cfg_def)
  show ?thesis
    using p es
    by (simp add: graph_loop.simps attempt_def generate_def act_bind_run act_run_simps fixed_slm_def
        validate_node_def cfg route_after_validation_def retry_budget_exhausted_def)
      (simp add: initial_plan_def empty_budget_session_def)
qed

theorem graph_unvalidated_not_deployed_witness:
  "graph_run sample_cfg (fixed_slm (JObj [])) (simulator_deploy plain_rt no_env default_simulator)
     empty_budget_session sim_start =
   graph_run sample_cfg (fixed_slm (JObj [])) (real_deploy False) empty_budget_session sim_start"
proof -
  obtain s1 where "fst (graph_loop sample_cfg (fixed_slm (JObj [])) (initial_plan empty_budget_session) 0 sim_start) =
      Inr (s1, False, 1)"
    using failing_loop [of sim_start] by auto
  then show ?thesis by (rule graph_unvalidated_not_deployed)
qed

end
