(* ===== verification/CM_Runner.thy ===== *)
theory CM_Runner
  imports CM_Graph
begin

text \<open>
  \<open>graph/runner.py\<close>: persisting and auditing a graph run, and \<open>simulators/telemetry_generator.py\<close>, which
  it calls once a policy is deployed.
\<close>

section \<open>simulators/telemetry\_generator.py\<close>

definition insert_telemetry_row :: "conn \<Rightarrow> telemetry_row \<Rightarrow> db \<Rightarrow> exc + (unit \<times> db)" where
  "insert_telemetry_row c r d =
     (if \<not> visible c (to_tenant_id r) then Inl (PgError RlsViolation)
      else if \<not> telemetry_checks r then Inl (PgError CheckViolation)
      else if to_tenant_id r \<notin> set (db_tenants d) then Inl (PgError ForeignKeyViolation)
      else Inr ((), d\<lparr>db_telemetry := db_telemetry d @ [r]\<rparr>))"

text \<open>\<open>[s["vss_name"] for s in policy.get("signals", [])]\<close>.\<close>

fun vss_names :: "json list \<Rightarrow> exc + json list" where
  "vss_names [] = Inr []"
| "vss_names (s # ss) =
     res_bind (json_key ''vss_name'' s) (\<lambda>n. res_bind (vss_names ss) (\<lambda>ns. Inr (n # ns)))"

definition policy_signals :: "dict \<Rightarrow> exc + json list" where
  "policy_signals policy =
     (case dict_get_or policy ''signals'' (JArr []) of
        JArr ss \<Rightarrow> vss_names ss
      | JNull \<Rightarrow> Inl (TypeError ''not iterable'')
      | _ \<Rightarrow> Inl (TypeError ''indices''))"

text \<open>The value the generator draws for one observation: \<open>x\<close> is uniform on the unit interval.\<close>

definition telemetry_value :: "string option \<Rightarrow> rat \<Rightarrow> rat \<Rightarrow> rat" where
  "telemetry_value directive threshold x =
     (if directive = Some ''rule_out'' then max 0 (threshold - (1/5 + (1/2 - 1/5) * x))
      else min 1 (threshold + (1/20 + (3/10 - 1/20) * x)))"

definition combinations :: "json list \<Rightarrow> json list \<Rightarrow> (nat \<times> json \<times> json) list" where
  "combinations scope signals =
     concat (map (\<lambda>i. concat (map (\<lambda>v. map (\<lambda>s. (i, v, s)) signals) scope)) [0..<20])"

definition telemetry_args ::
  "string \<Rightarrow> dict \<Rightarrow> int \<Rightarrow> (nat \<times> json \<times> json) \<Rightarrow> rat \<Rightarrow> exc + telemetry_row" where
  "telemetry_args tenant_id policy t ivs val =
     (case ivs of (i, v, s) \<Rightarrow>
        res_bind (col_text v) (\<lambda>vehicle.
        res_bind (col_text s) (\<lambda>signal.
        Inr \<lparr>to_tenant_id = tenant_id, to_vehicle_id = vehicle, to_signal_name = signal, to_value = val,
          to_observed_at = t + int i * 1000000,
          to_policy_ref = JObj [(''tenant_id'', JStr tenant_id),
            (''policy_id'', dict_get_or policy ''policy_id'' (JStr [])),
            (''version'', dict_get_or policy ''version'' (JStr ''1.0.0''))],
          to_source = ''simulator''\<rparr>)))"

definition draw_values :: "nat \<Rightarrow> (exc, 'z world_scheme, rat list) act" where
  "draw_values n w = (Inr (map (\<lambda>k. w_random w (w_draws w + k)) [0..<n]), w\<lparr>w_draws := w_draws w + n\<rparr>)"

definition simulate ::
  "pyrt \<Rightarrow> string \<Rightarrow> dict \<Rightarrow> string option \<Rightarrow> (exc, 'z world_scheme, nat) act" where
  "simulate rt tenant_id policy directive =
     act_bind (act_lift (scope_list policy)) (\<lambda>scope.
     act_bind (act_lift (policy_signals policy)) (\<lambda>signals.
     if scope = [] \<or> signals = [] \<or> directive = Some ''starve'' then act_return 0
     else
       act_bind (act_lift (py_float rt (dict_get_or policy ''confidence_threshold'' (JFloat (1/2))))) (\<lambda>threshold.
       act_bind now (\<lambda>t.
       let combos = combinations scope signals in
       act_bind (draw_values (length combos)) (\<lambda>xs.
       act_bind (acquire tenant_id (\<lambda>c.
         act_foreach (\<lambda>(ivs, x).
             act_bind (act_lift (telemetry_args tenant_id policy t ivs (telemetry_value directive threshold x))) (\<lambda>r.
             sql (insert_telemetry_row c r)))
           (zip combos xs))) (\<lambda>_.
       act_return (length combos)))))))"

section \<open>graph/runner.py\<close>

record runner_cfg =
  rc_graph :: graph_cfg
  rc_factor :: rat
  rc_exc_str :: "exc \<Rightarrow> string"

definition policy_field :: "pyrt \<Rightarrow> json \<Rightarrow> string \<Rightarrow> string" where
  "policy_field rt policy key =
     (case policy of
        JObj d \<Rightarrow> (case dict_get d key of None \<Rightarrow> [] | Some JNull \<Rightarrow> [] | Some v \<Rightarrow> py_str rt v)
      | _ \<Rightarrow> [])"

definition finding_ref :: "session \<Rightarrow> dict" where
  "finding_ref s = [(''tenant_id'', JStr (ses_tenant_id s)),
     (''finding_id'', dict_get_or (ses_originating_finding s) ''finding_id'' (JStr []))]"

definition flatten_invalid :: "json list \<Rightarrow> json list" where
  "flatten_invalid errors =
     concat (map (\<lambda>e. case e of
         JObj d \<Rightarrow> (case dict_get d ''details'' of
             Some (JObj dd) \<Rightarrow> (case dict_get dd ''invalid_signals'' of Some (JArr xs) \<Rightarrow> xs | _ \<Rightarrow> [])
           | _ \<Rightarrow> [])
       | _ \<Rightarrow> []) errors)"

text \<open>A \<open>TEXT\<close> argument that may be absent: \<open>d.get(k)\<close>.\<close>

definition opt_text :: "dict \<Rightarrow> string \<Rightarrow> exc + string option" where
  "opt_text d k =
     (case dict_get d k of
        None \<Rightarrow> Inr None
      | Some JNull \<Rightarrow> Inr None
      | Some (JStr s) \<Rightarrow> Inr (Some s)
      | Some _ \<Rightarrow> Inl (PgError DataError))"

definition audit_generated :: "runner_cfg \<Rightarrow> session \<Rightarrow> exc + audit_args" where
  "audit_generated rc s =
     (let info = (case ses_last_runtime_info s of None \<Rightarrow> [] | Some d \<Rightarrow> d) in
      res_bind (json_key ''policy_id'' (ses_generated_policy s)) (\<lambda>pid.
      res_bind (json_key ''version'' (ses_generated_policy s)) (\<lambda>ver.
      res_bind (opt_text info ''slm_repo'') (\<lambda>repo.
      res_bind (opt_text info ''slm_revision_sha'') (\<lambda>sha.
      res_bind (opt_text info ''slm_runtime'') (\<lambda>runtime.
      res_bind (opt_text info ''slm_runtime_version'') (\<lambda>rtver.
      res_bind (opt_text info ''slm_quantization'') (\<lambda>quant.
      res_bind (opt_text (ses_originating_finding s) ''schema_version'') (\<lambda>schema.
      Inr ((audit_call (ses_tenant_id s) ''generated'' (ses_correlation_id s) (ses_session_id s))
        \<lparr>aa_originating_finding := Some (finding_ref s),
         aa_policy_ref := Some [(''tenant_id'', JStr (ses_tenant_id s)), (''policy_id'', pid), (''version'', ver)],
         aa_slm_repo := repo, aa_slm_revision_sha := sha, aa_slm_runtime := runtime,
         aa_slm_runtime_version := rtver, aa_slm_quantization := quant,
         aa_slm_decoding_seed := ses_last_decoding_seed s,
         aa_prompt_template_version := Some (ses_prompt_template_version s),
         aa_inbound_schema_version := schema,
         aa_time_acceleration_factor := Some (rc_factor rc)\<rparr>))))))))))"

definition audit_dead_letter :: "session \<Rightarrow> exc + audit_args" where
  "audit_dead_letter s =
     res_bind (opt_text (ses_originating_finding s) ''schema_version'') (\<lambda>schema.
     Inr ((audit_call (ses_tenant_id s) ''rejected'' (ses_correlation_id s) (ses_session_id s))
       \<lparr>aa_originating_finding := Some (finding_ref s),
        aa_error := Some [(''code'', JStr ''VALIDATION_FAILED''),
          (''details'', JObj [(''validation_errors'', JArr (ses_validation_errors s)),
            (''invalid_signals'', JArr (flatten_invalid (ses_validation_errors s)))])],
        aa_inbound_schema_version := schema\<rparr>))"

definition policy_ref :: "pyrt \<Rightarrow> session \<Rightarrow> dict" where
  "policy_ref rt s = [(''tenant_id'', JStr (ses_tenant_id s)),
     (''policy_id'', JStr (policy_field rt (ses_generated_policy s) ''policy_id'')),
     (''version'', JStr (policy_field rt (ses_generated_policy s) ''version''))]"

definition audit_validated :: "runner_cfg \<Rightarrow> session \<Rightarrow> audit_args" where
  "audit_validated rc s =
     (audit_call (ses_tenant_id s) ''validated'' (ses_correlation_id s) (ses_session_id s))
       \<lparr>aa_originating_finding := Some (finding_ref s),
        aa_policy_ref := Some (policy_ref (g_rt (rc_graph rc)) s)\<rparr>"

definition audit_deployed :: "runner_cfg \<Rightarrow> session \<Rightarrow> dict \<Rightarrow> audit_args" where
  "audit_deployed rc s deployment =
     (audit_call (ses_tenant_id s) ''deployed'' (ses_correlation_id s) (ses_session_id s))
       \<lparr>aa_originating_finding := Some (finding_ref s),
        aa_policy_ref := Some (policy_ref (g_rt (rc_graph rc)) s),
        aa_deployment_ref := Some [(''deployment_id'', dict_get_or deployment ''deployment_id'' JNull)],
        aa_time_acceleration_factor := Some (rc_factor rc)\<rparr>"

definition audit_runner_error :: "runner_cfg \<Rightarrow> session \<Rightarrow> exc \<Rightarrow> audit_args" where
  "audit_runner_error rc s e =
     (audit_call (ses_tenant_id s) ''rejected'' (ses_correlation_id s) (ses_session_id s))
       \<lparr>aa_originating_finding := Some (finding_ref s),
        aa_error := Some [(''code'', JStr ''GRAPH_RUNNER_ERROR''), (''message'', JStr (rc_exc_str rc e))]\<rparr>"

definition registry_meta :: "graph_cfg \<Rightarrow> session \<Rightarrow> dict" where
  "registry_meta cfg s =
     (let info = (case ses_last_runtime_info s of None \<Rightarrow> [] | Some d \<Rightarrow> d);
          (signature, key_id) = g_sign cfg (policy_dict s)
      in [(''prompt_template_version'', JStr (ses_prompt_template_version s)),
          (''slm_repo'', dict_get_or info ''slm_repo'' (JStr ''unknown'')),
          (''slm_revision_sha'', dict_get_or info ''slm_revision_sha'' (JStr (replicate 40 (CHR ''0'')))),
          (''slm_runtime'', dict_get_or info ''slm_runtime'' (JStr ''stub'')),
          (''slm_runtime_version'', dict_get_or info ''slm_runtime_version'' (JStr ''unknown'')),
          (''slm_quantization'', dict_get_or info ''slm_quantization'' (JStr ''none'')),
          (''slm_decoding_seed'', JInt (case ses_last_decoding_seed s of None \<Rightarrow> 0 | Some n \<Rightarrow> n)),
          (''payload_signature'', JStr signature), (''signature_key_id'', JStr key_id)])"

definition runtime_gauges :: "pyrt \<Rightarrow> session \<Rightarrow> (exc, 'z world_scheme, unit) act" where
  "runtime_gauges rt s =
     (let info = (case ses_last_runtime_info s of None \<Rightarrow> [] | Some d \<Rightarrow> d) in
      act_bind (metric_inc ''slm_weight_sha_active''
          [py_str rt (dict_get_or info ''slm_revision_sha'' (JStr ''unknown''))]) (\<lambda>_.
      metric_inc ''slm_runtime_image_digest_active''
          [py_str rt (dict_get_or info ''slm_runtime_version'' (JStr ''unknown'')),
           py_str rt (dict_get_or info ''slm_runtime'' (JStr ''unknown''))]))"

text \<open>The last part of \<open>_run\<close>: the deployment row, its audit event, and the synthetic telemetry.\<close>

definition persist_deployment ::
  "runner_cfg \<Rightarrow> session \<Rightarrow> string option \<Rightarrow> (exc, 'z world_scheme, unit) act" where
  "persist_deployment rc s sim_directive =
     (let rt = g_rt (rc_graph rc);
          deployment = (case ses_deployment_record s of None \<Rightarrow> [] | Some d \<Rightarrow> d) in
      if deployment = [] then act_return ()
      else
        act_bind (deployment_insert rt (ses_tenant_id s) deployment) (\<lambda>_.
        act_bind (metric_inc ''policy_deployed_total'' [ses_tenant_id s]) (\<lambda>_.
        act_bind (audit_write (audit_deployed rc s deployment)) (\<lambda>_.
        act_bind now (\<lambda>_.
        act_bind (metric_inc ''time_to_deploy_seconds'' [ses_tenant_id s]) (\<lambda>_.
        act_bind (simulate rt (ses_tenant_id s) (policy_dict s) sim_directive) (\<lambda>_.
        act_return ())))))))"

definition persist_policy ::
  "runner_cfg \<Rightarrow> session \<Rightarrow> string option \<Rightarrow> (exc, 'z world_scheme, unit) act" where
  "persist_policy rc s sim_directive =
     act_bind (policy_insert (g_rt (rc_graph rc)) (ses_tenant_id s) (policy_dict s)
        (registry_meta (rc_graph rc) s)) (\<lambda>_.
     act_bind (metric_inc ''policy_validated_total'' [ses_tenant_id s]) (\<lambda>_.
     act_bind (audit_write (audit_validated rc s)) (\<lambda>_.
     persist_deployment rc s sim_directive)))"

definition run_graph ::
  "runner_cfg \<Rightarrow> 'z world_scheme slm_client \<Rightarrow> 'z world_scheme collector \<Rightarrow> session \<Rightarrow> string option \<Rightarrow>
   (exc, 'z world_scheme, unit) act" where
  "run_graph rc slm col s0 sim_directive =
     act_bind now (\<lambda>_.
     act_bind (graph_run (rc_graph rc) slm col s0) (\<lambda>run.
     let s = run_session run in
     act_bind (runtime_gauges (g_rt (rc_graph rc)) s) (\<lambda>_.
     act_bind
       (if ses_generated_policy s \<noteq> JNull
        then act_bind (metric_inc ''policy_generated_total'' [ses_tenant_id s]) (\<lambda>_.
             act_bind (act_lift (audit_generated rc s)) (\<lambda>a.
             act_bind (audit_write a) (\<lambda>_. act_return ())))
        else act_return ()) (\<lambda>_.
     if run_final_state run = ''dead_letter''
     then act_bind (act_lift (audit_dead_letter s)) (\<lambda>a.
          act_bind (audit_write a) (\<lambda>_. act_return ()))
     else persist_policy rc s sim_directive))))"

definition run_async ::
  "runner_cfg \<Rightarrow> 'z world_scheme slm_client \<Rightarrow> 'z world_scheme collector \<Rightarrow> session \<Rightarrow> string option \<Rightarrow>
   (exc, 'z world_scheme, unit) act" where
  "run_async rc slm col s sim_directive =
     act_catch (run_graph rc slm col s sim_directive) (\<lambda>e.
       act_bind (audit_write (audit_runner_error rc s e)) (\<lambda>_. act_return ()))"

section \<open>A run stays within its tenant\<close>

lemma on_db_eq: "act_preserves (on_db (=)) m \<Longrightarrow> reflp R \<Longrightarrow> act_preserves (on_db R) m"
  by (auto simp: act_preserves_def on_db_def dest: reflpD)

lemma keeps_foreach:
  assumes "reflp R" and "transp R" and "\<And>x. act_preserves (on_db R) (f x)"
  shows "act_preserves (on_db R) (act_foreach f xs)"
  using assms by (intro act_preserves_foreach on_db_order)

lemma draw_values_keeps [keeps]: "reflp R \<Longrightarrow> act_preserves (on_db R) (draw_values n)"
  by (auto simp: act_preserves_def on_db_def env_kept_def draw_values_def dest: reflpD)

lemma insert_telemetry_row_step:
  "insert_telemetry_row (tenant_conn t c) r d = Inr (x, d') \<Longrightarrow> tenant_step t d d'"
  by (auto simp: insert_telemetry_row_def split: if_splits intro: tenant_steps)

lemma simulate_step [keeps]: "act_preserves (on_db (tenant_step t)) (simulate rt t policy directive)"
  unfolding simulate_def Let_def
  by (auto intro!: keeps_rules keeps_foreach keeps_sql keeps tenant_orders intro: insert_telemetry_row_step)

lemma audit_args_tenant [simp]:
  "aa_tenant_id (audit_validated rc s) = ses_tenant_id s" "aa_tenant_id (audit_deployed rc s d) = ses_tenant_id s"
  "aa_tenant_id (audit_runner_error rc s e) = ses_tenant_id s"
  "aa_kind (audit_validated rc s) = ''validated''" "aa_kind (audit_deployed rc s d) = ''deployed''"
  "aa_kind (audit_runner_error rc s e) = ''rejected''"
  "aa_correlation_id (audit_validated rc s) = ses_correlation_id s"
  "aa_correlation_id (audit_deployed rc s d) = ses_correlation_id s"
  "aa_correlation_id (audit_runner_error rc s e) = ses_correlation_id s"
  by (simp_all add: audit_validated_def audit_deployed_def audit_runner_error_def audit_call_def)

lemma audit_generated_Inr:
  assumes "audit_generated rc s = Inr a"
  shows "aa_tenant_id a = ses_tenant_id s" "aa_kind a = ''generated''" "aa_correlation_id a = ses_correlation_id s"
  using assms by (auto simp: audit_generated_def Let_def res_bind_Inr audit_call_def)

lemma audit_dead_letter_Inr:
  assumes "audit_dead_letter s = Inr a"
  shows "aa_tenant_id a = ses_tenant_id s" "aa_kind a = ''rejected''" "aa_correlation_id a = ses_correlation_id s"
  using assms by (auto simp: audit_dead_letter_def res_bind_Inr audit_call_def)

lemma audit_write_lift_step:
  assumes "\<And>a. r = Inr a \<Longrightarrow> aa_tenant_id a = t"
  shows "act_preserves (on_db (tenant_step t)) (act_bind (act_lift r) (\<lambda>a. act_bind (audit_write a) (\<lambda>_. act_return ())))"
proof (cases r)
  case (Inl e)
  then show ?thesis
    using tenant_step_order(1) [of t]
    by (auto simp: act_preserves_def act_bind_run act_run_simps on_db_def env_kept_order dest: reflpD)
next
  case (Inr a)
  then have eq: "act_bind (act_lift r) (\<lambda>a. act_bind (audit_write a) (\<lambda>_. act_return ())) =
      act_bind (audit_write a) (\<lambda>_. act_return ())"
    by (auto simp: act_bind_run act_run_simps fun_eq_iff)
  have "act_preserves (on_db (tenant_step t)) (act_bind (audit_write a) (\<lambda>_. act_return ()))"
    using audit_write_step [of a] assms [OF Inr] by (auto intro!: keeps_bind keeps tenant_orders)
  then show ?thesis by (simp only: eq)
qed

lemma audit_write_tenant_step:
  "aa_tenant_id a = t \<Longrightarrow> act_preserves (on_db (tenant_step t)) (audit_write a)"
  using audit_write_step [of a] by simp

lemma persist_deployment_step:
  "act_preserves (on_db (tenant_step (ses_tenant_id s))) (persist_deployment rc s dir)"
  unfolding persist_deployment_def Let_def
  by (auto intro!: keeps_rules keeps tenant_orders audit_write_tenant_step)

lemma persist_policy_step:
  "act_preserves (on_db (tenant_step (ses_tenant_id s))) (persist_policy rc s dir)"
  unfolding persist_policy_def
  by (auto intro!: keeps_rules keeps tenant_orders audit_write_tenant_step persist_deployment_step)

lemma runtime_gauges_keeps: "reflp R \<Longrightarrow> transp R \<Longrightarrow> act_preserves (on_db R) (runtime_gauges rt s)"
  unfolding runtime_gauges_def Let_def by (auto intro!: keeps_rules keeps)

text \<open>What happens after the graph has run, for a session of the same tenant.\<close>

definition after_graph ::
  "runner_cfg \<Rightarrow> graph_result \<Rightarrow> string option \<Rightarrow> (exc, 'z world_scheme, unit) act" where
  "after_graph rc run sim_directive =
     (let s = run_session run in
     act_bind (runtime_gauges (g_rt (rc_graph rc)) s) (\<lambda>_.
     act_bind
       (if ses_generated_policy s \<noteq> JNull
        then act_bind (metric_inc ''policy_generated_total'' [ses_tenant_id s]) (\<lambda>_.
             act_bind (act_lift (audit_generated rc s)) (\<lambda>a.
             act_bind (audit_write a) (\<lambda>_. act_return ())))
        else act_return ()) (\<lambda>_.
     if run_final_state run = ''dead_letter''
     then act_bind (act_lift (audit_dead_letter s)) (\<lambda>a.
          act_bind (audit_write a) (\<lambda>_. act_return ()))
     else persist_policy rc s sim_directive)))"

lemma run_graph_after:
  "run_graph rc slm col s dir =
     act_bind now (\<lambda>_. act_bind (graph_run (rc_graph rc) slm col s) (\<lambda>run. after_graph rc run dir))"
  by (simp add: run_graph_def after_graph_def)

lemma after_graph_step:
  "act_preserves (on_db (tenant_step (ses_tenant_id (run_session run)))) (after_graph rc run dir)"
  unfolding after_graph_def Let_def
  by (auto intro!: keeps_bind keeps_if runtime_gauges_keeps keeps tenant_orders persist_policy_step
      audit_write_lift_step dest: audit_generated_Inr audit_dead_letter_Inr)

lemma run_graph_step:
  fixes slm :: "'z world_scheme slm_client"
  assumes "policy_client slm" and "collector_client col"
  shows "act_preserves (on_db (tenant_step (ses_tenant_id s))) (run_graph rc slm col s dir)"
proof (rule act_preservesI)
  fix w :: "'z world_scheme"
  let ?R = "on_db (tenant_step (ses_tenant_id s)) :: 'z world_scheme \<Rightarrow> 'z world_scheme \<Rightarrow> bool"
  have tr: "transp ?R" by (intro on_db_order tenant_orders)
  obtain w1 where n: "now w = (Inr (w_clock w (w_ticks w)), w1)" by (simp add: now_def)
  have Rn: "?R w w1" by (rule act_preservesD [OF keeps_pure(5) [OF tenant_step_order(1)] n])
  obtain r w2 where g: "graph_run (rc_graph rc) slm col s w1 = (r, w2)" by (cases "graph_run (rc_graph rc) slm col s w1")
  have Rg: "?R w1 w2"
    using act_preservesD [OF on_db_eq [OF graph_run_keeps [OF assms] tenant_step_order(1)] g] .
  show "?R w (snd (run_graph rc slm col s dir w))"
  proof (cases r)
    case (Inl e)
    with n g have "snd (run_graph rc slm col s dir w) = w2"
      by (simp add: run_graph_after act_bind_run)
    with Rn Rg tr show ?thesis by (auto dest: transpD)
  next
    case (Inr run)
    with g have ten: "ses_tenant_id (run_session run) = ses_tenant_id s"
      using graph_run_info(1) [OF assms(1)] by (auto simp: session_ident_def)
    obtain r' w3 where a: "after_graph rc run dir w2 = (r', w3)" by (cases "after_graph rc run dir w2")
    have "?R w2 w3" using act_preservesD [OF after_graph_step a] ten by simp
    moreover have "snd (run_graph rc slm col s dir w) = w3"
      using n g Inr a by (simp add: run_graph_after act_bind_run)
    ultimately show ?thesis using Rn Rg tr by (auto dest: transpD)
  qed
qed

lemma run_async_step:
  assumes "policy_client slm" and "collector_client col"
  shows "act_preserves (on_db (tenant_step (ses_tenant_id s))) (run_async rc slm col s dir)"
  unfolding run_async_def
  by (auto intro!: keeps_catch keeps_bind run_graph_step [OF assms] keeps tenant_orders audit_write_tenant_step)

section \<open>What a run leaves behind\<close>

definition has_event :: "string \<Rightarrow> string \<Rightarrow> string \<Rightarrow> db \<Rightarrow> bool" where
  "has_event t cid k d \<longleftrightarrow> (\<exists>r \<in> set (db_audit d). ae_tenant_id r = t \<and> audit_key r = (cid, k))"

lemma has_event_step: "has_event t cid k d \<Longrightarrow> tenant_step t' d d' \<Longrightarrow> has_event t cid k d'"
  by (auto simp: has_event_def tenant_step_def rows_kept_def)

lemma audit_write_has_event:
  assumes "audit_write a w = (Inr eid, w')"
  shows "has_event (aa_tenant_id a) (aa_correlation_id a) (aa_kind a) (w_db w')"
  using assms by (cases rule: audit_write_InrE) (auto simp: has_event_def)

lemma step_of: "act_preserves (on_db (tenant_step t)) m \<Longrightarrow> m w = (r, w') \<Longrightarrow> tenant_step t (w_db w) (w_db w')"
  using act_preservesD by (fastforce simp: on_db_def)

text \<open>The part of a run that follows the deployment row leaves the deployments alone.\<close>

definition deployments_same :: "db \<Rightarrow> db \<Rightarrow> bool" where
  "deployments_same d d' \<longleftrightarrow> db_deployments d' = db_deployments d \<and> rows_kept d d'"

lemma deployments_same_order: "reflp deployments_same" "transp deployments_same"
  using rows_kept_order unfolding deployments_same_def
  by (auto intro!: reflpI transpI dest: reflpD transpD)

lemma audit_write_deployments [keeps]: "act_preserves (on_db deployments_same) (audit_write a)"
  unfolding audit_write_def
  by (auto intro!: keeps_rules keeps_sql keeps deployments_same_order
      simp: insert_audit_def deployments_same_def rows_kept_def split: if_splits)

lemma simulate_deployments [keeps]: "act_preserves (on_db deployments_same) (simulate rt t policy directive)"
  unfolding simulate_def Let_def
  by (auto intro!: keeps_rules keeps_foreach keeps_sql keeps deployments_same_order
      simp: insert_telemetry_row_def deployments_same_def rows_kept_def split: if_splits)

lemma deployment_insert_InrE:
  assumes "deployment_insert rt t rcd w = (Inr (), w')"
  obtains r at0 where "deployment_row_of rt t rcd at0 = Inr r"
    and "db_deployments (w_db w') = db_deployments (w_db w) @ [r]"
    and "policy_fk (w_db w) t (dt_policy_id r) (dt_version r)" and "db_policies (w_db w') = db_policies (w_db w)"
proof -
  from assms have pool: "w_pool w"
    by (auto simp: deployment_insert_def acquire_def split: if_splits)
  let ?at = "w_clock w (w_ticks w)"
  from pool assms obtain r where r: "deployment_row_of rt t rcd ?at = Inr r"
    by (cases "deployment_row_of rt t rcd ?at")
      (auto simp: deployment_insert_def acquire_def transaction_def act_bind_run now_def act_run_simps)
  have ten: "dt_tenant_id r = t" using deployment_row_of_Inr(1) [OF r] .
  from pool assms r obtain xd where ins: "insert_deployment_row (tenant_conn t (w_session w)) r (w_db w) = Inr xd"
    and w': "w_db w' = snd xd"
    by (cases "insert_deployment_row (tenant_conn t (w_session w)) r (w_db w)")
      (auto simp: deployment_insert_def acquire_def transaction_def act_bind_run now_def act_run_simps sql_def
        split: prod.splits)
  then show thesis
    using r ten by (intro that [OF r]) (auto simp: insert_deployment_row_def res_bind_Inr insert_row_Inr)
qed

text \<open>The lineage of a deployed policy: its three audit events, its policy row and its deployment row.\<close>

definition deployed_lineage :: "session \<Rightarrow> db \<Rightarrow> bool" where
  "deployed_lineage s d \<longleftrightarrow>
     (\<forall>k \<in> {''generated'', ''validated'', ''deployed''}. has_event (ses_tenant_id s) (ses_correlation_id s) k d) \<and>
     (\<exists>p \<in> set (db_policies d). \<exists>r \<in> set (db_deployments d).
        cp_tenant_id p = ses_tenant_id s \<and> (dt_tenant_id r, dt_policy_id r, dt_version r) = policy_key p \<and>
        dt_status r = ''accepted'')"

lemma persist_deployment_lineage:
  assumes "persist_deployment rc s dir w = (Inr (), w')" and "ses_deployment_record s = Some rcd" and "rcd \<noteq> []"
    and "dict_get rcd ''status'' = Some (JStr ''accepted'')"
    and "\<forall>k \<in> {''generated'', ''validated''}. has_event (ses_tenant_id s) (ses_correlation_id s) k (w_db w)"
  shows "deployed_lineage s (w_db w')"
proof -
  let ?t = "ses_tenant_id s" and ?c = "ses_correlation_id s" and ?rt = "g_rt (rc_graph rc)"
  from assms(1-3) obtain w1 w2 eid w3 w4 w5 n where
    d: "deployment_insert ?rt ?t rcd w = (Inr (), w1)"
    and m: "metric_inc ''policy_deployed_total'' [?t] w1 = (Inr (), w2)"
    and a: "audit_write (audit_deployed rc s rcd) w2 = (Inr eid, w3)"
    and tt: "act_bind now (\<lambda>_. metric_inc ''time_to_deploy_seconds'' [?t]) w3 = (Inr (), w4)"
    and si: "simulate ?rt ?t (policy_dict s) dir w4 = (Inr n, w')"
    by (auto simp: persist_deployment_def Let_def act_run_simps act_bind_run elim!: act_bind_InrE
        split: sum.splits prod.splits)
  from d obtain r at0 where r: "deployment_row_of ?rt ?t rcd at0 = Inr r"
    "db_deployments (w_db w1) = db_deployments (w_db w) @ [r]"
    "policy_fk (w_db w) ?t (dt_policy_id r) (dt_version r)" "db_policies (w_db w1) = db_policies (w_db w)"
    by (rule deployment_insert_InrE)
  have e2: "w_db w2 = w_db w1" and e4: "w_db w4 = w_db w3"
    using m tt by (auto simp: metric_inc_def act_run_simps act_bind_run now_def)
  have s1: "tenant_step ?t (w_db w) (w_db w1)" using step_of [OF deployment_insert_step d] .
  have s3: "tenant_step ?t (w_db w2) (w_db w3)" using step_of [OF audit_write_tenant_step a] by simp
  have s5: "tenant_step ?t (w_db w4) (w_db w')" using step_of [OF simulate_step si] .
  have "deployments_same (w_db w2) (w_db w3)" "deployments_same (w_db w4) (w_db w')"
    using act_preservesD [OF audit_write_deployments a] act_preservesD [OF simulate_deployments si]
    by (simp_all add: on_db_def)
  with e2 e4 have dep: "db_deployments (w_db w') = db_deployments (w_db w1)"
    and pol: "set (db_policies (w_db w1)) \<subseteq> set (db_policies (w_db w'))"
    by (auto simp: deployments_same_def rows_kept_def)
  have "has_event ?t ?c ''deployed'' (w_db w')"
    using audit_write_has_event [OF a] has_event_step [OF _ s5] e4 by simp
  moreover have "has_event ?t ?c k (w_db w')" if "k \<in> {''generated'', ''validated''}" for k
    using assms(5) that has_event_step [OF has_event_step [OF has_event_step [OF _ s1] s3 [unfolded e2]] s5 [unfolded e4]]
    by blast
  moreover have "dt_tenant_id r = ?t" "dt_status r = ''accepted''"
    using deployment_row_of_Inr(1,5) [OF r(1)] assms(4) by simp_all
  ultimately show ?thesis
    using r dep pol by (auto simp: deployed_lineage_def policy_fk_def policy_key_def)
qed

lemma persist_policy_lineage:
  assumes "persist_policy rc s dir w = (Inr (), w')" and "ses_deployment_record s = Some rcd" and "rcd \<noteq> []"
    and "dict_get rcd ''status'' = Some (JStr ''accepted'')"
    and "has_event (ses_tenant_id s) (ses_correlation_id s) ''generated'' (w_db w)"
  shows "deployed_lineage s (w_db w')"
proof -
  from assms(1) obtain w1 w2 eid w3 where
    p: "policy_insert (g_rt (rc_graph rc)) (ses_tenant_id s) (policy_dict s) (registry_meta (rc_graph rc) s) w = (Inr (), w1)"
    and m: "metric_inc ''policy_validated_total'' [ses_tenant_id s] w1 = (Inr (), w2)"
    and a: "audit_write (audit_validated rc s) w2 = (Inr eid, w3)"
    and d: "persist_deployment rc s dir w3 = (Inr (), w')"
    by (auto simp: persist_policy_def elim!: act_bind_InrE)
  have e2: "w_db w2 = w_db w1" using m by (auto simp: metric_inc_def act_run_simps)
  have "has_event (ses_tenant_id s) (ses_correlation_id s) ''generated'' (w_db w3)"
    using has_event_step [OF has_event_step [OF assms(5) step_of [OF policy_insert_step p]]]
      step_of [OF audit_write_tenant_step a] e2 by simp
  moreover have "has_event (ses_tenant_id s) (ses_correlation_id s) ''validated'' (w_db w3)"
    using audit_write_has_event [OF a] by simp
  ultimately show ?thesis using persist_deployment_lineage [OF d assms(2-4)] by simp
qed

lemma completed_record:
  assumes "graph_run cfg slm col s w = (Inr run, w')" and "run_final_state run \<noteq> ''dead_letter''"
  obtains rcd where "ses_deployment_record (run_session run) = Some rcd" and "rcd \<noteq> []"
    and "dict_get rcd ''status'' = Some (JStr ''accepted'')"
  using assms(1)
proof (cases rule: graph_run_InrE)
  case (dead s1 k)
  with assms(2) show thesis by simp
next
  case (deployed s1 k w1 s2 ok)
  then have "ok" using assms(2) by (simp split: if_splits)
  from deployed(3) show thesis
    by (rule deploy_node_InrE) (use that deployed(4) \<open>ok\<close> in \<open>auto simp: deploy_record_def dict_get_def\<close>)
qed

lemma after_graph_outcome:
  assumes g: "graph_run cfg slm col s w = (Inr run, w1)" and sl: "policy_client slm"
    and a: "after_graph rc run dir w2 = (Inr (), w')"
  shows "has_event (ses_tenant_id s) (ses_correlation_id s) ''rejected'' (w_db w') \<and> run_final_state run = ''dead_letter'' \<or>
    deployed_lineage (run_session run) (w_db w') \<and> run_final_state run \<noteq> ''dead_letter''"
proof -
  let ?s = "run_session run"
  have ident: "ses_tenant_id ?s = ses_tenant_id s" "ses_correlation_id ?s = ses_correlation_id s"
    and nn: "ses_generated_policy ?s \<noteq> JNull"
    using graph_run_info(1,4) [OF sl g] by (auto simp: session_ident_def)
  from a nn obtain w3 ag eid w4 where ag: "audit_generated rc ?s = Inr ag" "audit_write ag w3 = (Inr eid, w4)"
    and r: "(if run_final_state run = ''dead_letter''
      then act_bind (act_lift (audit_dead_letter ?s)) (\<lambda>a. act_bind (audit_write a) (\<lambda>_. act_return ()))
      else persist_policy rc ?s dir) w4 = (Inr (), w')"
    by (auto simp: after_graph_def Let_def act_simps elim!: act_bind_InrE)
  show ?thesis
  proof (cases "run_final_state run = ''dead_letter''")
    case True
    with r obtain b eid' where "audit_dead_letter ?s = Inr b" "audit_write b w4 = (Inr eid', w')"
      by (auto simp: act_simps elim!: act_bind_InrE)
    with True audit_write_has_event audit_dead_letter_Inr ident show ?thesis by metis
  next
    case False
    with g obtain rcd where rec: "ses_deployment_record ?s = Some rcd" "rcd \<noteq> []"
      "dict_get rcd ''status'' = Some (JStr ''accepted'')"
      by (rule completed_record)
    have "has_event (ses_tenant_id ?s) (ses_correlation_id ?s) ''generated'' (w_db w4)"
      using audit_write_has_event [OF ag(2)] audit_generated_Inr [OF ag(1)] by simp
    with False r rec persist_policy_lineage show ?thesis by auto
  qed
qed

lemma run_graph_InrE:
  assumes "run_graph rc slm col s dir w = (Inr (), w')"
  obtains run w1 w2 where "graph_run (rc_graph rc) slm col s w1 = (Inr run, w2)"
    and "after_graph rc run dir w2 = (Inr (), w')"
  using assms by (auto simp: run_graph_after elim!: act_bind_InrE)

section \<open>Correctness\<close>

definition settled :: "string \<Rightarrow> string \<Rightarrow> db \<Rightarrow> bool" where
  "settled t cid d \<longleftrightarrow> has_event t cid ''rejected'' d \<or> has_event t cid ''deployed'' d"

lemma run_async_settles:
  assumes "policy_client slm" and "run_async rc slm col s dir w = (Inr (), w')"
  shows "settled (ses_tenant_id s) (ses_correlation_id s) (w_db w')"
proof (cases "run_graph rc slm col s dir w")
  case (Pair r w1)
  show ?thesis
  proof (cases r)
    case (Inl e)
    with Pair assms(2) obtain eid where "audit_write (audit_runner_error rc s e) w1 = (Inr eid, w')"
      by (auto simp: run_async_def act_catch_def act_simps elim!: act_bind_InrE)
    from audit_write_has_event [OF this] show ?thesis by (simp add: settled_def)
  next
    case (Inr u)
    with Pair assms(2) have rg: "run_graph rc slm col s dir w = (Inr (), w')"
      by (auto simp: run_async_def act_catch_def)
    then obtain run w1 w2 where g: "graph_run (rc_graph rc) slm col s w1 = (Inr run, w2)"
      and a: "after_graph rc run dir w2 = (Inr (), w')" by (rule run_graph_InrE)
    have "ses_tenant_id (run_session run) = ses_tenant_id s" "ses_correlation_id (run_session run) = ses_correlation_id s"
      using graph_run_info(1) [OF assms(1) g] by (auto simp: session_ident_def)
    with after_graph_outcome [OF g assms(1) a] show ?thesis by (auto simp: settled_def deployed_lineage_def)
  qed
qed

text \<open>
  C7. Every run ends in the audit log: when \<open>run_async\<close> returns, the tenant's audit rows under the
  session's correlation id hold a terminal event, either a rejection or a deployment.
\<close>

theorem run_leaves_terminal_event:
  assumes "policy_client slm" and "run_async rc slm col s dir w = (Inr (), w')"
  shows "has_event (ses_tenant_id s) (ses_correlation_id s) ''rejected'' (w_db w') \<or>
    has_event (ses_tenant_id s) (ses_correlation_id s) ''deployed'' (w_db w')"
  using run_async_settles [OF assms] unfolding settled_def .


text \<open>
  A deployment the collector rejects is audited as a validation failure: when a run ends in
  the dead letter with a deployment record, its policy did validate, and the rejection event says
  \<open>VALIDATION_FAILED\<close> with no validation error and no invalid signal.
\<close>

theorem deploy_rejection_audited_as_validation:
  assumes "graph_run cfg slm col s w = (Inr run, w')" and "ses_deployment_record s = None"
    and "run_final_state run = ''dead_letter''" and "ses_deployment_record (run_session run) \<noteq> None"
    and "audit_dead_letter (run_session run) = Inr a"
  shows "(\<exists>p. policy_accepted cfg (run_session run) p) \<and>
    aa_error a = Some [(''code'', JStr ''VALIDATION_FAILED''),
      (''details'', JObj [(''validation_errors'', JArr []), (''invalid_signals'', JArr [])])]"
  using assms(1)
proof (cases rule: graph_run_InrE)
  case (dead s1 k)
  with assms(2,4) show ?thesis by (auto simp: loop_spec_def initial_plan_def)
next
  case (deployed s1 k w1 s2 ok)
  from deployed(1) obtain p where p: "policy_accepted cfg s1 p" "ses_validation_errors s1 = []"
    by (auto simp: loop_spec_def)
  from deployed(3) have "policy_accepted cfg s2 p \<and> ses_validation_errors s2 = []"
    by (rule deploy_node_InrE) (use p in \<open>auto simp: policy_accepted_def\<close>)
  with deployed(4) assms(5) show ?thesis
    by (auto simp: audit_dead_letter_def res_bind_Inr flatten_invalid_def)
qed

text \<open>
  A policy that never validated because it has no \<open>policy_id\<close> is not audited as a validation
  failure: writing its \<open>generated\<close> event subscripts the missing key, and the run is recorded as a
  runner error under the exception's message.
\<close>

theorem missing_policy_id_is_runner_error:
  assumes "graph_run (rc_graph rc) slm col s (snd (now w)) = (Inr run, w')" and "ses_generated_policy (run_session run) = JObj d"
    and "dict_get d ''policy_id'' = None"
  shows "\<exists>w1. w_db w1 = w_db w' \<and>
    run_async rc slm col s dir w =
      act_bind (audit_write (audit_runner_error rc s (KeyError ''policy_id''))) (\<lambda>_. act_return ()) w1"
proof -
  have ag: "audit_generated rc (run_session run) = Inl (KeyError ''policy_id'')"
    using assms(2,3) by (simp add: audit_generated_def Let_def json_key_def dict_req_def)
  have "\<exists>w1. w_db w1 = w_db w' \<and> after_graph rc run dir w' = (Inl (KeyError ''policy_id''), w1)"
    by (simp add: after_graph_def Let_def ag assms(2) act_bind_run act_run_simps runtime_gauges_def metric_inc_def)
  moreover have "fst (now w) = Inr (w_clock w (w_ticks w))" by (simp add: now_def)
  ultimately show ?thesis
    using assms(1) by (cases "now w") (auto simp: run_async_def act_catch_def run_graph_after act_bind_run)
qed

section \<open>Concrete runs\<close>

lemma audit_write_fresh:
  assumes "w_pool w" and "missing_fields a = []" and "aa_tenant_id a \<noteq> []" and "writes_new a w"
    and "aa_tenant_id a \<in> set (db_tenants (w_db w))" and "w_ids w (w_nids w) \<notin> ae_event_id ` set (db_audit (w_db w))"
    and "audit_checks (audit_event_row a (w_ids w (w_nids w)) (w_clock w (w_ticks w)))"
  shows "audit_write a w = (Inr (w_ids w (w_nids w)),
      w\<lparr>w_nids := Suc (w_nids w), w_ticks := Suc (w_ticks w),
        w_db := (w_db w)\<lparr>db_audit := db_audit (w_db w) @
          [audit_event_row a (w_ids w (w_nids w)) (w_clock w (w_ticks w))]\<rparr>\<rparr>)"
  using assms by (simp add: audit_run writes_new_def)

lemma policy_insert_fresh:
  assumes "w_pool w" and "policy_row_of rt t policy meta (w_clock w (w_ticks w)) = Inr r" and "policy_checks r"
    and "cp_tenant_id r = t" and "t \<noteq> []" and "t \<in> set (db_tenants (w_db w))"
    and "policy_key r \<notin> policy_key ` set (db_policies (w_db w))"
  shows "policy_insert rt t policy meta w =
    (Inr (), w\<lparr>w_ticks := Suc (w_ticks w), w_db := (w_db w)\<lparr>db_policies := db_policies (w_db w) @ [r]\<rparr>\<rparr>)"
  using assms
  by (simp add: policy_insert_def acquire_def transaction_def act_bind_run now_def act_run_simps sql_def
      insert_policy_row_def insert_row_def)

lemma deployment_insert_fresh:
  assumes "w_pool w" and "deployment_row_of rt t rcd (w_clock w (w_ticks w)) = Inr r" and "deployment_checks r"
    and "dt_tenant_id r = t" and "t \<noteq> []" and "policy_fk (w_db w) t (dt_policy_id r) (dt_version r)"
    and "dt_deployment_id r \<notin> dt_deployment_id ` set (db_deployments (w_db w))"
  shows "deployment_insert rt t rcd w =
    (Inr (), w\<lparr>w_ticks := Suc (w_ticks w), w_db := (w_db w)\<lparr>db_deployments := db_deployments (w_db w) @ [r]\<rparr>\<rparr>)"
  using assms
  by (simp add: deployment_insert_def acquire_def transaction_def act_bind_run now_def act_run_simps sql_def
      insert_deployment_row_def insert_row_def)

definition sample_rc :: runner_cfg where
  "sample_rc = \<lparr>rc_graph = sample_cfg, rc_factor = 1, rc_exc_str = (\<lambda>_. ''e'')\<rparr>"

lemma sample_rc_simps [simp]: "rc_graph sample_rc = sample_cfg" "rc_factor sample_rc = 1"
  "g_rt sample_cfg = plain_rt"
  by (simp_all add: sample_rc_def sample_cfg_def)

lemma stub_info_gets:
  "dict_get (info_dict stub_runtime_info) ''slm_repo'' = Some (JStr ''Qwen/Qwen2.5-7B-Instruct'')"
  "dict_get (info_dict stub_runtime_info) ''slm_revision_sha'' = Some (JStr (replicate 40 (CHR ''0'')))"
  "dict_get (info_dict stub_runtime_info) ''slm_runtime'' = Some (JStr ''stub'')"
  "dict_get (info_dict stub_runtime_info) ''slm_runtime_version'' = Some (JStr ''adr-0004'')"
  "dict_get (info_dict stub_runtime_info) ''slm_quantization'' = Some (JStr ''none'')"
  by (simp_all add: info_dict_def stub_runtime_info_def dict_get_def)

lemma stub_info_texts:
  "opt_text (info_dict stub_runtime_info) ''slm_repo'' = Inr (Some ''Qwen/Qwen2.5-7B-Instruct'')"
  "opt_text (info_dict stub_runtime_info) ''slm_revision_sha'' = Inr (Some (replicate 40 (CHR ''0'')))"
  "opt_text (info_dict stub_runtime_info) ''slm_runtime'' = Inr (Some ''stub'')"
  "opt_text (info_dict stub_runtime_info) ''slm_runtime_version'' = Inr (Some ''adr-0004'')"
  "opt_text (info_dict stub_runtime_info) ''slm_quantization'' = Inr (Some ''none'')"
  "opt_text [(''finding_id'', JStr ''f1'')] ''schema_version'' = Inr None"
  by (simp_all add: opt_text_def stub_info_gets) (simp add: dict_get_def)

lemma deployed_session_simps:
  "ses_generated_policy deployed_session = JObj sample_policy_doc" "ses_tenant_id deployed_session = ''t1''"
  "ses_correlation_id deployed_session = ''c''" "ses_session_id deployed_session = ''s''" 
  "ses_last_runtime_info deployed_session = Some (info_dict stub_runtime_info)"
  "ses_last_decoding_seed deployed_session = Some DEFAULT_DECODING_SEED"
  "ses_prompt_template_version deployed_session = ''1.0.0''"
  "ses_originating_finding deployed_session = [(''finding_id'', JStr ''f1'')]"
  "policy_dict (deployed_session\<lparr>ses_deployment_record := x\<rparr>) = sample_policy_doc"
  "policy_dict deployed_session = sample_policy_doc"
  "scope_list sample_policy_doc = Inr [JStr ''v1'']"
  by (simp_all add: deployed_session_def initial_plan_def policy_dict_def scope_list_def dict_get_or_def sample_doc_gets)

lemma sample_registry_row:
  "\<exists>r. policy_row_of plain_rt ''t1'' sample_policy_doc
       (registry_meta sample_cfg (deployed_session\<lparr>ses_deployment_record := x\<rparr>)) n = Inr r \<and> policy_checks r \<and>
     cp_tenant_id r = ''t1'' \<and> policy_key r = (''t1'', ''p'', ''1.0.0'')"
proof -
  obtain sg k where sg: "g_sign sample_cfg sample_policy_doc = (sg, k)" by (cases "g_sign sample_cfg sample_policy_doc")
  have meta: "registry_meta sample_cfg (deployed_session\<lparr>ses_deployment_record := x\<rparr>) =
     [(''prompt_template_version'', JStr ''1.0.0''), (''slm_repo'', JStr ''Qwen/Qwen2.5-7B-Instruct''),
      (''slm_revision_sha'', JStr (replicate 40 (CHR ''0''))), (''slm_runtime'', JStr ''stub''),
      (''slm_runtime_version'', JStr ''adr-0004''), (''slm_quantization'', JStr ''none''),
      (''slm_decoding_seed'', JInt DEFAULT_DECODING_SEED), (''payload_signature'', JStr sg), (''signature_key_id'', JStr k)]"
    by (simp add: registry_meta_def deployed_session_simps stub_info_gets dict_get_or_def sg)
  show ?thesis
    unfolding meta
    by (simp add: policy_row_of_def sample_policy_doc_def req_text_def dict_req_def DEFAULT_DECODING_SEED_def
        dict_get_def dict_get_or_def col_text_def py_int_def py_float_def policy_checks_def semver_100
        nonempty_array_def is_array_def round3_def slm_runtimes_def slm_quantizations_def fits_bigint_def policy_key_def)
qed

lemma sample_deploy_run:
  obtains resp e t w1 where
    "deploy_node sample_cfg (simulator_deploy plain_rt no_env default_simulator) deployed_session (snd (now sim_start)) =
     (Inr (deployed_session\<lparr>ses_deployment_record := Some (deploy_record deployed_session [JStr ''v1''] resp ''i'' t)\<rparr>, True), w1)"
    and "dr_status resp = ''accepted''" and "dr_expires_at resp = JTime e"
    and "w_db w1 = empty_db [''t1'', ''t2'']" and "w_pool w1" and "w_session w1 = new_session"
    and "w_ids w1 = (\<lambda>n. replicate (Suc n) (CHR ''i''))" and "w_nids w1 = 1"
proof -
  have wh: "window_hours_of sample_policy_doc = Inr 24"
    by (simp add: window_hours_of_def dict_get_or_def sample_doc_gets py_int_def)
  have ac: "acceleration_env plain_rt no_env = Inr 1" by (simp add: acceleration_env_def no_env_def)
  have "\<exists>resp e t w1. deploy_node sample_cfg (simulator_deploy plain_rt no_env default_simulator) deployed_session (snd (now sim_start)) =
     (Inr (deployed_session\<lparr>ses_deployment_record := Some (deploy_record deployed_session [JStr ''v1''] resp ''i'' t)\<rparr>, True), w1)
    \<and> dr_status resp = ''accepted'' \<and> dr_expires_at resp = JTime e \<and>
    w_db w1 = empty_db [''t1'', ''t2''] \<and> w_pool w1 \<and> w_session w1 = new_session \<and>
    w_ids w1 = (\<lambda>n. replicate (Suc n) (CHR ''i'')) \<and> w_nids w1 = 1"
    by (simp add: deploy_node_def deployed_session_simps act_bind_run act_run_simps deploy_request_def
        simulator_deploy_def inject_failure_def default_simulator_def now_def ulid_new_def wh ac Let_def
        sim_start_def world.defs sim_world.defs sample_world_def)
      (rule exI, rule conjI, rule exI, rule refl, simp)
  then show thesis using that by blast
qed

lemma sample_audit_generated:
  "\<exists>ag. audit_generated sample_rc (deployed_session\<lparr>ses_deployment_record := x\<rparr>) = Inr ag \<and>
     missing_fields ag = [] \<and> (\<forall>ev n. ev \<noteq> [] \<longrightarrow> audit_checks (audit_event_row ag ev n))"
  by (simp add: audit_generated_def deployed_session_simps stub_info_texts json_key_def dict_req_def sample_doc_gets)
    (simp add: audit_call_def missing_fields_def generated_missing_def audit_checks_def round3_def
      audit_event_row_def full_fingerprint_def audit_kinds_def DEFAULT_DECODING_SEED_def fits_bigint_def)

lemma sample_audit_checks:
  "missing_fields (audit_validated sample_rc (deployed_session\<lparr>ses_deployment_record := x\<rparr>)) = []"
  "missing_fields (audit_deployed sample_rc (deployed_session\<lparr>ses_deployment_record := x\<rparr>) rcd) = []"
  "ev \<noteq> [] \<Longrightarrow>
     audit_checks (audit_event_row (audit_validated sample_rc (deployed_session\<lparr>ses_deployment_record := x\<rparr>)) ev n)"
  "ev \<noteq> [] \<Longrightarrow>
     audit_checks (audit_event_row (audit_deployed sample_rc (deployed_session\<lparr>ses_deployment_record := x\<rparr>) rcd) ev n)"
  by (simp_all add: audit_validated_def audit_deployed_def missing_fields_def audit_call_def KIND_MIN_FIELDS_def
      audit_checks_def audit_event_row_def audit_kinds_def deployed_session_simps round3_def)

lemma sample_deployment_row:
  assumes "dr_status resp = ''accepted''" and "dr_expires_at resp = JTime e"
  shows "\<exists>dr. deployment_row_of plain_rt ''t1'' (deploy_record deployed_session [JStr ''v1''] resp ''i'' t) n = Inr dr \<and>
      deployment_checks dr \<and> dt_tenant_id dr = ''t1'' \<and> dt_policy_id dr = ''p'' \<and> dt_version dr = ''1.0.0''"
  using assms
  by (simp add: deployment_row_of_def deploy_record_def req_text_def dict_req_def dict_get_def dict_get_or_def
      deployed_session_simps col_text_def parse_iso_def deployment_checks_def semver_100 nonempty_array_def
      sample_policy_doc_def)

lemma sample_policy_signals: "policy_signals sample_policy_doc = Inr [JStr ''Vehicle.Speed'']"
  by (simp add: policy_signals_def dict_get_or_def sample_policy_doc_def json_key_def dict_req_def dict_get_def)

lemma sample_after_graph:
  assumes "dr_status resp = ''accepted''" and "dr_expires_at resp = JTime e"
    and "w_db w = empty_db [''t1'', ''t2'']" and "w_pool w" and "w_session w = new_session"
    and "w_ids w = (\<lambda>n. replicate (Suc n) (CHR ''i''))" and "w_nids w = 1"
  shows "\<exists>w'. after_graph sample_rc \<lparr>run_session = deployed_session\<lparr>ses_deployment_record :=
      Some (deploy_record deployed_session [JStr ''v1''] resp ''i'' t)\<rparr>, run_final_state = ''completed'',
      run_validation_attempts = 1\<rparr> (Some ''starve'') w = (Inr (), w')"
proof -
  let ?rec = "deploy_record deployed_session [JStr ''v1''] resp ''i'' t"
  let ?s = "deployed_session\<lparr>ses_deployment_record := Some ?rec\<rparr>"
  obtain ag where ag: "audit_generated sample_rc ?s = Inr ag" "missing_fields ag = []"
    "\<And>ev n. ev \<noteq> [] \<Longrightarrow> audit_checks (audit_event_row ag ev n)"
    using sample_audit_generated by blast
  note agt = audit_generated_Inr [OF ag(1), unfolded deployed_session_simps]
  obtain r where r: "\<And>n. policy_row_of plain_rt ''t1'' sample_policy_doc (registry_meta sample_cfg ?s) n = Inr (r n)"
      "\<And>n. policy_checks (r n)" "\<And>n. cp_tenant_id (r n) = ''t1''" "\<And>n. policy_key (r n) = (''t1'', ''p'', ''1.0.0'')"
    using sample_registry_row [of "Some ?rec"] by metis
  obtain dr where dr: "\<And>n. deployment_row_of plain_rt ''t1'' ?rec n = Inr (dr n)" "\<And>n. deployment_checks (dr n)"
      "\<And>n. dt_tenant_id (dr n) = ''t1''" "\<And>n. dt_policy_id (dr n) = ''p''" "\<And>n. dt_version (dr n) = ''1.0.0''"
    using sample_deployment_row [OF assms(1,2)] by metis
  have rec: "?rec \<noteq> []" by (simp add: deploy_record_def)
  show ?thesis
    by (simp add: after_graph_def ag agt Let_def act_bind_run act_run_simps runtime_gauges_def metric_inc_def
        deployed_session_simps audit_write_fresh assms writes_new_def persist_policy_def
        policy_insert_fresh [OF _ r(1)] r sample_audit_checks rec persist_deployment_def
        deployment_insert_fresh [OF _ dr(1)] dr policy_fk_def audit_key_def now_def simulate_def sample_policy_signals)
qed

lemma sample_full_run:
  obtains w' where "run_graph sample_rc (fixed_slm (JObj sample_policy_doc)) (simulator_deploy plain_rt no_env default_simulator)
       sample_session (Some ''starve'') sim_start = (Inr (), w')"
proof -
  let ?slm = "fixed_slm (JObj sample_policy_doc)" and ?col = "simulator_deploy plain_rt no_env default_simulator"
  obtain resp e t w1 where d: "deploy_node sample_cfg ?col deployed_session (snd (now sim_start)) =
     (Inr (deployed_session\<lparr>ses_deployment_record := Some (deploy_record deployed_session [JStr ''v1''] resp ''i'' t)\<rparr>, True), w1)"
    and f: "dr_status resp = ''accepted''" "dr_expires_at resp = JTime e"
    "w_db w1 = empty_db [''t1'', ''t2'']" "w_pool w1" "w_session w1 = new_session"
    "w_ids w1 = (\<lambda>n. replicate (Suc n) (CHR ''i''))" "w_nids w1 = 1"
    by (rule sample_deploy_run)
  let ?run = "\<lparr>run_session = deployed_session\<lparr>ses_deployment_record :=
      Some (deploy_record deployed_session [JStr ''v1''] resp ''i'' t)\<rparr>, run_final_state = ''completed'',
      run_validation_attempts = 1\<rparr>"
  have g: "graph_run sample_cfg ?slm ?col sample_session (snd (now sim_start)) = (Inr ?run, w1)"
    using d by (simp add: graph_run_def act_bind_run sample_loop act_run_simps route_after_deploy_def)
  obtain w' where a: "after_graph sample_rc ?run (Some ''starve'') w1 = (Inr (), w')"
    using sample_after_graph [OF f] by blast
  have "fst (now sim_start) = Inr (w_clock sim_start (w_ticks sim_start))" by (simp add: now_def)
  then have "run_graph sample_rc ?slm ?col sample_session (Some ''starve'') sim_start = (Inr (), w')"
    using g a by (cases "now sim_start") (simp add: run_graph_after act_bind_run)
  then show thesis by (rule that)
qed

lemma fixed_slm_client: "policy_client (fixed_slm j :: gen_request \<Rightarrow> (exc, 'z world_scheme, gen_response) act)"
  by unfold_locales (auto simp: fixed_slm_def act_simps intro!: keeps eq_order runtime_infos_complete)

theorem run_leaves_terminal_event_witness:
  "\<exists>w'. run_async sample_rc (fixed_slm (JObj sample_policy_doc)) (simulator_deploy plain_rt no_env default_simulator)
       sample_session (Some ''starve'') sim_start = (Inr (), w') \<and>
     (has_event ''t1'' ''c'' ''rejected'' (w_db w') \<or> has_event ''t1'' ''c'' ''deployed'' (w_db w'))"
proof -
  obtain w' where "run_graph sample_rc (fixed_slm (JObj sample_policy_doc))
      (simulator_deploy plain_rt no_env default_simulator) sample_session (Some ''starve'') sim_start = (Inr (), w')"
    by (rule sample_full_run)
  then have "run_async sample_rc (fixed_slm (JObj sample_policy_doc))
      (simulator_deploy plain_rt no_env default_simulator) sample_session (Some ''starve'') sim_start = (Inr (), w')"
    by (simp add: run_async_def act_catch_def)
  with run_leaves_terminal_event [OF fixed_slm_client this] show ?thesis by auto
qed


definition failing_simulator :: simulator where
  "failing_simulator = \<lparr>sim_inject_failure_rate = 1, sim_failure_status = ''rejected''\<rparr>"

theorem deploy_rejection_audited_as_validation_witness:
  "\<exists>run w' a. graph_run sample_cfg (fixed_slm (JObj sample_policy_doc))
       (simulator_deploy plain_rt no_env failing_simulator) sample_session sim_start = (Inr run, w') \<and>
     audit_dead_letter (run_session run) = Inr a \<and>
     aa_error a = Some [(''code'', JStr ''VALIDATION_FAILED''),
      (''details'', JObj [(''validation_errors'', JArr []), (''invalid_signals'', JArr [])])]"
proof -
  have "\<exists>rcd w'. deploy_node sample_cfg (simulator_deploy plain_rt no_env failing_simulator) deployed_session sim_start =
      (Inr (deployed_session\<lparr>ses_deployment_record := Some rcd\<rparr>, False), w')"
    by (simp add: deploy_node_def deployed_session_simps act_bind_run act_run_simps deploy_request_def
        simulator_deploy_def inject_failure_def failing_simulator_def now_def ulid_new_def draw_random_def
        sim_start_def world.defs sim_world.defs sample_world_def) blast
  then obtain rcd w' where d: "deploy_node sample_cfg (simulator_deploy plain_rt no_env failing_simulator)
      deployed_session sim_start = (Inr (deployed_session\<lparr>ses_deployment_record := Some rcd\<rparr>, False), w')" by blast
  let ?run = "\<lparr>run_session = deployed_session\<lparr>ses_deployment_record := Some rcd\<rparr>,
    run_final_state = ''dead_letter'', run_validation_attempts = 1\<rparr>"
  have g: "graph_run sample_cfg (fixed_slm (JObj sample_policy_doc))
       (simulator_deploy plain_rt no_env failing_simulator) sample_session sim_start = (Inr ?run, w')"
    using d by (simp add: graph_run_def act_bind_run sample_loop act_run_simps route_after_deploy_def)
  obtain a where "audit_dead_letter (run_session ?run) = Inr a"
    by (simp add: audit_dead_letter_def deployed_session_simps stub_info_texts)
  with deploy_rejection_audited_as_validation [OF g _ _ _ this] g show ?thesis by auto
qed

theorem missing_policy_id_is_runner_error_witness:
  "\<exists>w1. w_db w1 = empty_db [''t1'', ''t2''] \<and>
    run_async sample_rc (fixed_slm (JObj [])) (simulator_deploy plain_rt no_env default_simulator)
      empty_budget_session None sim_start =
    act_bind (audit_write (audit_runner_error sample_rc empty_budget_session (KeyError ''policy_id'')))
      (\<lambda>_. act_return ()) w1"
proof -
  let ?slm = "fixed_slm (JObj [])" and ?col = "simulator_deploy plain_rt no_env default_simulator"
  let ?w = "snd (now sim_start)"
  obtain s1 where l: "graph_loop sample_cfg ?slm (initial_plan empty_budget_session) 0 ?w = (Inr (s1, False, 1), ?w)"
    and pol: "ses_generated_policy s1 = JObj []"
    using failing_loop by blast
  let ?run = "\<lparr>run_session = s1, run_final_state = ''dead_letter'', run_validation_attempts = 1\<rparr>"
  have g: "graph_run (rc_graph sample_rc) ?slm ?col empty_budget_session ?w = (Inr ?run, ?w)"
    using l by (simp add: graph_run_def act_bind_run act_run_simps)
  have db: "w_db ?w = empty_db [''t1'', ''t2'']"
    by (simp add: now_def sim_start_def world.defs sample_world_def)
  from missing_policy_id_is_runner_error [OF g, of "[]" None] pol db show ?thesis by (simp add: dict_get_def)
qed

end
