(* ===== verification/CM_Feedback.thy ===== *)
theory CM_Feedback
  imports CM_Runner
begin

text \<open>
  The feedback loop: the hypothesis rule of \<open>feedback/evaluator.py\<close> and the worker of
  \<open>feedback/worker.py\<close>, which evaluates the deployments whose collection window has closed.
\<close>

section \<open>feedback/evaluator.py\<close>

record hypothesis_outcome =
  ho_state :: string
  ho_count :: nat
  ho_quality :: rat
  ho_evidence :: dict

definition observed_value :: "pyrt \<Rightarrow> dict \<Rightarrow> exc + rat" where
  "observed_value rt obs = py_float rt (dict_get_or obs ''value'' (JFloat 0))"

text \<open>The counting loop: the numbers of observations at or above the threshold, and below it.\<close>

fun tally :: "pyrt \<Rightarrow> rat \<Rightarrow> dict list \<Rightarrow> nat \<Rightarrow> nat \<Rightarrow> exc + (nat \<times> nat)" where
  "tally rt threshold [] n_above n_below = Inr (n_above, n_below)"
| "tally rt threshold (obs # rest) n_above n_below =
     res_bind (observed_value rt obs) (\<lambda>v.
       if v \<ge> threshold then tally rt threshold rest (n_above + 1) n_below
       else tally rt threshold rest n_above (n_below + 1))"

definition py_round3 :: "rat \<Rightarrow> rat" where
  "py_round3 x = of_int (round_even (x * 1000)) / 1000"

definition evaluate :: "pyrt \<Rightarrow> dict list \<Rightarrow> rat \<Rightarrow> exc + hypothesis_outcome" where
  "evaluate rt observations expected_threshold =
     (let count = length observations in
      if count = 0
      then Inr \<lparr>ho_state = ''no_data'', ho_count = 0, ho_quality = 0, ho_evidence = []\<rparr>
      else
        res_bind (tally rt expected_threshold observations 0 0) (\<lambda>(above, below).
        let confirmed = (above \<ge> below \<and> above > 0);
            quality = min 1 (of_nat count / 10)
        in Inr \<lparr>ho_state = (if confirmed then ''confirmed'' else ''ruled_out''), ho_count = count,
             ho_quality = py_round3 quality,
             ho_evidence = [(''above_threshold'', JInt (int above)), (''below_threshold'', JInt (int below))]\<rparr>))"

section \<open>feedback/worker.py\<close>

text \<open>
  A list passed as \<open>text[]\<close>: a null element matches nothing, an element of another type is refused by
  the driver.
\<close>

fun text_array :: "json list \<Rightarrow> exc + string list" where
  "text_array [] = Inr []"
| "text_array (JStr s # xs) = res_bind (text_array xs) (\<lambda>ss. Inr (s # ss))"
| "text_array (JNull # xs) = text_array xs"
| "text_array (_ # xs) = Inl (PgError DataError)"

definition telemetry_rows ::
  "conn \<Rightarrow> string \<Rightarrow> string list \<Rightarrow> string \<Rightarrow> string \<Rightarrow> db \<Rightarrow> telemetry_row list" where
  "telemetry_rows c tenant_id vehicle_scope policy_id version d =
     take 1000 (order_desc to_observed_at
       (select c to_tenant_id
          (\<lambda>r. to_tenant_id r = tenant_id \<and> to_vehicle_id r \<in> set vehicle_scope \<and>
               contains_entry (to_policy_ref r) ''policy_id'' policy_id \<and>
               contains_entry (to_policy_ref r) ''version'' version)
          (db_telemetry d)))"

definition observation :: "telemetry_row \<Rightarrow> dict" where
  "observation r =
     [(''vehicle_id'', JStr (to_vehicle_id r)), (''signal_name'', JStr (to_signal_name r)),
      (''value'', JFloat (to_value r)), (''observed_at'', JTime (to_observed_at r))]"

definition collect_telemetry :: "deployment_row \<Rightarrow> (exc, 'z world_scheme, dict list) act" where
  "collect_telemetry deployment =
     act_bind (acquire (dt_tenant_id deployment) (\<lambda>c.
       act_bind (act_lift (case dt_vehicle_scope deployment of
           JArr xs \<Rightarrow> text_array xs | _ \<Rightarrow> Inl (PgError DataError))) (\<lambda>scope.
       query (telemetry_rows c (dt_tenant_id deployment) scope (dt_policy_id deployment) (dt_version deployment)))))
     (\<lambda>rows. act_return (map observation rows))"

definition outcome_record :: "string \<Rightarrow> json \<Rightarrow> deployment_row \<Rightarrow> hypothesis_outcome \<Rightarrow> int \<Rightarrow> dict" where
  "outcome_record oid origin deployment out t =
     [(''outcome_id'', JStr oid), (''originating_finding'', origin),
      (''policy_id'', JStr (dt_policy_id deployment)), (''version'', JStr (dt_version deployment)),
      (''hypothesis_state'', JStr (ho_state out)), (''evaluated_at'', JTime t),
      (''signals_collected_count'', JInt (int (ho_count out))), (''data_quality_score'', JFloat (ho_quality out)),
      (''evidence_summary'', JObj (ho_evidence out))]"

text \<open>
  The deployment rows have no \<open>correlation_id\<close> column, so \<open>deployment.get("correlation_id", deployment_id)\<close>
  is the deployment's id.  The finding reference of a registered policy is an object.
\<close>

definition audit_outcome :: "rat \<Rightarrow> json \<Rightarrow> deployment_row \<Rightarrow> string \<Rightarrow> audit_args" where
  "audit_outcome factor origin deployment oid =
     (audit_call (dt_tenant_id deployment) ''outcome'' (dt_deployment_id deployment) ''feedback-worker'')
       \<lparr>aa_originating_finding := (case origin of JObj d \<Rightarrow> Some d | _ \<Rightarrow> None),
        aa_policy_ref := Some [(''tenant_id'', JStr (dt_tenant_id deployment)),
          (''policy_id'', JStr (dt_policy_id deployment)), (''version'', JStr (dt_version deployment))],
        aa_outcome_ref := Some [(''outcome_id'', JStr oid)],
        aa_time_acceleration_factor := Some factor\<rparr>"

definition observe_delay :: "deployment_row \<Rightarrow> (exc, 'z world_scheme, unit) act" where
  "observe_delay deployment =
     (case dt_expires_at deployment of
        None \<Rightarrow> act_return ()
      | Some e \<Rightarrow> act_bind now (\<lambda>t.
          if t - e \<ge> 0 then metric_inc ''policy_outcome_write_delay_seconds'' [dt_tenant_id deployment]
          else act_return ()))"

definition process :: "pyrt \<Rightarrow> rat \<Rightarrow> deployment_row \<Rightarrow> (exc, 'z world_scheme, unit) act" where
  "process rt factor deployment =
     act_bind (policy_get (dt_tenant_id deployment) (dt_policy_id deployment) (Some (dt_version deployment))) (\<lambda>found.
     case found of
       None \<Rightarrow> mark_expired (dt_deployment_id deployment)
     | Some policy \<Rightarrow>
       act_bind (collect_telemetry deployment) (\<lambda>observations.
       act_bind (act_lift (py_float rt (dict_get_or policy ''confidence_threshold'' (JFloat (1/2))))) (\<lambda>threshold.
       act_bind (act_lift (evaluate rt observations threshold)) (\<lambda>outcome.
       act_bind ulid_new (\<lambda>oid.
       act_bind (act_lift (dict_req policy ''originating_finding'')) (\<lambda>origin.
       act_bind now (\<lambda>t.
       act_bind (outcome_insert rt (dt_tenant_id deployment) (outcome_record oid origin deployment outcome t)) (\<lambda>_.
       act_bind (mark_expired (dt_deployment_id deployment)) (\<lambda>_.
       act_bind (metric_inc ''policy_outcome_total'' [dt_tenant_id deployment, ho_state outcome]) (\<lambda>_.
       act_bind (observe_delay deployment) (\<lambda>_.
       act_bind (audit_write (audit_outcome factor origin deployment oid)) (\<lambda>_.
       act_return ()))))))))))))"

definition tick :: "pyrt \<Rightarrow> rat \<Rightarrow> (exc, 'z world_scheme, nat) act" where
  "tick rt factor =
     act_bind now (\<lambda>t.
     act_bind (list_due t) (\<lambda>due_rows.
     act_bind (act_foreach (process rt factor) due_rows) (\<lambda>_.
     act_return (length due_rows))))"

text \<open>\<open>run_forever\<close>, up to the turn at which \<open>stop\<close> was called; an error ends its turn only.\<close>

fun run_forever :: "pyrt \<Rightarrow> rat \<Rightarrow> nat \<Rightarrow> (exc, 'z world_scheme, unit) act" where
  "run_forever rt factor 0 = act_return ()"
| "run_forever rt factor (Suc turns) =
     act_bind (act_catch (act_bind (tick rt factor) (\<lambda>_. act_return ())) (\<lambda>_. act_return ()))
       (\<lambda>_. run_forever rt factor turns)"

section \<open>The rule\<close>

lemma tally_Inr:
  assumes "tally rt th obs a b = Inr (a', b')"
  shows "\<exists>vs. map (observed_value rt) obs = map Inr vs \<and> a' = a + length (filter (\<lambda>v. th \<le> v) vs) \<and>
    b' = b + length (filter (\<lambda>v. v < th) vs)"
  using assms
proof (induction obs arbitrary: a b)
  case Nil
  then show ?case by simp
next
  case (Cons ob obs)
  then obtain v where v: "observed_value rt ob = Inr v" by (auto simp: res_bind_Inr)
  show ?case
  proof (cases "th \<le> v")
    case True
    with v Cons.prems Cons.IH [of "a + 1" b] obtain vs where "map (observed_value rt) obs = map Inr vs"
      "a' = a + 1 + length (filter (\<lambda>v. th \<le> v) vs)" "b' = b + length (filter (\<lambda>v. v < th) vs)" by auto
    with v True show ?thesis by (intro exI [of _ "v # vs"]) simp
  next
    case False
    with v Cons.prems Cons.IH [of a "b + 1"] obtain vs where "map (observed_value rt) obs = map Inr vs"
      "a' = a + length (filter (\<lambda>v. th \<le> v) vs)" "b' = b + 1 + length (filter (\<lambda>v. v < th) vs)" by auto
    with v False show ?thesis by (intro exI [of _ "v # vs"]) simp
  qed
qed

lemma tally_values:
  "map (observed_value rt) obs = map Inr vs \<Longrightarrow>
   tally rt th obs a b = Inr (a + length (filter (\<lambda>v. th \<le> v) vs), b + length (filter (\<lambda>v. v < th) vs))"
proof (induction obs arbitrary: vs a b)
  case (Cons ob obs)
  then show ?case by (cases vs) (auto simp: not_le)
qed simp

lemma filter_split: "length (filter (\<lambda>v::rat. th \<le> v) vs) + length (filter (\<lambda>v. v < th) vs) = length vs"
  using sum_length_filter_compl [of "\<lambda>v. th \<le> v" vs] by (simp add: not_le)

lemma round_quality: "py_round3 (min 1 (of_nat n / 10)) = min 1 (of_nat n / 10)"
proof -
  have "\<exists>k::int. min 1 (of_nat n / 10) * 1000 = (of_int k :: rat)"
    by (cases "n \<le> 10") (auto simp: min_def intro: exI [of _ "int n * 100"] exI [of _ 1000])
  then obtain k :: int where k: "min 1 (of_nat n / 10) * 1000 = (of_int k :: rat)" by blast
  have "round_even (of_int k) = k" by (simp add: round_even_def)
  with k show ?thesis by (simp add: py_round3_def)
qed

text \<open>
  The rule is a majority vote: an outcome counts every observation, its quality score lies
  between 0 and 1, it says \<open>no_data\<close> exactly when nothing was observed and \<open>confirmed\<close> exactly when at
  least half of the observed values reach the threshold; otherwise it says \<open>ruled_out\<close>.
\<close>

theorem evaluate_majority:
  assumes "evaluate rt obs th = Inr h"
  shows "ho_count h = length obs \<and> 0 \<le> ho_quality h \<and> ho_quality h \<le> 1 \<and>
    ho_state h =
      (if obs = [] then ''no_data''
       else if length obs \<le> 2 * length (filter (\<lambda>v. th \<le> v) (map (projr \<circ> observed_value rt) obs))
       then ''confirmed'' else ''ruled_out'')"
proof (cases "obs = []")
  case True
  with assms show ?thesis by (auto simp: evaluate_def)
next
  case False
  with assms obtain a b where t: "tally rt th obs 0 0 = Inr (a, b)"
    and h: "ho_state h = (if a \<ge> b \<and> a > 0 then ''confirmed'' else ''ruled_out'')" "ho_count h = length obs"
      "ho_quality h = min 1 (of_nat (length obs) / 10)"
    by (auto simp: evaluate_def Let_def res_bind_Inr round_quality)
  from tally_Inr [OF t] obtain vs where vs: "map (observed_value rt) obs = map Inr vs"
    "a = length (filter (\<lambda>v. th \<le> v) vs)" "b = length (filter (\<lambda>v. v < th) vs)" by auto
  have "map (projr \<circ> observed_value rt) obs = vs" using arg_cong [OF vs(1), of "map projr"] by (simp add: comp_def)
  moreover have "length vs = length obs" using arg_cong [OF vs(1), of length] by simp
  ultimately show ?thesis
    using h vs(2,3) filter_split [of th vs] False by (auto simp: comp_def)
qed

section \<open>Simulated telemetry\<close>

text \<open>What the generator adds for a list of draws.\<close>

lemma foreach_appends:
  assumes "\<And>x w w'. f x w = (Inr (), w') \<Longrightarrow> \<exists>r. P x r \<and> sel w' = sel w @ [r]"
    and "act_foreach f xs w = (Inr (), w')"
  shows "\<exists>rows. sel w' = sel w @ rows \<and> list_all2 P xs rows"
  using assms(2)
proof (induction xs arbitrary: w)
  case (Cons x xs)
  then obtain w1 where "f x w = (Inr (), w1)" and rest: "act_foreach f xs w1 = (Inr (), w')"
    by (auto elim!: act_bind_InrE)
  then obtain r where "P x r" "sel w1 = sel w @ [r]" using assms(1) by blast
  moreover from Cons.IH [OF rest] obtain rows where "sel w' = sel w1 @ rows" "list_all2 P xs rows" by blast
  ultimately show ?case by (intro exI [of _ "r # rows"]) simp
qed (simp add: act_run_simps)

lemma foreach_telemetry:
  assumes "act_foreach (\<lambda>(ivs, x). act_bind (act_lift (telemetry_args t policy at0 ivs (g x)))
      (\<lambda>r. sql (insert_telemetry_row c r))) zs w = (Inr (), w')"
  shows "\<exists>rows. db_telemetry (w_db w') = db_telemetry (w_db w) @ rows \<and>
    list_all2 (\<lambda>(ivs, x) r. telemetry_args t policy at0 ivs (g x) = Inr r) zs rows"
  by (rule foreach_appends [OF _ assms, where sel = "\<lambda>w. db_telemetry (w_db w)"])
    (auto simp: sql_def insert_telemetry_row_def act_run_simps elim!: act_bind_InrE split: if_splits)

lemma simulate_rows:
  assumes "simulate rt t policy dir w = (Inr n, w')" and "scope_list policy = Inr scope" and "policy_signals policy = Inr sigs"
    and "py_float rt (dict_get_or policy ''confidence_threshold'' (JFloat (1/2))) = Inr th"
    and "scope \<noteq> []" and "sigs \<noteq> []" and "dir \<noteq> Some ''starve''"
  shows "\<exists>rows at0. db_telemetry (w_db w') = db_telemetry (w_db w) @ rows \<and>
    list_all2 (\<lambda>(ivs, x) r. telemetry_args t policy at0 ivs (telemetry_value dir th x) = Inr r)
      (zip (combinations scope sigs) (map (\<lambda>k. w_random w (w_draws w + k)) [0..<length (combinations scope sigs)])) rows"
proof -
  let ?zs = "zip (combinations scope sigs) (map (\<lambda>k. w_random w (w_draws w + k)) [0..<length (combinations scope sigs)])"
  let ?at = "w_clock w (w_ticks w)"
  let ?f = "\<lambda>c. act_foreach (\<lambda>(ivs, x). act_bind (act_lift (telemetry_args t policy ?at ivs (telemetry_value dir th x)))
      (\<lambda>r. sql (insert_telemetry_row c r))) ?zs"
  let ?w1 = "w\<lparr>w_ticks := Suc (w_ticks w), w_draws := w_draws w + length (combinations scope sigs)\<rparr>"
  from assms obtain u where "acquire t ?f ?w1 = (Inr u, w')"
    by (auto simp: simulate_def act_bind_run act_run_simps now_def draw_values_def Let_def
        split: sum.splits prod.splits)
  then have "?f (tenant_conn t (w_session ?w1)) ?w1 = (Inr (), w')"
    by (auto simp: acquire_def transaction_def split: if_splits sum.splits prod.splits)
  from foreach_telemetry [OF this] show ?thesis by auto
qed

lemma telemetry_value_side:
  assumes "0 \<le> x" and "x \<le> 1" and "0 < th" and "th \<le> 1"
  shows "(th \<le> telemetry_value dir th x) \<longleftrightarrow> dir \<noteq> Some ''rule_out''"
  using assms by (auto simp: telemetry_value_def)

lemma text_array_map [simp]: "text_array (map JStr vs) = Inr vs"
  by (induction vs) simp_all

lemma observed_value_observation [simp]: "observed_value rt (observation r) = Inr (to_value r)"
  by (simp add: observed_value_def observation_def dict_get_or_def dict_get_def py_float_def)

lemma run_collect:
  assumes "w_pool w" and "dt_vehicle_scope r = JArr (map JStr vs)"
  shows "collect_telemetry r w = (Inr (map observation (telemetry_rows (tenant_conn (dt_tenant_id r) (w_session w))
      (dt_tenant_id r) vs (dt_policy_id r) (dt_version r) (w_db w))), w)"
  using assms
  by (simp add: collect_telemetry_def acquire_def transaction_def act_bind_run act_run_simps query_def)

text \<open>A vote in which every observation is on the same side.\<close>

lemma evaluate_unanimous:
  assumes "rows \<noteq> []" and "\<And>r. r \<in> set rows \<Longrightarrow> (th \<le> to_value r) = side"
  shows "\<exists>h. evaluate rt (map observation rows) th = Inr h \<and>
    ho_state h = (if side then ''confirmed'' else ''ruled_out'')"
proof -
  let ?vs = "map to_value rows"
  have "filter (\<lambda>v. th \<le> v) ?vs = (if side then ?vs else [])" "filter (\<lambda>v. v < th) ?vs = (if side then [] else ?vs)"
    using assms(2) by (cases side; force simp: filter_id_conv filter_empty_conv)+
  moreover have "tally rt th (map observation rows) 0 0 =
      Inr (length (filter (\<lambda>v. th \<le> v) ?vs), length (filter (\<lambda>v. v < th) ?vs))"
    using tally_values [of rt "map observation rows" ?vs th 0 0] by simp
  ultimately show ?thesis
    using assms(1) by (auto simp: evaluate_def Let_def)
qed

lemma order_desc_empty [simp]: "order_desc k rows = [] \<longleftrightarrow> rows = []"
  by (metis length_0_conv length_sort order_desc_def)

lemma telemetry_args_Inr:
  assumes "telemetry_args t policy at0 (i, v, s) val = Inr r"
  shows "to_tenant_id r = t" "v = JStr (to_vehicle_id r)" "to_value r = val"
    "to_policy_ref r = JObj [(''tenant_id'', JStr t), (''policy_id'', dict_get_or policy ''policy_id'' (JStr [])),
       (''version'', dict_get_or policy ''version'' (JStr ''1.0.0''))]"
  using assms by (auto simp: telemetry_args_def res_bind_Inr col_text_Inr)

lemma simulated_rows:
  assumes "simulate rt t policy dir w = (Inr n, w')" and "dict_get policy ''vehicle_scope'' = Some (JArr (map JStr vs))"
    and "vs \<noteq> []" and "policy_signals policy = Inr sigs" and "sigs \<noteq> []" and "dir \<noteq> Some ''starve''"
    and "py_float rt (dict_get_or policy ''confidence_threshold'' (JFloat (1/2))) = Inr th"
    and "dict_get policy ''policy_id'' = Some (JStr pid)" and "dict_get policy ''version'' = Some (JStr ver)"
  shows "\<exists>rows. db_telemetry (w_db w') = db_telemetry (w_db w) @ rows \<and> rows \<noteq> [] \<and>
    (\<forall>r \<in> set rows. to_tenant_id r = t \<and> to_vehicle_id r \<in> set vs \<and> contains_entry (to_policy_ref r) ''policy_id'' pid \<and>
       contains_entry (to_policy_ref r) ''version'' ver \<and> (\<exists>k. to_value r = telemetry_value dir th (w_random w k)))"
proof -
  let ?cs = "combinations (map JStr vs) sigs"
  let ?zs = "zip ?cs (map (\<lambda>k. w_random w (w_draws w + k)) [0..<length ?cs])"
  have "scope_list policy = Inr (map JStr vs)" using assms(2) by (simp add: scope_list_def dict_get_or_def)
  from simulate_rows [OF assms(1) this assms(4,7) _ assms(5,6)] assms(3) obtain rows at0 where
    db: "db_telemetry (w_db w') = db_telemetry (w_db w) @ rows"
    and all: "list_all2 (\<lambda>(ivs, x) r. telemetry_args t policy at0 ivs (telemetry_value dir th x) = Inr r) ?zs rows"
    by auto
  have "?cs \<noteq> []" using assms(3,5) by (cases vs; cases sigs) (auto simp: combinations_def upt_rec)
  then have ne: "rows \<noteq> []" using all by auto
  have "to_tenant_id r = t \<and> to_vehicle_id r \<in> set vs \<and> contains_entry (to_policy_ref r) ''policy_id'' pid \<and>
       contains_entry (to_policy_ref r) ''version'' ver \<and> (\<exists>k. to_value r = telemetry_value dir th (w_random w k))"
    if "r \<in> set rows" for r
  proof -
    from that all obtain j where j: "j < length ?zs" "r = rows ! j"
      by (metis in_set_conv_nth list_all2_lengthD)
    obtain i v s x where z: "?zs ! j = ((i, v, s), x)" by (metis prod.exhaust)
    then have arg: "telemetry_args t policy at0 (i, v, s) (telemetry_value dir th x) = Inr r"
      using list_all2_nthD [OF all j(1)] j(2) by simp
    have "((i, v, s), x) \<in> set ?zs" using nth_mem [OF j(1)] z by simp
    then have "(i, v, s) \<in> set ?cs" "\<exists>k. x = w_random w k" by (auto dest: set_zip_leftD) (auto dest!: set_zip_rightD)
    then have "v \<in> JStr ` set vs" by (auto simp: combinations_def)
    with telemetry_args_Inr [OF arg] \<open>\<exists>k. x = w_random w k\<close> assms(8,9) show ?thesis
      by (auto simp: contains_entry_def dict_get_or_def dict_get_def)
  qed
  with db ne show ?thesis by blast
qed


section \<open>The worker\<close>

text \<open>Deployment rows change only by expiring.\<close>

definition expires :: "deployment_row \<Rightarrow> deployment_row \<Rightarrow> bool" where
  "expires r r' \<longleftrightarrow> r' = r \<or> r' = r\<lparr>dt_status := ''expired''\<rparr>"

definition only_expired :: "db \<Rightarrow> db \<Rightarrow> bool" where
  "only_expired d d' \<longleftrightarrow> list_all2 expires (db_deployments d) (db_deployments d')"

lemma expires_refl: "expires r r"
  by (simp add: expires_def)

lemma only_expired_order: "reflp only_expired" "transp only_expired"
proof -
  show "reflp only_expired" by (auto simp: only_expired_def expires_refl intro!: reflpI list_all2_refl)
  have "expires r r'' " if "expires r r'" "expires r' r''" for r r' r''
    using that by (auto simp: expires_def)
  then show "transp only_expired"
    unfolding only_expired_def by (intro transpI) (rule list_all2_trans)
qed

lemma only_expired_same: "db_deployments d' = db_deployments d \<Longrightarrow> only_expired d d'"
  by (simp add: only_expired_def expires_refl list_all2_refl)

lemma audit_write_only_expired [keeps]: "act_preserves (on_db only_expired) (audit_write a)"
  unfolding audit_write_def
  by (auto intro!: keeps_rules keeps_sql keeps only_expired_order only_expired_same
      simp: insert_audit_def split: if_splits)

lemma outcome_insert_only_expired [keeps]: "act_preserves (on_db only_expired) (outcome_insert rt t rcd)"
  unfolding outcome_insert_def
  by (auto intro!: keeps_rules keeps_sql keeps only_expired_order only_expired_same
      simp: insert_outcome_row_def res_bind_Inr)

lemma mark_expired_only_expired [keeps]: "act_preserves (on_db only_expired) (mark_expired i)"
  unfolding mark_expired_def
  by (auto intro!: keeps_rules keeps_sql keeps only_expired_order
      simp: only_expired_def list_all2_map2 expire_row_def expires_def intro: list_all2_refl)

lemma observe_delay_keeps [keeps]: "reflp R \<Longrightarrow> transp R \<Longrightarrow> act_preserves (on_db R) (observe_delay r)"
  unfolding observe_delay_def by (auto intro!: keeps_rules keeps)

lemma collect_telemetry_keeps [keeps]: "reflp R \<Longrightarrow> transp R \<Longrightarrow> act_preserves (on_db R) (collect_telemetry r)"
  unfolding collect_telemetry_def by (auto intro!: keeps_rules keeps)

lemma process_only_expired [keeps]: "act_preserves (on_db only_expired) (process rt factor r)"
  unfolding process_def by (auto intro!: keeps_rules keeps only_expired_order)

lemma tick_only_expired [keeps]: "act_preserves (on_db only_expired) (tick rt factor)"
  unfolding tick_def by (auto intro!: keeps_rules keeps_foreach keeps only_expired_order)

lemma run_forever_only_expired: "act_preserves (on_db only_expired) (run_forever rt factor n)"
  by (induction n) (auto intro!: keeps_rules keeps only_expired_order)

definition expired_in :: "string \<Rightarrow> db \<Rightarrow> bool" where
  "expired_in i d \<longleftrightarrow>
     (\<forall>r \<in> set (db_deployments d). dt_tenant_id r = PUBLIC \<longrightarrow> dt_deployment_id r = i \<longrightarrow> dt_status r = ''expired'')"

lemma expired_in_step:
  assumes "expired_in i d" and "only_expired d d'"
  shows "expired_in i d'"
  unfolding expired_in_def
proof (intro ballI impI)
  fix r' assume r': "r' \<in> set (db_deployments d')" "dt_tenant_id r' = PUBLIC" "dt_deployment_id r' = i"
  with assms(2) obtain r where "r \<in> set (db_deployments d)" "expires r r'"
    unfolding only_expired_def by (metis in_set_conv_nth list_all2_conv_all_nth)
  with assms(1) r' show "dt_status r' = ''expired''" by (auto simp: expires_def expired_in_def)
qed

lemma PUBLIC_nonempty [simp]: "PUBLIC \<noteq> []"
  by (simp add: PUBLIC_def)

lemma mark_expired_in:
  assumes "mark_expired i w = (Inr (), w')"
  shows "expired_in i (w_db w')"
proof -
  have "w_pool w" using assms by (auto simp: mark_expired_def acquire_def split: if_splits)
  then have eq: "db_deployments (w_db w') =
      map (expire_row (tenant_conn PUBLIC (w_session w)) i) (db_deployments (w_db w))"
    using run_mark_expired [of w i] assms by simp
  have "dt_status (expire_row (tenant_conn PUBLIC (w_session w)) i r) = ''expired''"
    if "dt_tenant_id r = PUBLIC" "dt_deployment_id r = i" for r
    using that by (simp add: expire_row_def)
  then show ?thesis unfolding expired_in_def eq by simp
qed

text \<open>The part of \<open>_process\<close> after the outcome row.\<close>

definition after_outcome :: "rat \<Rightarrow> json \<Rightarrow> deployment_row \<Rightarrow> hypothesis_outcome \<Rightarrow> string \<Rightarrow> (exc, 'z world_scheme, unit) act" where
  "after_outcome factor origin deployment outcome oid =
       act_bind (mark_expired (dt_deployment_id deployment)) (\<lambda>_.
       act_bind (metric_inc ''policy_outcome_total'' [dt_tenant_id deployment, ho_state outcome]) (\<lambda>_.
       act_bind (observe_delay deployment) (\<lambda>_.
       act_bind (audit_write (audit_outcome factor origin deployment oid)) (\<lambda>_.
       act_return ()))))"

lemma process_after:
  "process rt factor deployment =
     act_bind (policy_get (dt_tenant_id deployment) (dt_policy_id deployment) (Some (dt_version deployment))) (\<lambda>found.
     case found of
       None \<Rightarrow> mark_expired (dt_deployment_id deployment)
     | Some policy \<Rightarrow>
       act_bind (collect_telemetry deployment) (\<lambda>observations.
       act_bind (act_lift (py_float rt (dict_get_or policy ''confidence_threshold'' (JFloat (1/2))))) (\<lambda>threshold.
       act_bind (act_lift (evaluate rt observations threshold)) (\<lambda>outcome.
       act_bind ulid_new (\<lambda>oid.
       act_bind (act_lift (dict_req policy ''originating_finding'')) (\<lambda>origin.
       act_bind now (\<lambda>t.
       act_bind (outcome_insert rt (dt_tenant_id deployment) (outcome_record oid origin deployment outcome t)) (\<lambda>_.
       after_outcome factor origin deployment outcome oid))))))))"
  unfolding process_def after_outcome_def by (rule refl)

lemma process_InrE:
  assumes "process rt factor r w = (Inr (), w')"
  obtains (gone) w1 where "policy_get (dt_tenant_id r) (dt_policy_id r) (Some (dt_version r)) w = (Inr None, w1)"
      and "mark_expired (dt_deployment_id r) w1 = (Inr (), w')"
    | (evaluated) policy w1 obs w2 th out oid origin t w3 w4 where
      "policy_get (dt_tenant_id r) (dt_policy_id r) (Some (dt_version r)) w = (Inr (Some policy), w1)"
      and "collect_telemetry r w1 = (Inr obs, w2)"
      and "py_float rt (dict_get_or policy ''confidence_threshold'' (JFloat (1/2))) = Inr th"
      and "evaluate rt obs th = Inr out" and "dict_req policy ''originating_finding'' = Inr origin"
      and "w_db w3 = w_db w2" and "env_kept w2 w3"
      and "outcome_insert rt (dt_tenant_id r) (outcome_record oid origin r out t) w3 = (Inr (), w4)"
      and "after_outcome factor origin r out oid w4 = (Inr (), w')"
proof -
  from assms obtain found w1 where p: "policy_get (dt_tenant_id r) (dt_policy_id r) (Some (dt_version r)) w = (Inr found, w1)"
    and rest: "(case found of
       None \<Rightarrow> mark_expired (dt_deployment_id r)
     | Some policy \<Rightarrow>
       act_bind (collect_telemetry r) (\<lambda>observations.
       act_bind (act_lift (py_float rt (dict_get_or policy ''confidence_threshold'' (JFloat (1/2))))) (\<lambda>threshold.
       act_bind (act_lift (evaluate rt observations threshold)) (\<lambda>outcome.
       act_bind ulid_new (\<lambda>oid.
       act_bind (act_lift (dict_req policy ''originating_finding'')) (\<lambda>origin.
       act_bind now (\<lambda>t.
       act_bind (outcome_insert rt (dt_tenant_id r) (outcome_record oid origin r outcome t)) (\<lambda>_.
       after_outcome factor origin r outcome oid)))))))) w1 = (Inr (), w')"
    unfolding process_after by (erule act_bind_InrE)
  show thesis
  proof (cases found)
    case None
    with p rest gone show thesis by simp
  next
    case (Some policy)
    have env: "env_kept w (w\<lparr>w_nids := Suc (w_nids w), w_ticks := Suc (w_ticks w)\<rparr>)" for w :: "'a world_scheme"
      by (simp add: env_kept_def)
    from Some rest obtain obs w2 th out origin w4 where "collect_telemetry r w1 = (Inr obs, w2)"
      and "py_float rt (dict_get_or policy ''confidence_threshold'' (JFloat (1/2))) = Inr th"
      and "evaluate rt obs th = Inr out" and "dict_req policy ''originating_finding'' = Inr origin"
      and "outcome_insert rt (dt_tenant_id r) (outcome_record (w_ids w2 (w_nids w2)) origin r out (w_clock w2 (w_ticks w2)))
         (w2\<lparr>w_nids := Suc (w_nids w2), w_ticks := Suc (w_ticks w2)\<rparr>) = (Inr (), w4)"
      and "after_outcome factor origin r out (w_ids w2 (w_nids w2)) w4 = (Inr (), w')"
      by (auto simp: act_run_simps ulid_new_def now_def elim!: act_bind_InrE)
    with p Some env [of w2] show thesis by (intro evaluated) auto
  qed
qed

lemma after_outcome_InrE:
  assumes "after_outcome factor origin r out oid w = (Inr (), w')"
  obtains w1 w2 eid where "mark_expired (dt_deployment_id r) w = (Inr (), w1)"
    and "on_db (=) w1 w2" and "audit_write (audit_outcome factor origin r oid) w2 = (Inr eid, w')"
proof -
  from assms obtain w1 w2 w3 eid where m: "mark_expired (dt_deployment_id r) w = (Inr (), w1)"
    and c: "metric_inc ''policy_outcome_total'' [dt_tenant_id r, ho_state out] w1 = (Inr (), w2)"
    and d: "observe_delay r w2 = (Inr (), w3)"
    and a: "audit_write (audit_outcome factor origin r oid) w3 = (Inr eid, w')"
    by (auto simp: after_outcome_def act_run_simps elim!: act_bind_InrE)
  have "on_db (=) w1 w2" using c by (auto simp: metric_inc_def act_run_simps on_db_def env_kept_def)
  moreover have "on_db (=) w2 w3" by (rule act_preservesD [OF observe_delay_keeps [OF eq_order] d])
  ultimately have "on_db (=) w1 w3" by (auto simp: on_db_def intro: env_kept_order)
  from m this a show thesis by (rule that)
qed

lemma on_dbD: "act_preserves (on_db R) m \<Longrightarrow> m w = (r, w') \<Longrightarrow> R (w_db w) (w_db w')"
  using act_preservesD [of "on_db R" m w r w'] by (simp add: on_db_def)

lemma process_expires:
  assumes "process rt factor r w = (Inr (), w')"
  shows "expired_in (dt_deployment_id r) (w_db w')"
  using assms
proof (cases rule: process_InrE)
  case (gone w1)
  from gone(2) show ?thesis by (rule mark_expired_in)
next
  case (evaluated policy w1 obs w2 th out oid origin t w3 w4)
  from evaluated(9) obtain w5 w6 eid where m: "mark_expired (dt_deployment_id r) w4 = (Inr (), w5)"
    and e: "on_db (=) w5 w6" and a: "audit_write (audit_outcome factor origin r oid) w6 = (Inr eid, w')"
    by (rule after_outcome_InrE)
  have "expired_in (dt_deployment_id r) (w_db w6)" using mark_expired_in [OF m] e by (simp add: on_db_def)
  then show ?thesis by (rule expired_in_step [OF _ on_dbD [OF audit_write_only_expired a]])
qed

lemma foreach_process_expires:
  assumes "act_foreach (process rt factor) rows w = (Inr (), w')" and "r \<in> set rows"
  shows "expired_in (dt_deployment_id r) (w_db w')"
  using assms
proof (induction rows arbitrary: w)
  case (Cons r0 rows)
  then obtain w1 where p: "process rt factor r0 w = (Inr (), w1)"
    and rest: "act_foreach (process rt factor) rows w1 = (Inr (), w')"
    by (auto elim!: act_bind_InrE)
  have "act_preserves (on_db only_expired) (act_foreach (process rt factor) rows)"
    by (intro keeps_foreach only_expired_order process_only_expired)
  from on_dbD [OF this rest] process_expires [OF p] expired_in_step
  have "expired_in (dt_deployment_id r0) (w_db w')" by blast
  with Cons.IH [OF rest] Cons.prems(2) show ?case by auto
qed simp

lemma tick_InrE:
  assumes "tick rt factor w = (Inr n, w')"
  obtains t w1 rows where "list_due t w1 = (Inr rows, w1)" and "n = length rows" and "t = w_clock w (w_ticks w)"
    and "act_foreach (process rt factor) rows w1 = (Inr (), w')" and "w_db w1 = w_db w" and "w_pool w"
    and "w_session w1 = w_session w"
proof -
  let ?w1 = "w\<lparr>w_ticks := Suc (w_ticks w)\<rparr>" and ?t = "w_clock w (w_ticks w)"
  have pool: "w_pool w"
    using assms by (auto simp: tick_def act_bind_run now_def list_due_def acquire_def split: if_splits)
  with assms have "act_foreach (process rt factor) (select_due (tenant_conn PUBLIC (w_session w)) ?t (w_db w)) ?w1 = (Inr (), w')"
    "n = length (select_due (tenant_conn PUBLIC (w_session w)) ?t (w_db w))"
    by (auto simp: tick_def act_bind_run now_def run_list_due act_run_simps split: sum.splits prod.splits)
  with pool show thesis by (intro that [of ?t ?w1]) (auto simp: run_list_due)
qed


lemma outcome_insert_InrE:
  assumes "outcome_insert rt t rcd w = (Inr (), w')"
  obtains row where "outcome_row_of rt t rcd = Inr row" and "db_outcomes (w_db w') = db_outcomes (w_db w) @ [row]"
proof -
  from assms have pool: "w_pool w" by (auto simp: outcome_insert_def acquire_def split: if_splits)
  let ?c = "tenant_conn t (w_session w)"
  from pool assms obtain row where row: "outcome_row_of rt t rcd = Inr row"
    by (cases "outcome_row_of rt t rcd")
      (auto simp: outcome_insert_def acquire_def transaction_def act_bind_run act_run_simps)
  moreover from pool assms row obtain xd where "insert_outcome_row ?c row (w_db w) = Inr xd" "w_db w' = snd xd"
    by (cases "insert_outcome_row ?c row (w_db w)")
      (auto simp: outcome_insert_def acquire_def transaction_def act_bind_run act_run_simps sql_def split: prod.splits)
  ultimately show thesis
    by (intro that) (auto simp: insert_outcome_row_def res_bind_Inr insert_row_Inr)
qed

definition outcomes_same :: "db \<Rightarrow> db \<Rightarrow> bool" where
  "outcomes_same d d' \<longleftrightarrow> db_outcomes d' = db_outcomes d"

lemma outcomes_same_order: "reflp outcomes_same" "transp outcomes_same"
  by (auto simp: outcomes_same_def intro!: reflpI transpI)

lemma audit_write_outcomes [keeps]: "act_preserves (on_db outcomes_same) (audit_write a)"
  unfolding audit_write_def
  by (auto intro!: keeps_rules keeps_sql keeps outcomes_same_order
      simp: insert_audit_def outcomes_same_def split: if_splits)

lemma mark_expired_outcomes [keeps]: "act_preserves (on_db outcomes_same) (mark_expired i)"
  unfolding mark_expired_def
  by (auto intro!: keeps_rules keeps_sql keeps outcomes_same_order simp: outcomes_same_def)

lemma after_outcome_facts:
  assumes "after_outcome factor origin r out oid w = (Inr (), w')"
  shows "db_outcomes (w_db w') = db_outcomes (w_db w)"
    and "has_event (dt_tenant_id r) (dt_deployment_id r) ''outcome'' (w_db w')"
proof -
  from assms obtain w1 w2 eid where m: "mark_expired (dt_deployment_id r) w = (Inr (), w1)"
    and e: "on_db (=) w1 w2" and a: "audit_write (audit_outcome factor origin r oid) w2 = (Inr eid, w')"
    by (rule after_outcome_InrE)
  show "db_outcomes (w_db w') = db_outcomes (w_db w)"
    using on_dbD [OF mark_expired_outcomes m] on_dbD [OF audit_write_outcomes a] e
    by (simp add: outcomes_same_def on_db_def)
  show "has_event (dt_tenant_id r) (dt_deployment_id r) ''outcome'' (w_db w')"
    using audit_write_has_event [OF a] by (simp add: audit_outcome_def audit_call_def)
qed

lemma outcome_row_of_record:
  assumes "outcome_row_of rt t (outcome_record oid origin r out at0) = Inr row"
  shows "po_tenant_id row = t" "po_policy_id row = dt_policy_id r" "po_version row = dt_version r"
    "po_hypothesis_state row = ho_state out" "po_signals_collected_count row = int (ho_count out)"
    "po_originating_finding row = origin"
  using assms
  by (auto simp: outcome_row_of_def outcome_record_def res_bind_Inr req_text_Inr dict_req_Inr dict_get_def
      dict_get_or_def py_int_def)

lemma evaluate_count: "evaluate rt obs th = Inr h \<Longrightarrow> ho_count h = length obs"
  by (auto simp: evaluate_def Let_def res_bind_Inr split: if_splits)


section \<open>Concrete runs\<close>

theorem evaluate_majority_witness:
  "\<exists>h. evaluate plain_rt [[(''value'', JFloat 1)], [(''value'', JFloat 0)]] (1/2) = Inr h \<and>
     ho_count h = 2 \<and> ho_state h = ''confirmed''"
proof -
  obtain h where h: "evaluate plain_rt [[(''value'', JFloat 1)], [(''value'', JFloat 0)]] (1/2) = Inr h"
    by (simp add: evaluate_def observed_value_def dict_get_or_def dict_get_def py_float_def)
  with evaluate_majority [OF h] show ?thesis
    by (simp add: observed_value_def dict_get_or_def dict_get_def py_float_def)
qed

lemma foreach_total:
  assumes "\<And>x w. x \<in> set xs \<Longrightarrow> P w \<Longrightarrow> \<exists>w'. f x w = (Inr (), w') \<and> P w'" and "P w"
  shows "\<exists>w'. act_foreach f xs w = (Inr (), w') \<and> P w'"
  using assms
proof (induction xs arbitrary: w)
  case (Cons x xs)
  then obtain w1 where "f x w = (Inr (), w1)" "P w1" by (meson list.set_intros(1))
  moreover with Cons obtain w' where "act_foreach f xs w1 = (Inr (), w')" "P w'"
    by (meson list.set_intros(2))
  ultimately show ?case by (simp add: act_bind_run)
qed (simp add: act_run_simps)

lemma sample_simulate:
  obtains n w' where "simulate plain_rt ''t1'' sample_policy_doc (Some ''rule_out'') sample_world = (Inr n, w')"
proof -
  let ?cs = "combinations [JStr ''v1''] [JStr ''Vehicle.Speed'']"
  let ?f = "\<lambda>(ivs, x). act_bind (act_lift (telemetry_args ''t1'' sample_policy_doc 0 ivs
      (telemetry_value (Some ''rule_out'') (1/2) x))) (\<lambda>r. sql (insert_telemetry_row (tenant_conn ''t1'' new_session) r))"
  let ?w1 = "sample_world\<lparr>w_ticks := 1, w_draws := length ?cs\<rparr>"
  have "\<exists>w'. act_foreach ?f (zip ?cs (map (\<lambda>k. 0) [0..<length ?cs])) ?w1 = (Inr (), w') \<and>
      ''t1'' \<in> set (db_tenants (w_db w'))"
  proof (rule foreach_total)
    fix z :: "(nat \<times> json \<times> json) \<times> rat" and w :: world
    assume "z \<in> set (zip ?cs (map (\<lambda>k. 0) [0..<length ?cs]))" and "''t1'' \<in> set (db_tenants (w_db w))"
    moreover obtain i v s x where "z = ((i, v, s), x)" by (metis prod.exhaust)
    ultimately show "\<exists>w'. ?f z w = (Inr (), w') \<and> ''t1'' \<in> set (db_tenants (w_db w'))"
      by (auto dest!: set_zip_leftD simp: combinations_def telemetry_args_def col_text_def act_bind_run act_run_simps
          sql_def insert_telemetry_row_def telemetry_checks_def)
  qed simp
  then obtain w' where "act_foreach ?f (zip ?cs (map (\<lambda>k. 0) [0..<length ?cs])) ?w1 = (Inr (), w')" by blast
  moreover have "py_float plain_rt (dict_get_or sample_policy_doc ''confidence_threshold'' (JFloat (1/2))) = Inr (1/2)"
    by (simp add: dict_get_or_def sample_doc_gets py_float_def)
  ultimately show thesis
    by (intro that [of "length ?cs" w']) (simp add: Let_def simulate_def act_bind_run act_run_simps deployed_session_simps sample_policy_signals
        now_def draw_values_def acquire_def transaction_def)
qed


definition public_deployment :: deployment_row where
  "public_deployment = due_deployment\<lparr>dt_tenant_id := PUBLIC\<rparr>"

definition public_world :: world where
  "public_world = sample_world\<lparr>w_db := (empty_db [PUBLIC])\<lparr>db_deployments := [public_deployment]\<rparr>, w_ticks := 9\<rparr>"


lemma outcome_insert_fresh:
  assumes "w_pool w" and "outcome_row_of rt t rcd = Inr r" and "outcome_checks r" and "po_tenant_id r = t" and "t \<noteq> []"
    and "policy_fk (w_db w) t (po_policy_id r) (po_version r)" and "po_outcome_id r \<notin> po_outcome_id ` set (db_outcomes (w_db w))"
  shows "outcome_insert rt t rcd w = (Inr (), w\<lparr>w_db := (w_db w)\<lparr>db_outcomes := db_outcomes (w_db w) @ [r]\<rparr>\<rparr>)"
  using assms
  by (simp add: outcome_insert_def acquire_def transaction_def act_bind_run act_run_simps sql_def
      insert_outcome_row_def insert_row_def)

lemma sample_process: "\<exists>w'. process plain_rt 1 due_deployment registry_world = (Inr (), w')"
proof -
  obtain r where r: "db_policies (w_db registry_world) = [r]" "policy_key r = (''t1'', ''p'', ''1.0.0'')"
    by (rule registry_row)
  from sample_policy_insert have db: "w_db registry_world = (empty_db [''t1'', ''t2''])\<lparr>db_policies := [r]\<rparr>"
    by (rule policy_insert_InrE) (use r in auto)
  have env: "w_pool registry_world" "w_session registry_world = new_session" "w_clock registry_world = int"
      "w_ids registry_world = (\<lambda>n. replicate (Suc n) (CHR ''i''))"
    using act_preservesD [OF policy_insert_step sample_policy_insert] by (auto simp: on_db_def env_kept_def)
  have get: "policy_get ''t1'' ''p'' (Some ''1.0.0'') registry_world = (Inr (Some (row_to_policy r)), registry_world)"
    using run_policy_get [OF env(1)] select_policy_unique [OF registry_world_facts(2) _ r(2)] r(1) by simp
  have col: "collect_telemetry due_deployment registry_world = (Inr [], registry_world)"
    using run_collect [OF env(1), of due_deployment "[''v1'']"] db
    by (simp add: due_deployment_def telemetry_rows_def select_def order_desc_def)
  have doc: "dict_req (row_to_policy r) ''originating_finding'' = Inr (cp_originating_finding r)"
    "py_float plain_rt (dict_get_or (row_to_policy r) ''confidence_threshold'' (JFloat (1/2))) = Inr (cp_confidence r)"
    by (simp_all add: row_to_policy_def dict_req_def dict_get_def dict_get_or_def py_float_def)
  have rows: "\<exists>row. outcome_row_of plain_rt ''t1'' (outcome_record oid origin due_deployment
       \<lparr>ho_state = ''no_data'', ho_count = 0, ho_quality = 0, ho_evidence = []\<rparr> t) = Inr row \<and>
       outcome_checks row \<and> po_tenant_id row = ''t1'' \<and> po_policy_id row = ''p'' \<and> po_version row = ''1.0.0''"
    if "oid \<noteq> []" for oid origin t
    using that
    by (simp add: outcome_row_of_def outcome_record_def req_text_def dict_req_def dict_get_def dict_get_or_def
      due_deployment_def outcome_checks_def semver_100 py_int_def py_float_def round3_def col_text_def fits_integer_def)
  let ?no = "\<lparr>ho_state = ''no_data'', ho_count = 0, ho_quality = 0, ho_evidence = []\<rparr>"
  obtain row where row: "\<And>oid origin t. oid \<noteq> [] \<Longrightarrow>
      outcome_row_of plain_rt ''t1'' (outcome_record oid origin due_deployment ?no t) = Inr (row oid origin t)"
    "\<And>oid origin t. oid \<noteq> [] \<Longrightarrow> outcome_checks (row oid origin t)"
    "\<And>oid origin t. oid \<noteq> [] \<Longrightarrow> po_tenant_id (row oid origin t) = ''t1''"
    "\<And>oid origin t. oid \<noteq> [] \<Longrightarrow> po_policy_id (row oid origin t) = ''p''"
    "\<And>oid origin t. oid \<noteq> [] \<Longrightarrow> po_version (row oid origin t) = ''1.0.0''"
    using rows by metis
  have dd: "dt_tenant_id due_deployment = ''t1''" "dt_policy_id due_deployment = ''p''"
    "dt_version due_deployment = ''1.0.0''" "dt_deployment_id due_deployment = ''d''" "dt_expires_at due_deployment = Some 5"
    by (simp_all add: due_deployment_def)
  have au: "missing_fields (audit_outcome 1 origin due_deployment oid) = []"
    "aa_tenant_id (audit_outcome 1 origin due_deployment oid) = ''t1''"
    "ev \<noteq> [] \<Longrightarrow> audit_checks (audit_event_row (audit_outcome 1 origin due_deployment oid) ev n)" for origin oid ev n
    by (simp_all add: audit_outcome_def audit_call_def missing_fields_def KIND_MIN_FIELDS_def audit_checks_def
        audit_event_row_def audit_kinds_def round3_def due_deployment_def)
  show ?thesis
    by (simp add: process_after act_bind_run act_run_simps dd get col doc evaluate_def ulid_new_def now_def env
        outcome_insert_fresh [OF _ row(1)] row db policy_fk_def r(2) after_outcome_def mark_expired_def
        acquire_def transaction_def sql_def observe_delay_def metric_inc_def audit_write_fresh au writes_new_def)
qed


end
