(* ===== verification/CM_Ingest.thy ===== *)
theory CM_Ingest
  imports CM_Runner CM_Auth
begin

text \<open>
  The inbound boundary: \<open>ingest/schema_version.py\<close>, the two backends of \<open>ingest/idempotency.py\<close> and the
  handler of \<open>POST /api/v1/findings\<close> in \<open>ingest/http.py\<close>.  The handler starts a graph run as a task of its
  own; the model returns the session it starts one for.
\<close>

section \<open>ingest/schema\_version.py\<close>

record schema_version_result =
  sv_ok :: bool
  sv_code :: "string option"
  sv_supported_major :: int
  sv_parsed :: "(int \<times> int \<times> int) option"

text \<open>
  \<open>^([0-9]+)\.([0-9]+)\.([0-9]+)$\<close>: the dollar sign also matches before a newline that ends the string.
\<close>

definition semver_groups :: "string \<Rightarrow> (int \<times> int \<times> int) option" where
  "semver_groups s =
     (let s' = (if s \<noteq> [] \<and> last s = CHR 0x0A then butlast s else s) in
      case split_on (CHR ''.'') s' of
        [a, b, c] \<Rightarrow> if is_digits a \<and> is_digits b \<and> is_digits c
          then Some (digits_value a, digits_value b, digits_value c) else None
      | _ \<Rightarrow> None)"

definition schema_check :: "int \<Rightarrow> json option \<Rightarrow> exc + schema_version_result" where
  "schema_check supported_major version =
     (let malformed = \<lparr>sv_ok = False, sv_code = Some ''SCHEMA_VERSION_MALFORMED'', sv_supported_major = supported_major,
                       sv_parsed = None\<rparr> in
      case version of
        None \<Rightarrow> Inr malformed
      | Some v \<Rightarrow>
          if \<not> truthy v then Inr malformed
          else (case v of
              JStr s \<Rightarrow>
                (case semver_groups s of
                   None \<Rightarrow> Inr malformed
                 | Some (major, minor, patch) \<Rightarrow>
                     if major \<noteq> supported_major
                     then Inr \<lparr>sv_ok = False, sv_code = Some ''SCHEMA_VERSION_UNSUPPORTED'',
                                sv_supported_major = supported_major, sv_parsed = Some (major, minor, patch)\<rparr>
                     else Inr \<lparr>sv_ok = True, sv_code = None, sv_supported_major = supported_major,
                                sv_parsed = Some (major, minor, patch)\<rparr>)
            | _ \<Rightarrow> Inl (TypeError ''expected string or bytes-like object'')))"

section \<open>ingest/idempotency.py\<close>

record idem_decision =
  id_first_seen :: bool
  id_replay :: bool
  id_changed :: bool

definition decide :: "string option \<Rightarrow> string \<Rightarrow> idem_decision" where
  "decide previous payload_sha =
     (case previous of
        None \<Rightarrow> \<lparr>id_first_seen = True, id_replay = False, id_changed = False\<rparr>
      | Some p \<Rightarrow> \<lparr>id_first_seen = False, id_replay = (p = payload_sha), id_changed = (p \<noteq> payload_sha)\<rparr>)"

type_synonym idem_store = "string \<times> string \<rightharpoonup> string"

definition mem_check :: "string \<Rightarrow> string \<Rightarrow> string \<Rightarrow> (exc, idem_store, idem_decision) act" where
  "mem_check tenant_id finding_id payload_sha store =
     (let key = (tenant_id, finding_id); previous = store key in
      (Inr (decide previous payload_sha), if previous = None then store(key \<mapsto> payload_sha) else store))"

definition payload_sha_of :: "conn \<Rightarrow> string \<Rightarrow> string \<Rightarrow> db \<Rightarrow> string option" where
  "payload_sha_of c tenant_id finding_id d =
     map_option df_payload_sha (first_row
       (select c df_tenant_id (\<lambda>r. df_tenant_id r = tenant_id \<and> df_finding_id r = finding_id) (db_findings d)))"

definition pg_check :: "string \<Rightarrow> string \<Rightarrow> string \<Rightarrow> (exc, 'z world_scheme, idem_decision) act" where
  "pg_check tenant_id finding_id payload_sha =
     acquire tenant_id (\<lambda>c.
       act_bind (query (payload_sha_of c tenant_id finding_id)) (\<lambda>previous.
       act_return (decide previous payload_sha)))"

section \<open>ingest/http.py\<close>

record ingest_cfg =
  in_rt :: pyrt
  in_pyd :: pydantic
  in_sha256 :: "string \<Rightarrow> string"
  in_supported_major :: int

definition insert_finding :: "conn \<Rightarrow> finding_row \<Rightarrow> db \<Rightarrow> exc + (unit \<times> db)" where
  "insert_finding c r d =
     (if \<not> visible c (df_tenant_id r) then Inl (PgError RlsViolation)
      else if \<not> finding_checks r then Inl (PgError CheckViolation)
      else if (df_tenant_id r, df_finding_id r) \<in> (\<lambda>r. (df_tenant_id r, df_finding_id r)) ` set (db_findings d)
      then Inr ((), d)
      else if df_tenant_id r \<notin> set (db_tenants d) then Inl (PgError ForeignKeyViolation)
      else Inr ((), d\<lparr>db_findings := db_findings d @ [r]\<rparr>))"

definition finding_row_of :: "string \<Rightarrow> finding \<Rightarrow> string \<Rightarrow> int \<Rightarrow> finding_row" where
  "finding_row_of tenant_id f payload_sha accepted_at =
     \<lparr>df_tenant_id = tenant_id, df_finding_id = f_finding_id f, df_schema_version = f_schema_version f,
      df_anomaly_type = f_anomaly_type f, df_hypothesis_class = f_hypothesis_class f,
      df_hypothesis_statement = f_hypothesis_statement f, df_candidate_signals = f_candidate_signals f,
      df_vehicle_scope = f_vehicle_scope f, df_upstream_confidence = round3 (f_upstream_confidence f),
      df_received_at = accepted_at, df_payload_sha = payload_sha\<rparr>"

definition audit_accepted :: "principal \<Rightarrow> finding \<Rightarrow> string \<Rightarrow> audit_args" where
  "audit_accepted p f correlation_id =
     (audit_call (pr_tenant_id p) ''accepted'' correlation_id (pr_subject p))
       \<lparr>aa_originating_finding := Some [(''tenant_id'', JStr (pr_tenant_id p)), (''finding_id'', JStr (f_finding_id f))],
        aa_inbound_schema_version := Some (f_schema_version f)\<rparr>"

definition persist_finding ::
  "principal \<Rightarrow> finding \<Rightarrow> string \<Rightarrow> string \<Rightarrow> int \<Rightarrow> (exc, 'z world_scheme, unit) act" where
  "persist_finding p f payload_sha correlation_id accepted_at =
     act_bind (acquire (pr_tenant_id p) (\<lambda>c.
       sql (insert_finding c (finding_row_of (pr_tenant_id p) f payload_sha accepted_at)))) (\<lambda>_.
     act_bind (audit_write (audit_accepted p f correlation_id)) (\<lambda>_. act_return ()))"

definition session_finding :: "string \<Rightarrow> finding \<Rightarrow> dict" where
  "session_finding tenant_id f =
     [(''tenant_id'', JStr tenant_id), (''finding_id'', JStr (f_finding_id f)),
      (''schema_version'', JStr (f_schema_version f)), (''anomaly_type'', JStr (f_anomaly_type f)),
      (''hypothesis_class'', JStr (f_hypothesis_class f)),
      (''hypothesis_statement'', JStr (f_hypothesis_statement f)),
      (''candidate_signals'', JArr (map JStr (f_candidate_signals f))),
      (''vehicle_scope'', JArr (map JStr (f_vehicle_scope f))),
      (''upstream_confidence'', JFloat (f_upstream_confidence f))]"

definition enqueue :: "principal \<Rightarrow> finding \<Rightarrow> string \<Rightarrow> (exc, 'z world_scheme, session) act" where
  "enqueue p f correlation_id =
     act_bind ulid_new (\<lambda>sid.
     act_bind now (\<lambda>t.
     act_lift (make_session sid (pr_tenant_id p) correlation_id (session_finding (pr_tenant_id p) f) t)))"

text \<open>A task: the session to run the graph for, with the telemetry directive of the request.\<close>

type_synonym task = "session \<times> string option"

definition accepted_body :: "pyrt \<Rightarrow> string \<Rightarrow> finding \<Rightarrow> string \<Rightarrow> int \<Rightarrow> bool \<Rightarrow> json" where
  "accepted_body rt tenant_id f correlation_id accepted_at replay = JObj
     [(''tenant_id'', JStr tenant_id), (''finding_id'', JStr (f_finding_id f)),
      (''correlation_id'', JStr correlation_id), (''accepted_at'', JStr (rt_isoformat rt accepted_at)),
      (''policy_id'', JStr (''policy-'' @ f_finding_id f)), (''idempotent_replay'', JBool replay)]"

definition field_error :: "pydantic \<Rightarrow> verr list \<Rightarrow> app_error" where
  "field_error pyd es =
     (case es of
        [] \<Rightarrow> SchemaValidationFailed ''unknown'' ''invalid''
      | e # _ \<Rightarrow> SchemaValidationFailed (join ''.'' (verr_loc e)) (verr_msg pyd (verr_type e)))"

text \<open>A body that names another tenant is answered as if the finding did not exist.\<close>

definition tenant_check :: "pyrt \<Rightarrow> principal \<Rightarrow> dict \<Rightarrow> exc + unit" where
  "tenant_check rt p d =
     (let body_tenant_id = dict_get_or d ''tenant_id'' JNull in
      if body_tenant_id \<noteq> JNull \<and> body_tenant_id \<noteq> JStr (pr_tenant_id p)
      then Inl (App (NotFound ''finding''
        (let fid = dict_get_or d ''finding_id'' JNull in if truthy fid then py_str rt fid else [])))
      else Inr ())"

definition version_check :: "int \<Rightarrow> dict \<Rightarrow> exc + unit" where
  "version_check supported_major d =
     res_bind (schema_check supported_major (dict_get d ''schema_version'')) (\<lambda>sv.
     if \<not> sv_ok sv \<and> sv_code sv = Some ''SCHEMA_VERSION_UNSUPPORTED''
     then Inl (App (SchemaVersionUnsupported (dict_get_or d ''schema_version'' (JStr []))
            (show_int (sv_supported_major sv))))
     else if \<not> sv_ok sv then Inl (App (SchemaValidationFailed ''schema_version'' ''malformed semver''))
     else Inr ())"

text \<open>The checks of the request body, before anything is recorded.\<close>

definition check_body :: "ingest_cfg \<Rightarrow> principal \<Rightarrow> json option \<Rightarrow> exc + (dict \<times> finding)" where
  "check_body cfg p body =
     (case body of
        None \<Rightarrow> Inl (ValueError ''invalid JSON'')
      | Some (JObj d) \<Rightarrow>
          res_bind (tenant_check (in_rt cfg) p d) (\<lambda>_.
          res_bind (version_check (in_supported_major cfg) d) (\<lambda>_.
          case validate_finding (in_pyd cfg) (JObj d) of
            Inl es \<Rightarrow> Inl (App (field_error (in_pyd cfg) es))
          | Inr f \<Rightarrow> Inr (d, f)))
      | Some _ \<Rightarrow> Inl (AttributeError ''get''))"

definition post_finding ::
  "ingest_cfg \<Rightarrow> principal \<Rightarrow> json option \<Rightarrow> string option \<Rightarrow> string option \<Rightarrow>
   (exc, 'z world_scheme, http_response \<times> task option) act" where
  "post_finding cfg p body x_correlation_id directive =
     act_bind (act_lift (check_body cfg p body)) (\<lambda>(d, f).
     let payload_sha = in_sha256 cfg (canonical_payload (in_rt cfg) d) in
     act_bind (case x_correlation_id of
         Some h \<Rightarrow> if h \<noteq> [] then act_return h else ulid_new
       | None \<Rightarrow> ulid_new) (\<lambda>correlation_id.
     act_bind now (\<lambda>accepted_at.
     act_bind (pg_check (pr_tenant_id p) (f_finding_id f) payload_sha) (\<lambda>decision.
     act_bind (metric_inc ''diagnostic_findings_received_total'' [pr_tenant_id p]) (\<lambda>_.
     if id_first_seen decision
     then
       act_bind (persist_finding p f payload_sha correlation_id accepted_at) (\<lambda>_.
       act_bind (enqueue p f correlation_id) (\<lambda>s.
       act_return (json_response 202
           (accepted_body (in_rt cfg) (pr_tenant_id p) f correlation_id accepted_at False), Some (s, directive))))
     else
       act_return (json_response 202
           (accepted_body (in_rt cfg) (pr_tenant_id p) f correlation_id accepted_at True), None))))))"

section \<open>The contract of an idempotency backend\<close>

locale idempotency_backend =
  fixes check :: "string \<Rightarrow> string \<Rightarrow> string \<Rightarrow> (exc, 's, idem_decision) act"
    and recorded :: "'s \<Rightarrow> string \<Rightarrow> string \<Rightarrow> string option"
    and ready :: "'s \<Rightarrow> bool"
  assumes check_decides: "ready s \<Longrightarrow> fst (check t f sha s) = Inr (decide (recorded s t f) sha)"
    and check_keeps: "recorded s t' f' = Some p \<Longrightarrow> recorded (snd (check t f sha s)) t' f' = Some p"
    and check_ready: "ready s \<Longrightarrow> ready (snd (check t f sha s))"
begin

lemma first_seen_iff:
  assumes "ready s" and "check t f sha s = (Inr d, s')"
  shows "id_first_seen d \<longleftrightarrow> recorded s t f = None"
  using check_decides [OF assms(1), of t f sha] assms(2) by (auto simp: decide_def split: option.splits)

lemma replay_iff:
  assumes "ready s" and "check t f sha s = (Inr d, s')"
  shows "id_replay d \<longleftrightarrow> recorded s t f = Some sha"
  using check_decides [OF assms(1), of t f sha] assms(2) by (auto simp: decide_def split: option.splits)

end

interpretation mem_backend: idempotency_backend mem_check "\<lambda>store t f. store (t, f)" "\<lambda>_. True"
  by unfold_locales (auto simp: mem_check_def Let_def)

interpretation pg_backend: idempotency_backend pg_check
    "\<lambda>w t f. payload_sha_of (tenant_conn t (w_session w)) t f (w_db w)" w_pool
  by unfold_locales
    (auto simp: pg_check_def acquire_def transaction_def act_bind_run act_run_simps query_def)

lemma run_pg_check:
  "w_pool w \<Longrightarrow> pg_check t f sha w = (Inr (decide (payload_sha_of (tenant_conn t (w_session w)) t f (w_db w)) sha), w)"
  by (simp add: pg_check_def acquire_def transaction_def act_bind_run act_run_simps query_def)

text \<open>The payloads the database has recorded, as the store of the in-memory backend.\<close>

definition seen_store :: "db \<Rightarrow> idem_store" where
  "seen_store d = map_of (map (\<lambda>r. ((df_tenant_id r, df_finding_id r), df_payload_sha r)) (db_findings d))"

lemma payload_sha_of_store:
  assumes "t \<noteq> []"
  shows "payload_sha_of (tenant_conn t c) t f d = seen_store d (t, f)"
proof -
  have "map_option df_payload_sha (first_row (filter (\<lambda>r. df_tenant_id r = t \<and> df_finding_id r = f) rows)) =
      map_of (map (\<lambda>r. ((df_tenant_id r, df_finding_id r), df_payload_sha r)) rows) (t, f)" for rows
    by (induction rows) (auto simp: first_row_def)
  moreover have "select (tenant_conn t c) df_tenant_id (\<lambda>r. df_tenant_id r = t \<and> df_finding_id r = f) (db_findings d) =
      filter (\<lambda>r. df_tenant_id r = t \<and> df_finding_id r = f) (db_findings d)"
    using assms by (auto simp: select_def intro!: filter_cong)
  ultimately show ?thesis by (simp add: payload_sha_of_def seen_store_def)
qed

lemma seen_store_None: "seen_store d (t, f) = None \<longleftrightarrow> (t, f) \<notin> (\<lambda>r. (df_tenant_id r, df_finding_id r)) ` set (db_findings d)"
  by (simp add: seen_store_def map_of_eq_None_iff image_image)

lemma seen_store_snoc:
  assumes "seen_store d (df_tenant_id r, df_finding_id r) = None"
  shows "seen_store (d\<lparr>db_findings := db_findings d @ [r]\<rparr>) =
    (seen_store d)((df_tenant_id r, df_finding_id r) \<mapsto> df_payload_sha r)"
  using assms by (auto simp: seen_store_def map_add_def fun_eq_iff split: option.splits)

section \<open>The handler\<close>

lemma insert_finding_step:
  "insert_finding (tenant_conn t c) r d = Inr (x, d') \<Longrightarrow> tenant_step t d d'"
  using tenant_step_order(1) [of t]
  by (auto simp: insert_finding_def split: if_splits intro!: tenant_steps dest: reflpD)

lemma pg_check_keeps [keeps]: "reflp R \<Longrightarrow> transp R \<Longrightarrow> act_preserves (on_db R) (pg_check t f sha)"
  unfolding pg_check_def by (auto intro!: keeps_rules keeps)

lemma persist_finding_step [keeps]:
  "act_preserves (on_db (tenant_step (pr_tenant_id p))) (persist_finding p f sha cid t)"
  unfolding persist_finding_def
  by (auto intro!: keeps_rules keeps_sql keeps tenant_orders audit_write_tenant_step intro: insert_finding_step
      simp: audit_accepted_def audit_call_def)

lemma enqueue_keeps [keeps]: "reflp R \<Longrightarrow> transp R \<Longrightarrow> act_preserves (on_db R) (enqueue p f cid)"
  unfolding enqueue_def by (auto intro!: keeps_rules keeps)

lemma post_finding_step:
  "act_preserves (on_db (tenant_step (pr_tenant_id p))) (post_finding cfg p body cid dir)"
  unfolding post_finding_def Let_def
  by (auto intro!: keeps_rules keeps tenant_orders)

text \<open>A request whose body passed its checks, up to the decision.\<close>

lemma post_finding_run:
  fixes w :: "'z world_scheme"
  assumes "check_body cfg p body = Inr (d, f)" and "w_pool w" and "pr_tenant_id p \<noteq> []"
  obtains cid at0 w1 where "w_db w1 = w_db w" and "env_kept w w1"
    and "\<And>h. x = Some h \<Longrightarrow> h \<noteq> [] \<Longrightarrow> cid = h" and "cid \<in> range (w_ids w) \<or> x = Some cid \<and> cid \<noteq> []"
    and "post_finding cfg p body x dir w =
      (if seen_store (w_db w) (pr_tenant_id p, f_finding_id f) = None
       then act_bind (persist_finding p f (in_sha256 cfg (canonical_payload (in_rt cfg) d)) cid at0) (\<lambda>_.
         act_bind (enqueue p f cid) (\<lambda>s. act_return (json_response 202
           (accepted_body (in_rt cfg) (pr_tenant_id p) f cid at0 False), Some (s, dir)))) w1
       else (Inr (json_response 202 (accepted_body (in_rt cfg) (pr_tenant_id p) f cid at0 True), None), w1))"
proof -
  let ?hdr = "case x of Some h \<Rightarrow> h \<noteq> [] | None \<Rightarrow> False"
  let ?cid = "if ?hdr then the x else w_ids w (w_nids w)"
  let ?w1 = "(if ?hdr then w else w\<lparr>w_nids := Suc (w_nids w)\<rparr>)\<lparr>w_ticks := Suc (w_ticks w),
    w_metrics := w_metrics w @ [(''diagnostic_findings_received_total'', [pr_tenant_id p])]\<rparr>"
  have corr: "(case x of Some h \<Rightarrow> if h \<noteq> [] then act_return h else ulid_new | None \<Rightarrow> ulid_new) w =
      (Inr ?cid, if ?hdr then w else w\<lparr>w_nids := Suc (w_nids w)\<rparr>)"
    by (auto simp: act_run_simps ulid_new_def split: option.splits)
  have dec: "id_first_seen (decide (payload_sha_of (tenant_conn (pr_tenant_id p) c) (pr_tenant_id p) fid (w_db w)) sha) =
      (seen_store (w_db w) (pr_tenant_id p, fid) = None)" for c fid sha
    using assms(3) by (simp add: payload_sha_of_store decide_def split: option.splits)
  show thesis
  proof (rule that [of ?w1 ?cid "w_clock w (w_ticks w)"])
    show "post_finding cfg p body x dir w =
      (if seen_store (w_db w) (pr_tenant_id p, f_finding_id f) = None
       then act_bind (persist_finding p f (in_sha256 cfg (canonical_payload (in_rt cfg) d)) ?cid (w_clock w (w_ticks w))) (\<lambda>_.
         act_bind (enqueue p f ?cid) (\<lambda>s. act_return (json_response 202
           (accepted_body (in_rt cfg) (pr_tenant_id p) f ?cid (w_clock w (w_ticks w)) False), Some (s, dir)))) ?w1
       else (Inr (json_response 202 (accepted_body (in_rt cfg) (pr_tenant_id p) f ?cid (w_clock w (w_ticks w)) True), None), ?w1))"
      using assms(1,2)
      by (simp add: post_finding_def act_bind_run [of "act_lift _"] act_bind_run [of "case_option _ _ _"] corr Let_def
          act_run_simps)
       (simp add: act_bind_run [of now] act_bind_run [of "pg_check _ _ _"] act_bind_run [of "act_modify _"] now_def
         run_pg_check dec metric_inc_def act_run_simps)
  qed (auto simp: env_kept_def split: option.splits)
qed

lemma persist_finding_InrE:
  assumes "persist_finding p f sha cid at0 w = (Inr (), w')" and "seen_store (w_db w) (pr_tenant_id p, f_finding_id f) = None"
  obtains w1 eid where "w_db w1 = (w_db w)\<lparr>db_findings := db_findings (w_db w) @ [finding_row_of (pr_tenant_id p) f sha at0]\<rparr>"
    and "audit_write (audit_accepted p f cid) w1 = (Inr eid, w')"
proof -
  let ?r = "finding_row_of (pr_tenant_id p) f sha at0"
  from assms(1) obtain w1 eid where i: "acquire (pr_tenant_id p) (\<lambda>c. sql (insert_finding c ?r)) w = (Inr (), w1)"
    and a: "audit_write (audit_accepted p f cid) w1 = (Inr eid, w')"
    by (auto simp: persist_finding_def act_run_simps elim!: act_bind_InrE)
  from i assms(2) have "w_db w1 = (w_db w)\<lparr>db_findings := db_findings (w_db w) @ [?r]\<rparr>"
    by (auto simp: acquire_def transaction_def sql_def insert_finding_def finding_row_of_def seen_store_None
        split: if_splits sum.splits)
  then show thesis using a that by blast
qed

lemma audit_write_findings: "audit_write a w = (Inr eid, w') \<Longrightarrow> db_findings (w_db w') = db_findings (w_db w)"
  by (erule audit_write_InrE) simp_all

lemma seen_store_cong: "db_findings d = db_findings d' \<Longrightarrow> seen_store d = seen_store d'"
  by (simp add: seen_store_def)

lemma post_finding_body: "post_finding cfg p body x dir w = (Inr r, w') \<Longrightarrow> \<exists>d f. check_body cfg p body = Inr (d, f)"
  by (cases "check_body cfg p body") (auto simp: post_finding_def act_bind_run act_run_simps)

lemma post_finding_pool: "post_finding cfg p body x dir w = (Inr r, w') \<Longrightarrow> w_pool w"
proof (rule ccontr)
  assume r: "post_finding cfg p body x dir w = (Inr r, w')" and "\<not> w_pool w"
  then show False
    by (auto simp: post_finding_def Let_def act_run_simps now_def pg_check_def acquire_def ulid_new_def
        split: option.splits if_splits elim!: act_bind_InrE)
qed

text \<open>A request for a finding already on record, and one accepted for the first time.\<close>

lemma post_finding_replay:
  assumes "check_body cfg p body = Inr (d, f)" and "w_pool w" and "pr_tenant_id p \<noteq> []"
    and "seen_store (w_db w) (pr_tenant_id p, f_finding_id f) \<noteq> None"
  obtains cid at0 w1 where "w_db w1 = w_db w" and "post_finding cfg p body x dir w =
    (Inr (json_response 202 (accepted_body (in_rt cfg) (pr_tenant_id p) f cid at0 True), None), w1)"
  by (rule post_finding_run [OF assms(1-3), of x dir]) (use assms(4) in simp_all)

lemma post_finding_firstE:
  assumes "post_finding cfg p body x dir w = (Inr (resp, task), w')" and "check_body cfg p body = Inr (d, f)"
    and "pr_tenant_id p \<noteq> []" and "seen_store (w_db w) (pr_tenant_id p, f_finding_id f) = None"
  obtains cid at0 w1 w2 eid s where
    "w_db w1 = (w_db w)\<lparr>db_findings := db_findings (w_db w) @
       [finding_row_of (pr_tenant_id p) f (in_sha256 cfg (canonical_payload (in_rt cfg) d)) at0]\<rparr>"
    and "audit_write (audit_accepted p f cid) w1 = (Inr eid, w2)" and "w_db w' = w_db w2"
    and "enqueue p f cid w2 = (Inr s, w')" and "task = Some (s, dir)"
    and "resp = json_response 202 (accepted_body (in_rt cfg) (pr_tenant_id p) f cid at0 False)"
    and "\<And>h. x = Some h \<Longrightarrow> h \<noteq> [] \<Longrightarrow> cid = h"
proof -
  have pool: "w_pool w" by (rule post_finding_pool [OF assms(1)])
  obtain cid at0 w0 where w0: "w_db w0 = w_db w" and h: "\<And>h. x = Some h \<Longrightarrow> h \<noteq> [] \<Longrightarrow> cid = h"
    and run: "post_finding cfg p body x dir w =
      (if seen_store (w_db w) (pr_tenant_id p, f_finding_id f) = None
       then act_bind (persist_finding p f (in_sha256 cfg (canonical_payload (in_rt cfg) d)) cid at0) (\<lambda>_.
         act_bind (enqueue p f cid) (\<lambda>s. act_return (json_response 202
           (accepted_body (in_rt cfg) (pr_tenant_id p) f cid at0 False), Some (s, dir)))) w0
       else (Inr (json_response 202 (accepted_body (in_rt cfg) (pr_tenant_id p) f cid at0 True), None), w0))"
    by (rule post_finding_run [OF assms(2) pool assms(3), of x dir]) (rule that)
  have "act_bind (persist_finding p f (in_sha256 cfg (canonical_payload (in_rt cfg) d)) cid at0) (\<lambda>_.
      act_bind (enqueue p f cid) (\<lambda>s. act_return (json_response 202
        (accepted_body (in_rt cfg) (pr_tenant_id p) f cid at0 False), Some (s, dir)))) w0 = (Inr (resp, task), w')"
    using run assms(1,4) by simp
  then obtain w2 s where
    pf: "persist_finding p f (in_sha256 cfg (canonical_payload (in_rt cfg) d)) cid at0 w0 = (Inr (), w2)"
    and e: "enqueue p f cid w2 = (Inr s, w')" and t: "task = Some (s, dir)"
      "resp = json_response 202 (accepted_body (in_rt cfg) (pr_tenant_id p) f cid at0 False)"
    by (auto simp: act_run_simps elim!: act_bind_InrE)
  from pf obtain w1 eid where a: "w_db w1 = (w_db w)\<lparr>db_findings := db_findings (w_db w) @
       [finding_row_of (pr_tenant_id p) f (in_sha256 cfg (canonical_payload (in_rt cfg) d)) at0]\<rparr>"
    "audit_write (audit_accepted p f cid) w1 = (Inr eid, w2)"
    by (rule persist_finding_InrE) (use assms(4) w0 in simp_all)
  have "w_db w' = w_db w2"
    using act_preservesD [OF enqueue_keeps [OF eq_order] e] by (simp add: on_db_def)
  from a this e t h show thesis by (rule that)
qed

lemma round3_unit: "0 \<le> q \<Longrightarrow> q \<le> 1 \<Longrightarrow> 0 \<le> round3 q \<and> round3 q \<le> 1"
proof -
  assume q: "0 \<le> q" "q \<le> 1"
  have "0 \<le> \<lfloor>q * 1000 + 1/2\<rfloor>" using q by simp
  moreover have "\<lfloor>q * 1000 + 1/2\<rfloor> \<le> 1000" using q floor_mono [of "q * 1000 + 1/2" "1000 + 1/2"] by simp
  ultimately show ?thesis using q by (simp add: round3_def)
qed

text \<open>Whatever the boundary model accepts satisfies the constraints of the findings table.\<close>

lemma finding_row_checks: "finding_wf f \<Longrightarrow> length sha = 32 \<Longrightarrow> finding_checks (finding_row_of t f sha at0)"
  using round3_unit by (auto simp: finding_checks_def finding_row_of_def finding_wf_def Suc_le_eq)

lemma audit_accepted_simps [simp]:
  "aa_tenant_id (audit_accepted p f cid) = pr_tenant_id p" "aa_kind (audit_accepted p f cid) = ''accepted''"
  "aa_correlation_id (audit_accepted p f cid) = cid"
  by (simp_all add: audit_accepted_def audit_call_def)

lemma audit_accepted_complete: "missing_fields (audit_accepted p f cid) = []"
  by (simp add: missing_fields_def audit_accepted_def audit_call_def KIND_MIN_FIELDS_def dict_has_def)

lemma audit_accepted_checks:
  "eid \<noteq> [] \<Longrightarrow> pr_subject p \<noteq> [] \<Longrightarrow> cid \<noteq> [] \<Longrightarrow> audit_checks (audit_event_row (audit_accepted p f cid) eid at0)"
  by (simp add: audit_checks_def audit_event_row_def audit_accepted_def audit_call_def audit_kinds_def)

lemma check_body_wf: "check_body cfg p body = Inr (d, f) \<Longrightarrow> finding_wf f"
  by (auto simp: check_body_def intro: validate_finding_wf split: option.splits json.splits sum.splits
      simp: res_bind_def)

lemma persist_finding_insert:
  assumes "w_pool w" and "pr_tenant_id p \<noteq> []" and "pr_tenant_id p \<in> set (db_tenants (w_db w))" and "finding_wf f"
    and "length sha = 32" and "seen_store (w_db w) (pr_tenant_id p, f_finding_id f) = None"
  shows "persist_finding p f sha cid at0 w =
    act_bind (audit_write (audit_accepted p f cid)) (\<lambda>_. act_return ())
      (w\<lparr>w_db := (w_db w)\<lparr>db_findings := db_findings (w_db w) @ [finding_row_of (pr_tenant_id p) f sha at0]\<rparr>\<rparr>)"
  using assms finding_row_checks [OF assms(4,5), of "pr_tenant_id p" at0]
  by (simp add: persist_finding_def act_bind_run acquire_def transaction_def sql_def insert_finding_def seen_store_None
      finding_row_of_def)

lemma post_finding_accepted:
  assumes "post_finding cfg p body x dir w = (Inr (resp, Some (s, dir')), w')" and "pr_tenant_id p \<noteq> []"
  shows "\<exists>d f at0. check_body cfg p body = Inr (d, f) \<and> dir' = dir \<and>
    (\<exists>r \<in> set (db_findings (w_db w')). df_tenant_id r = pr_tenant_id p \<and> df_finding_id r = f_finding_id f) \<and>
    has_event (pr_tenant_id p) (ses_correlation_id s) ''accepted'' (w_db w') \<and>
    ses_tenant_id s = pr_tenant_id p \<and> ses_originating_finding s = session_finding (pr_tenant_id p) f \<and>
    resp = json_response 202 (accepted_body (in_rt cfg) (pr_tenant_id p) f (ses_correlation_id s) at0 False)"
proof -
  obtain d f where cb: "check_body cfg p body = Inr (d, f)" using post_finding_body [OF assms(1)] by blast
  have pool: "w_pool w" by (rule post_finding_pool [OF assms(1)])
  let ?sha = "in_sha256 cfg (canonical_payload (in_rt cfg) d)" and ?t = "pr_tenant_id p" and ?i = "f_finding_id f"
  have None: "seen_store (w_db w) (?t, ?i) = None"
  proof (rule ccontr)
    assume s: "seen_store (w_db w) (?t, ?i) \<noteq> None"
    show False by (rule post_finding_replay [OF cb pool assms(2) s, of x dir]) (use assms(1) in simp)
  qed
  from assms(1) cb assms(2) None obtain cid at0 w1 w2 eid s' where
    w1: "w_db w1 = (w_db w)\<lparr>db_findings := db_findings (w_db w) @ [finding_row_of ?t f ?sha at0]\<rparr>"
    and a: "audit_write (audit_accepted p f cid) w1 = (Inr eid, w2)" and e: "w_db w' = w_db w2"
    and q: "enqueue p f cid w2 = (Inr s', w')"
    and r: "Some (s, dir') = Some (s', dir)" "resp = json_response 202 (accepted_body (in_rt cfg) ?t f cid at0 False)"
    by (rule post_finding_firstE) (rule that, assumption+)
  have s: "ses_tenant_id s = ?t" "ses_correlation_id s = cid" "ses_originating_finding s = session_finding ?t f"
    using q r(1) by (auto simp: enqueue_def ulid_new_def now_def act_run_simps make_session_def
        elim!: act_bind_InrE split: if_splits)
  have "finding_row_of ?t f ?sha at0 \<in> set (db_findings (w_db w'))"
    using w1 audit_write_findings [OF a] e by simp
  moreover have "has_event ?t cid ''accepted'' (w_db w')"
    using audit_write_has_event [OF a] e by (simp add: audit_accepted_def audit_call_def)
  ultimately show ?thesis using cb s r by (force simp: finding_row_of_def)
qed


lemma post_finding_first_run:
  assumes "check_body cfg p body = Inr (d, f)" and "w_pool w" and "pr_tenant_id p \<noteq> []"
    and "seen_store (w_db w) (pr_tenant_id p, f_finding_id f) = None"
    and "pr_tenant_id p \<in> set (db_tenants (w_db w))" and "\<And>s. length (in_sha256 cfg s) = 32"
  obtains cid at0 w1 where "w_db w1 = (w_db w)\<lparr>db_findings := db_findings (w_db w) @
      [finding_row_of (pr_tenant_id p) f (in_sha256 cfg (canonical_payload (in_rt cfg) d)) at0]\<rparr>"
    and "env_kept w w1" and "\<And>h. x = Some h \<Longrightarrow> h \<noteq> [] \<Longrightarrow> cid = h"
    and "cid \<in> range (w_ids w) \<or> x = Some cid \<and> cid \<noteq> []"
    and "post_finding cfg p body x dir w = act_bind (audit_write (audit_accepted p f cid)) (\<lambda>_.
         act_bind (enqueue p f cid) (\<lambda>s. act_return (json_response 202
           (accepted_body (in_rt cfg) (pr_tenant_id p) f cid at0 False), Some (s, dir)))) w1"
proof (rule post_finding_run [OF assms(1-3), of x dir])
  fix cid at0 and w0 :: "'a world_scheme"
  assume w0: "w_db w0 = w_db w" and e: "env_kept w w0" and h: "\<And>h. x = Some h \<Longrightarrow> h \<noteq> [] \<Longrightarrow> cid = h"
    "cid \<in> range (w_ids w) \<or> x = Some cid \<and> cid \<noteq> []"
    and r: "post_finding cfg p body x dir w =
      (if seen_store (w_db w) (pr_tenant_id p, f_finding_id f) = None
       then act_bind (persist_finding p f (in_sha256 cfg (canonical_payload (in_rt cfg) d)) cid at0) (\<lambda>_.
         act_bind (enqueue p f cid) (\<lambda>s. act_return (json_response 202
           (accepted_body (in_rt cfg) (pr_tenant_id p) f cid at0 False), Some (s, dir)))) w0
       else (Inr (json_response 202 (accepted_body (in_rt cfg) (pr_tenant_id p) f cid at0 True), None), w0))"
  let ?w1 = "w0\<lparr>w_db := (w_db w)\<lparr>db_findings := db_findings (w_db w) @
      [finding_row_of (pr_tenant_id p) f (in_sha256 cfg (canonical_payload (in_rt cfg) d)) at0]\<rparr>\<rparr>"
  have "env_kept w ?w1" using e by (simp add: env_kept_def)
  moreover have "persist_finding p f (in_sha256 cfg (canonical_payload (in_rt cfg) d)) cid at0 w0 =
      act_bind (audit_write (audit_accepted p f cid)) (\<lambda>_. act_return ()) ?w1"
    using e assms w0 check_body_wf [OF assms(1)] persist_finding_insert [of w0 p f _ cid at0]
    by (simp add: env_kept_def)
  then have "post_finding cfg p body x dir w = act_bind (audit_write (audit_accepted p f cid)) (\<lambda>_.
         act_bind (enqueue p f cid) (\<lambda>s. act_return (json_response 202
           (accepted_body (in_rt cfg) (pr_tenant_id p) f cid at0 False), Some (s, dir)))) ?w1"
    using r assms(4) by (simp add: act_bind_run act_run_simps split: sum.splits prod.splits)
  ultimately show thesis using h that [of ?w1 at0 cid] by simp
qed

lemma enqueue_total:
  "(\<And>n. w_ids w n \<noteq> []) \<Longrightarrow> pr_tenant_id p \<noteq> [] \<Longrightarrow> cid \<noteq> [] \<Longrightarrow> \<exists>s w'. enqueue p f cid w = (Inr s, w')"
  by (simp add: enqueue_def act_bind_run ulid_new_def now_def act_run_simps make_session_def)

lemma post_finding_returns:
  assumes "check_body cfg p body = Inr (d, f)" and "w_pool w" and "pr_tenant_id p \<noteq> []" and "pr_subject p \<noteq> []"
    and "pr_tenant_id p \<in> set (db_tenants (w_db w))"
    and "\<forall>r \<in> set (db_findings (w_db w)). (df_tenant_id r, df_finding_id r) \<noteq> (pr_tenant_id p, f_finding_id f)"
    and sha: "\<And>s. length (in_sha256 cfg s) = 32" and ids: "\<And>n. w_ids w n \<noteq> []"
    and "\<And>n. w_ids w n \<notin> ae_event_id ` set (db_audit (w_db w))"
    and "\<And>c. c \<in> range (w_ids w) \<or> x = Some c \<Longrightarrow> (c, ''accepted'') \<notin> audit_key ` set (db_audit (w_db w))"
  shows "\<exists>resp s w'. post_finding cfg p body x dir w = (Inr (resp, Some (s, dir)), w')"
proof -
  have seen: "seen_store (w_db w) (pr_tenant_id p, f_finding_id f) = None"
    using assms(6) by (force simp: seen_store_None)
  obtain cid at0 w1 where w1: "w_db w1 = (w_db w)\<lparr>db_findings := db_findings (w_db w) @
      [finding_row_of (pr_tenant_id p) f (in_sha256 cfg (canonical_payload (in_rt cfg) d)) at0]\<rparr>" "env_kept w w1"
    and c: "cid \<in> range (w_ids w) \<or> x = Some cid \<and> cid \<noteq> []"
    and r: "post_finding cfg p body x dir w = act_bind (audit_write (audit_accepted p f cid)) (\<lambda>_.
         act_bind (enqueue p f cid) (\<lambda>s. act_return (json_response 202
           (accepted_body (in_rt cfg) (pr_tenant_id p) f cid at0 False), Some (s, dir)))) w1"
    by (rule post_finding_first_run [OF assms(1-3) seen assms(5) sha, of x dir]) (rule that)
  have cid: "cid \<noteq> []" "(cid, ''accepted'') \<notin> audit_key ` set (db_audit (w_db w))"
    using c ids assms(10) [of cid] by (metis image_iff)+
  obtain eid w2 where a: "audit_write (audit_accepted p f cid) w1 = (Inr eid, w2)"
    using audit_write_fresh [of w1 "audit_accepted p f cid"] w1 assms(2-5,9) ids cid
    by (simp add: env_kept_def audit_accepted_complete audit_accepted_checks writes_new_def)
  have "w_ids w2 = w_ids w"
    using w1(2) act_preservesD [OF audit_write_step a] by (simp add: on_db_def env_kept_def)
  then obtain s w' where e: "enqueue p f cid w2 = (Inr s, w')"
    using enqueue_total [of w2 p cid f] ids assms(3) cid(1) by auto
  have "post_finding cfg p body x dir w =
      (Inr (json_response 202 (accepted_body (in_rt cfg) (pr_tenant_id p) f cid at0 False), Some (s, dir)), w')"
    using r a e by (simp add: act_bind_run act_run_simps)
  then show ?thesis by blast
qed


lemma finding_row_of_simps [simp]:
  "df_tenant_id (finding_row_of t f sha at0) = t" "df_finding_id (finding_row_of t f sha at0) = f_finding_id f"
  "df_payload_sha (finding_row_of t f sha at0) = sha"
  by (simp_all add: finding_row_of_def)

text \<open>
  C15. A correlation id that another tenant already used loses the finding: the request fails, yet the
  finding's row stays with no event of the tenant for it, and every later request for the finding is
  answered 202 as a replay and starts no graph run.
\<close>

theorem finding_lost_on_correlation_clash:
  assumes "check_body cfg p body = Inr (d, f)" and "w_pool w" and "db_wf (w_db w)" and "pr_tenant_id p \<noteq> []"
    and "pr_subject p \<noteq> []" and "pr_tenant_id p \<in> set (db_tenants (w_db w))"
    and "\<forall>r \<in> set (db_findings (w_db w)). (df_tenant_id r, df_finding_id r) \<noteq> (pr_tenant_id p, f_finding_id f)"
    and sha: "\<And>s. length (in_sha256 cfg s) = 32" and ids: "\<And>n. w_ids w n \<noteq> []"
    and "e \<in> set (db_audit (w_db w))" and "audit_key e = (h, ''accepted'')" and "ae_tenant_id e \<noteq> pr_tenant_id p"
    and "h \<noteq> []"
  shows "\<exists>msg w'. post_finding cfg p body (Some h) dir w = (Inl (RuntimeError msg), w') \<and>
    db_audit (w_db w') = db_audit (w_db w) \<and>
    (\<exists>r \<in> set (db_findings (w_db w')). df_tenant_id r = pr_tenant_id p \<and> df_finding_id r = f_finding_id f) \<and>
    (\<forall>x dir'. \<exists>cid at0 w''. post_finding cfg p body x dir' w' =
       (Inr (json_response 202 (accepted_body (in_rt cfg) (pr_tenant_id p) f cid at0 True), None), w'') \<and>
       w_db w'' = w_db w')"
proof -
  let ?r = "\<lambda>at0. finding_row_of (pr_tenant_id p) f (in_sha256 cfg (canonical_payload (in_rt cfg) d)) at0"
  have seen: "seen_store (w_db w) (pr_tenant_id p, f_finding_id f) = None"
    using assms(7) by (force simp: seen_store_None)
  obtain cid at0 w1 where w1: "w_db w1 = (w_db w)\<lparr>db_findings := db_findings (w_db w) @ [?r at0]\<rparr>" "env_kept w w1"
    and c: "\<And>h'. Some h = Some h' \<Longrightarrow> h' \<noteq> [] \<Longrightarrow> cid = h'"
    and r: "post_finding cfg p body (Some h) dir w = act_bind (audit_write (audit_accepted p f cid)) (\<lambda>_.
         act_bind (enqueue p f cid) (\<lambda>s. act_return (json_response 202
           (accepted_body (in_rt cfg) (pr_tenant_id p) f cid at0 False), Some (s, dir)))) w1"
    by (rule post_finding_first_run [OF assms(1,2,4) seen assms(6) sha, of "Some h" dir]) (rule that)
  have cid: "cid = h" using c assms(13) by simp
  have wf: "db_wf (w_db w1)"
    using assms(3,4,6) w1(1) seen finding_row_checks [OF check_body_wf [OF assms(1)] sha]
    by (auto simp: db_wf_def table_wf_def seen_store_None)
  obtain msg w2 where a: "audit_write (audit_accepted p f cid) w1 = (Inl (RuntimeError msg), w2)" "w_db w2 = w_db w1"
    using audit_write_clash [of w1 "audit_accepted p f cid" e] wf w1 assms(2,4,5,10-13) ids cid
    by (cases "audit_write (audit_accepted p f cid) w1")
      (auto simp: env_kept_def audit_accepted_complete audit_accepted_checks)
  have "w_pool w2" using act_preservesD [OF audit_write_step a(1)] w1(2) assms(2) by (simp add: on_db_def env_kept_def)
  moreover have "seen_store (w_db w2) (pr_tenant_id p, f_finding_id f) \<noteq> None"
    using a(2) w1(1) by (auto simp: seen_store_None finding_row_of_def)
  ultimately have "\<exists>cid at0 w''. post_finding cfg p body x dir' w2 =
       (Inr (json_response 202 (accepted_body (in_rt cfg) (pr_tenant_id p) f cid at0 True), None), w'') \<and>
       w_db w'' = w_db w2" for x dir'
    using post_finding_replay [OF assms(1) _ assms(4), of w2 x dir'] by metis
  moreover have "post_finding cfg p body (Some h) dir w = (Inl (RuntimeError msg), w2)"
    using r a(1) by (simp add: act_bind_run)
  moreover have "\<exists>r \<in> set (db_findings (w_db w2)). df_tenant_id r = pr_tenant_id p \<and> df_finding_id r = f_finding_id f"
    using a(2) w1(1) by (auto simp: finding_row_of_def)
  ultimately show ?thesis using a(2) w1(1) by auto
qed

text \<open>
  C16. A body that names another tenant is answered like a finding that does not exist, whatever else it
  holds and whatever the database holds, and a body that names a tenant at all, even the caller's own, is
  never accepted.
\<close>

theorem tenant_in_body_refused:
  assumes "dict_get d ''tenant_id'' = Some t" and "t \<noteq> JNull"
  shows "(\<exists>e. post_finding cfg p (Some (JObj d)) x dir w = (Inl e, w)) \<and>
    (t \<noteq> JStr (pr_tenant_id p) \<longrightarrow> (\<exists>fid. post_finding cfg p (Some (JObj d)) x dir w =
       (Inl (App (NotFound ''finding'' fid)), w)))"
proof -
  have "fst ` set d \<inter> {''tenant_id''} \<noteq> {}"
    using assms(1) by (force simp: dict_get_def dest: map_of_SomeD)
  then have "\<not> fst ` set d \<subseteq> set finding_fields" by (auto simp: finding_fields_def)
  then have n: "validate_finding pyd (JObj d) \<noteq> Inr f" for pyd f by (simp add: validate_finding_Inr)
  have "\<exists>e. check_body cfg p (Some (JObj d)) = Inl e"
    by (cases "check_body cfg p (Some (JObj d))")
      (auto simp: check_body_def res_bind_Inr n split: sum.splits)
  moreover have "t \<noteq> JStr (pr_tenant_id p) \<Longrightarrow> \<exists>fid. check_body cfg p (Some (JObj d)) = Inl (App (NotFound ''finding'' fid))"
    using assms by (simp add: check_body_def tenant_check_def dict_get_or_def) blast
  ultimately show ?thesis by (auto simp: post_finding_def act_bind_run act_run_simps)
qed

text \<open>
  C13. The handler refines the in-memory idempotency store: reading the findings table as a map from
  (tenant, finding id) to payload digest, a request that is answered does to that map exactly what the
  in-memory backend does, starts a graph run exactly when that backend calls the finding first seen, and
  tells the caller so.
\<close>

theorem post_finding_refines_memory:
  assumes "post_finding cfg p body x dir w = (Inr (resp, task), w')" and "pr_tenant_id p \<noteq> []"
  shows "\<exists>d f cid at0 dec. check_body cfg p body = Inr (d, f) \<and>
    mem_check (pr_tenant_id p) (f_finding_id f) (in_sha256 cfg (canonical_payload (in_rt cfg) d)) (seen_store (w_db w)) =
      (Inr dec, seen_store (w_db w')) \<and>
    (task \<noteq> None \<longleftrightarrow> id_first_seen dec) \<and>
    resp = json_response 202 (accepted_body (in_rt cfg) (pr_tenant_id p) f cid at0 (\<not> id_first_seen dec))"
proof -
  obtain d f where cb: "check_body cfg p body = Inr (d, f)" using post_finding_body [OF assms(1)] by blast
  have pool: "w_pool w" by (rule post_finding_pool [OF assms(1)])
  let ?sha = "in_sha256 cfg (canonical_payload (in_rt cfg) d)" and ?t = "pr_tenant_id p" and ?i = "f_finding_id f"
  show ?thesis
  proof (cases "seen_store (w_db w) (?t, ?i)")
    case None
    from assms(1) cb assms(2) None obtain cid at0 w1 w2 eid s where
      w1: "w_db w1 = (w_db w)\<lparr>db_findings := db_findings (w_db w) @ [finding_row_of ?t f ?sha at0]\<rparr>"
      and a: "audit_write (audit_accepted p f cid) w1 = (Inr eid, w2)" and e: "w_db w' = w_db w2"
      and "enqueue p f cid w2 = (Inr s, w')" and r: "task = Some (s, dir)" "resp = json_response 202 (accepted_body (in_rt cfg) ?t f cid at0 False)"
      by (rule post_finding_firstE) (rule that, assumption+)
    have "seen_store (w_db w') = seen_store (w_db w1)"
      using audit_write_findings [OF a] e by (intro seen_store_cong) simp
    also have "\<dots> = (seen_store (w_db w))((?t, ?i) \<mapsto> ?sha)"
      using None seen_store_snoc [of "w_db w" "finding_row_of ?t f ?sha at0"] w1 by (simp add: finding_row_of_def)
    finally show ?thesis using cb None r by (auto simp: mem_check_def decide_def)
  next
    case (Some prev)
    have s: "seen_store (w_db w) (?t, ?i) \<noteq> None" using Some by simp
    obtain cid at0 w1 where "w_db w1 = w_db w"
      "post_finding cfg p body x dir w = (Inr (json_response 202 (accepted_body (in_rt cfg) ?t f cid at0 True), None), w1)"
      by (rule post_finding_replay [OF cb pool assms(2) s, of x dir])
    with assms(1) cb Some show ?thesis by (auto simp: mem_check_def decide_def)
  qed
qed

section \<open>A concrete request\<close>

definition sample_finding :: finding where
  "sample_finding = \<lparr>f_schema_version = ''1.0.0'', f_finding_id = ''f1'', f_anomaly_type = ''spike'',
     f_hypothesis_class = ''thermal'', f_hypothesis_statement = ''h'',
     f_candidate_signals = [''Vehicle.Speed''], f_vehicle_scope = [''VIN1''], f_upstream_confidence = 1/2\<rparr>"

definition sample_ingest :: ingest_cfg where
  "sample_ingest = \<lparr>in_rt = plain_rt, in_pyd = strict_pydantic, in_sha256 = (\<lambda>_. replicate 32 (CHR ''0'')),
     in_supported_major = 1\<rparr>"

definition sample_principal :: principal where
  "sample_principal = \<lparr>pr_tenant_id = ''t1'', pr_subject = ''svc'', pr_scopes = [], pr_token_id = ''j''\<rparr>"

lemma sample_request [simp]:
  "in_sha256 sample_ingest s = replicate 32 (CHR ''0'')" "pr_tenant_id sample_principal = ''t1''"
  "pr_subject sample_principal = ''svc''"
  by (simp_all add: sample_ingest_def sample_principal_def)

lemma sample_version: "version_check 1 (dump_finding sample_finding) = Inr ()"
  by code_simp

lemma sample_check_body:
  "check_body sample_ingest sample_principal (Some (JObj (dump_finding sample_finding))) =
     Inr (dump_finding sample_finding, sample_finding)"
proof -
  have "finding_wf sample_finding" by code_simp
  then have "validate_finding strict_pydantic (JObj (dump_finding sample_finding)) = Inr sample_finding"
    using strict_exact by (rule validate_dump_finding)
  moreover have "tenant_check plain_rt sample_principal (dump_finding sample_finding) = Inr ()"
    by (simp add: tenant_check_def dump_finding_def dict_get_or_def dict_get_def)
  ultimately show ?thesis using sample_version by (simp add: check_body_def sample_ingest_def)
qed


theorem post_finding_refines_memory_witness:
  "\<exists>resp task w' dec. post_finding sample_ingest sample_principal (Some (JObj (dump_finding sample_finding))) None None
      sample_world = (Inr (resp, task), w') \<and>
    mem_check ''t1'' ''f1'' (replicate 32 (CHR ''0'')) (seen_store (w_db sample_world)) = (Inr dec, seen_store (w_db w')) \<and>
    (task \<noteq> None \<longleftrightarrow> id_first_seen dec)"
proof -
  obtain resp task w' where r: "post_finding sample_ingest sample_principal (Some (JObj (dump_finding sample_finding)))
      None None sample_world = (Inr (resp, task), w')"
    using post_finding_returns [OF sample_check_body, of sample_world None None] by auto
  have "f_finding_id sample_finding = ''f1''" by (simp add: sample_finding_def)
  with post_finding_refines_memory [OF r] sample_check_body r show ?thesis by auto
qed

definition rival_event :: audit_row where
  "rival_event = audit_event_row (audit_accepted (sample_principal\<lparr>pr_tenant_id := ''t2''\<rparr>) sample_finding ''c1'') ''e'' 0"

definition rival_world :: world where
  "rival_world = sample_world\<lparr>w_db := (w_db sample_world)\<lparr>db_audit := [rival_event]\<rparr>\<rparr>"

lemma rival_world_wf: "db_wf (w_db rival_world)"
  using audit_accepted_checks [of "''e''" "sample_principal\<lparr>pr_tenant_id := ''t2''\<rparr>" "''c1''" sample_finding 0]
  by (simp add: rival_world_def rival_event_def db_wf_def table_wf_def sample_principal_def)

theorem finding_lost_on_correlation_clash_witness:
  "\<exists>msg w'. post_finding sample_ingest sample_principal (Some (JObj (dump_finding sample_finding))) (Some ''c1'') None
      rival_world = (Inl (RuntimeError msg), w') \<and> db_audit (w_db w') = [rival_event] \<and>
    (\<exists>r \<in> set (db_findings (w_db w')). df_tenant_id r = ''t1'' \<and> df_finding_id r = f_finding_id sample_finding)"
  using finding_lost_on_correlation_clash [OF sample_check_body _ rival_world_wf, of rival_event "''c1''" None]
  by (auto simp: rival_world_def rival_event_def sample_principal_def)

theorem tenant_in_body_refused_witness:
  "\<exists>fid. post_finding sample_ingest sample_principal (Some (JObj [(''tenant_id'', JStr ''t2'')])) None None sample_world =
     (Inl (App (NotFound ''finding'' fid)), sample_world)"
  using tenant_in_body_refused [of "[(''tenant_id'', JStr ''t2'')]" "JStr ''t2''" sample_ingest sample_principal None None
      sample_world]
  by (simp add: dict_get_def)

end
