(* ===== verification/CM_Redis.thy ===== *)
theory CM_Redis
  imports CM_Database CM_Json
begin

text \<open>
  The Redis server as the code uses it, the token-bucket script \<open>ratelimit/token_bucket.lua\<close> it runs, and
  the hot store \<open>redis/client.py\<close>.  A key holds a string or a bucket hash, with an optional expiry; every
  command reads the server's clock, and any command may fail.
\<close>

section \<open>ratelimit/token\_bucket.lua\<close>

text \<open>
  Lua numbers are doubles; the script's products and quotients are of integers, and the floor of such a
  quotient is the integer quotient as long as the dividend is below \<open>2 ^ 53\<close>.  Rates are positive, as the
  configuration table demands.  The result is the reply, the fields written back and the new time to live
  when the script sets one.
\<close>

definition token_bucket ::
  "int \<Rightarrow> int \<Rightarrow> int \<Rightarrow> (int \<times> int) option \<Rightarrow> (int \<times> int \<times> int) \<times> (int \<times> int) \<times> int option" where
  "token_bucket now_ms sustained_rps burst_capacity state =
     (let (tokens, last_refill_ms) = (case state of None \<Rightarrow> (burst_capacity, now_ms) | Some s \<Rightarrow> s);
          elapsed_ms = (if now_ms - last_refill_ms < 0 then 0 else now_ms - last_refill_ms);
          refill = (elapsed_ms * sustained_rps) div 1000;
          (tokens, last_refill_ms) =
            (if refill > 0
             then (min burst_capacity (tokens + refill), last_refill_ms + (refill * 1000) div sustained_rps)
             else (tokens, last_refill_ms))
      in if tokens \<ge> 1
         then ((1, tokens - 1, 0), (tokens - 1, last_refill_ms), Some ((burst_capacity * 1000 * 2) div sustained_rps))
         else let ms_per_token = 1000 div sustained_rps;
                  ms_per_token = (if ms_per_token < 1 then 1 else ms_per_token)
              in ((0, 0, ms_per_token), (tokens, last_refill_ms), None))"

section \<open>The server\<close>

datatype redis_value = RString string | RBucket int int

type_synonym redis_entry = "redis_value \<times> int option"

text \<open>
  \<open>rs_store\<close> is the keyspace, with expiries on the server's clock in milliseconds; \<open>rs_time\<close> and
  \<open>rs_fault\<close> give the server's clock and the failure, if any, of the command with each number; \<open>rs_client\<close>
  says whether \<open>HotStore.connect\<close> has made a client.
\<close>

record redis_world = world +
  rs_store :: "string \<rightharpoonup> redis_entry"
  rs_scripts :: "string list"
  rs_time :: "nat \<Rightarrow> int"
  rs_fault :: "nat \<Rightarrow> string option"
  rs_count :: nat
  rs_client :: bool

definition live :: "int \<Rightarrow> redis_entry option \<Rightarrow> redis_entry option" where
  "live t e = (case e of None \<Rightarrow> None
     | Some (v, x) \<Rightarrow> (case x of Some limit \<Rightarrow> if t < limit then e else None | None \<Rightarrow> e))"

definition redis_command ::
  "(int \<Rightarrow> 'z redis_world_scheme \<Rightarrow> (exc + 'a) \<times> 'z redis_world_scheme) \<Rightarrow> (exc, 'z redis_world_scheme, 'a) act" where
  "redis_command f w =
     (if \<not> rs_client w then (Inl (RuntimeError ''redis client is not initialized''), w)
      else let n = rs_count w; w' = w\<lparr>rs_count := Suc n\<rparr> in
        case rs_fault w n of
          Some message \<Rightarrow> (Inl (RedisError message), w')
        | None \<Rightarrow> f (rs_time w n) w')"

definition wrong_type :: exc where
  "wrong_type = RedisError ''WRONGTYPE Operation against a key holding the wrong kind of value''"

definition redis_get :: "string \<Rightarrow> (exc, 'z redis_world_scheme, string option) act" where
  "redis_get key = redis_command (\<lambda>t w.
     case live t (rs_store w key) of
       None \<Rightarrow> (Inr None, w)
     | Some (RString s, _) \<Rightarrow> (Inr (Some s), w)
     | Some (RBucket _ _, _) \<Rightarrow> (Inl wrong_type, w))"

definition redis_set :: "string \<Rightarrow> string \<Rightarrow> int \<Rightarrow> (exc, 'z redis_world_scheme, unit) act" where
  "redis_set key value ex = redis_command (\<lambda>t w.
     if ex \<le> 0 then (Inl (RedisError ''invalid expire time''), w)
     else (Inr (), w\<lparr>rs_store := (rs_store w)(key \<mapsto> (RString value, Some (t + ex * 1000)))\<rparr>))"

definition redis_delete :: "string \<Rightarrow> (exc, 'z redis_world_scheme, unit) act" where
  "redis_delete key = redis_command (\<lambda>_ w. (Inr (), w\<lparr>rs_store := (rs_store w)(key := None)\<rparr>))"

definition script_load :: "string \<Rightarrow> (exc, 'z redis_world_scheme, string) act" where
  "script_load sha = redis_command (\<lambda>_ w. (Inr sha, w\<lparr>rs_scripts := sha # rs_scripts w\<rparr>))"

text \<open>
  \<open>EVALSHA\<close> of the bucket script: \<open>HSET\<close> keeps the key's expiry, \<open>PEXPIRE\<close> replaces it and drops the key when
  the time to live is not positive.
\<close>

definition bucket_after :: "int \<Rightarrow> int option \<Rightarrow> int \<times> int \<Rightarrow> int option \<Rightarrow> redis_entry option" where
  "bucket_after t old written ttl =
     (case ttl of
        None \<Rightarrow> Some (RBucket (fst written) (snd written), old)
      | Some ms \<Rightarrow> if ms \<le> 0 then None else Some (RBucket (fst written) (snd written), Some (t + ms)))"

definition bucket_step :: "int \<Rightarrow> int \<Rightarrow> int \<Rightarrow> int \<Rightarrow> redis_entry option \<Rightarrow> (exc + int \<times> int \<times> int) \<times> redis_entry option" where
  "bucket_step t now_ms sustained burst entry =
     (case live t entry of
        Some (RString _, _) \<Rightarrow> (Inl wrong_type, entry)
      | None \<Rightarrow> (case token_bucket now_ms sustained burst None of
            (reply, written, ttl) \<Rightarrow> (Inr reply, bucket_after t None written ttl))
      | Some (RBucket tokens last_ms, x) \<Rightarrow> (case token_bucket now_ms sustained burst (Some (tokens, last_ms)) of
            (reply, written, ttl) \<Rightarrow> (Inr reply, bucket_after t x written ttl)))"

definition evalsha ::
  "string \<Rightarrow> string \<Rightarrow> int \<Rightarrow> int \<Rightarrow> int \<Rightarrow> (exc, 'z redis_world_scheme, int \<times> int \<times> int) act" where
  "evalsha sha key now_ms sustained burst = redis_command (\<lambda>t w.
     if sha \<notin> set (rs_scripts w) then (Inl (RedisError ''NOSCRIPT No matching script. Please use EVAL.''), w)
     else (case bucket_step t now_ms sustained burst (rs_store w key) of
        (r, e) \<Rightarrow> (r, w\<lparr>rs_store := (rs_store w)(key := e)\<rparr>)))"

section \<open>redis/client.py\<close>

definition hot_store_key :: "string \<Rightarrow> string \<Rightarrow> string \<Rightarrow> string" where
  "hot_store_key tenant_id vehicle_id signal_name = tenant_id @ '':'' @ vehicle_id @ '':'' @ signal_name"

definition hot_connect :: "(exc, 'z redis_world_scheme, unit) act" where
  "hot_connect = act_modify (\<lambda>w. w\<lparr>rs_client := True\<rparr>)"

definition hot_close :: "(exc, 'z redis_world_scheme, unit) act" where
  "hot_close = act_modify (\<lambda>w. w\<lparr>rs_client := False\<rparr>)"

definition hot_ping :: "(exc, 'z redis_world_scheme, bool) act" where
  "hot_ping w = (if \<not> rs_client w then (Inr False, w) else redis_command (\<lambda>_ w. (Inr True, w)) w)"

definition legacy_error :: "string \<Rightarrow> string \<Rightarrow> string \<Rightarrow> string \<Rightarrow> exc" where
  "legacy_error op call vehicle_id signal_name = RuntimeError
     (''legacy hot-store '' @ op @ '' attempted for '' @ vehicle_id @ '':'' @ signal_name @ ''; use '' @ call
      @ '' instead. The legacy single-tenant API was removed in Phase 14 T293.'')"

definition get_signal :: "string \<Rightarrow> string \<Rightarrow> (exc, 'z redis_world_scheme, string option) act" where
  "get_signal vehicle_id signal_name = act_raise
     (legacy_error ''read'' ''get_signal_for_tenant(tenant_id, vehicle_id, signal_name)'' vehicle_id signal_name)"

definition put_signal :: "string \<Rightarrow> string \<Rightarrow> string \<Rightarrow> (exc, 'z redis_world_scheme, unit) act" where
  "put_signal vehicle_id signal_name value = act_raise
     (legacy_error ''write'' ''put_signal_for_tenant(tenant_id, vehicle_id, signal_name, value)'' vehicle_id signal_name)"

definition put_signal_for_tenant ::
  "int \<Rightarrow> string \<Rightarrow> string \<Rightarrow> string \<Rightarrow> string \<Rightarrow> (exc, 'z redis_world_scheme, unit) act" where
  "put_signal_for_tenant default_ttl tenant_id vehicle_id signal_name value =
     redis_set (hot_store_key tenant_id vehicle_id signal_name) value default_ttl"

definition get_signal_for_tenant ::
  "string \<Rightarrow> string \<Rightarrow> string \<Rightarrow> (exc, 'z redis_world_scheme, string option) act" where
  "get_signal_for_tenant tenant_id vehicle_id signal_name = redis_get (hot_store_key tenant_id vehicle_id signal_name)"

section \<open>The token bucket\<close>

lemma token_bucket_cases:
  fixes now_ms rps burst :: int
  defines "el \<equiv> \<lambda>lst. max 0 (now_ms - lst)"
  defines "rf \<equiv> \<lambda>lst. el lst * rps div 1000"
  shows "token_bucket now_ms rps burst st =
    (let (tok, lst) = (case st of None \<Rightarrow> (burst, now_ms) | Some s \<Rightarrow> s);
         tok' = (if rf lst > 0 then min burst (tok + rf lst) else tok);
         lst' = (if rf lst > 0 then lst + rf lst * 1000 div rps else lst)
     in if tok' \<ge> 1 then ((1, tok' - 1, 0), (tok' - 1, lst'), Some (burst * 1000 * 2 div rps))
        else ((0, 0, max 1 (1000 div rps)), (tok', lst'), None))"
proof -
  have "(if now_ms - l < 0 then 0 else now_ms - l) = el l" for l by (simp add: el_def max_def)
  moreover have "(if (1000 div rps) < 1 then 1 else 1000 div rps) = max 1 (1000 div rps)" by (simp add: max_def)
  ultimately show ?thesis by (simp add: token_bucket_def Let_def rf_def split: option.splits prod.splits)
qed

text \<open>Rates at which the script's rounding is exact: a token takes whole milliseconds, or a millisecond whole tokens.\<close>

definition exact_rate :: "int \<Rightarrow> bool" where
  "exact_rate rps \<longleftrightarrow> 0 < rps \<and> (rps dvd 1000 \<or> 1000 dvd rps)"

lemma exact_refill:
  assumes "exact_rate rps" and "0 \<le> el"
  shows "(el * rps div 1000) * 1000 div rps * rps = (el * rps div 1000) * 1000"
    and "(el * rps div 1000) * 1000 div rps \<le> el"
proof -
  from assms(1) have "rps dvd (el * rps div 1000) * 1000"
  proof -
    from assms(1) consider "rps dvd 1000" | "1000 dvd rps" by (auto simp: exact_rate_def)
    then show ?thesis
    proof cases
      case 2
      then have "(el * rps div 1000) * 1000 = el * rps" by (simp add: dvd_div_mult_self)
      then show ?thesis by simp
    qed simp
  qed
  then show eq: "(el * rps div 1000) * 1000 div rps * rps = (el * rps div 1000) * 1000" by simp
  have "(el * rps div 1000) * 1000 \<le> el * rps" using div_mod_decomp_int [of "el * rps" 1000] by simp
  with eq have "(el * rps div 1000) * 1000 div rps * rps \<le> el * rps" by simp
  then show "(el * rps div 1000) * 1000 div rps \<le> el" using assms(1) by (simp add: exact_rate_def)
qed

text \<open>One call at the server's and the caller's common time, and a sequence of calls: how many were admitted.\<close>

definition bucket_call :: "int \<Rightarrow> int \<Rightarrow> int \<Rightarrow> redis_entry option \<Rightarrow> bool \<times> redis_entry option" where
  "bucket_call rps burst t entry =
     (case bucket_step t t rps burst entry of
        (Inr (decision, _, _), e) \<Rightarrow> (decision = 1, e) | (Inl _, e) \<Rightarrow> (False, e))"

fun bucket_calls :: "int \<Rightarrow> int \<Rightarrow> int list \<Rightarrow> redis_entry option \<Rightarrow> nat \<times> redis_entry option" where
  "bucket_calls rps burst [] e = (0, e)"
| "bucket_calls rps burst (t # ts) e =
     (case bucket_call rps burst t e of
        (ok, e') \<Rightarrow> (case bucket_calls rps burst ts e' of (n, e'') \<Rightarrow> ((if ok then Suc n else n), e'')))"

text \<open>
  The accounting invariant, in thousandths of a token: what was admitted since \<open>t0\<close> and what the bucket
  still holds is covered by the burst and by the time the bucket has been credited with; an expiry lies
  where the bucket would be full again.
\<close>

fun bucket_ok :: "int \<Rightarrow> int \<Rightarrow> int \<Rightarrow> int \<Rightarrow> int \<Rightarrow> redis_entry option \<Rightarrow> bool" where
  "bucket_ok rps burst t0 t n (Some (RBucket tok lst, Some limit)) \<longleftrightarrow>
     0 \<le> tok \<and> tok \<le> burst \<and> t0 \<le> lst \<and> lst \<le> t \<and> (n + tok) * 1000 \<le> burst * 1000 + (lst - t0) * rps \<and>
     burst * 1000 \<le> (limit - lst) * rps"
| "bucket_ok rps burst t0 t n None \<longleftrightarrow> n * 1000 \<le> (t - t0) * rps"
| "bucket_ok _ _ _ _ _ _ \<longleftrightarrow> False"

lemma bucket_ok_bound:
  assumes "bucket_ok rps burst t0 t n e" and "0 \<le> burst" and "0 < rps"
  shows "n * 1000 \<le> burst * 1000 + (t - t0) * rps"
  using assms
proof (cases rule: bucket_ok.cases [of "(rps, burst, t0, t, n, e)"])
  case (1 _ _ _ _ _ tok lst limit)
  with assms have "n * 1000 \<le> burst * 1000 + (lst - t0) * rps" "(lst - t0) * rps \<le> (t - t0) * rps"
    by (auto intro: mult_right_mono)
  then show ?thesis by linarith
qed (use assms in auto)

lemma ttl_covers:
  fixes rps burst :: int
  assumes "0 < rps" and "rps \<le> burst"
  shows "0 < burst * 1000 * 2 div rps" and "burst * 1000 \<le> (burst * 1000 * 2 div rps) * rps"
proof -
  have "burst * 1000 * 2 = (burst * 1000 * 2 div rps) * rps + burst * 1000 * 2 mod rps" by simp
  moreover have "burst * 1000 * 2 mod rps < rps" using assms by simp
  ultimately show c: "burst * 1000 \<le> (burst * 1000 * 2 div rps) * rps" using assms by linarith
  then show "0 < burst * 1000 * 2 div rps" using assms
    by (smt (verit) mult_nonpos_nonneg)
qed

text \<open>A call on a bucket that holds \<open>tok\<close> tokens, credited up to \<open>lst\<close>.\<close>

lemma token_bucket_accounts:
  assumes "exact_rate rps" and "1 \<le> burst" and "0 \<le> tok" and "tok \<le> burst" and "lst \<le> t"
    and "token_bucket t rps burst (Some (tok, lst)) = ((d, rest), (tok', lst'), ttl)"
  shows "0 \<le> tok' \<and> tok' \<le> burst \<and> lst \<le> lst' \<and> lst' \<le> t \<and>
    ((if d = 1 then 1 else 0) + tok') * 1000 \<le> tok * 1000 + (lst' - lst) * rps \<and>
    (if d = 1 then ttl = Some (burst * 1000 * 2 div rps) else ttl = None \<and> lst' = lst)"
proof -
  define rf where "rf = (t - lst) * rps div 1000"
  have rps: "0 < rps" using assms(1) by (simp add: exact_rate_def)
  have ex: "(rf * 1000 div rps) * rps = rf * 1000" "rf * 1000 div rps \<le> t - lst"
    using exact_refill [OF assms(1), of "t - lst"] assms(5) by (simp_all add: rf_def)
  have rf0: "0 \<le> rf" using assms(5) rps by (simp add: rf_def pos_imp_zdiv_nonneg_iff)
  then have adv: "0 \<le> rf * 1000 div rps" using rps by (simp add: pos_imp_zdiv_nonneg_iff)
  have mx: "max 0 (t - lst) = t - lst" using assms(5) by simp
  note r = assms(6) [unfolded token_bucket_cases mx option.case prod.case rf_def [symmetric] Let_def]
  show ?thesis
  proof (cases "rf > 0")
    case True
    have tk: "1 \<le> min burst (tok + rf)" using True assms(2,3) by simp
    with r True have "d = 1" "tok' = min burst (tok + rf) - 1" "lst' = lst + rf * 1000 div rps"
      "ttl = Some (burst * 1000 * 2 div rps)" by auto
    moreover have "(lst + rf * 1000 div rps - lst) * rps = rf * 1000" using ex(1) by simp
    moreover have "min burst (tok + rf) * 1000 \<le> (tok + rf) * 1000" by (intro mult_right_mono) simp_all
    ultimately show ?thesis using ex(2) adv tk assms(2,3,4) by (auto simp del: ex(1))
  next
    case False
    with r have "d = (if 1 \<le> tok then 1 else 0)" "tok' = (if 1 \<le> tok then tok - 1 else tok)" "lst' = lst"
      "ttl = (if 1 \<le> tok then Some (burst * 1000 * 2 div rps) else None)"
      by (auto split: if_splits)
    then show ?thesis using assms(3-5) by (auto split: if_splits)
  qed
qed

lemma token_bucket_fresh:
  "1 \<le> burst \<Longrightarrow> token_bucket t rps burst None = token_bucket t rps burst (Some (burst, t))"
  by (simp add: token_bucket_cases)

lemma bucket_call_ok:
  assumes "bucket_ok rps burst t0 t n e" and "t \<le> t'" and "t0 \<le> t" and "exact_rate rps" and "rps \<le> burst"
    and "bucket_call rps burst t' e = (ok, e')"
  shows "bucket_ok rps burst t0 t' (if ok then n + 1 else n) e'"
proof -
  have rps: "0 < rps" "1 \<le> burst" using assms(4,5) by (auto simp: exact_rate_def)
  note ttl = ttl_covers [OF rps(1) assms(5)]
  have fresh: "bucket_ok rps burst t0 t' (if ok then n + 1 else n) e'"
    if "live t' e = None" and b: "n * 1000 \<le> (t' - t0) * rps"
  proof -
    obtain d rest tok' lst' x where tb: "token_bucket t' rps burst (Some (burst, t')) = ((d, rest), (tok', lst'), x)"
      by (metis surj_pair)
    from token_bucket_accounts [OF assms(4) rps(2) _ _ _ tb] rps(2)
    have "d = 1 \<longrightarrow> x = Some (burst * 1000 * 2 div rps)" "lst' = t'" "0 \<le> tok'" "tok' \<le> burst"
      "((if d = 1 then 1 else 0) + tok') * 1000 \<le> burst * 1000" by auto
    moreover have "d = 1" using tb rps(2) by (simp add: token_bucket_cases)
    moreover have "ok = (d = 1)" "e' = bucket_after t' None (tok', lst') x"
      using assms(6) that(1) tb token_bucket_fresh [OF rps(2)]
      by (auto simp: bucket_call_def bucket_step_def split: prod.splits)
    ultimately show ?thesis using b ttl assms(2,3) by (auto simp: bucket_after_def algebra_simps)
  qed
  show ?thesis
  proof (cases e)
    case None
    have "(t - t0) * rps \<le> (t' - t0) * rps" using assms(2) rps(1) by (intro mult_right_mono) auto
    with None assms(1) fresh show ?thesis by (simp add: live_def)
  next
    case (Some r)
    with assms(1) obtain tok lst limit where e: "e = Some (RBucket tok lst, Some limit)"
      by (cases r; cases "fst r"; cases "snd r") auto
    with assms(1) have inv: "0 \<le> tok" "tok \<le> burst" "t0 \<le> lst" "lst \<le> t" "(n + tok) * 1000 \<le> burst * 1000 + (lst - t0) * rps"
      "burst * 1000 \<le> (limit - lst) * rps" by auto
    show ?thesis
    proof (cases "t' < limit")
      case False
      have "(limit - t0) * rps \<le> (t' - t0) * rps" using False rps(1) by (intro mult_right_mono) auto
      with inv False e fresh show ?thesis by (simp add: live_def algebra_simps)
    next
      case True
      obtain d rest tok' lst' x where tb: "token_bucket t' rps burst (Some (tok, lst)) = ((d, rest), (tok', lst'), x)"
        by (metis surj_pair)
      have lt: "lst \<le> t'" using inv assms(2) by simp
      have "ok = (d = 1)" "e' = bucket_after t' (Some limit) (tok', lst') x"
        using assms(6) e True tb by (auto simp: bucket_call_def bucket_step_def live_def split: prod.splits)
      moreover have "d = 1 \<Longrightarrow> burst * 1000 \<le> (t' + burst * 1000 * 2 div rps - lst') * rps"
      proof -
        assume "d = 1"
        have "0 \<le> (t' - lst') * rps"
          using token_bucket_accounts [OF assms(4) rps(2) inv(1,2) lt tb] rps(1) by simp
        with ttl(2) show ?thesis by (simp add: algebra_simps)
      qed
      ultimately show ?thesis
        using token_bucket_accounts [OF assms(4) rps(2) inv(1,2) lt tb] inv ttl(1)
        by (auto simp: bucket_after_def algebra_simps split: if_splits)
    qed
  qed
qed

lemma bucket_calls_ok:
  assumes "bucket_ok rps burst t0 t (int n) e" and "sorted (t # ts)" and "t0 \<le> t" and "exact_rate rps" and "rps \<le> burst"
  shows "bucket_ok rps burst t0 (last (t # ts)) (int (n + fst (bucket_calls rps burst ts e))) (snd (bucket_calls rps burst ts e))"
  using assms(1-3)
proof (induction ts arbitrary: t n e)
  case (Cons t' ts)
  obtain ok e' where c: "bucket_call rps burst t' e = (ok, e')" by (metis surj_pair)
  have "bucket_ok rps burst t0 t' (if ok then int n + 1 else int n) e'"
    by (rule bucket_call_ok [OF Cons.prems(1) _ Cons.prems(3) assms(4,5) c]) (use Cons.prems(2) in simp)
  then have "bucket_ok rps burst t0 t' (int (if ok then Suc n else n)) e'" by (simp split: if_splits add: add.commute)
  from Cons.IH [OF this] Cons.prems(2,3) c show ?case by (auto simp: ac_simps split: prod.splits)
qed simp

text \<open>
  C22. The bucket limits the rate: at a rate at which a token takes whole milliseconds or a millisecond
  brings whole tokens, as both default rates do, and with the burst at least the rate as the configuration
  table demands, calls on a new bucket whose clock never runs backwards are admitted at most burst plus rate
  times the elapsed seconds often, also when the key expires in between.
\<close>

theorem bucket_limits_rate:
  assumes "sorted (t # ts)" and "exact_rate rps" and "rps \<le> burst"
  shows "int (fst (bucket_calls rps burst ts None)) * 1000 \<le> burst * 1000 + (last (t # ts) - t) * rps"
proof -
  have "bucket_ok rps burst t t (int 0) None" by simp
  from bucket_calls_ok [OF this assms(1) _ assms(2,3)]
  have "bucket_ok rps burst t (last (t # ts)) (int (fst (bucket_calls rps burst ts None))) (snd (bucket_calls rps burst ts None))"
    by simp
  from bucket_ok_bound [OF this] assms(2,3) show ?thesis by (simp add: exact_rate_def)
qed

lemma defaults_exact: "exact_rate 2000" "exact_rate 200"
  by (simp_all add: exact_rate_def)

text \<open>
  A bucket that is full but for one token is, one millisecond later, refilled without its clock being
  advanced: the call is admitted and the bucket is as before.
\<close>

lemma stuck_clock:
  assumes "1000 < rps" and "\<not> 1000 dvd rps" and "rps \<le> burst" and "t + 1 < limit"
  shows "bucket_call rps burst (t + 1) (Some (RBucket (burst - 1) t, Some limit)) =
    (True, Some (RBucket (burst - 1) t, Some (t + 1 + burst * 1000 * 2 div rps)))"
proof -
  have k: "1 \<le> rps div 1000" using assms(1) by (simp add: pos_imp_zdiv_pos_iff zdiv_mono1 [of 1000 rps 1000])
  have "rps div 1000 * 1000 + rps mod 1000 = rps" by simp
  moreover have "0 < rps mod 1000" using assms(2) by (simp add: dvd_eq_mod_eq_0 order_less_le)
  ultimately have adv: "rps div 1000 * 1000 div rps = 0" using k by (intro div_pos_pos_trivial) linarith+
  have ttl: "0 < burst * 1000 * 2 div rps" using ttl_covers(1) [of rps burst] assms(1,3) by simp
  have "token_bucket (t + 1) rps burst (Some (burst - 1, t)) =
      ((1, burst - 1, 0), (burst - 1, t), Some (burst * 1000 * 2 div rps))"
    unfolding token_bucket_cases using k adv assms(1,3) by (simp add: min_def)
  with ttl assms(4) show ?thesis by (simp add: bucket_call_def bucket_step_def live_def bucket_after_def)
qed

lemma stuck_clock_calls:
  assumes "1000 < rps" and "\<not> 1000 dvd rps" and "rps \<le> burst" and "t + 1 < limit"
  shows "fst (bucket_calls rps burst (replicate n (t + 1)) (Some (RBucket (burst - 1) t, Some limit))) = n"
  using assms(4)
proof (induction n arbitrary: limit)
  case (Suc n)
  have "0 < burst * 1000 * 2 div rps" using ttl_covers(1) [of rps burst] assms(1,3) by simp
  with Suc.IH [of "t + 1 + burst * 1000 * 2 div rps"] stuck_clock [OF assms(1-3) Suc.prems] show ?case
    by (auto split: prod.splits)
qed simp

text \<open>
  C29. The rounding of the script can disable the limit: at a rate above 1000 requests per second that is
  not a multiple of 1000 the millisecond after a bucket was made brings tokens but advances the bucket's
  clock by nothing, so within that one millisecond every call is admitted, however many there are.
\<close>

theorem bucket_unlimited_at_odd_rates:
  assumes "1000 < rps" and "\<not> 1000 dvd rps" and "rps \<le> burst"
  shows "fst (bucket_calls rps burst (t # replicate n (t + 1)) None) = Suc n"
proof -
  have ttl: "0 < burst * 1000 * 2 div rps" "2 \<le> burst * 1000 * 2 div rps"
    using ttl_covers(1) [of rps burst] zdiv_mono1 [of "2 * rps" "burst * 1000 * 2" rps] assms(1,3) by simp_all
  have "bucket_call rps burst t None = (True, Some (RBucket (burst - 1) t, Some (t + burst * 1000 * 2 div rps)))"
    using assms(1,3) ttl(1) by (simp add: bucket_call_def bucket_step_def live_def token_bucket_cases bucket_after_def)
  with stuck_clock_calls [OF assms, of t "t + burst * 1000 * 2 div rps" n] ttl(2) show ?thesis
    by (auto split: prod.splits)
qed

theorem bucket_limits_rate_witness:
  "int (fst (bucket_calls 2000 4000 (replicate 5000 7) None)) \<le> 4000 \<and> exact_rate 2000 \<and> exact_rate 200"
proof -
  have "sorted (7 # replicate 5000 7)" by (simp add: sorted_replicate)
  from bucket_limits_rate [OF this defaults_exact(1), of 4000] show ?thesis using defaults_exact by simp
qed

theorem bucket_unlimited_at_odd_rates_witness:
  "fst (bucket_calls 1500 3000 (0 # replicate 1000000 1) None) = 1000001"
  using bucket_unlimited_at_odd_rates [of 1500 3000 0 1000000] by simp

section \<open>Tenants in the hot store\<close>

text \<open>Keys of the hot store are apart for different tenants when no tenant or vehicle id holds a colon.\<close>

lemma hot_store_key_inj:
  assumes "hot_store_key t v s = hot_store_key t' v' s'" and "CHR '':'' \<notin> set t \<union> set t' \<union> set v \<union> set v'"
  shows "t = t' \<and> v = v' \<and> s = s'"
  using assms append_sep_inj [of t "CHR '':''" "v @ '':'' @ s" t' "v' @ '':'' @ s'"]
    append_sep_inj [of v "CHR '':''" s v' s']
  by (auto simp: hot_store_key_def)

text \<open>
  What is put for a tenant is what that tenant reads while it lives, and no other tenant's reads change.
\<close>

lemma put_get_signal:
  assumes "put_signal_for_tenant ttl t v s x w = (Inr (), w')"
  shows "live m (rs_store w' (hot_store_key t v s)) =
      (if m < rs_time w (rs_count w) + ttl * 1000 then Some (RString x, Some (rs_time w (rs_count w) + ttl * 1000)) else None)"
    and "k \<noteq> hot_store_key t v s \<Longrightarrow> rs_store w' k = rs_store w k"
  using assms
  by (auto simp: put_signal_for_tenant_def redis_set_def redis_command_def Let_def live_def split: if_splits option.splits)

text \<open>
  Tenant isolation of the hot store holds for ids without a colon, and fails without that: a write
  of one tenant is then the value another tenant reads.
\<close>

lemma hot_store_isolation:
  "(put_signal_for_tenant ttl t v s x w = (Inr (), w') \<longrightarrow> t \<noteq> t' \<longrightarrow>
      CHR '':'' \<notin> set t \<union> set t' \<union> set v \<union> set v' \<longrightarrow>
      rs_store w' (hot_store_key t' v' s') = rs_store w (hot_store_key t' v' s')) \<and>
   hot_store_key ''a'' ''b:c'' ''s'' = hot_store_key ''a:b'' ''c'' ''s''"
  using put_get_signal(2) [of ttl t v s x w w' "hot_store_key t' v' s'"] hot_store_key_inj [of t' v' s' t v s]
  by (auto simp: hot_store_key_def)

end
