(* ===== verification/CM_Tenant_Config.thy ===== *)
theory CM_Tenant_Config
  imports CM_Redis "HOL-Library.AList"
begin

text \<open>
  \<open>registry/tenant_config.py\<close>: the per-tenant rate limits, read through a cache with a time to live, and the
  listener of \<open>ratelimit/config_cache.py\<close> that drops cached entries and reconnects with a backoff.
\<close>

section \<open>registry/tenant\_config.py\<close>

record rate_limit_bucket =
  rb_sustained_rps :: int
  rb_burst_capacity :: int

record tenant_config =
  cf_tenant_id :: string
  cf_inbound :: rate_limit_bucket
  cf_query :: rate_limit_bucket
  cf_source :: string
  cf_updated_at :: "string option"

definition default_inbound :: rate_limit_bucket where
  "default_inbound = \<lparr>rb_sustained_rps = 2000, rb_burst_capacity = 4000\<rparr>"

definition default_query :: rate_limit_bucket where
  "default_query = \<lparr>rb_sustained_rps = 200, rb_burst_capacity = 400\<rparr>"

definition default_config :: "string \<Rightarrow> tenant_config" where
  "default_config tenant_id =
     \<lparr>cf_tenant_id = tenant_id, cf_inbound = default_inbound, cf_query = default_query, cf_source = ''default'',
      cf_updated_at = None\<rparr>"

text \<open>The cache's dict, in insertion order: when an entry expires, and its value.\<close>

record ttl_cache =
  ca_ttl :: rat
  ca_capacity :: int
  ca_data :: "(string \<times> rat \<times> tenant_config) list"

text \<open>\<open>cw_mono\<close> are the readings of \<open>time.monotonic\<close>, \<open>cw_reads\<close> how many have been taken.\<close>

record config_world = redis_world +
  cw_cache :: ttl_cache
  cw_mono :: "nat \<Rightarrow> rat"
  cw_reads :: nat

definition new_cache :: ttl_cache where
  "new_cache = \<lparr>ca_ttl = 5, ca_capacity = 1024, ca_data = []\<rparr>"

definition monotonic :: "(exc, 'z config_world_scheme, rat) act" where
  "monotonic w = (Inr (cw_mono w (cw_reads w)), w\<lparr>cw_reads := Suc (cw_reads w)\<rparr>)"

definition set_data :: "(string \<times> rat \<times> tenant_config) list \<Rightarrow> (exc, 'z config_world_scheme, unit) act" where
  "set_data d = act_modify (\<lambda>w. w\<lparr>cw_cache := (cw_cache w)\<lparr>ca_data := d\<rparr>\<rparr>)"

definition cache_get :: "string \<Rightarrow> (exc, 'z config_world_scheme, tenant_config option) act" where
  "cache_get tenant_id =
     act_bind (act_gets (\<lambda>w. ca_data (cw_cache w))) (\<lambda>data.
     case map_of data tenant_id of
       None \<Rightarrow> act_return None
     | Some (expires_at, value) \<Rightarrow>
         act_bind monotonic (\<lambda>m.
         if m > expires_at then act_bind (set_data (AList.delete tenant_id data)) (\<lambda>_. act_return None)
         else act_return (Some value)))"

text \<open>\<open>min(data, key=...)\<close>: the first key among those with the least expiry.\<close>

definition oldest_key :: "(string \<times> rat \<times> tenant_config) list \<Rightarrow> exc + string" where
  "oldest_key data =
     (case sort_key (\<lambda>e. fst (snd e)) data of
        [] \<Rightarrow> Inl (ValueError ''min() arg is an empty sequence'')
      | (k, _) # _ \<Rightarrow> Inr k)"

definition evict :: "ttl_cache \<Rightarrow> exc + (string \<times> rat \<times> tenant_config) list" where
  "evict c =
     (if int (length (ca_data c)) \<ge> ca_capacity c
      then res_bind (oldest_key (ca_data c)) (\<lambda>k. Inr (AList.delete k (ca_data c)))
      else Inr (ca_data c))"

definition cache_put :: "string \<Rightarrow> tenant_config \<Rightarrow> (exc, 'z config_world_scheme, unit) act" where
  "cache_put tenant_id config =
     act_bind (act_gets (\<lambda>w. cw_cache w)) (\<lambda>c.
     act_bind (act_lift (evict c)) (\<lambda>data.
     act_bind monotonic (\<lambda>m.
     set_data (AList.update tenant_id (m + ca_ttl c, config) data))))"

definition cache_invalidate :: "string \<Rightarrow> (exc, 'z config_world_scheme, unit) act" where
  "cache_invalidate tenant_id =
     act_bind (act_gets (\<lambda>w. ca_data (cw_cache w))) (\<lambda>data. set_data (AList.delete tenant_id data))"

definition config_of_row :: "pyrt \<Rightarrow> config_row \<Rightarrow> tenant_config" where
  "config_of_row rt r =
     \<lparr>cf_tenant_id = tc_tenant_id r,
      cf_inbound = \<lparr>rb_sustained_rps = tc_inbound_sustained_rps r, rb_burst_capacity = tc_inbound_burst_capacity r\<rparr>,
      cf_query = \<lparr>rb_sustained_rps = tc_query_sustained_rps r, rb_burst_capacity = tc_query_burst_capacity r\<rparr>,
      cf_source = ''override'', cf_updated_at = Some (rt_isoformat rt (tc_updated_at r))\<rparr>"

definition config_row_of :: "conn \<Rightarrow> string \<Rightarrow> db \<Rightarrow> config_row option" where
  "config_row_of c tenant_id d = first_row (select c tc_tenant_id (\<lambda>r. tc_tenant_id r = tenant_id) (db_config d))"

definition get_for_tenant :: "pyrt \<Rightarrow> string \<Rightarrow> (exc, 'z config_world_scheme, tenant_config) act" where
  "get_for_tenant rt tenant_id =
     act_bind (cache_get tenant_id) (\<lambda>cached.
     case cached of
       Some config \<Rightarrow> act_return config
     | None \<Rightarrow>
         act_bind (acquire tenant_id (\<lambda>c. query (config_row_of c tenant_id))) (\<lambda>row.
         let config = (case row of None \<Rightarrow> default_config tenant_id | Some r \<Rightarrow> config_of_row rt r) in
         act_bind (cache_put tenant_id config) (\<lambda>_. act_return config)))"

section \<open>ratelimit/config\_cache.py\<close>

definition on_notify :: "string \<Rightarrow> (exc, 'z config_world_scheme, unit) act" where
  "on_notify payload = (if payload = [] then act_return () else cache_invalidate payload)"

text \<open>
  The listener's loop, over what its attempts to connect and to subscribe come to.  Once subscribed it
  waits for an event that nothing sets, so only cancelling the task ends the wait.
\<close>

datatype attempt = ConnectFails | SubscribeFails | Subscribed

record listener =
  li_conn :: bool
  li_stopping :: bool
  li_task :: bool

fun listener_loop :: "attempt list \<Rightarrow> rat \<Rightarrow> listener \<Rightarrow> rat list \<times> listener \<times> attempt list" where
  "listener_loop [] backoff l = ([], l, [])"
| "listener_loop (a # as) backoff l =
     (if li_stopping l then ([], l, a # as)
      else case a of
        Subscribed \<Rightarrow> ([], l\<lparr>li_conn := True\<rparr>, as)
      | _ \<Rightarrow>
          (case listener_loop as (min (backoff * 2) 30) (l\<lparr>li_conn := False\<rparr>) of
             (sleeps, l', rest) \<Rightarrow> (backoff # sleeps, l', rest)))"

definition listener_start :: "listener \<Rightarrow> listener" where
  "listener_start l = (if li_task l then l else l\<lparr>li_stopping := False, li_task := True\<rparr>)"

definition listener_stop :: "listener \<Rightarrow> listener" where
  "listener_stop l = l\<lparr>li_stopping := True, li_task := False, li_conn := False\<rparr>"

section \<open>The cache\<close>

lemma length_delete_mem: "k \<in> fst ` set al \<Longrightarrow> length (AList.delete k al) < length al"
  by (induction al) (force simp: AList.delete_eq less_Suc_eq_le)+

lemma length_update_le: "length (AList.update k v al) \<le> Suc (length al)"
  by (induction al) auto

lemma oldest_key_mem:
  assumes "data \<noteq> []"
  obtains k where "oldest_key data = Inr k" and "k \<in> fst ` set data"
proof -
  obtain e rest where s: "sort_key (\<lambda>e. fst (snd e)) data = e # rest"
    using assms by (metis length_0_conv length_sort neq_Nil_conv)
  then have "e \<in> set data" by (metis list.set_intros(1) set_sort)
  with s that show thesis by (cases e) (force simp: oldest_key_def)
qed

lemma evict_Inr:
  assumes "1 \<le> ca_capacity c"
  obtains data where "evict c = Inr data" and "map_of data \<subseteq>\<^sub>m map_of (ca_data c)"
    and "int (length (ca_data c)) \<le> ca_capacity c \<Longrightarrow> int (length data) < ca_capacity c"
proof (cases "int (length (ca_data c)) \<ge> ca_capacity c")
  case True
  with assms have "ca_data c \<noteq> []" by auto
  then obtain k where k: "oldest_key (ca_data c) = Inr k" "k \<in> fst ` set (ca_data c)" by (rule oldest_key_mem)
  with True have "evict c = Inr (AList.delete k (ca_data c))" by (simp add: evict_def)
  moreover have "map_of (AList.delete k (ca_data c)) \<subseteq>\<^sub>m map_of (ca_data c)"
    by (simp add: AList.delete_conv' map_le_def)
  ultimately show thesis using length_delete_mem [OF k(2)] that by auto
next
  case False
  then show thesis using that [of "ca_data c"] by (simp add: evict_def)
qed

text \<open>The configuration the database gives a tenant.\<close>

definition effective_config :: "pyrt \<Rightarrow> string \<Rightarrow> db \<Rightarrow> tenant_config" where
  "effective_config rt t d =
     (case first_row (filter (\<lambda>r. tc_tenant_id r = t) (db_config d)) of
        None \<Rightarrow> default_config t | Some r \<Rightarrow> config_of_row rt r)"

lemma config_row_of_effective:
  assumes "t \<noteq> []"
  shows "(case config_row_of (tenant_conn t c) t d of None \<Rightarrow> default_config t | Some r \<Rightarrow> config_of_row rt r) =
    effective_config rt t d"
proof -
  have "select (tenant_conn t c) tc_tenant_id (\<lambda>r. tc_tenant_id r = t) (db_config d) =
      filter (\<lambda>r. tc_tenant_id r = t) (db_config d)"
    using assms by (auto simp: select_def intro!: filter_cong)
  then show ?thesis by (simp add: config_row_of_def effective_config_def)
qed

text \<open>
  What is known of the cache since reading \<open>n0\<close> of the clock: every entry was stamped at some reading, and
  an entry stamped at \<open>n0\<close> or later holds what the database now says.
\<close>

definition cache_since :: "pyrt \<Rightarrow> nat \<Rightarrow> 'z config_world_scheme \<Rightarrow> bool" where
  "cache_since rt n0 w \<longleftrightarrow> n0 \<le> cw_reads w \<and>
     (\<forall>k e c. map_of (ca_data (cw_cache w)) k = Some (e, c) \<longrightarrow>
        (\<exists>j < cw_reads w. e = cw_mono w j + ca_ttl (cw_cache w) \<and> (n0 \<le> j \<longrightarrow> c = effective_config rt k (w_db w))))"

lemma cache_since_mono:
  assumes "cache_since rt n0 w" and "map_of (ca_data (cw_cache w')) \<subseteq>\<^sub>m map_of (ca_data (cw_cache w))"
    and "ca_ttl (cw_cache w') = ca_ttl (cw_cache w)" and "w_db w' = w_db w" and "cw_mono w' = cw_mono w"
    and "cw_reads w \<le> cw_reads w'"
  shows "cache_since rt n0 w'"
  unfolding cache_since_def
proof (intro conjI allI impI)
  show "n0 \<le> cw_reads w'" using assms(1,6) by (simp add: cache_since_def)
  fix k e c assume "map_of (ca_data (cw_cache w')) k = Some (e, c)"
  with assms(2) have "map_of (ca_data (cw_cache w)) k = Some (e, c)"
    by (metis domI map_le_def)
  with assms show "\<exists>j<cw_reads w'. e = cw_mono w' j + ca_ttl (cw_cache w') \<and> (n0 \<le> j \<longrightarrow> c = effective_config rt k (w_db w'))"
    unfolding cache_since_def by (metis order_less_le_trans)
qed

lemma run_cache_put:
  assumes "evict (cw_cache w) = Inr data"
  shows "cache_put t cfg w = (Inr (), w\<lparr>cw_reads := Suc (cw_reads w), cw_cache := (cw_cache w)\<lparr>ca_data :=
    AList.update t (cw_mono w (cw_reads w) + ca_ttl (cw_cache w), cfg) data\<rparr>\<rparr>)"
  using assms by (simp add: cache_put_def act_bind_run act_run_simps monotonic_def set_data_def)

lemma cache_put_since:
  assumes "cache_since rt n0 w" and "cache_put t (effective_config rt t (w_db w)) w = (Inr (), w')"
    and "1 \<le> ca_capacity (cw_cache w)"
  shows "cache_since rt n0 w'"
proof -
  obtain data where d: "evict (cw_cache w) = Inr data" "map_of data \<subseteq>\<^sub>m map_of (ca_data (cw_cache w))"
    using evict_Inr [OF assms(3)] by metis
  let ?w = "w\<lparr>cw_cache := (cw_cache w)\<lparr>ca_data := data\<rparr>\<rparr>"
  have "cache_since rt n0 ?w" by (rule cache_since_mono [OF assms(1)]) (use d(2) in simp_all)
  moreover have "w' = w\<lparr>cw_reads := Suc (cw_reads w), cw_cache := (cw_cache w)\<lparr>ca_data :=
      AList.update t (cw_mono w (cw_reads w) + ca_ttl (cw_cache w), effective_config rt t (w_db w)) data\<rparr>\<rparr>"
    using assms(2) run_cache_put [OF d(1), of t] by simp
  ultimately show ?thesis
    by (auto simp: cache_since_def AList.update_conv' less_Suc_eq split: if_splits) blast+
qed

text \<open>A read: from the cache while the entry lives, otherwise from the database.\<close>

lemma get_for_tenant_run:
  assumes "w_pool w" and "t \<noteq> []" and "1 \<le> ca_capacity (cw_cache w)"
  obtains (hit) e c where "map_of (ca_data (cw_cache w)) t = Some (e, c)" and "cw_mono w (cw_reads w) \<le> e"
      and "get_for_tenant rt t w = (Inr c, w\<lparr>cw_reads := Suc (cw_reads w)\<rparr>)"
    | (miss) w1 w' where "map_of (ca_data (cw_cache w1)) \<subseteq>\<^sub>m map_of (ca_data (cw_cache w))"
      and "ca_ttl (cw_cache w1) = ca_ttl (cw_cache w)" and "w_db w1 = w_db w" and "cw_mono w1 = cw_mono w"
      and "cw_reads w \<le> cw_reads w1" and "ca_capacity (cw_cache w1) = ca_capacity (cw_cache w)"
      and "cache_put t (effective_config rt t (w_db w)) w1 = (Inr (), w')"
      and "get_for_tenant rt t w = (Inr (effective_config rt t (w_db w)), w')"
proof -
  have db_read: thesis if g: "cache_get t w = (Inr None, w1)" and m: "map_of (ca_data (cw_cache w1)) \<subseteq>\<^sub>m map_of (ca_data (cw_cache w))"
    and eq: "ca_ttl (cw_cache w1) = ca_ttl (cw_cache w)" "w_db w1 = w_db w" "cw_mono w1 = cw_mono w"
      "cw_reads w \<le> cw_reads w1" "ca_capacity (cw_cache w1) = ca_capacity (cw_cache w)" "w_pool w1" for w1
  proof -
    obtain data where d: "evict (cw_cache w1) = Inr data" using evict_Inr [of "cw_cache w1"] assms(3) eq(5) by metis
    obtain w' where p: "cache_put t (effective_config rt t (w_db w)) w1 = (Inr (), w')"
      using run_cache_put [OF d, of t "effective_config rt t (w_db w)"] by simp
    have "acquire t (\<lambda>c. query (config_row_of c t)) w1 = (Inr (config_row_of (tenant_conn t (w_session w1)) t (w_db w)), w1)"
      using eq by (simp add: acquire_def transaction_def query_def act_run_simps)
    then have "get_for_tenant rt t w = (Inr (effective_config rt t (w_db w)), w')"
      using g p config_row_of_effective [OF assms(2), of rt "w_session w1" "w_db w"]
      by (simp add: get_for_tenant_def act_bind_run act_run_simps Let_def)
    from m eq(1-5) p this show thesis by (rule miss)
  qed
  show thesis
  proof (cases "map_of (ca_data (cw_cache w)) t")
    case None
    then have "cache_get t w = (Inr None, w)" by (simp add: cache_get_def act_bind_run act_run_simps)
    then show thesis by (rule db_read) (use assms in auto)
  next
    case (Some p)
    then obtain e c where s: "map_of (ca_data (cw_cache w)) t = Some (e, c)" by (cases p) auto
    show thesis
    proof (cases "cw_mono w (cw_reads w) > e")
      case True
      let ?w1 = "w\<lparr>cw_reads := Suc (cw_reads w), cw_cache := (cw_cache w)\<lparr>ca_data := AList.delete t (ca_data (cw_cache w))\<rparr>\<rparr>"
      have "cache_get t w = (Inr None, ?w1)"
        using s True by (simp add: cache_get_def act_bind_run act_run_simps monotonic_def set_data_def)
      then show thesis by (rule db_read) (use assms in \<open>auto simp: AList.delete_conv' map_le_def\<close>)
    next
      case False
      with s show thesis
        by (intro hit)
          (auto simp: get_for_tenant_def cache_get_def act_bind_run act_run_simps monotonic_def)
    qed
  qed
qed

text \<open>
  C25. A change of a tenant's configuration takes effect within the cache's time to live even if no
  notification arrives: once a reading of the clock lies more than that beyond every reading before the
  change, \<open>get_for_tenant\<close> returns what the database says (the tenant's row, or the defaults), and reading
  keeps this so.
\<close>

theorem config_change_seen_within_ttl:
  assumes "cache_since rt n0 w" and "w_pool w" and "t \<noteq> []" and "1 \<le> ca_capacity (cw_cache w)"
    and "\<forall>j < n0. cw_mono w j + ca_ttl (cw_cache w) < cw_mono w (cw_reads w)"
  shows "\<exists>w'. get_for_tenant rt t w = (Inr (effective_config rt t (w_db w)), w') \<and> cache_since rt n0 w' \<and> w_db w' = w_db w"
proof (rule get_for_tenant_run [OF assms(2-4), of rt])
  fix e c assume h: "map_of (ca_data (cw_cache w)) t = Some (e, c)" "cw_mono w (cw_reads w) \<le> e"
    "get_for_tenant rt t w = (Inr c, w\<lparr>cw_reads := Suc (cw_reads w)\<rparr>)"
  from assms(1) h(1) obtain j where j: "e = cw_mono w j + ca_ttl (cw_cache w)" "n0 \<le> j \<longrightarrow> c = effective_config rt t (w_db w)"
    unfolding cache_since_def by blast
  with h(2) assms(5) have "n0 \<le> j" by (meson leD not_le_imp_less)
  moreover have "cache_since rt n0 (w\<lparr>cw_reads := Suc (cw_reads w)\<rparr>)" by (rule cache_since_mono [OF assms(1)]) simp_all
  ultimately show ?thesis using h(3) j(2) by simp
next
  fix w1 w' assume m: "map_of (ca_data (cw_cache w1)) \<subseteq>\<^sub>m map_of (ca_data (cw_cache w))"
    "ca_ttl (cw_cache w1) = ca_ttl (cw_cache w)" "w_db w1 = w_db w" "cw_mono w1 = cw_mono w" "cw_reads w \<le> cw_reads w1"
    and cap: "ca_capacity (cw_cache w1) = ca_capacity (cw_cache w)"
    and p: "cache_put t (effective_config rt t (w_db w)) w1 = (Inr (), w')"
    and g: "get_for_tenant rt t w = (Inr (effective_config rt t (w_db w)), w')"
  have "cache_since rt n0 w1" by (rule cache_since_mono [OF assms(1) m])
  then have "cache_since rt n0 w'" by (rule cache_put_since) (use p cap m(3) assms(4) in simp_all)
  moreover obtain data where "evict (cw_cache w1) = Inr data" using evict_Inr [of "cw_cache w1"] assms(4) cap by metis
  then have "w_db w' = w_db w" using p m(3) run_cache_put [of w1 data t] by auto
  ultimately show ?thesis using g by blast
qed

text \<open>Dropping a tenant's entry makes its next read a read of the database.\<close>

lemma notify_refreshes:
  assumes "w_pool w" and "t \<noteq> []" and "1 \<le> ca_capacity (cw_cache w)"
  shows "fst (get_for_tenant rt t (snd (on_notify t w))) = Inr (effective_config rt t (w_db w))"
proof -
  let ?w = "snd (on_notify t w)"
  have w: "?w = w\<lparr>cw_cache := (cw_cache w)\<lparr>ca_data := AList.delete t (ca_data (cw_cache w))\<rparr>\<rparr>"
    using assms(2) by (simp add: on_notify_def cache_invalidate_def act_bind_run act_run_simps set_data_def)
  have "w_pool ?w" "1 \<le> ca_capacity (cw_cache ?w)" using assms w by simp_all
  from get_for_tenant_run [OF this(1) assms(2) this(2), of rt] show ?thesis
    by cases (auto simp: w AList.delete_conv')
qed

text \<open>The cache never outgrows its capacity.\<close>

lemma cache_put_size:
  assumes "int (length (ca_data (cw_cache w))) \<le> ca_capacity (cw_cache w)" and "1 \<le> ca_capacity (cw_cache w)"
    and "cache_put t c w = (r, w')"
  shows "int (length (ca_data (cw_cache w'))) \<le> ca_capacity (cw_cache w')"
proof -
  obtain data where d: "evict (cw_cache w) = Inr data" "int (length data) < ca_capacity (cw_cache w)"
    using evict_Inr [OF assms(2)] assms(1) by metis
  from assms(3) run_cache_put [OF d(1), of t c]
    length_update_le [of t "(cw_mono w (cw_reads w) + ca_ttl (cw_cache w), c)" data] d(2)
  show ?thesis by auto
qed

section \<open>The listener\<close>

lemma listener_sleeps:
  assumes "\<not> li_stopping l" and "Subscribed \<notin> set as"
  shows "fst (listener_loop as (min (2 ^ k) 30) l) = map (\<lambda>i. min (2 ^ i) 30) [k..<k + length as]"
  using assms
proof (induction as arbitrary: k l)
  case (Cons a as)
  have "min (min (2 ^ k) 30 * 2) 30 = (min (2 ^ Suc k) 30 :: rat)" by (simp add: min_def)
  moreover have "[k..<k + length (a # as)] = k # [Suc k..<Suc k + length as]" by (simp add: upt_conv_Cons del: upt_Suc)
  ultimately show ?case using Cons.IH [of "l\<lparr>li_conn := False\<rparr>" "Suc k"] Cons.prems
    by (cases a) (auto split: prod.splits)
qed simp

text \<open>
  The listener retries with sleeps of 1, 2, 4, 8, 16 and then 30 seconds until it has subscribed, and
  once it has, it makes no further attempt: a connection that drops later is not re-established.
\<close>

lemma listener_backoff:
  assumes "\<not> li_stopping l" and "Subscribed \<notin> set as"
  shows "listener_loop (as @ Subscribed # later) 1 l =
    (map (\<lambda>i. min (2 ^ i) 30) [0..<length as], l\<lparr>li_conn := True\<rparr>, later)"
proof -
  have "listener_loop (as @ Subscribed # later) b l = (fst (listener_loop as b l), l\<lparr>li_conn := True\<rparr>, later)" for b
    using assms
  proof (induction as arbitrary: b l)
    case (Cons a as)
    from Cons.IH [of "l\<lparr>li_conn := False\<rparr>" "min (b * 2) 30"] Cons.prems show ?case
      by (cases a) (auto split: prod.splits)
  qed simp
  then show ?thesis using listener_sleeps [OF assms, of 0] by simp
qed

section \<open>A concrete cache\<close>

definition sample_config_world :: config_world where
  "sample_config_world =
     \<lparr>w_db = empty_db [''t1'', ''t2''], w_pool = True, w_session = new_session,
      w_clock = int, w_ticks = 0, w_ids = (\<lambda>n. replicate (Suc n) (CHR ''i'')), w_nids = 0,
      w_random = (\<lambda>_. 0), w_draws = 0, w_metrics = [],
      rs_store = Map.empty, rs_scripts = [], rs_time = int, rs_fault = (\<lambda>_. None), rs_count = 0, rs_client = True,
      cw_cache = new_cache\<lparr>ca_data := [(''t1'', 5, (default_config ''t1'')\<lparr>cf_source := ''override''\<rparr>)]\<rparr>,
      cw_mono = (\<lambda>n. 6 * of_nat n), cw_reads = 1\<rparr>"

theorem config_change_seen_within_ttl_witness:
  "\<exists>w'. get_for_tenant plain_rt ''t1'' sample_config_world = (Inr (default_config ''t1''), w')"
proof -
  have "cache_since plain_rt 1 sample_config_world"
    by (auto simp: cache_since_def sample_config_world_def new_cache_def split: if_splits)
  from config_change_seen_within_ttl [OF this, of "''t1''"] show ?thesis
    by (auto simp: sample_config_world_def new_cache_def effective_config_def first_row_def)
qed

end
