(* ===== verification/CM_Ratelimit.thy ===== *)
theory CM_Ratelimit
  imports CM_Tenant_Config CM_Auth
begin

text \<open>
  The rate-limit middleware \<open>ratelimit/middleware.py\<close>: a request passes a verified token and an admitting
  token bucket before it reaches its handler, which is a parameter.
\<close>

section \<open>ratelimit/middleware.py\<close>

definition exempt_prefixes :: "string list" where
  "exempt_prefixes = [''/health'', ''/ready'', ''/metrics'', ''/api/v1/health'', ''/api/v1/ready'',
     ''/api/v1/audit/break-glass'']"

definition is_exempt :: "string \<Rightarrow> bool" where
  "is_exempt path = (if path = ''/api/v1/findings'' then False else list_ex (startswith path) exempt_prefixes)"

definition bucket_for_path :: "string \<Rightarrow> string" where
  "bucket_for_path path =
     (if path = ''/api/v1/findings'' \<or> list_ex (startswith path) [''/api/v1/findings''] then ''inbound'' else ''query'')"

definition endpoint_segment :: "string \<Rightarrow> string" where
  "endpoint_segment seg =
     (if list_ex py_isdigit seg \<or> CHR ''_'' \<in> set seg \<or> CHR ''-'' \<in> set seg \<or> CHR ''.'' \<in> set seg then '':id'' else seg)"

definition normalize_endpoint_label :: "string \<Rightarrow> string \<Rightarrow> string" where
  "normalize_endpoint_label method path =
     upper method @ '' /'' @ join ''/'' (map endpoint_segment (filter (\<lambda>s. s \<noteq> []) (split_on (CHR ''/'') path)))"

record request =
  rq_method :: string
  rq_path :: string
  rq_authorization :: "string option"

text \<open>The middleware object: its verifier and the cached hash of the loaded script.\<close>

record 'c limiter_world = config_world +
  lm_verifier :: "'c verifier"
  lm_lua_sha :: "string option"

definition on_verifier :: "('c, 'a) auth \<Rightarrow> (exc, ('c, 'z) limiter_world_scheme, 'a) act" where
  "on_verifier m w = (case m (lm_verifier w) of (r, v) \<Rightarrow> (r, w\<lparr>lm_verifier := v\<rparr>))"

text \<open>The hash the server gives the script is a parameter.\<close>

definition ensure_lua_loaded :: "string \<Rightarrow> (exc, ('c, 'z) limiter_world_scheme, string) act" where
  "ensure_lua_loaded script_sha =
     act_bind (act_gets lm_lua_sha) (\<lambda>cached.
     case cached of
       Some sha \<Rightarrow> act_return sha
     | None \<Rightarrow>
         act_bind (script_load script_sha) (\<lambda>sha.
         act_bind (act_modify (\<lambda>w. w\<lparr>lm_lua_sha := Some sha\<rparr>)) (\<lambda>_. act_return sha)))"

definition substring :: "string \<Rightarrow> string \<Rightarrow> bool" where
  "substring p s \<longleftrightarrow> list_ex (\<lambda>i. startswith (drop i s) p) [0..<Suc (length s)]"

text \<open>\<open>str(exc)\<close> of what a Redis call raises.\<close>

definition error_text :: "exc \<Rightarrow> string" where
  "error_text e = (case e of RedisError m \<Rightarrow> m | RuntimeError m \<Rightarrow> m | _ \<Rightarrow> [])"

definition script_missing :: "exc \<Rightarrow> bool" where
  "script_missing e \<longleftrightarrow>
     substring ''noscript'' (lower (error_text e)) \<or> substring ''no matching script'' (lower (error_text e))"

definition take_token ::
  "string \<Rightarrow> string \<Rightarrow> int \<Rightarrow> rate_limit_bucket \<Rightarrow> (exc, ('c, 'z) limiter_world_scheme, int \<times> int \<times> int) act" where
  "take_token script_sha key now_ms limits =
     act_bind (ensure_lua_loaded script_sha) (\<lambda>sha.
     act_catch (evalsha sha key now_ms (rb_sustained_rps limits) (rb_burst_capacity limits)) (\<lambda>e.
       if script_missing e
       then
         act_bind (act_modify (\<lambda>w. w\<lparr>lm_lua_sha := None\<rparr>)) (\<lambda>_.
         act_bind (ensure_lua_loaded script_sha) (\<lambda>sha.
         evalsha sha key now_ms (rb_sustained_rps limits) (rb_burst_capacity limits)))
       else act_raise e))"

definition unauthenticated :: "string \<Rightarrow> http_response" where
  "unauthenticated message =
     json_response 401 (JObj [(''code'', JStr ''UNAUTHENTICATED''), (''message'', JStr message)])"

definition limiter_response :: "nat \<Rightarrow> string \<Rightarrow> string \<Rightarrow> int \<Rightarrow> http_response" where
  "limiter_response status ecode message seconds =
     \<lparr>resp_status = status,
      resp_body = JObj [(''code'', JStr ecode), (''message'', JStr message), (''retry_after_seconds'', JInt seconds)],
      resp_headers = [(''Retry-After'', show_int seconds)]\<rparr>"

definition limits_for :: "string \<Rightarrow> tenant_config \<Rightarrow> rate_limit_bucket" where
  "limits_for kind config = (if kind = ''inbound'' then cf_inbound config else cf_query config)"

definition bucket_key :: "string \<Rightarrow> string \<Rightarrow> string" where
  "bucket_key tenant_id kind = ''ratelimit:'' @ tenant_id @ '':'' @ kind"

text \<open>The three branches on the outcome of the bucket call.\<close>

definition limiter_branches ::
  "string \<Rightarrow> string \<Rightarrow> (exc, ('c, 'z) limiter_world_scheme, http_response) act \<Rightarrow> exc + int \<times> int \<times> int \<Rightarrow>
   (exc, ('c, 'z) limiter_world_scheme, http_response) act" where
  "limiter_branches tenant_id endpoint call_next result =
     (case result of
        Inl e \<Rightarrow>
          act_bind (metric_inc ''collectmind_ratelimit_redis_unavailable_total'' [endpoint]) (\<lambda>_.
          act_return (limiter_response 503 ''rate_limit_unavailable'' ''rate limiter unavailable'' 1))
      | Inr (decision, remaining, retry_after_ms) \<Rightarrow>
          if decision = 1
          then
            act_bind (metric_inc ''collectmind_ratelimit_decision_total'' [tenant_id, endpoint, ''allow'']) (\<lambda>_.
            call_next)
          else
            act_bind (metric_inc ''collectmind_ratelimit_decision_total'' [tenant_id, endpoint, ''reject'']) (\<lambda>_.
            act_bind (metric_inc ''collectmind_ratelimit_throttled_total'' [tenant_id, endpoint]) (\<lambda>_.
            act_return (limiter_response 429 ''rate_limit_exceeded'' ''rate limit exceeded''
              (max 1 ((retry_after_ms + 999) div 1000))))))"

definition limit_principal ::
  "pyrt \<Rightarrow> string \<Rightarrow> request \<Rightarrow> (exc, ('c, 'z) limiter_world_scheme, http_response) act \<Rightarrow> principal \<Rightarrow>
   (exc, ('c, 'z) limiter_world_scheme, http_response) act" where
  "limit_principal rt script_sha rq call_next p =
     (let kind = bucket_for_path (rq_path rq);
          endpoint = normalize_endpoint_label (rq_method rq) (rq_path rq) in
      act_bind (get_for_tenant rt (pr_tenant_id p)) (\<lambda>config.
      act_bind now (\<lambda>t.
      act_bind (attempted (take_token script_sha (bucket_key (pr_tenant_id p) kind) (t div 1000) (limits_for kind config)))
        (limiter_branches (pr_tenant_id p) endpoint call_next))))"

definition dispatch ::
  "pyrt \<Rightarrow> ('c, 'k) jwt_lib \<Rightarrow> string \<Rightarrow> request \<Rightarrow> (exc, ('c, 'z) limiter_world_scheme, http_response) act \<Rightarrow>
   (exc, ('c, 'z) limiter_world_scheme, http_response) act" where
  "dispatch rt lib script_sha rq call_next =
     (if is_exempt (rq_path rq) then call_next
      else let auth_header = (case rq_authorization rq of None \<Rightarrow> [] | Some h \<Rightarrow> h) in
        if \<not> startswith (lower auth_header) ''bearer '' then act_return (unauthenticated ''missing bearer token'')
        else
          act_bind (attempted (on_verifier (verify_token lib (strip (drop 7 auth_header))))) (\<lambda>r.
          case r of
            Inl _ \<Rightarrow> act_return (unauthenticated ''invalid token'')
          | Inr p \<Rightarrow> limit_principal rt script_sha rq call_next p))"

section \<open>Buckets of different tenants\<close>

lemma bucket_key_inj:
  assumes "bucket_key t k = bucket_key t' k'" and "CHR '':'' \<notin> set k \<union> set k'"
  shows "t = t' \<and> k = k'"
proof -
  have "rev (t @ '':'' @ k) = rev (t' @ '':'' @ k')" using assms(1) by (simp add: bucket_key_def)
  then have "rev k @ CHR '':'' # rev t = rev k' @ CHR '':'' # rev t'" by simp
  from append_sep_inj [OF this] assms(2) show ?thesis by simp
qed

lemma bucket_kinds: "bucket_for_path path \<in> {''inbound'', ''query''}"
  by (simp add: bucket_for_path_def)

text \<open>What a step leaves as it was: every key of the store but the named one.\<close>

definition only_key :: "string \<Rightarrow> ('c, 'z) limiter_world_scheme \<Rightarrow> ('c, 'z) limiter_world_scheme \<Rightarrow> bool" where
  "only_key k w w' \<longleftrightarrow> (\<forall>k'. k' \<noteq> k \<longrightarrow> rs_store w' k' = rs_store w k')"

lemma only_key_order: "reflp (only_key k)" "transp (only_key k)"
  by (auto simp: only_key_def intro!: reflpI transpI)

lemma redis_command_only_key:
  assumes "\<And>t w. only_key k w (snd (f t w))"
  shows "act_preserves (only_key k) (redis_command f)"
proof (rule act_preservesI)
  fix w :: "('a, 'b) limiter_world_scheme"
  have "only_key k w (w\<lparr>rs_count := n\<rparr>)" for n by (simp add: only_key_def)
  then show "only_key k w (snd (redis_command f w))"
    using assms [of "w\<lparr>rs_count := Suc (rs_count w)\<rparr>" "rs_time w (rs_count w)"] only_key_order [of k]
    by (auto simp: redis_command_def Let_def only_key_def split: option.splits)
qed

lemma limiter_only_key:
  "act_preserves (only_key k) (script_load sha)" "act_preserves (only_key k) (evalsha sha k n s b)"
  "act_preserves (only_key k) now" "act_preserves (only_key k) (metric_inc m ls)" "act_preserves (only_key k) monotonic"
  "act_preserves (only_key k) (set_data d)" "act_preserves (only_key k) (act_modify (\<lambda>w. w\<lparr>lm_lua_sha := x\<rparr>))"
  "act_preserves (only_key k) (on_verifier m')"
  unfolding script_load_def evalsha_def
  by (auto intro!: redis_command_only_key split: prod.splits)
    (auto simp: act_preserves_def only_key_def now_def metric_inc_def act_run_simps monotonic_def set_data_def on_verifier_def
      split: prod.splits)

lemma only_key_acquire_query: "act_preserves (only_key k) (acquire t (\<lambda>c. query (q c)))"
  by (auto simp: act_preserves_def only_key_def acquire_def transaction_def query_def act_run_simps)

lemmas only_key_rules = act_preserves_bind [OF only_key_order(2)] act_preserves_catch [OF only_key_order(2)]
  act_preserves_pure [OF only_key_order(1)] limiter_only_key only_key_acquire_query act_preserves_attempted
  keeps_case_option keeps_case_sum keeps_case_prod keeps_if

lemma get_for_tenant_only_key: "act_preserves (only_key k) (get_for_tenant rt t)"
  unfolding get_for_tenant_def cache_get_def cache_put_def Let_def by (intro only_key_rules)

lemma take_token_only_key: "act_preserves (only_key k) (take_token sha k n limits)"
  unfolding take_token_def ensure_lua_loaded_def by (intro only_key_rules)

text \<open>
  C23. No noisy neighbour: handling a request changes no rate-limit bucket but the one its verified tenant
  has for the kind of the path, whatever the outcome, as long as the handler itself leaves the buckets
  alone.  So requests of one tenant never use up another tenant's tokens.
\<close>

theorem limiter_isolates_tenants:
  assumes "act_preserves (\<lambda>w w'. rs_store w' = rs_store w) call_next"
    and "dispatch rt lib sha rq call_next w = (r, w')"
    and "rs_store w' (bucket_key t k) \<noteq> rs_store w (bucket_key t k)" and "k \<in> {''inbound'', ''query''}"
  shows "\<exists>p v. verify_token lib (strip (drop 7 (the (rq_authorization rq)))) (lm_verifier w) = (Inr p, v) \<and>
    pr_tenant_id p = t \<and> k = bucket_for_path (rq_path rq)"
proof -
  let ?kind = "bucket_for_path (rq_path rq)"
  have cn: "act_preserves (only_key key) call_next" for key
    using assms(1) by (simp add: act_preserves_def only_key_def)
  obtain h where h: "\<not> is_exempt (rq_path rq)" "rq_authorization rq = Some h" "startswith (lower h) ''bearer ''"
    using assms(2,3) act_preservesD [OF assms(1)]
    by (cases "rq_authorization rq") (auto simp: dispatch_def act_run_simps startswith_def lower_def split: if_splits)
  obtain x v where v: "verify_token lib (strip (drop 7 h)) (lm_verifier w) = (x, v)" by (metis surj_pair)
  with assms(2) h have run: "(case x of Inl _ \<Rightarrow> act_return (unauthenticated ''invalid token'')
      | Inr p \<Rightarrow> limit_principal rt sha rq call_next p) (w\<lparr>lm_verifier := v\<rparr>) = (r, w')"
    by (simp add: dispatch_def act_bind_run attempted_def on_verifier_def)
  with assms(3) obtain p where p: "x = Inr p" by (cases x) (auto simp: act_run_simps)
  have "act_preserves (only_key (bucket_key (pr_tenant_id p) ?kind)) (limit_principal rt sha rq call_next p)"
    unfolding limit_principal_def Let_def limiter_branches_def
    by (intro only_key_rules get_for_tenant_only_key take_token_only_key cn)
  with run p have "only_key (bucket_key (pr_tenant_id p) ?kind) (w\<lparr>lm_verifier := v\<rparr>) w'"
    by (auto dest: act_preservesD)
  with assms(3) have "bucket_key t k = bucket_key (pr_tenant_id p) ?kind" by (auto simp: only_key_def)
  from bucket_key_inj [OF this] assms(4) bucket_kinds [of "rq_path rq"] have "t = pr_tenant_id p \<and> k = ?kind" by auto
  with v p h(2) show ?thesis by auto
qed

section \<open>What it takes to reach the handler\<close>

definition bearer_token :: "request \<Rightarrow> string" where
  "bearer_token rq = strip (drop 7 (case rq_authorization rq of None \<Rightarrow> [] | Some h \<Rightarrow> h))"

lemma limit_principal_outcomes:
  assumes "limit_principal rt sha rq call_next p w = (r, w')"
  shows "((\<forall>other. limit_principal rt sha rq other p w = (r, w')) \<and>
      (case r of Inl e \<Rightarrow> fst (get_for_tenant rt (pr_tenant_id p) w) = Inl e
       | Inr resp \<Rightarrow> resp = limiter_response 503 ''rate_limit_unavailable'' ''rate limiter unavailable'' 1 \<or>
          (\<exists>s \<ge> 1. resp = limiter_response 429 ''rate_limit_exceeded'' ''rate limit exceeded'' s))) \<or>
    (\<exists>config t w1 w2 remaining ms. fst (get_for_tenant rt (pr_tenant_id p) w) = Inr config \<and>
       take_token sha (bucket_key (pr_tenant_id p) (bucket_for_path (rq_path rq))) t
         (limits_for (bucket_for_path (rq_path rq)) config) w1 = (Inr (1, remaining, ms), w2) \<and>
       call_next (w2\<lparr>w_metrics := w_metrics w2 @ [(''collectmind_ratelimit_decision_total'',
         [pr_tenant_id p, normalize_endpoint_label (rq_method rq) (rq_path rq), ''allow''])]\<rparr>) = (r, w'))"
proof -
  let ?t = "pr_tenant_id p" and ?k = "bucket_for_path (rq_path rq)" and ?l = "normalize_endpoint_label (rq_method rq) (rq_path rq)"
  obtain g w1 where g: "get_for_tenant rt ?t w = (g, w1)" by (metis surj_pair)
  show ?thesis
  proof (cases g)
    case (Inl e)
    then have "\<forall>other. limit_principal rt sha rq other p w = (Inl e, w1)"
      using g by (simp add: limit_principal_def Let_def act_bind_run)
    then show ?thesis using assms g Inl by (intro disjI1 conjI) auto
  next
    case c: (Inr config)
    let ?w1 = "w1\<lparr>w_ticks := Suc (w_ticks w1)\<rparr>" and ?now = "w_clock w1 (w_ticks w1) div 1000"
    obtain b w2 where b: "take_token sha (bucket_key ?t ?k) ?now (limits_for ?k config) ?w1 = (b, w2)" by (metis surj_pair)
    have run: "limit_principal rt sha rq other p w = limiter_branches ?t ?l other b w2" for other
      using g c b by (simp add: limit_principal_def Let_def act_bind_run now_def attempted_def)
    note branches = run limiter_branches_def act_bind_run metric_inc_def act_run_simps
    consider (err) e where "b = Inl e" | (deny) d m ms where "b = Inr (d, m, ms)" "d \<noteq> 1" | (admit) m ms where "b = Inr (1, m, ms)"
      by (metis sum.exhaust surj_pair)
    then show ?thesis
    proof cases
      case err
      then show ?thesis using assms by (intro disjI1 conjI) (auto simp: branches)
    next
      case deny
      have "(1 :: int) \<le> max 1 ((ms + 999) div 1000)" by simp
      with deny assms show ?thesis by (intro disjI1 conjI) (auto simp: branches simp del: max.cobounded1)
    next
      case admit
      then have "call_next (w2\<lparr>w_metrics := w_metrics w2 @ [(''collectmind_ratelimit_decision_total'', [?t, ?l, ''allow''])]\<rparr>) = (r, w')"
        using assms by (simp add: branches)
      with g c b admit show ?thesis
        by (intro disjI2 exI [of _ config] exI [of _ ?now] exI [of _ ?w1] exI [of _ w2] exI [of _ m] exI [of _ ms]) simp
    qed
  qed
qed

text \<open>
  C24. The limiter fails closed: a request that is not exempt reaches its handler only with a token the
  verifier accepts and a bucket call that admits it.  Otherwise the outcome does not depend on the handler:
  without a valid token the answer is 401 and nothing but the verifier's key cache changes, when the bucket
  call raises it is 503 with a retry hint of one second, when the bucket is empty it is 429 with a positive
  one, and an exception of the configuration read is passed on.
\<close>

theorem limiter_fails_closed:
  assumes "\<not> is_exempt (rq_path rq)" and "dispatch rt lib sha rq call_next w = (r, w')"
  shows "(\<exists>m v. r = Inr (unauthenticated m) \<and> w' = w\<lparr>lm_verifier := v\<rparr> \<and>
      (\<forall>other. dispatch rt lib sha rq other w = (r, w'))) \<or>
    (\<exists>p v. verify_token lib (bearer_token rq) (lm_verifier w) = (Inr p, v) \<and>
      (((\<forall>other. dispatch rt lib sha rq other w = (r, w')) \<and>
         (case r of Inl e \<Rightarrow> fst (get_for_tenant rt (pr_tenant_id p) (w\<lparr>lm_verifier := v\<rparr>)) = Inl e
          | Inr resp \<Rightarrow> resp = limiter_response 503 ''rate_limit_unavailable'' ''rate limiter unavailable'' 1 \<or>
             (\<exists>s \<ge> 1. resp = limiter_response 429 ''rate_limit_exceeded'' ''rate limit exceeded'' s))) \<or>
       (\<exists>config t w1 w2 remaining ms.
          fst (get_for_tenant rt (pr_tenant_id p) (w\<lparr>lm_verifier := v\<rparr>)) = Inr config \<and>
          take_token sha (bucket_key (pr_tenant_id p) (bucket_for_path (rq_path rq))) t
            (limits_for (bucket_for_path (rq_path rq)) config) w1 = (Inr (1, remaining, ms), w2) \<and>
          call_next (w2\<lparr>w_metrics := w_metrics w2 @ [(''collectmind_ratelimit_decision_total'',
            [pr_tenant_id p, normalize_endpoint_label (rq_method rq) (rq_path rq), ''allow''])]\<rparr>) = (r, w'))))"
proof (cases "startswith (lower (case rq_authorization rq of None \<Rightarrow> [] | Some h \<Rightarrow> h)) ''bearer ''")
  case False
  have "\<forall>other. dispatch rt lib sha rq other w = (Inr (unauthenticated ''missing bearer token''), w\<lparr>lm_verifier := lm_verifier w\<rparr>)"
    using False assms(1) by (simp add: dispatch_def act_run_simps)
  then show ?thesis using assms(2)
    by (intro disjI1 exI [of _ "''missing bearer token''"] exI [of _ "lm_verifier w"] conjI) simp_all
next
  case True
  obtain x v where v: "verify_token lib (bearer_token rq) (lm_verifier w) = (x, v)" by (metis surj_pair)
  let ?w = "w\<lparr>lm_verifier := v\<rparr>"
  have run: "dispatch rt lib sha rq other w = (case x of Inl _ \<Rightarrow> act_return (unauthenticated ''invalid token'')
      | Inr p \<Rightarrow> limit_principal rt sha rq other p) ?w" for other
    using True v assms(1) by (simp add: dispatch_def bearer_token_def act_bind_run attempted_def on_verifier_def)
  show ?thesis
  proof (cases x)
    case (Inl e)
    then have "\<forall>other. dispatch rt lib sha rq other w = (Inr (unauthenticated ''invalid token''), ?w)"
      by (simp add: run act_run_simps)
    then show ?thesis using assms(2)
      by (intro disjI1 exI [of _ "''invalid token''"] exI [of _ v] conjI) simp_all
  next
    case (Inr p)
    have eq: "dispatch rt lib sha rq other w = limit_principal rt sha rq other p ?w" for other by (simp add: run Inr)
    have "limit_principal rt sha rq call_next p ?w = (r, w')" using assms(2) by (simp add: eq)
    note out = limit_principal_outcomes [OF this, unfolded eq [symmetric]]
    have "verify_token lib (bearer_token rq) (lm_verifier w) = (Inr p, v)" using v Inr by simp
    with out show ?thesis by blast
  qed
qed

definition sample_limiter :: "nat limiter_world" where
  "sample_limiter =
     \<lparr>w_db = empty_db [''t1'', ''t2''], w_pool = True, w_session = new_session,
      w_clock = int, w_ticks = 0, w_ids = (\<lambda>n. replicate (Suc n) (CHR ''i'')), w_nids = 0,
      w_random = (\<lambda>_. 0), w_draws = 0, w_metrics = [],
      rs_store = Map.empty, rs_scripts = [], rs_time = int, rs_fault = (\<lambda>_. None), rs_count = 0, rs_client = True,
      cw_cache = new_cache, cw_mono = (\<lambda>n. 6 * of_nat n), cw_reads = 1,
      lm_verifier = stale_verifier, lm_lua_sha = None\<rparr>"

definition sample_rq :: request where
  "sample_rq = \<lparr>rq_method = ''GET'', rq_path = ''/api/v1/policies/p'', rq_authorization = Some ''Bearer tok''\<rparr>"

lemma sample_rq_bucket:
  "rs_store (snd (dispatch plain_rt sample_lib ''sha'' sample_rq (act_return (json_response 200 JNull)) sample_limiter))
     (bucket_key ''t1'' ''query'') = Some (RBucket 399 0, Some 4001)"
  by code_simp

theorem limiter_isolates_tenants_witness:
  "\<exists>p v. verify_token sample_lib ''tok'' stale_verifier = (Inr p, v) \<and> pr_tenant_id p = ''t1'' \<and>
     ''query'' = bucket_for_path (rq_path sample_rq)"
proof -
  let ?next = "act_return (json_response 200 JNull) :: (exc, nat limiter_world, http_response) act"
  obtain r w' where d: "dispatch plain_rt sample_lib ''sha'' sample_rq ?next sample_limiter = (r, w')" by (metis surj_pair)
  have "rs_store w' (bucket_key ''t1'' ''query'') \<noteq> rs_store sample_limiter (bucket_key ''t1'' ''query'')"
    using sample_rq_bucket d by (simp add: sample_limiter_def)
  moreover have "strip (drop 7 ''Bearer tok'') = ''tok''" by code_simp
  ultimately show ?thesis
    using limiter_isolates_tenants [OF _ d, of "''t1''" "''query''"]
    by (simp add: act_preserves_def act_run_simps sample_rq_def sample_limiter_def)
qed

theorem limiter_fails_closed_witness:
  "\<not> is_exempt (rq_path sample_rq) \<and>
   (let w = sample_limiter\<lparr>rs_fault := (\<lambda>_. Some ''down'')\<rparr> in
    \<exists>r w'. dispatch plain_rt sample_lib ''sha'' sample_rq (act_return (json_response 200 JNull)) w = (r, w') \<and>
      (\<forall>other. dispatch plain_rt sample_lib ''sha'' sample_rq other w = (r, w')))"
proof -
  let ?w = "sample_limiter\<lparr>rs_fault := (\<lambda>_. Some ''down'')\<rparr>"
  let ?next = "act_return (json_response 200 JNull) :: (exc, nat limiter_world, http_response) act"
  obtain r w' where d: "dispatch plain_rt sample_lib ''sha'' sample_rq ?next ?w = (r, w')" by (metis surj_pair)
  have e: "\<not> is_exempt (rq_path sample_rq)" by code_simp
  have "fst (dispatch plain_rt sample_lib ''sha'' sample_rq ?next ?w) =
      Inr (limiter_response 503 ''rate_limit_unavailable'' ''rate limiter unavailable'' 1)" by code_simp
  with d have r: "r = Inr (limiter_response 503 ''rate_limit_unavailable'' ''rate limiter unavailable'' 1)" by simp
  from limiter_fails_closed [OF e d] have "\<forall>other. dispatch plain_rt sample_lib ''sha'' sample_rq other ?w = (r, w')"
    by (elim disjE exE conjE) (auto simp: r act_run_simps json_response_def limiter_response_def)
  with d e show ?thesis by (auto simp: Let_def)
qed

end
