(* ===== verification/CM_Ownership.thy ===== *)
theory CM_Ownership
  imports CM_Redis CM_Graph
begin

text \<open>
  Who owns a vehicle: the repository \<open>registry/tenant_vehicles.py\<close> with the triggers of migration 015 that its
  write fires, the cache \<open>cache/ownership_cache.py\<close> in front of it, the check
  \<open>deployer/tenant_scope_check.py\<close> and the deployment wrapper \<open>deployer/node.py\<close> built on it.
\<close>

section \<open>registry/tenant\_vehicles.py\<close>

definition owner_of :: "conn \<Rightarrow> string \<Rightarrow> db \<Rightarrow> string option" where
  "owner_of c vehicle_id d =
     map_option tv_tenant_id (first_row (select c tv_tenant_id (\<lambda>r. tv_vehicle_id r = vehicle_id) (db_vehicles d)))"

definition repo_get_owner :: "string \<Rightarrow> (exc, 'z world_scheme, string option) act" where
  "repo_get_owner vehicle_id = acquire_service_principal (\<lambda>c. query (owner_of c vehicle_id))"

text \<open>The upsert; it returns the owner before it, when the vehicle had a row.\<close>

definition upsert_vehicle :: "conn \<Rightarrow> vehicle_row \<Rightarrow> db \<Rightarrow> exc + (string option \<times> db)" where
  "upsert_vehicle c r d =
     (if \<not> visible c (tv_tenant_id r) then Inl (PgError RlsViolation)
      else if \<not> vehicle_checks r then Inl (PgError CheckViolation)
      else if tv_tenant_id r \<notin> set (db_tenants d) then Inl (PgError ForeignKeyViolation)
      else case List.find (\<lambda>x. tv_vehicle_id x = tv_vehicle_id r) (db_vehicles d) of
        None \<Rightarrow> Inr (None, d\<lparr>db_vehicles := db_vehicles d @ [r]\<rparr>)
      | Some old \<Rightarrow> Inr (Some (tv_tenant_id old),
          d\<lparr>db_vehicles := map (\<lambda>x. if tv_vehicle_id x = tv_vehicle_id r then r else x) (db_vehicles d)\<rparr>))"

text \<open>\<open>tenant_vehicles_audit_fn\<close> and \<open>tenant_vehicles_history_fn\<close>; no caller sets \<open>app.correlation_id\<close>.\<close>

definition assignment_event :: "string option \<Rightarrow> vehicle_row \<Rightarrow> string \<Rightarrow> int \<Rightarrow> audit_row" where
  "assignment_event prior r event_id t =
     \<lparr>ae_event_id = event_id, ae_tenant_id = tv_tenant_id r, ae_kind = ''vehicle_assignment_change'',
      ae_originating_finding = JObj
        [(''service_principal_subject'', JStr (tv_assigned_by_subject r)), (''vehicle_id'', JStr (tv_vehicle_id r)),
         (''prior_tenant_id'', opt_str prior), (''new_tenant_id'', JStr (tv_tenant_id r)),
         (''reason_code'', JStr (tv_reason_code r))],
      ae_policy_ref = JNull, ae_deployment_ref = JNull, ae_outcome_ref = JNull, ae_slm_repo = None,
      ae_slm_revision_sha = None, ae_slm_runtime = None, ae_slm_runtime_version = None, ae_slm_quantization = None,
      ae_slm_decoding_seed = None, ae_prompt_template_version = None, ae_inbound_schema_version = None,
      ae_time_acceleration_factor = None, ae_principal_subject = tv_assigned_by_subject r,
      ae_correlation_id = ''vehicle-assignment-'' @ event_id, ae_occurred_at = t\<rparr>"

definition history_of :: "string option \<Rightarrow> vehicle_row \<Rightarrow> string \<Rightarrow> history_row" where
  "history_of prior r random =
     \<lparr>vh_vehicle_id = tv_vehicle_id r, vh_prev_tenant_id = prior, vh_new_tenant_id = tv_tenant_id r,
      vh_operator_subject = tv_assigned_by_subject r, vh_reason_code = tv_reason_code r,
      vh_transition_at = tv_assigned_at r,
      vh_correlation_id = ''vehicle-'' @ tv_vehicle_id r @ ''-'' @ random\<rparr>"

definition insert_event :: "conn \<Rightarrow> audit_row \<Rightarrow> db \<Rightarrow> exc + (unit \<times> db)" where
  "insert_event c r d =
     (if audit_key r \<in> audit_key ` set (db_audit d) then Inl (PgError UniqueViolation)
      else res_bind (insert_row c ae_tenant_id audit_checks ae_event_id (\<lambda>r. ae_tenant_id r \<in> set (db_tenants d)) r (db_audit d))
        (\<lambda>rows. Inr ((), d\<lparr>db_audit := rows\<rparr>)))"

definition insert_history :: "history_row \<Rightarrow> db \<Rightarrow> exc + (unit \<times> db)" where
  "insert_history r d =
     (if \<not> history_checks r then Inl (PgError CheckViolation) else Inr ((), d\<lparr>db_history := db_history d @ [r]\<rparr>))"

definition assignment_triggers :: "conn \<Rightarrow> string option \<Rightarrow> vehicle_row \<Rightarrow> int \<Rightarrow> (exc, 'z world_scheme, unit) act" where
  "assignment_triggers c prior r t =
     (if prior = Some (tv_tenant_id r) then act_return ()
      else
        act_bind ulid_new (\<lambda>event_id.
        act_bind (sql (insert_event c (assignment_event prior r event_id t))) (\<lambda>_.
        act_bind ulid_new (\<lambda>random.
        sql (insert_history (history_of prior r random))))))"

definition assign :: "string \<Rightarrow> string \<Rightarrow> string \<Rightarrow> string \<Rightarrow> (exc, 'z world_scheme, unit) act" where
  "assign vehicle_id tenant_id assigned_by_subject reason_code =
     acquire_service_principal (\<lambda>c. transaction (
       act_bind now (\<lambda>t.
       let r = \<lparr>tv_vehicle_id = vehicle_id, tv_tenant_id = tenant_id, tv_assigned_at = t,
                tv_assigned_by_subject = assigned_by_subject, tv_reason_code = reason_code\<rparr> in
       act_bind (sql (upsert_vehicle c r)) (\<lambda>prior. assignment_triggers c prior r t))))"

section \<open>cache/ownership\_cache.py\<close>

definition ownership_key :: "string \<Rightarrow> string" where
  "ownership_key vehicle_id = ''vehicle_ownership:'' @ vehicle_id"

definition cache_ttl_seconds :: int where
  "cache_ttl_seconds = 3600"

definition get_owner :: "string \<Rightarrow> (exc, 'z redis_world_scheme, string option) act" where
  "get_owner vehicle_id =
     act_bind (attempted (redis_get (ownership_key vehicle_id))) (\<lambda>cached.
     case cached of
       Inl _ \<Rightarrow> repo_get_owner vehicle_id
     | Inr (Some owner) \<Rightarrow> act_return (Some owner)
     | Inr None \<Rightarrow>
         act_bind (repo_get_owner vehicle_id) (\<lambda>owner.
         case owner of
           None \<Rightarrow> act_return None
         | Some o' \<Rightarrow>
             act_bind (attempted (redis_set (ownership_key vehicle_id) o' cache_ttl_seconds)) (\<lambda>_.
             act_return owner)))"

definition invalidate_owner :: "string \<Rightarrow> (exc, 'z redis_world_scheme, unit) act" where
  "invalidate_owner vehicle_id = redis_delete (ownership_key vehicle_id)"

section \<open>deployer/tenant\_scope\_check.py\<close>

text \<open>\<open>repr\<close> of a string or \<open>None\<close>.\<close>

definition repr_char :: "char \<Rightarrow> char \<Rightarrow> string" where
  "repr_char q c =
     (if c = q \<or> c = CHR 0x5C then [CHR 0x5C, c]
      else if c = CHR 0x0A then [CHR 0x5C, CHR ''n'']
      else if c = CHR 0x0D then [CHR 0x5C, CHR ''r'']
      else if c = CHR 0x09 then [CHR 0x5C, CHR ''t'']
      else if code c < 32 \<or> (127 \<le> code c \<and> code c \<le> 160) \<or> code c = 173
      then [CHR 0x5C, CHR ''x'', hex_digit (code c div 16), hex_digit (code c mod 16)]
      else [c])"

definition repr_str :: "string \<Rightarrow> string" where
  "repr_str s =
     (let q = (if CHR 0x27 \<in> set s \<and> CHR 0x22 \<notin> set s then CHR 0x22 else CHR 0x27) in
      [q] @ concat (map (repr_char q) s) @ [q])"

definition repr_opt :: "string option \<Rightarrow> string" where
  "repr_opt x = (case x of None \<Rightarrow> ''None'' | Some s \<Rightarrow> repr_str s)"

record mismatch =
  mm_policy_id :: string
  mm_target_vehicle_id :: string
  mm_policy_declared_tenant_id :: string
  mm_vehicle_owning_tenant_id :: "string option"

definition TenantVehicleMismatch :: "mismatch \<Rightarrow> app_error" where
  "TenantVehicleMismatch m =
     \<lparr>err_kind = Fatal, err_code = ''TENANT_VEHICLE_MISMATCH'', err_status = 409,
      err_reason = ''target vehicle '' @ repr_str (mm_target_vehicle_id m) @ '' is owned by ''
        @ repr_opt (mm_vehicle_owning_tenant_id m) @ '', not '' @ repr_str (mm_policy_declared_tenant_id m),
      err_details = Some
        [(''policy_id'', JStr (mm_policy_id m)), (''target_vehicle_id'', JStr (mm_target_vehicle_id m)),
         (''policy_declared_tenant_id'', JStr (mm_policy_declared_tenant_id m)),
         (''vehicle_owning_tenant_id'', opt_str (mm_vehicle_owning_tenant_id m))]\<rparr>"

text \<open>\<open>list(policy.get("vehicle_scope") or [])\<close>.\<close>

definition scope_or_empty :: "dict \<Rightarrow> exc + json list" where
  "scope_or_empty policy =
     (case dict_get policy ''vehicle_scope'' of
        None \<Rightarrow> Inr []
      | Some j \<Rightarrow> if truthy j then scope_list policy else Inr [])"

fun check_vehicles ::
  "pyrt \<Rightarrow> string \<Rightarrow> string \<Rightarrow> json list \<Rightarrow> (exc, 'z redis_world_scheme, mismatch option) act" where
  "check_vehicles rt policy_id tenant [] = act_return None"
| "check_vehicles rt policy_id tenant (v # vs) =
     act_bind (get_owner (py_str rt v)) (\<lambda>owner.
     if owner \<noteq> Some tenant
     then act_return (Some \<lparr>mm_policy_id = policy_id, mm_target_vehicle_id = py_str rt v,
       mm_policy_declared_tenant_id = tenant, mm_vehicle_owning_tenant_id = owner\<rparr>)
     else check_vehicles rt policy_id tenant vs)"

text \<open>The check: the first mismatch, when there is one; raised by the caller below.\<close>

definition validate_tenant_scope :: "pyrt \<Rightarrow> dict \<Rightarrow> (exc, 'z redis_world_scheme, mismatch option) act" where
  "validate_tenant_scope rt policy =
     act_bind (act_lift (scope_or_empty policy)) (\<lambda>scope.
     check_vehicles rt (py_str rt (dict_get_or policy ''policy_id'' (JStr [])))
       (py_str rt (dict_get_or policy ''tenant_id'' (JStr []))) scope)"

section \<open>deployer/node.py\<close>

definition rejection_audit :: "pyrt \<Rightarrow> dict \<Rightarrow> string \<Rightarrow> string \<Rightarrow> mismatch \<Rightarrow> audit_args" where
  "rejection_audit rt policy tenant_id correlation_id m =
     (audit_call tenant_id ''deployment_rejected'' correlation_id tenant_id)
       \<lparr>aa_originating_finding := Some
          [(''policy_ref'', JObj [(''policy_id'', JStr (py_str rt (dict_get_or policy ''policy_id'' (JStr [])))),
              (''version'', JStr (py_str rt (dict_get_or policy ''version'' (JStr ''1.0.0''))))]),
           (''target_vehicle_id'', JStr (mm_target_vehicle_id m)),
           (''policy_declared_tenant_id'', JStr (mm_policy_declared_tenant_id m)),
           (''vehicle_owning_tenant_id'', opt_str (mm_vehicle_owning_tenant_id m))]\<rparr>"

definition deploy_with_tenant_scope_check ::
  "pyrt \<Rightarrow> 'z redis_world_scheme collector \<Rightarrow> dict \<Rightarrow> string \<Rightarrow> string \<Rightarrow>
   (exc, 'z redis_world_scheme, deploy_response) act" where
  "deploy_with_tenant_scope_check rt collector policy tenant_id correlation_id =
     act_bind (validate_tenant_scope rt policy) (\<lambda>found.
     case found of
       Some m \<Rightarrow>
         act_bind (audit_write (rejection_audit rt policy tenant_id correlation_id m)) (\<lambda>_.
         act_raise (App (TenantVehicleMismatch m)))
     | None \<Rightarrow>
         act_bind (act_lift (scope_or_empty policy)) (\<lambda>scope.
         collector
           \<lparr>da_tenant_id = tenant_id, da_policy_id = JStr (py_str rt (dict_get_or policy ''policy_id'' (JStr []))),
            da_version = JStr (py_str rt (dict_get_or policy ''version'' (JStr ''1.0.0''))),
            da_vehicle_scope = scope, da_payload = policy, da_payload_signature = [], da_signature_key_id = []\<rparr>))"

section \<open>The cache answers for the database\<close>

definition owners_coherent :: "'z redis_world_scheme \<Rightarrow> bool" where
  "owners_coherent w \<longleftrightarrow>
     (\<forall>v s x. rs_store w (ownership_key v) = Some (RString s, x) \<longrightarrow> owner_of (w_session w) v (w_db w) = Some s)"

definition same_db :: "'z redis_world_scheme \<Rightarrow> 'z redis_world_scheme \<Rightarrow> bool" where
  "same_db w w' \<longleftrightarrow> w_db w' = w_db w \<and> w_session w' = w_session w \<and> w_pool w' = w_pool w"

lemma same_db_trans: "same_db w w' \<Longrightarrow> same_db w' w'' \<Longrightarrow> same_db w w''"
  by (simp add: same_db_def)

lemma ownership_key_inj [simp]: "ownership_key v = ownership_key v' \<longleftrightarrow> v = v'"
  by (simp add: ownership_key_def)

lemma live_SomeD: "live t e = Some x \<Longrightarrow> e = Some x"
  by (auto simp: live_def split: option.splits if_splits)

lemma redis_get_same:
  assumes "redis_get k w = (r, w')"
  shows "rs_store w' = rs_store w" and "same_db w w'" and "r = Inr (Some s) \<Longrightarrow> \<exists>x. rs_store w k = Some (RString s, x)"
  using assms live_SomeD
  by (auto simp: redis_get_def redis_command_def Let_def same_db_def split: if_splits option.splits redis_value.splits prod.splits)
    (metis live_SomeD)+

lemma redis_set_same:
  assumes "redis_set k s ex w = (r, w')"
  shows "same_db w w'" and "rs_store w' = rs_store w \<or> (\<exists>x. rs_store w' = (rs_store w)(k \<mapsto> (RString s, x)))"
  using assms
  by (auto simp: redis_set_def redis_command_def Let_def same_db_def split: if_splits option.splits)

lemma run_repo_get_owner:
  "w_pool w \<Longrightarrow> repo_get_owner v w = (Inr (owner_of (w_session w) v (w_db w)), w)"
  by (simp add: repo_get_owner_def acquire_service_principal_def query_def act_run_simps)

lemma get_owner_correct:
  assumes "owners_coherent w" and "w_pool w"
  obtains w' where "get_owner v w = (Inr (owner_of (w_session w) v (w_db w)), w')" and "owners_coherent w'" and "same_db w w'"
proof -
  let ?o = "owner_of (w_session w) v (w_db w)"
  obtain c w1 where g: "redis_get (ownership_key v) w = (c, w1)" by (metis surj_pair)
  note s = redis_get_same [OF g]
  have c1: "owners_coherent w1" using assms(1) s(1,2) by (simp add: owners_coherent_def same_db_def)
  have repo: "repo_get_owner v w1 = (Inr ?o, w1)" using run_repo_get_owner [of w1 v] s(2) assms(2) by (simp add: same_db_def)
  consider (down) e where "c = Inl e" | (hit) x where "c = Inr (Some x)" | (unknown) "c = Inr None" "?o = None"
    | (miss) x where "c = Inr None" "?o = Some x" by (metis not_None_eq sum.exhaust)
  then show thesis
  proof cases
    case down
    then have "get_owner v w = (Inr ?o, w1)" using g repo by (simp add: get_owner_def act_bind_run attempted_def)
    with c1 s(2) that show thesis by blast
  next
    case hit
    with s(3) assms(1) have "?o = Some x" by (auto simp: owners_coherent_def)
    with hit g have "get_owner v w = (Inr ?o, w1)" by (simp add: get_owner_def act_bind_run act_run_simps attempted_def)
    with c1 s(2) that show thesis by blast
  next
    case unknown
    then have "get_owner v w = (Inr ?o, w1)" using g repo by (simp add: get_owner_def act_bind_run act_run_simps attempted_def)
    with c1 s(2) that show thesis by blast
  next
    case (miss x)
    obtain r w2 where st: "redis_set (ownership_key v) x cache_ttl_seconds w1 = (r, w2)" by (metis surj_pair)
    with miss g repo have "get_owner v w = (Inr ?o, w2)" by (simp add: get_owner_def act_bind_run act_run_simps attempted_def)
    moreover have "same_db w w2" using s(2) redis_set_same(1) [OF st] by (rule same_db_trans)
    moreover have "owners_coherent w2"
      using c1 redis_set_same [OF st] miss(2) s(2)
      by (auto simp: owners_coherent_def same_db_def split: if_splits)
    ultimately show thesis using that by blast
  qed
qed

lemma check_vehicles_correct:
  fixes w :: "'z redis_world_scheme" and rt vs t
  defines "mine \<equiv> \<lambda>v. owner_of (w_session w) (py_str rt v) (w_db w) = Some t"
  assumes "owners_coherent w" and "w_pool w"
  obtains w' where "same_db w w'" and "owners_coherent w'" and "check_vehicles rt pid t vs w =
    (Inr (map_option (\<lambda>v. \<lparr>mm_policy_id = pid, mm_target_vehicle_id = py_str rt v, mm_policy_declared_tenant_id = t,
       mm_vehicle_owning_tenant_id = owner_of (w_session w) (py_str rt v) (w_db w)\<rparr>) (List.find (\<lambda>v. \<not> mine v) vs)), w')"
proof -
  have all: "\<exists>w'. same_db w w' \<and> owners_coherent w' \<and> check_vehicles rt pid t vs w1 =
    (Inr (map_option (\<lambda>v. \<lparr>mm_policy_id = pid, mm_target_vehicle_id = py_str rt v, mm_policy_declared_tenant_id = t,
       mm_vehicle_owning_tenant_id = owner_of (w_session w) (py_str rt v) (w_db w)\<rparr>) (List.find (\<lambda>v. \<not> mine v) vs)), w')"
    if "same_db w w1" and "owners_coherent w1" for w1
    using that
  proof (induction vs arbitrary: w1)
    case Nil
    then show ?case by (simp add: act_run_simps)
  next
    case (Cons v vs)
    have eq: "w_session w1 = w_session w" "w_db w1 = w_db w" "w_pool w1" using Cons.prems(1) assms(3) by (simp_all add: same_db_def)
    obtain w2 where g: "get_owner (py_str rt v) w1 = (Inr (owner_of (w_session w) (py_str rt v) (w_db w)), w2)"
      "owners_coherent w2" "same_db w1 w2"
      using get_owner_correct [OF Cons.prems(2) eq(3), of "py_str rt v"] eq by metis
    have s2: "same_db w w2" using Cons.prems(1) g(3) by (rule same_db_trans)
    show ?case
    proof (cases "mine v")
      case True
      with Cons.IH [OF s2 g(2)] g(1) show ?thesis by (simp add: act_bind_run mine_def)
    next
      case False
      with g s2 show ?thesis by (auto simp: act_bind_run act_run_simps mine_def)
    qed
  qed
  have "same_db w w" by (simp add: same_db_def)
  from all [OF this assms(2)] show thesis by (elim exE conjE) (rule that)
qed


section \<open>Transfers\<close>

lemma triggers_InrE:
  assumes "assignment_triggers c prior r t w = (Inr (), w')"
  obtains d n where "w' = w\<lparr>w_db := d, w_nids := n\<rparr>" and "db_vehicles d = db_vehicles (w_db w)"
    and "prior = Some (tv_tenant_id r) \<Longrightarrow> d = w_db w"
    and "prior \<noteq> Some (tv_tenant_id r) \<Longrightarrow> \<exists>eid random.
       db_history d = db_history (w_db w) @ [history_of prior r random] \<and>
       db_audit d = db_audit (w_db w) @ [assignment_event prior r eid t]"
proof (cases "prior = Some (tv_tenant_id r)")
  case True
  with assms show thesis by (intro that [where d = "w_db w" and n = "w_nids w"]) (auto simp: assignment_triggers_def act_run_simps)
next
  case False
  let ?e = "assignment_event prior r (w_ids w (w_nids w)) t" and ?h = "history_of prior r (w_ids w (Suc (w_nids w)))"
  from assms False have w': "w' = w\<lparr>w_db := (w_db w)\<lparr>db_audit := db_audit (w_db w) @ [?e], db_history := db_history (w_db w) @ [?h]\<rparr>,
      w_nids := Suc (Suc (w_nids w))\<rparr>"
    by (auto simp: assignment_triggers_def act_bind_run ulid_new_def sql_def insert_event_def insert_history_def
        res_bind_Inr insert_row_Inr split: sum.splits if_splits)
  show thesis by (rule that [OF w']) (use False in auto)
qed

lemma assign_InrE:
  assumes "assign v t subj reason w = (Inr (), w')"
  obtains d k n r prior d1 where "w' = w\<lparr>w_db := d, w_ticks := k, w_nids := n\<rparr>" and "tv_vehicle_id r = v" and "tv_tenant_id r = t"
    and "upsert_vehicle (w_session w) r (w_db w) = Inr (prior, d1)" and "db_vehicles d = db_vehicles d1"
    and "prior = Some t \<Longrightarrow> d = d1"
    and "prior \<noteq> Some t \<Longrightarrow> \<exists>eid random at0. db_history d = db_history d1 @ [history_of prior r random] \<and>
       db_audit d = db_audit d1 @ [assignment_event prior r eid at0]"
proof -
  let ?t = "w_clock w (w_ticks w)"
  let ?r = "\<lparr>tv_vehicle_id = v, tv_tenant_id = t, tv_assigned_at = ?t, tv_assigned_by_subject = subj, tv_reason_code = reason\<rparr>"
  from assms have pool: "w_pool w" by (auto simp: assign_def acquire_service_principal_def split: if_splits)
  have "act_bind now (\<lambda>t'. let r = \<lparr>tv_vehicle_id = v, tv_tenant_id = t, tv_assigned_at = t', tv_assigned_by_subject = subj,
      tv_reason_code = reason\<rparr> in act_bind (sql (upsert_vehicle (w_session w) r)) (\<lambda>prior. assignment_triggers (w_session w) prior r t')) w
      = (Inr (), w')"
    using assms pool by (auto simp: assign_def acquire_service_principal_def transaction_def split: prod.splits sum.splits)
  then obtain prior d1 where u: "upsert_vehicle (w_session w) ?r (w_db w) = Inr (prior, d1)"
    and tr: "assignment_triggers (w_session w) prior ?r ?t (w\<lparr>w_ticks := Suc (w_ticks w), w_db := d1\<rparr>) = (Inr (), w')"
    by (auto simp: act_bind_run now_def sql_def Let_def split: sum.splits)
  from tr obtain d n where d: "w' = (w\<lparr>w_ticks := Suc (w_ticks w), w_db := d1\<rparr>)\<lparr>w_db := d, w_nids := n\<rparr>" "db_vehicles d = db_vehicles d1"
    and one: "prior = Some t \<Longrightarrow> d = d1"
    and two: "prior \<noteq> Some t \<Longrightarrow> \<exists>eid random. db_history d = db_history d1 @ [history_of prior ?r random] \<and>
       db_audit d = db_audit d1 @ [assignment_event prior ?r eid ?t]"
    by (rule triggers_InrE) simp
  show thesis by (rule that [where d = d and k = "Suc (w_ticks w)" and n = n and r = ?r and prior = prior and ?d1.0 = d1]) (use d u one two in auto)
qed

lemma first_row_filter: "first_row (filter P xs) = List.find P xs"
  by (induction xs) (auto simp: first_row_def)

lemma owner_of_find:
  "c_role c = Superuser \<Longrightarrow> owner_of c v d = map_option tv_tenant_id (List.find (\<lambda>x. tv_vehicle_id x = v) (db_vehicles d))"
  by (simp add: owner_of_def select_def visible_def first_row_filter)

lemma find_replace:
  "List.find (\<lambda>x. tv_vehicle_id x = v) (map (\<lambda>x. if tv_vehicle_id x = tv_vehicle_id r then r else x) rows) =
    (if v = tv_vehicle_id r then map_option (\<lambda>_. r) (List.find (\<lambda>x. tv_vehicle_id x = v) rows)
     else List.find (\<lambda>x. tv_vehicle_id x = v) rows)"
  by (induction rows) auto

lemma find_snoc: "List.find P (xs @ [x]) = (case List.find P xs of None \<Rightarrow> if P x then Some x else None | Some y \<Rightarrow> Some y)"
  by (induction xs) auto

text \<open>The upsert sets the owner of its vehicle, keeps all others, and returns the owner before.\<close>

lemma upsert_owner:
  assumes "upsert_vehicle c r d = Inr (prior, d')" and "c_role c = Superuser"
  shows "owner_of c v d' = (if v = tv_vehicle_id r then Some (tv_tenant_id r) else owner_of c v d)"
    and "prior = owner_of c (tv_vehicle_id r) d" and "db_history d' = db_history d" and "db_audit d' = db_audit d"
  using assms
  by (auto simp: upsert_vehicle_def owner_of_find find_replace find_snoc split: if_splits option.splits)

lemma owner_of_vehicles: "db_vehicles d = db_vehicles d' \<Longrightarrow> owner_of c v d = owner_of c v d'"
  by (simp add: owner_of_def)

text \<open>
  An assignment is recorded with its transition: it makes the tenant the vehicle's owner and no other
  vehicle changes hands; when the owner changed, exactly one history row with the old and the new owner and
  one \<open>vehicle_assignment_change\<close> event of the new owner are added, and otherwise none.
\<close>

lemma assign_records_transition:
  assumes "assign v t subj reason w = (Inr (), w')" and "c_role (w_session w) = Superuser"
  shows "(\<forall>u. owner_of (w_session w) u (w_db w') = (if u = v then Some t else owner_of (w_session w) u (w_db w))) \<and>
    (if owner_of (w_session w) v (w_db w) = Some t
     then db_history (w_db w') = db_history (w_db w) \<and> db_audit (w_db w') = db_audit (w_db w)
     else \<exists>h e. db_history (w_db w') = db_history (w_db w) @ [h] \<and> db_audit (w_db w') = db_audit (w_db w) @ [e] \<and>
       vh_vehicle_id h = v \<and> vh_prev_tenant_id h = owner_of (w_session w) v (w_db w) \<and> vh_new_tenant_id h = t \<and>
       ae_tenant_id e = t \<and> ae_kind e = ''vehicle_assignment_change'')"
proof -
  from assms(1) obtain d k n r prior d1 where w': "w' = w\<lparr>w_db := d, w_ticks := k, w_nids := n\<rparr>"
    and r: "tv_vehicle_id r = v" "tv_tenant_id r = t" and u: "upsert_vehicle (w_session w) r (w_db w) = Inr (prior, d1)"
    and vs: "db_vehicles d = db_vehicles d1" and one: "prior = Some t \<Longrightarrow> d = d1"
    and two: "prior \<noteq> Some t \<Longrightarrow> \<exists>eid random at0. db_history d = db_history d1 @ [history_of prior r random] \<and>
       db_audit d = db_audit d1 @ [assignment_event prior r eid at0]"
    by (rule assign_InrE) (rule that)
  note up = upsert_owner [OF u assms(2)]
  have own: "owner_of (w_session w) x (w_db w') = (if x = v then Some t else owner_of (w_session w) x (w_db w))" for x
    using up(1) r owner_of_vehicles [OF vs] w' by simp
  show ?thesis
  proof (cases "prior = Some t")
    case True
    with own up(2-4) one w' r show ?thesis by simp
  next
    case False
    with own up(2-4) two w' r show ?thesis by (fastforce simp: history_of_def assignment_event_def)
  qed
qed

text \<open>
  A transfer does not reach the ownership cache: while the entry of the former owner lives, the cache
  still answers with that owner, so the scope check refuses the new owner's deployments to the vehicle and
  passes the former owner's.
\<close>

theorem transfer_leaves_stale_owner:
  assumes "assign v t subj reason w = (Inr (), w')" and "c_role (w_session w) = Superuser"
    and "rs_store w (ownership_key v) = Some (RString former, Some limit)" and "former \<noteq> t"
    and "rs_client w" and "rs_fault w (rs_count w) = None" and "rs_time w (rs_count w) < limit"
  shows "owner_of (w_session w) v (w_db w') = Some t \<and> fst (get_owner v w') = Inr (Some former) \<and>
    fst (validate_tenant_scope rt [(''tenant_id'', JStr former), (''vehicle_scope'', JArr [JStr v])] w') = Inr None \<and>
    (\<exists>m. fst (validate_tenant_scope rt [(''tenant_id'', JStr t), (''vehicle_scope'', JArr [JStr v])] w') = Inr (Some m))"
proof -
  from assms(1) obtain d k n r prior d1 where w': "w' = w\<lparr>w_db := d, w_ticks := k, w_nids := n\<rparr>"
    and r: "tv_vehicle_id r = v" "tv_tenant_id r = t" and u: "upsert_vehicle (w_session w) r (w_db w) = Inr (prior, d1)"
    and vs: "db_vehicles d = db_vehicles d1"
    by (rule assign_InrE) (rule that)
  have "owner_of (w_session w) v (w_db w') = Some t"
    using upsert_owner(1) [OF u assms(2), of v] r owner_of_vehicles [OF vs] w' by simp
  moreover have g: "get_owner v w' = (Inr (Some former), w'\<lparr>rs_count := Suc (rs_count w')\<rparr>)"
    using w' assms(3,5-7)
    by (simp add: get_owner_def act_bind_run act_run_simps attempted_def redis_get_def redis_command_def live_def)
  moreover have "validate_tenant_scope rt [(''tenant_id'', JStr x), (''vehicle_scope'', JArr [JStr v])] w' =
      check_vehicles rt [] x [JStr v] w'" for x
    by (simp add: validate_tenant_scope_def act_bind_run act_run_simps scope_or_empty_def scope_list_def dict_get_def
        dict_get_or_def py_str_def)
  ultimately show ?thesis using assms(4) by (simp add: act_bind_run act_run_simps py_str_def)
qed

section \<open>A concrete fleet\<close>

definition sample_vehicle :: vehicle_row where
  "sample_vehicle = \<lparr>tv_vehicle_id = ''v1'', tv_tenant_id = ''t1'', tv_assigned_at = 0, tv_assigned_by_subject = ''op'',
     tv_reason_code = ''initial_provisioning''\<rparr>"

definition sample_fleet :: redis_world where
  "sample_fleet =
     \<lparr>w_db = (empty_db [''t1'', ''t2''])\<lparr>db_vehicles := [sample_vehicle]\<rparr>, w_pool = True, w_session = new_session,
      w_clock = int, w_ticks = 0, w_ids = (\<lambda>n. replicate (Suc n) (CHR ''i'')), w_nids = 0,
      w_random = (\<lambda>_. 0), w_draws = 0, w_metrics = [],
      rs_store = [ownership_key ''v1'' \<mapsto> (RString ''t1'', Some 3600000)], rs_scripts = [], rs_time = int,
      rs_fault = (\<lambda>_. None), rs_count = 0, rs_client = True\<rparr>"

lemma sample_fleet_simps [simp]:
  "w_pool sample_fleet" "w_session sample_fleet = new_session" "c_role new_session = Superuser"
  "w_db sample_fleet = (empty_db [''t1'', ''t2''])\<lparr>db_vehicles := [sample_vehicle]\<rparr>"
  "rs_client sample_fleet" "rs_fault sample_fleet n = None" "rs_time sample_fleet = int" "rs_count sample_fleet = 0"
  by (simp_all add: sample_fleet_def new_session_def)


theorem transfer_leaves_stale_owner_witness:
  "\<exists>w'. assign ''v1'' ''t2'' ''op'' ''resale'' sample_fleet = (Inr (), w') \<and>
     owner_of new_session ''v1'' (w_db w') = Some ''t2'' \<and> fst (get_owner ''v1'' w') = Inr (Some ''t1'')"
proof -
  have "fst (assign ''v1'' ''t2'' ''op'' ''resale'' sample_fleet) = Inr ()"
    by (simp add: sample_fleet_def assign_def acquire_service_principal_def transaction_def act_bind_run now_def sql_def
        Let_def upsert_vehicle_def vehicle_checks_def reason_codes_def sample_vehicle_def assignment_triggers_def ulid_new_def
        insert_event_def insert_row_def audit_checks_def audit_kinds_def assignment_event_def insert_history_def
        history_checks_def history_of_def visible_def new_session_def)
  then obtain w' where a: "assign ''v1'' ''t2'' ''op'' ''resale'' sample_fleet = (Inr (), w')" by (metis prod.collapse)
  from transfer_leaves_stale_owner [OF a, of "''t1''" 3600000] a show ?thesis by (simp add: sample_fleet_def new_session_def)
qed

end
