(* ===== verification/CM_Erasure.thy ===== *)
theory CM_Erasure
  imports CM_Auth CM_Repository
begin

text \<open>
  Erasure of a data subject: \<open>erasure/dispatcher.py\<close> with the immutability trigger of migration 005 that its
  statements pass, and the handler \<open>erasure/api.py\<close>.  The dispatch runs as a task of its own; submitting
  returns it as a value.
\<close>

section \<open>Statements\<close>

text \<open>
  \<open>reject_mutation_unless_erasure\<close>: a setting that was never made compares to null, which does not raise.
\<close>

definition mutation_allowed :: "conn \<Rightarrow> bool" where
  "mutation_allowed c \<longleftrightarrow> (case c_erasure c of None \<Rightarrow> True | Some v \<Rightarrow> v = ''on'')"

definition mutation_rejected :: exc where
  "mutation_rejected = PgError (RaisedException ''collection_policies are immutable; mutation rejected'')"

fun update_rows :: "('r \<Rightarrow> bool) \<Rightarrow> ('r \<Rightarrow> exc + 'r) \<Rightarrow> 'r list \<Rightarrow> exc + 'r list" where
  "update_rows P f [] = Inr []"
| "update_rows P f (r # rs) =
     res_bind (if P r then f r else Inr r) (\<lambda>r'. res_bind (update_rows P f rs) (\<lambda>rs'. Inr (r' # rs')))"

text \<open>\<open>jsonb_agg\<close> over the elements that are not the text \<open>v\<close>: null when none is left.\<close>

definition without_elem :: "string \<Rightarrow> json \<Rightarrow> json option" where
  "without_elem v j =
     (case j of
        JArr xs \<Rightarrow> (let ys = filter (\<lambda>x. x \<noteq> JStr v) xs in if ys = [] then None else Some (JArr ys))
      | _ \<Rightarrow> None)"

definition erase_policy :: "conn \<Rightarrow> string \<Rightarrow> policy_row \<Rightarrow> exc + policy_row" where
  "erase_policy c v r =
     (if \<not> mutation_allowed c then Inl mutation_rejected
      else case without_elem v (cp_vehicle_scope r) of
        None \<Rightarrow> Inl (PgError NotNullViolation)
      | Some j \<Rightarrow> Inr (r\<lparr>cp_vehicle_scope := j\<rparr>))"

definition erase_policies :: "conn \<Rightarrow> string \<Rightarrow> string \<Rightarrow> db \<Rightarrow> exc + (unit \<times> db)" where
  "erase_policies c tenant_id v d =
     res_bind (update_rows
         (\<lambda>r. visible c (cp_tenant_id r) \<and> cp_tenant_id r = tenant_id \<and> contains_elem (cp_vehicle_scope r) v)
         (erase_policy c v) (db_policies d))
       (\<lambda>rows. Inr ((), d\<lparr>db_policies := rows\<rparr>))"

definition delete_telemetry :: "conn \<Rightarrow> string \<Rightarrow> string \<Rightarrow> db \<Rightarrow> exc + (unit \<times> db)" where
  "delete_telemetry c tenant_id v d =
     Inr ((), d\<lparr>db_telemetry := filter (\<lambda>r. \<not> (visible c (to_tenant_id r) \<and> to_tenant_id r = tenant_id \<and> to_vehicle_id r = v))
       (db_telemetry d)\<rparr>)"

text \<open>\<open>j ->> k\<close>.\<close>

definition json_text :: "pyrt \<Rightarrow> json \<Rightarrow> string \<Rightarrow> string option" where
  "json_text rt j k =
     (case j of
        JObj d \<Rightarrow> (case dict_get d k of None \<Rightarrow> None | Some JNull \<Rightarrow> None | Some (JStr s) \<Rightarrow> Some s | Some x \<Rightarrow> Some (dumps rt x))
      | _ \<Rightarrow> None)"

definition names_subject :: "pyrt \<Rightarrow> string \<Rightarrow> audit_row \<Rightarrow> bool" where
  "names_subject rt s r \<longleftrightarrow>
     json_text rt (ae_originating_finding r) ''finding_id'' = Some s \<or> ae_principal_subject r = s"

definition redact_event :: "conn \<Rightarrow> string \<Rightarrow> audit_row \<Rightarrow> exc + audit_row" where
  "redact_event c s r =
     (if \<not> mutation_allowed c then Inl mutation_rejected
      else case ae_originating_finding r of
        JNull \<Rightarrow> Inr (r\<lparr>ae_originating_finding := JObj [(''redacted_subject'', JStr s)]\<rparr>)
      | JObj d \<Rightarrow> Inr (r\<lparr>ae_originating_finding := JObj (dict_put d ''redacted_subject'' (JStr s))\<rparr>)
      | _ \<Rightarrow> Inl (PgError DataError))"

definition redact_events :: "pyrt \<Rightarrow> conn \<Rightarrow> string \<Rightarrow> string \<Rightarrow> db \<Rightarrow> exc + (unit \<times> db)" where
  "redact_events rt c tenant_id s d =
     res_bind (update_rows (\<lambda>r. visible c (ae_tenant_id r) \<and> ae_tenant_id r = tenant_id \<and> names_subject rt s r)
         (redact_event c s) (db_audit d))
       (\<lambda>rows. Inr ((), d\<lparr>db_audit := rows\<rparr>))"

definition insert_request :: "conn \<Rightarrow> erasure_row \<Rightarrow> db \<Rightarrow> exc + (unit \<times> db)" where
  "insert_request c r d =
     res_bind (insert_row c eq_tenant_id erasure_checks eq_request_id (\<lambda>r. eq_tenant_id r \<in> set (db_tenants d)) r (db_erasures d))
       (\<lambda>rows. Inr ((), d\<lparr>db_erasures := rows\<rparr>))"

definition finish_request :: "conn \<Rightarrow> string \<Rightarrow> string \<Rightarrow> json \<Rightarrow> int \<Rightarrow> db \<Rightarrow> exc + (unit \<times> db)" where
  "finish_request c request_id status per_store completed_at d =
     Inr ((), d\<lparr>db_erasures := map (\<lambda>r. if visible c (eq_tenant_id r) \<and> eq_request_id r = request_id
        then r\<lparr>eq_status := status, eq_per_store_status := per_store, eq_completed_at := Some completed_at\<rparr> else r)
      (db_erasures d)\<rparr>)"

section \<open>erasure/dispatcher.py\<close>

definition per_store_json :: "string \<Rightarrow> string \<Rightarrow> string \<Rightarrow> json" where
  "per_store_json registry telemetry audit =
     JObj [(''registry'', JStr registry), (''telemetry'', JStr telemetry), (''audit'', JStr audit)]"

record erasure_task =
  et_tenant_id :: string
  et_request_id :: string
  et_payload :: erasure_request

definition submit ::
  "string \<Rightarrow> string \<Rightarrow> string \<Rightarrow> int \<Rightarrow> int \<Rightarrow> erasure_request \<Rightarrow> (exc, 'z world_scheme, erasure_task) act" where
  "submit request_id tenant_id requested_by requested_at target_completion_at payload =
     act_bind (acquire tenant_id (\<lambda>c. sql (insert_request c
       \<lparr>eq_request_id = request_id, eq_tenant_id = tenant_id, eq_subject_kind = er_subject_kind payload,
        eq_subject_identifier = er_subject_identifier payload, eq_requested_by = requested_by,
        eq_requested_at = requested_at, eq_target_completion_at = target_completion_at, eq_status = ''requested'',
        eq_per_store_status = per_store_json ''pending'' ''pending'' ''pending'', eq_mode = er_mode payload,
        eq_completed_at = None\<rparr>))) (\<lambda>_.
     act_bind (audit_write (audit_call tenant_id ''erasure'' request_id requested_by)) (\<lambda>_.
     act_return \<lparr>et_tenant_id = tenant_id, et_request_id = request_id, et_payload = payload\<rparr>))"

definition erase_registry :: "string \<Rightarrow> erasure_request \<Rightarrow> (exc, 'z world_scheme, unit) act" where
  "erase_registry tenant_id payload =
     (if er_subject_kind payload \<noteq> ''vehicle'' then act_return ()
      else acquire tenant_id (\<lambda>c. sql (erase_policies (set_erasure ''on'' c) tenant_id (er_subject_identifier payload))))"

definition erase_telemetry :: "string \<Rightarrow> erasure_request \<Rightarrow> (exc, 'z world_scheme, unit) act" where
  "erase_telemetry tenant_id payload =
     (if er_subject_kind payload \<noteq> ''vehicle'' then act_return ()
      else acquire tenant_id (\<lambda>c. sql (delete_telemetry c tenant_id (er_subject_identifier payload))))"

definition redact_audit :: "pyrt \<Rightarrow> string \<Rightarrow> erasure_request \<Rightarrow> (exc, 'z world_scheme, unit) act" where
  "redact_audit rt tenant_id payload =
     acquire tenant_id (\<lambda>c. sql (redact_events rt (set_erasure ''on'' c) tenant_id (er_subject_identifier payload)))"

definition store_status :: "string \<Rightarrow> exc + unit \<Rightarrow> string" where
  "store_status done r = (case r of Inl _ \<Rightarrow> ''failed'' | Inr _ \<Rightarrow> done)"

definition erasure_status :: "string list \<Rightarrow> string" where
  "erasure_status per_store = (if list_all (\<lambda>v. v \<in> {''erased'', ''redacted''}) per_store then ''completed'' else ''partial'')"

definition erasure_dispatch :: "pyrt \<Rightarrow> erasure_task \<Rightarrow> (exc, 'z world_scheme, unit) act" where
  "erasure_dispatch rt task =
     act_bind (attempted (erase_registry (et_tenant_id task) (et_payload task))) (\<lambda>r1.
     act_bind (attempted (erase_telemetry (et_tenant_id task) (et_payload task))) (\<lambda>r2.
     act_bind (attempted (redact_audit rt (et_tenant_id task) (et_payload task))) (\<lambda>r3.
     let registry = store_status (if er_mode (et_payload task) = ''erased'' then ''erased'' else ''redacted'') r1;
         telemetry = store_status ''erased'' r2;
         audit = store_status ''redacted'' r3 in
     acquire (et_tenant_id task) (\<lambda>c.
       act_bind now (\<lambda>t.
       sql (finish_request c (et_request_id task) (erasure_status [registry, telemetry, audit])
         (per_store_json registry telemetry audit) t))))))"

definition request_of :: "conn \<Rightarrow> string \<Rightarrow> string \<Rightarrow> db \<Rightarrow> erasure_row option" where
  "request_of c tenant_id request_id d =
     first_row (select c eq_tenant_id (\<lambda>r. eq_tenant_id r = tenant_id \<and> eq_request_id r = request_id) (db_erasures d))"

definition request_json :: "erasure_row \<Rightarrow> json" where
  "request_json r = JObj
     [(''request_id'', JStr (eq_request_id r)), (''tenant_id'', JStr (eq_tenant_id r)),
      (''subject_kind'', JStr (eq_subject_kind r)), (''subject_identifier'', JStr (eq_subject_identifier r)),
      (''requested_by'', JStr (eq_requested_by r)), (''requested_at'', JTime (eq_requested_at r)),
      (''target_completion_at'', JTime (eq_target_completion_at r)), (''status'', JStr (eq_status r)),
      (''per_store_status'', eq_per_store_status r), (''mode'', JStr (eq_mode r)),
      (''completed_at'', case eq_completed_at r of None \<Rightarrow> JNull | Some t \<Rightarrow> JTime t)]"

definition erasure_get :: "string \<Rightarrow> string \<Rightarrow> (exc, 'z world_scheme, json option) act" where
  "erasure_get tenant_id request_id =
     act_bind (acquire tenant_id (\<lambda>c. query (request_of c tenant_id request_id))) (\<lambda>row.
     act_return (map_option request_json row))"

section \<open>erasure/api.py\<close>

definition bound_days_us :: int where
  "bound_days_us = 30 * 24 * 3600 * 1000000"

definition verr_json :: "pydantic \<Rightarrow> verr \<Rightarrow> json" where
  "verr_json pyd e = JObj [(''type'', JStr (verr_type e)), (''loc'', JArr (JStr ''body'' # map JStr (verr_loc e))),
     (''msg'', JStr (verr_msg pyd (verr_type e)))]"

definition submit_erasure_request ::
  "pyrt \<Rightarrow> pydantic \<Rightarrow> principal \<Rightarrow> json \<Rightarrow> (exc, 'z world_scheme, http_response \<times> erasure_task) act" where
  "submit_erasure_request rt pyd p body =
     act_bind (act_lift (case validate_erasure_request body of
         Inl es \<Rightarrow> Inl (RequestInvalid (JArr (map (verr_json pyd) es))) | Inr q \<Rightarrow> Inr q)) (\<lambda>payload.
     act_bind ulid_new (\<lambda>request_id.
     act_bind now (\<lambda>requested_at.
     let target = requested_at + bound_days_us in
     act_bind (submit request_id (pr_tenant_id p) (pr_subject p) requested_at target payload) (\<lambda>task.
     act_return (json_response 202
       (JObj [(''request_id'', JStr request_id), (''target_completion_at'', JStr (rt_isoformat rt target))]), task)))))"

section \<open>What the statements change\<close>

lemma update_rows_Inr:
  "update_rows P f rows = Inr rows' \<longleftrightarrow> list_all2 (\<lambda>r r'. if P r then f r = Inr r' else r' = r) rows rows'"
proof (induction rows arbitrary: rows')
  case (Cons r rs)
  then show ?case by (cases rows') (auto simp: res_bind_Inr)
qed auto

lemma list_all2_map_eq: "list_all2 Q xs ys \<Longrightarrow> (\<And>x y. Q x y \<Longrightarrow> g y = g x) \<Longrightarrow> map g ys = map g xs"
  by (induction rule: list_all2_induct) auto

lemma list_all2_filter_eq:
  "list_all2 Q xs ys \<Longrightarrow> (\<And>x y. Q x y \<Longrightarrow> (S y \<longleftrightarrow> S x) \<and> (S x \<longrightarrow> y = x)) \<Longrightarrow> filter S ys = filter S xs"
  by (induction rule: list_all2_induct) auto

lemma list_all2_imageD: "list_all2 Q xs ys \<Longrightarrow> y \<in> set ys \<Longrightarrow> \<exists>x \<in> set xs. Q x y"
  by (induction rule: list_all2_induct) auto

lemma without_elem_Some: "without_elem v j = Some j' \<Longrightarrow> nonempty_array j' \<and> \<not> contains_elem j' v"
  by (auto simp: without_elem_def nonempty_array_def contains_elem_def Let_def filter_empty_conv split: json.splits if_splits)

lemma erase_policy_Inr:
  assumes "erase_policy c v r = Inr r'"
  shows "policy_key r' = policy_key r" "cp_tenant_id r' = cp_tenant_id r" "policy_checks r \<Longrightarrow> policy_checks r'"
    "\<not> contains_elem (cp_vehicle_scope r') v"
  using assms without_elem_Some
  by (auto simp: erase_policy_def policy_key_def policy_checks_def split: if_splits option.splits)

lemma redact_event_Inr:
  assumes "redact_event c s r = Inr r'"
  shows "ae_event_id r' = ae_event_id r" "audit_key r' = audit_key r" "ae_tenant_id r' = ae_tenant_id r"
    "audit_checks r' = audit_checks r" "ae_principal_subject r' = ae_principal_subject r"
  using assms
  by (auto simp: redact_event_def audit_key_def audit_checks_def full_fingerprint_def split: if_splits json.splits)

lemma erase_policies_InrE:
  assumes "erase_policies c t v d = Inr (u, d')"
  obtains rows where "d' = d\<lparr>db_policies := rows\<rparr>"
    and "list_all2 (\<lambda>r r'. r' = r \<or> cp_tenant_id r = t \<and> erase_policy c v r = Inr r') (db_policies d) rows"
    and "\<And>r. r \<in> set rows \<Longrightarrow> visible c t \<Longrightarrow> cp_tenant_id r = t \<Longrightarrow> \<not> contains_elem (cp_vehicle_scope r) v"
proof -
  from assms obtain rows where d': "d' = d\<lparr>db_policies := rows\<rparr>" and u: "list_all2 (\<lambda>r r'.
      if visible c (cp_tenant_id r) \<and> cp_tenant_id r = t \<and> contains_elem (cp_vehicle_scope r) v
      then erase_policy c v r = Inr r' else r' = r) (db_policies d) rows"
    by (auto simp: erase_policies_def res_bind_Inr update_rows_Inr)
  show thesis
  proof (rule that [OF d'])
    show "list_all2 (\<lambda>r r'. r' = r \<or> cp_tenant_id r = t \<and> erase_policy c v r = Inr r') (db_policies d) rows"
      using u by (rule list_all2_mono) (auto split: if_splits)
    fix r' assume "r' \<in> set rows" "visible c t" "cp_tenant_id r' = t"
    with list_all2_imageD [OF u] erase_policy_Inr(2,4) show "\<not> contains_elem (cp_vehicle_scope r') v"
      by (metis (no_types, lifting))
  qed
qed

lemma erase_policies_frame:
  assumes "erase_policies c t v d = Inr (u, d')"
  shows "tenant_frame t d d'"
proof -
  from assms obtain rows where d': "d' = d\<lparr>db_policies := rows\<rparr>"
    and u: "list_all2 (\<lambda>r r'. r' = r \<or> cp_tenant_id r = t \<and> erase_policy c v r = Inr r') (db_policies d) rows"
    by (rule erase_policies_InrE)
  have keys: "map policy_key rows = map policy_key (db_policies d)"
    by (rule list_all2_map_eq [OF u]) (auto dest: erase_policy_Inr(1))
  then have keyset: "policy_key ` set rows = policy_key ` set (db_policies d)" by (metis set_map)
  have "list_all (\<lambda>r. policy_checks r \<and> cp_tenant_id r \<in> set (db_tenants d)) rows"
    if "list_all (\<lambda>r. policy_checks r \<and> cp_tenant_id r \<in> set (db_tenants d)) (db_policies d)"
    using that list_all2_imageD [OF u] unfolding list_all_iff by (metis erase_policy_Inr(2,3))
  moreover have "filter (\<lambda>r. cp_tenant_id r = t') rows = filter (\<lambda>r. cp_tenant_id r = t') (db_policies d)" if "t' \<noteq> t" for t'
    by (rule list_all2_filter_eq [OF u]) (use that in \<open>auto dest: erase_policy_Inr(2)\<close>)
  ultimately show ?thesis unfolding d' using keys keyset
    by (auto simp: tenant_frame_def tenant_view_def db_wf_def table_wf_def)
qed

lemma redact_events_frame:
  assumes "redact_events rt c t s d = Inr (u, d')"
  shows "tenant_frame t d d'" and "\<exists>rows. d' = d\<lparr>db_audit := rows\<rparr>"
proof -
  from assms obtain rows where d': "d' = d\<lparr>db_audit := rows\<rparr>" and u0: "list_all2 (\<lambda>r r'.
      if visible c (ae_tenant_id r) \<and> ae_tenant_id r = t \<and> names_subject rt s r then redact_event c s r = Inr r' else r' = r)
      (db_audit d) rows"
    by (auto simp: redact_events_def res_bind_Inr update_rows_Inr)
  from u0 have u: "list_all2 (\<lambda>r r'. r' = r \<or> ae_tenant_id r = t \<and> redact_event c s r = Inr r') (db_audit d) rows"
    by (rule list_all2_mono) (auto split: if_splits)
  have "map ae_event_id rows = map ae_event_id (db_audit d)" "map audit_key rows = map audit_key (db_audit d)"
    by (rule list_all2_map_eq [OF u], auto dest: redact_event_Inr(1,2))+
  moreover have "list_all (\<lambda>r. audit_checks r \<and> ae_tenant_id r \<in> set (db_tenants d)) rows"
    if "list_all (\<lambda>r. audit_checks r \<and> ae_tenant_id r \<in> set (db_tenants d)) (db_audit d)"
    using that list_all2_imageD [OF u] unfolding list_all_iff by (metis redact_event_Inr(3,4))
  moreover have "filter (\<lambda>r. ae_tenant_id r = t') rows = filter (\<lambda>r. ae_tenant_id r = t') (db_audit d)" if "t' \<noteq> t" for t'
    by (rule list_all2_filter_eq [OF u]) (use that in \<open>auto dest: redact_event_Inr(3)\<close>)
  ultimately show "tenant_frame t d d'" unfolding d'
    by (auto simp: tenant_frame_def tenant_view_def db_wf_def table_wf_def)
  show "\<exists>rows. d' = d\<lparr>db_audit := rows\<rparr>" using d' by blast
qed

lemma delete_telemetry_frame:
  assumes "delete_telemetry c t v d = Inr (u, d')"
  shows "tenant_frame t d d'"
proof -
  have "filter (\<lambda>r. (to_tenant_id r = t \<longrightarrow> visible c t \<longrightarrow> to_vehicle_id r \<noteq> v) \<and> to_tenant_id r = t') rows =
      filter (\<lambda>r. to_tenant_id r = t') rows" if "t' \<noteq> t" for t' rows
    using that by (induction rows) auto
  then show ?thesis using assms
    by (auto simp: delete_telemetry_def tenant_frame_def tenant_view_def db_wf_def list_all_iff)
qed

lemma finish_request_frame:
  assumes "finish_request (tenant_conn t c) rid st ps at0 d = Inr (u, d')" and "st \<in> {''completed'', ''partial''}"
  shows "tenant_frame t d d'"
proof -
  let ?f = "\<lambda>r. if visible (tenant_conn t c) (eq_tenant_id r) \<and> eq_request_id r = rid
    then r\<lparr>eq_status := st, eq_per_store_status := ps, eq_completed_at := Some at0\<rparr> else r"
  have d': "d' = d\<lparr>db_erasures := map ?f (db_erasures d)\<rparr>" using assms(1) by (simp add: finish_request_def)
  have filt: "filter (\<lambda>r. eq_tenant_id r = t') (map ?f rows) = filter (\<lambda>r. eq_tenant_id r = t') rows" if "t' \<noteq> t" for t' and rows :: "erasure_row list"
    using that by (induction rows) auto
  have "table_wf eq_request_id (\<lambda>r. erasure_checks r \<and> eq_tenant_id r \<in> T) (map ?f rows)"
    if "table_wf eq_request_id (\<lambda>r. erasure_checks r \<and> eq_tenant_id r \<in> T) rows" for T rows
    by (rule table_wf_map [OF that]) (use assms(2) in \<open>auto simp: erasure_checks_def\<close>)
  with filt show ?thesis unfolding d'
    by (simp add: tenant_frame_def tenant_view_def db_wf_def del: map_map)
qed

section \<open>The dispatch\<close>

lemma erasure_status_cases: "erasure_status ps \<in> {''completed'', ''partial''}"
  by (simp add: erasure_status_def)

lemmas finish_status_frame = finish_request_frame [OF _ erasure_status_cases]

lemma erasure_dispatch_frame: "act_preserves (on_db (tenant_frame (et_tenant_id task))) (erasure_dispatch rt task)"
  unfolding erasure_dispatch_def erase_registry_def erase_telemetry_def redact_audit_def Let_def
  by (auto intro!: keeps_rules keeps_sql keeps tenant_orders act_preserves_attempted
      intro: erase_policies_frame delete_telemetry_frame redact_events_frame(1) finish_status_frame)

text \<open>The three stores in turn, then the request's status.\<close>

lemma erasure_dispatch_InrE:
  assumes "erasure_dispatch rt task w = (Inr (), w')"
  obtains r1 w1 r2 w2 r3 w3 at0 where "erase_registry (et_tenant_id task) (et_payload task) w = (r1, w1)"
    and "erase_telemetry (et_tenant_id task) (et_payload task) w1 = (r2, w2)"
    and "redact_audit rt (et_tenant_id task) (et_payload task) w2 = (r3, w3)"
    and "finish_request (tenant_conn (et_tenant_id task) (w_session w3)) (et_request_id task)
      (erasure_status [store_status (if er_mode (et_payload task) = ''erased'' then ''erased'' else ''redacted'') r1,
         store_status ''erased'' r2, store_status ''redacted'' r3])
      (per_store_json (store_status (if er_mode (et_payload task) = ''erased'' then ''erased'' else ''redacted'') r1)
         (store_status ''erased'' r2) (store_status ''redacted'' r3)) at0 (w_db w3) = Inr ((), w_db w')"
proof -
  obtain r1 w1 where a: "erase_registry (et_tenant_id task) (et_payload task) w = (r1, w1)" by (metis surj_pair)
  obtain r2 w2 where b: "erase_telemetry (et_tenant_id task) (et_payload task) w1 = (r2, w2)" by (metis surj_pair)
  obtain r3 w3 where c: "redact_audit rt (et_tenant_id task) (et_payload task) w2 = (r3, w3)" by (metis surj_pair)
  from assms show thesis
    by (intro that [OF a b c])
      (auto simp: erasure_dispatch_def act_bind_run attempted_def a b c Let_def acquire_def transaction_def now_def sql_def
        finish_request_def split: if_splits)
qed

lemma erase_registry_vehicle:
  assumes "erase_registry t q w = (r, w')" and "er_subject_kind q = ''vehicle''"
  shows "r = Inr () \<and> erase_policies (set_erasure ''on'' (tenant_conn t (w_session w))) t (er_subject_identifier q) (w_db w) =
      Inr ((), w_db w') \<or> (\<exists>e. r = Inl e) \<and> w_db w' = w_db w"
  using assms
  by (auto simp: erase_registry_def acquire_def transaction_def sql_def split: if_splits sum.splits)

lemma erase_telemetry_vehicle:
  assumes "erase_telemetry t q w = (r, w')" and "er_subject_kind q = ''vehicle''"
  shows "r = Inr () \<and> delete_telemetry (tenant_conn t (w_session w)) t (er_subject_identifier q) (w_db w) = Inr ((), w_db w') \<or>
    (\<exists>e. r = Inl e) \<and> w_db w' = w_db w"
  using assms
  by (auto simp: erase_telemetry_def acquire_def transaction_def sql_def split: if_splits sum.splits)

lemma redact_audit_db:
  assumes "redact_audit rt t q w = (r, w')"
  shows "\<exists>rows. w_db w' = (w_db w)\<lparr>db_audit := rows\<rparr>"
proof -
  have "w_db w' = w_db w \<or> (\<exists>u c. redact_events rt c t (er_subject_identifier q) (w_db w) = Inr (u, w_db w'))"
    using assms by (auto simp: redact_audit_def acquire_def transaction_def sql_def split: if_splits sum.splits)
  then show ?thesis
  proof
    assume "w_db w' = w_db w"
    then show ?thesis by (intro exI [of _ "db_audit (w_db w)"]) simp
  qed (auto dest: redact_events_frame(2))
qed

definition request_status :: "string \<Rightarrow> string \<Rightarrow> string \<Rightarrow> db \<Rightarrow> bool" where
  "request_status t rid st d \<longleftrightarrow> (\<exists>r \<in> set (db_erasures d). eq_tenant_id r = t \<and> eq_request_id r = rid \<and> eq_status r = st)"

lemma finish_request_tables:
  assumes "finish_request c rid st ps at0 d = Inr (u, d')"
  shows "db_policies d' = db_policies d" "db_telemetry d' = db_telemetry d"
  using assms by (auto simp: finish_request_def)

lemma delete_telemetry_tables:
  assumes "delete_telemetry (tenant_conn t c) t v d = Inr (u, d')"
  shows "db_policies d' = db_policies d" "db_telemetry d' = filter (\<lambda>r. \<not> (t \<noteq> [] \<and> to_tenant_id r = t \<and> to_vehicle_id r = v)) (db_telemetry d)"
  using assms by (auto simp: delete_telemetry_def intro!: filter_cong)

lemma finish_request_status:
  assumes "finish_request (tenant_conn t c) rid st ps at0 d = Inr ((), d')" and "t \<noteq> []"
    and "request_status t rid st' d'"
  shows "st' = st"
proof -
  let ?f = "\<lambda>r. if visible (tenant_conn t c) (eq_tenant_id r) \<and> eq_request_id r = rid
    then r\<lparr>eq_status := st, eq_per_store_status := ps, eq_completed_at := Some at0\<rparr> else r"
  from assms(1) have m: "db_erasures d' = map ?f (db_erasures d)" unfolding finish_request_def by clarsimp
  from assms(3) obtain x where "x \<in> set (db_erasures d')" and x: "eq_tenant_id x = t" "eq_request_id x = rid" "eq_status x = st'"
    unfolding request_status_def by blast
  then obtain r where "x = ?f r" unfolding m set_map by blast
  with x show ?thesis using assms(2) by (cases "eq_tenant_id r = t \<and> eq_request_id r = rid") auto
qed

text \<open>
  C27. A vehicle erasure that is reported completed has erased: when the dispatch returns and the request's
  status is \<open>completed\<close>, no policy of the tenant has the vehicle in its scope and no telemetry of the vehicle
  is left with the tenant.  Whatever the outcome, the schema invariant is kept and no other tenant's rows
  change.
\<close>

theorem erasure_completed_means_erased:
  assumes "erasure_dispatch rt task w = (Inr (), w')" and "et_tenant_id task = t" and "t \<noteq> []"
    and "er_subject_kind (et_payload task) = ''vehicle''" and "er_subject_identifier (et_payload task) = v"
  shows "tenant_frame t (w_db w) (w_db w') \<and>
    (request_status t (et_request_id task) ''completed'' (w_db w') \<longrightarrow>
      (\<forall>r \<in> set (db_policies (w_db w')). cp_tenant_id r = t \<longrightarrow> \<not> contains_elem (cp_vehicle_scope r) v) \<and>
      (\<forall>r \<in> set (db_telemetry (w_db w')). \<not> (to_tenant_id r = t \<and> to_vehicle_id r = v)))"
proof -
  from assms(1) obtain r1 w1 r2 w2 r3 w3 at0 where a: "erase_registry t (et_payload task) w = (r1, w1)"
    and b: "erase_telemetry t (et_payload task) w1 = (r2, w2)" and c: "redact_audit rt t (et_payload task) w2 = (r3, w3)"
    and f: "finish_request (tenant_conn t (w_session w3)) (et_request_id task)
      (erasure_status [store_status (if er_mode (et_payload task) = ''erased'' then ''erased'' else ''redacted'') r1,
         store_status ''erased'' r2, store_status ''redacted'' r3])
      (per_store_json (store_status (if er_mode (et_payload task) = ''erased'' then ''erased'' else ''redacted'') r1)
         (store_status ''erased'' r2) (store_status ''redacted'' r3)) at0 (w_db w3) = Inr ((), w_db w')"
    unfolding assms(2) [symmetric] by (rule erasure_dispatch_InrE)
  have frame: "tenant_frame t (w_db w) (w_db w')"
    using act_preservesD [OF erasure_dispatch_frame assms(1)] assms(2) by (simp add: on_db_def)
  obtain rows where w3: "w_db w3 = (w_db w2)\<lparr>db_audit := rows\<rparr>" using redact_audit_db [OF c] by blast
  have w': "db_policies (w_db w') = db_policies (w_db w2)" "db_telemetry (w_db w') = db_telemetry (w_db w2)"
    using finish_request_tables [OF f] w3 by simp_all
  have "\<not> contains_elem (cp_vehicle_scope r) v" if st: "request_status t (et_request_id task) ''completed'' (w_db w')"
    and r: "r \<in> set (db_policies (w_db w'))" "cp_tenant_id r = t" for r
  proof -
    from finish_request_status [OF f assms(3) st] have "r1 = Inr ()" "r2 = Inr ()"
      by (auto simp: erasure_status_def store_status_def split: sum.splits if_splits)
    with erase_registry_vehicle [OF a assms(4)] erase_telemetry_vehicle [OF b assms(4)] assms(5)
    have e: "erase_policies (set_erasure ''on'' (tenant_conn t (w_session w))) t v (w_db w) = Inr ((), w_db w1)"
      and d: "delete_telemetry (tenant_conn t (w_session w1)) t v (w_db w1) = Inr ((), w_db w2)" by auto
    from r w'(1) delete_telemetry_tables(1) [OF d] have r1: "r \<in> set (db_policies (w_db w1))" by simp
    from e obtain rows where "w_db w1 = (w_db w)\<lparr>db_policies := rows\<rparr>"
      and "r \<in> set rows \<Longrightarrow> visible (set_erasure ''on'' (tenant_conn t (w_session w))) t \<Longrightarrow> cp_tenant_id r = t \<Longrightarrow>
        \<not> contains_elem (cp_vehicle_scope r) v"
      by (rule erase_policies_InrE) blast
    with r1 r(2) assms(3) show ?thesis by simp
  qed
  moreover have "\<not> (to_tenant_id r = t \<and> to_vehicle_id r = v)" if st: "request_status t (et_request_id task) ''completed'' (w_db w')"
    and r: "r \<in> set (db_telemetry (w_db w'))" for r
  proof -
    from finish_request_status [OF f assms(3) st] have "r2 = Inr ()"
      by (auto simp: erasure_status_def store_status_def split: sum.splits if_splits)
    with erase_telemetry_vehicle [OF b assms(4)] assms(5)
    have d: "delete_telemetry (tenant_conn t (w_session w1)) t v (w_db w1) = Inr ((), w_db w2)" by auto
    from r w'(2) assms(3) show ?thesis by (simp add: delete_telemetry_tables(2) [OF d])
  qed
  ultimately show ?thesis using frame by blast
qed

lemma update_rows_Inl: "r \<in> set rows \<Longrightarrow> P r \<Longrightarrow> f r = Inl e \<Longrightarrow> \<exists>e'. update_rows P f rows = Inl e'"
  by (induction rows) (auto simp: res_bind_def split: sum.splits if_splits)

lemma erase_policies_sole:
  assumes "r \<in> set (db_policies d)" and "visible c t" and "cp_tenant_id r = t" and "cp_vehicle_scope r = JArr [JStr v]"
  shows "\<exists>e. erase_policies c t v d = Inl e"
proof -
  have "\<exists>e. erase_policy c v r = Inl e" using assms(4) by (simp add: erase_policy_def without_elem_def)
  then obtain e where e: "erase_policy c v r = Inl e" ..
  have "visible c (cp_tenant_id r) \<and> cp_tenant_id r = t \<and> contains_elem (cp_vehicle_scope r) v"
    using assms by (simp add: contains_elem_def)
  from update_rows_Inl [OF assms(1), where P = "\<lambda>r. visible c (cp_tenant_id r) \<and> cp_tenant_id r = t \<and> contains_elem (cp_vehicle_scope r) v"
    and f = "erase_policy c v", OF this e] show ?thesis by (auto simp: erase_policies_def res_bind_def)
qed

lemma pool_kept:
  "erase_registry t q w = (r, w') \<Longrightarrow> w_pool w' = w_pool w"
  "erase_telemetry t q w = (r, w') \<Longrightarrow> w_pool w' = w_pool w"
  "redact_audit rt t q w = (r, w') \<Longrightarrow> w_pool w' = w_pool w"
  by (auto simp: erase_registry_def erase_telemetry_def redact_audit_def acquire_def transaction_def sql_def act_return_def
      split: if_splits sum.splits)

lemma erasure_dispatch_returns:
  assumes "w_pool w"
  shows "\<exists>w'. erasure_dispatch rt task w = (Inr (), w')"
proof -
  obtain r1 w1 where a: "erase_registry (et_tenant_id task) (et_payload task) w = (r1, w1)" by (metis surj_pair)
  obtain r2 w2 where b: "erase_telemetry (et_tenant_id task) (et_payload task) w1 = (r2, w2)" by (metis surj_pair)
  obtain r3 w3 where c: "redact_audit rt (et_tenant_id task) (et_payload task) w2 = (r3, w3)" by (metis surj_pair)
  from pool_kept(1) [OF a] pool_kept(2) [OF b] pool_kept(3) [OF c] assms have "w_pool w3" by simp
  then show ?thesis
    by (auto simp: erasure_dispatch_def act_bind_run attempted_def a b c Let_def acquire_def transaction_def now_def sql_def
        finish_request_def)
qed

text \<open>
  C28. One policy that collects from a single vehicle blocks the erasure of that vehicle from the registry:
  the aggregate over the emptied scope is null, the column refuses it and the whole statement rolls back.
  The dispatch still returns, every policy of the registry stays as it was, those with other vehicles in scope
  included, the vehicle's telemetry is deleted, and the request never reads \<open>completed\<close>.
\<close>

theorem sole_vehicle_policy_blocks_erasure:
  assumes "w_pool w" and "et_tenant_id task = t" and "t \<noteq> []"
    and "er_subject_kind (et_payload task) = ''vehicle''" and "er_subject_identifier (et_payload task) = v"
    and "r \<in> set (db_policies (w_db w))" and "cp_tenant_id r = t" and "cp_vehicle_scope r = JArr [JStr v]"
  shows "\<exists>w'. erasure_dispatch rt task w = (Inr (), w') \<and> db_policies (w_db w') = db_policies (w_db w) \<and>
    (\<forall>ob \<in> set (db_telemetry (w_db w')). \<not> (to_tenant_id ob = t \<and> to_vehicle_id ob = v)) \<and>
    \<not> request_status t (et_request_id task) ''completed'' (w_db w')"
proof -
  from erasure_dispatch_returns [OF assms(1)] obtain w' where run: "erasure_dispatch rt task w = (Inr (), w')" ..
  then obtain r1 w1 r2 w2 r3 w3 at0 where a: "erase_registry t (et_payload task) w = (r1, w1)"
    and b: "erase_telemetry t (et_payload task) w1 = (r2, w2)" and c: "redact_audit rt t (et_payload task) w2 = (r3, w3)"
    and f: "finish_request (tenant_conn t (w_session w3)) (et_request_id task)
      (erasure_status [store_status (if er_mode (et_payload task) = ''erased'' then ''erased'' else ''redacted'') r1,
         store_status ''erased'' r2, store_status ''redacted'' r3])
      (per_store_json (store_status (if er_mode (et_payload task) = ''erased'' then ''erased'' else ''redacted'') r1)
         (store_status ''erased'' r2) (store_status ''redacted'' r3)) at0 (w_db w3) = Inr ((), w_db w')"
    unfolding assms(2) [symmetric] by (rule erasure_dispatch_InrE)
  have "\<exists>e. erase_policies (set_erasure ''on'' (tenant_conn t (w_session w))) t v (w_db w) = Inl e"
    by (rule erase_policies_sole [OF assms(6) _ assms(7,8)]) (simp add: assms(3))
  with erase_registry_vehicle [OF a assms(4)] assms(5) obtain e where r1: "r1 = Inl e" and w1: "w_db w1 = w_db w" by auto
  have w1p: "w_pool w1" using pool_kept(1) [OF a] assms(1) by simp
  then have r2: "r2 = Inr ()" using b by (auto simp: erase_telemetry_def acquire_def transaction_def sql_def delete_telemetry_def
      act_return_def split: if_splits)
  with erase_telemetry_vehicle [OF b assms(4)] assms(5)
  have d: "delete_telemetry (tenant_conn t (w_session w1)) t v (w_db w1) = Inr ((), w_db w2)" by auto
  obtain rows where w3: "w_db w3 = (w_db w2)\<lparr>db_audit := rows\<rparr>" using redact_audit_db [OF c] by blast
  have "\<not> request_status t (et_request_id task) ''completed'' (w_db w')"
    using finish_request_status [OF f assms(3)] r1 by (auto simp: erasure_status_def store_status_def)
  moreover have "db_policies (w_db w') = db_policies (w_db w)"
    using finish_request_tables(1) [OF f] w3 delete_telemetry_tables(1) [OF d] w1 by simp
  moreover have "\<not> (to_tenant_id o' = t \<and> to_vehicle_id o' = v)" if "o' \<in> set (db_telemetry (w_db w'))" for o'
    using that finish_request_tables(2) [OF f] w3 assms(3) by (simp add: delete_telemetry_tables(2) [OF d])
  ultimately show ?thesis using run by blast
qed

section \<open>A tenant with one policy\<close>

definition scoped_policy :: "string list \<Rightarrow> policy_row" where
  "scoped_policy vs =
     \<lparr>cp_tenant_id = ''t1'', cp_policy_id = ''p'', cp_version = ''1.0.0'', cp_signal_spec = JArr [JStr ''s''],
      cp_trigger_conditions = JArr [], cp_window_hours = 24, cp_vehicle_scope = JArr (map JStr vs), cp_hypothesis = ''h'',
      cp_governance_flags = JObj [], cp_confidence = 0, cp_session_id = ''s'', cp_originating_finding = JObj [],
      cp_prompt_template_version = ''1.0.0'', cp_slm_repo = ''r'', cp_slm_revision_sha = replicate 40 (CHR ''0''),
      cp_slm_runtime = ''stub'', cp_slm_runtime_version = ''x'', cp_slm_quantization = ''none'', cp_slm_decoding_seed = 7,
      cp_payload_signature = ''sig'', cp_signature_key_id = ''k'', cp_created_at = 0\<rparr>"

definition vehicle_task :: erasure_task where
  "vehicle_task = \<lparr>et_tenant_id = ''t1'', et_request_id = ''q'',
     et_payload = \<lparr>er_subject_kind = ''vehicle'', er_subject_identifier = ''v1'', er_mode = ''erased''\<rparr>\<rparr>"

definition requested_erasure :: erasure_row where
  "requested_erasure =
     \<lparr>eq_request_id = ''q'', eq_tenant_id = ''t1'', eq_subject_kind = ''vehicle'', eq_subject_identifier = ''v1'',
      eq_requested_by = ''svc'', eq_requested_at = 0, eq_target_completion_at = bound_days_us, eq_status = ''requested'',
      eq_per_store_status = per_store_json ''pending'' ''pending'' ''pending'', eq_mode = ''erased'', eq_completed_at = None\<rparr>"

definition erasure_world :: "string list \<Rightarrow> world" where
  "erasure_world vs = sample_world\<lparr>w_db := (w_db sample_world)\<lparr>db_policies := [scoped_policy vs],
     db_telemetry := [\<lparr>to_tenant_id = ''t1'', to_vehicle_id = ''v1'', to_signal_name = ''s'', to_value = 1, to_observed_at = 0,
       to_policy_ref = JNull, to_source = ''simulator''\<rparr>], db_erasures := [requested_erasure]\<rparr>\<rparr>"

lemma vehicle_task_simps [simp]:
  "et_tenant_id vehicle_task = ''t1''" "et_request_id vehicle_task = ''q''"
  "er_subject_kind (et_payload vehicle_task) = ''vehicle''" "er_subject_identifier (et_payload vehicle_task) = ''v1''"
  by (simp_all add: vehicle_task_def)

lemma erasure_world_completes:
  "case erasure_dispatch plain_rt vehicle_task (erasure_world [''v1'', ''v2'']) of (r, w') \<Rightarrow>
     r = Inr () \<and> map eq_status (db_erasures (w_db w')) = [''completed''] \<and>
     map cp_vehicle_scope (db_policies (w_db w')) = [JArr [JStr ''v2'']]"
  by code_simp

theorem erasure_completed_means_erased_witness:
  "\<exists>w'. erasure_dispatch plain_rt vehicle_task (erasure_world [''v1'', ''v2'']) = (Inr (), w') \<and>
     map eq_status (db_erasures (w_db w')) = [''completed''] \<and>
     map cp_vehicle_scope (db_policies (w_db w')) = [JArr [JStr ''v2'']] \<and>
     tenant_frame ''t1'' (w_db (erasure_world [''v1'', ''v2''])) (w_db w')"
proof -
  obtain r w' where run: "erasure_dispatch plain_rt vehicle_task (erasure_world [''v1'', ''v2'']) = (r, w')" by (metis surj_pair)
  with erasure_world_completes have "r = Inr ()" "map eq_status (db_erasures (w_db w')) = [''completed'']"
    "map cp_vehicle_scope (db_policies (w_db w')) = [JArr [JStr ''v2'']]" by simp_all
  with erasure_completed_means_erased [of plain_rt vehicle_task "erasure_world [''v1'', ''v2'']" w' "''t1''" "''v1''"] run
  show ?thesis by simp
qed

theorem sole_vehicle_policy_blocks_erasure_witness:
  "\<exists>w'. erasure_dispatch plain_rt vehicle_task (erasure_world [''v1'']) = (Inr (), w') \<and>
     db_policies (w_db w') = [scoped_policy [''v1'']] \<and> \<not> request_status ''t1'' ''q'' ''completed'' (w_db w')"
  using sole_vehicle_policy_blocks_erasure [of "erasure_world [''v1'']" vehicle_task "''t1''" "''v1''" "scoped_policy [''v1'']" plain_rt]
  by (auto simp: erasure_world_def sample_world_def scoped_policy_def)

end
