(* ===== verification/CM_Query.thy ===== *)
theory CM_Query
  imports CM_Erasure CM_Tenant_Config CM_Slm
begin

text \<open>
  The operator query API, \<open>query/api.py\<close>: the check of path parameters, the six reads of the registry and
  the read of the tenant's own configuration.
\<close>

section \<open>query/api.py\<close>

definition safe_char :: "char \<Rightarrow> bool" where
  "safe_char c \<longleftrightarrow> is_ascii_alpha c \<or> is_digit c \<or> c \<in> {CHR ''_'', CHR ''-'', CHR ''.''}"

definition SAFE_ID :: re where
  "SAFE_ID = anchored 1 (Some 256) safe_char"

definition ensure_safe :: "string \<Rightarrow> string \<Rightarrow> exc + string" where
  "ensure_safe kind value = (if re_match SAFE_ID value = None then Inl (App (NotFound kind value)) else Inr value)"

text \<open>\<open>JSONResponse(content=found)\<close>, or the 404 for nothing found.\<close>

definition found_or_404 :: "string \<Rightarrow> string \<Rightarrow> json option \<Rightarrow> exc + http_response" where
  "found_or_404 kind value found =
     (case found of None \<Rightarrow> Inl (App (NotFound kind value)) | Some j \<Rightarrow> Inr (json_response 200 j))"

definition get_policy :: "principal \<Rightarrow> string \<Rightarrow> (exc, 'z world_scheme, http_response) act" where
  "get_policy p policy_id =
     act_bind (act_lift (ensure_safe ''policy'' policy_id)) (\<lambda>policy_id.
     act_bind (policy_get (pr_tenant_id p) policy_id None) (\<lambda>found.
     act_lift (found_or_404 ''policy'' policy_id (map_option JObj found))))"

text \<open>\<open>limit: int = Query(default=50, ge=1, le=200)\<close>.\<close>

definition limit_param :: "pydantic \<Rightarrow> string option \<Rightarrow> exc + nat" where
  "limit_param pyd raw =
     (case raw of
        None \<Rightarrow> Inr 50
      | Some s \<Rightarrow>
          (case v_int pyd (\<lambda>n. 1 \<le> n \<and> n \<le> 200) [''query'', ''limit''] (JStr s) of
             Inl es \<Rightarrow> Inl (RequestInvalid (JArr (map (\<lambda>e. JObj [(''type'', JStr (verr_type e)),
               (''loc'', JArr (map JStr (verr_loc e))), (''msg'', JStr (verr_msg pyd (verr_type e)))]) es)))
           | Inr n \<Rightarrow> Inr (nat n)))"

definition list_policy_versions :: "principal \<Rightarrow> string \<Rightarrow> nat \<Rightarrow> (exc, 'z world_scheme, http_response) act" where
  "list_policy_versions p policy_id limit =
     act_bind (act_lift (ensure_safe ''policy'' policy_id)) (\<lambda>policy_id.
     act_bind (list_versions (pr_tenant_id p) policy_id limit) (\<lambda>rows.
     act_lift (found_or_404 ''policy'' policy_id (if rows = [] then None else Some (JArr (map JObj rows))))))"

definition active_policy_for_group :: "principal \<Rightarrow> string \<Rightarrow> (exc, 'z world_scheme, http_response) act" where
  "active_policy_for_group p group_id =
     act_bind (act_lift (ensure_safe ''active_policy'' group_id)) (\<lambda>group_id.
     act_bind (find_active_for_vehicle (pr_tenant_id p) group_id) (\<lambda>found.
     act_lift (found_or_404 ''active_policy'' group_id (map_option JObj found))))"

definition outcome_for_finding :: "principal \<Rightarrow> string \<Rightarrow> (exc, 'z world_scheme, http_response) act" where
  "outcome_for_finding p finding_id =
     act_bind (act_lift (ensure_safe ''outcome'' finding_id)) (\<lambda>finding_id.
     act_bind (get_by_finding (pr_tenant_id p) finding_id) (\<lambda>found.
     act_lift (found_or_404 ''outcome'' finding_id (map_option JObj found))))"

definition audit_for_correlation :: "principal \<Rightarrow> string \<Rightarrow> (exc, 'z world_scheme, http_response) act" where
  "audit_for_correlation p correlation_id =
     act_bind (act_lift (ensure_safe ''correlation_id'' correlation_id)) (\<lambda>correlation_id.
     act_bind (list_for_correlation (pr_tenant_id p) correlation_id) (\<lambda>events.
     act_lift (found_or_404 ''correlation_id'' correlation_id (if events = [] then None else Some (JArr events)))))"

definition erasure_request_status :: "principal \<Rightarrow> string \<Rightarrow> (exc, 'z world_scheme, http_response) act" where
  "erasure_request_status p request_id =
     act_bind (act_lift (ensure_safe ''erasure_request'' request_id)) (\<lambda>request_id.
     act_bind (erasure_get (pr_tenant_id p) request_id) (\<lambda>record.
     act_lift (found_or_404 ''erasure_request'' request_id record)))"

definition bucket_json :: "rate_limit_bucket \<Rightarrow> json" where
  "bucket_json b = JObj [(''sustained_rps'', JInt (rb_sustained_rps b)), (''burst_capacity'', JInt (rb_burst_capacity b))]"

definition config_json :: "tenant_config \<Rightarrow> json" where
  "config_json config = JObj
     ([(''tenant_id'', JStr (cf_tenant_id config)), (''inbound'', bucket_json (cf_inbound config)),
       (''query'', bucket_json (cf_query config)), (''source'', JStr (cf_source config))] @
      (case cf_updated_at config of None \<Rightarrow> [] | Some t \<Rightarrow> [(''updated_at'', JStr t)]))"

definition get_own_tenant_config :: "pyrt \<Rightarrow> principal \<Rightarrow> (exc, 'z config_world_scheme, http_response) act" where
  "get_own_tenant_config rt p =
     act_bind (get_for_tenant rt (pr_tenant_id p)) (\<lambda>config. act_return (json_response 200 (config_json config)))"

text \<open>The reads by the path that reaches them.\<close>

datatype query_route =
    PolicyRoute string
  | VersionsRoute string "string option"
  | ActivePolicyRoute string
  | OutcomeRoute string
  | AuditRoute string
  | ErasureRoute string

fun run_query :: "pydantic \<Rightarrow> principal \<Rightarrow> query_route \<Rightarrow> (exc, 'z world_scheme, http_response) act" where
  "run_query pyd p (PolicyRoute policy_id) = get_policy p policy_id"
| "run_query pyd p (VersionsRoute policy_id limit) =
     act_bind (act_lift (limit_param pyd limit)) (list_policy_versions p policy_id)"
| "run_query pyd p (ActivePolicyRoute group_id) = active_policy_for_group p group_id"
| "run_query pyd p (OutcomeRoute finding_id) = outcome_for_finding p finding_id"
| "run_query pyd p (AuditRoute correlation_id) = audit_for_correlation p correlation_id"
| "run_query pyd p (ErasureRoute request_id) = erasure_request_status p request_id"

section \<open>Safe identifiers\<close>

text \<open>
  What the pattern admits: one to 256 of the listed characters, and then perhaps a newline, which the dollar
  does not exclude.
\<close>

lemma ensure_safe_iff:
  "ensure_safe kind value = Inr value \<longleftrightarrow>
     (\<exists>u t. value = u @ t \<and> (t = [] \<or> t = [CHR 0x0A]) \<and> 1 \<le> length u \<and> length u \<le> 256 \<and> (\<forall>c \<in> set u. safe_char c))"
proof -
  have "ensure_safe kind value = Inr value \<longleftrightarrow> re_match SAFE_ID value \<noteq> None" by (simp add: ensure_safe_def)
  then show ?thesis unfolding SAFE_ID_def anchored_match by simp
qed

section \<open>Isolation\<close>

interpretation sr_erasure: scoped_read "\<lambda>t c. request_of c t rid"
  by unfold_locales (simp add: request_of_def select_view)

interpretation sr_config: scoped_read "\<lambda>t c. config_row_of c t"
  by unfold_locales (simp add: config_row_of_def select_view)

text \<open>The contract all six reads have: a tenant-scoped read whose answer is rendered or a 404.\<close>

definition scoped_answer :: "string \<Rightarrow> (conn \<Rightarrow> db \<Rightarrow> 'r) \<Rightarrow> ('r \<Rightarrow> exc + http_response) \<Rightarrow> exc + unit \<Rightarrow>
    (exc, 'z world_scheme, http_response) act" where
  "scoped_answer t sel answer guard w =
     (case guard of
        Inl e \<Rightarrow> (Inl e, w)
      | Inr _ \<Rightarrow>
          if w_pool w then (answer (sel (tenant_conn t (w_session w)) (w_db w)), w)
          else (Inl (RuntimeError ''database pool is not initialized''), w))"

definition guard_of :: "string \<Rightarrow> string \<Rightarrow> exc + unit" where
  "guard_of kind value = (if re_match SAFE_ID value = None then Inl (App (NotFound kind value)) else Inr ())"

lemmas run_reads = act_bind_run act_run_simps acquire_def transaction_def query_def ensure_safe_def guard_of_def
  scoped_answer_def

lemma run_query_scoped:
  "get_policy p i = scoped_answer (pr_tenant_id p) (\<lambda>c. select_policy c (pr_tenant_id p) i None)
     (\<lambda>r. found_or_404 ''policy'' i (map_option (JObj \<circ> row_to_policy) r)) (guard_of ''policy'' i)"
  "list_policy_versions p i n = scoped_answer (pr_tenant_id p) (\<lambda>c. select_versions c (pr_tenant_id p) i n)
     (\<lambda>rs. found_or_404 ''policy'' i (if rs = [] then None else Some (JArr (map (JObj \<circ> row_to_policy) rs)))) (guard_of ''policy'' i)"
  "active_policy_for_group p i = scoped_answer (pr_tenant_id p) (\<lambda>c. select_active c (pr_tenant_id p) i)
     (\<lambda>r. found_or_404 ''active_policy'' i (map_option (JObj \<circ> row_to_policy) r)) (guard_of ''active_policy'' i)"
  "outcome_for_finding p i = scoped_answer (pr_tenant_id p) (\<lambda>c. select_outcome c (pr_tenant_id p) i)
     (\<lambda>r. found_or_404 ''outcome'' i (map_option (JObj \<circ> row_to_outcome) r)) (guard_of ''outcome'' i)"
  "audit_for_correlation p i = scoped_answer (pr_tenant_id p) (\<lambda>c. correlation_rows c (pr_tenant_id p) i)
     (\<lambda>rs. found_or_404 ''correlation_id'' i (if rs = [] then None else Some (JArr (map row_to_event rs)))) (guard_of ''correlation_id'' i)"
  "erasure_request_status p i = scoped_answer (pr_tenant_id p) (\<lambda>c. request_of c (pr_tenant_id p) i)
     (\<lambda>r. found_or_404 ''erasure_request'' i (map_option request_json r)) (guard_of ''erasure_request'' i)"
  by (rule ext, simp add: run_reads get_policy_def policy_get_def list_policy_versions_def list_versions_def
      active_policy_for_group_def find_active_for_vehicle_def outcome_for_finding_def get_by_finding_def
      audit_for_correlation_def list_for_correlation_def erasure_request_status_def erasure_get_def
      option.map_comp del: not_None_eq)+

lemma found_or_404_status: "resp_status (respond (found_or_404 kind i x)) \<in> {200, 404}"
  by (auto simp: found_or_404_def respond_def json_response_def collectmind_error_handler_def split: option.splits)

lemma guard_status: "guard_of kind i = Inl e \<Longrightarrow> resp_status (render_exception e) = 404"
  by (auto simp: guard_of_def collectmind_error_handler_def json_response_def split: if_splits)

lemma scoped_answer_world [simp]: "snd (scoped_answer t sel answer guard w) = w"
  by (simp add: scoped_answer_def split: sum.splits)

lemma scoped_answer_status:
  assumes "w_pool w" and "\<And>x. resp_status (respond (answer x)) \<in> {200, 404}"
  shows "resp_status (respond (fst (scoped_answer t sel answer (guard_of kind i) w))) \<in> {200, 404, 422}"
proof (cases "guard_of kind i")
  case (Inl e)
  then show ?thesis using guard_status [OF Inl] by (simp add: scoped_answer_def respond_def)
next
  case (Inr u)
  then show ?thesis using assms by (force simp: scoped_answer_def)
qed

context scoped_read
begin

lemma answer_isolated:
  assumes "env_kept w w'" and "tenant_view t (w_db w') = tenant_view t (w_db w)"
  shows "fst (scoped_answer t (read t) answer guard w') = fst (scoped_answer t (read t) answer guard w)"
  using assms(1) scoped [OF assms(2), of "w_session w"]
  by (auto simp: scoped_answer_def env_kept_def split: sum.splits)

end

lemma limit_param_bounds: "limit_param pyd raw = Inr n \<Longrightarrow> 1 \<le> n \<and> n \<le> 200"
  by (auto simp: limit_param_def v_int_def v_fail_def split: option.splits if_splits sum.splits)

lemma limit_param_Inl: "limit_param pyd raw = Inl e \<Longrightarrow> resp_status (render_exception e) = 422"
  by (auto simp: limit_param_def json_response_def split: option.splits sum.splits)

text \<open>An answer depends on the caller's own rows only.\<close>

lemma run_query_view:
  assumes "env_kept w w'" and "tenant_view (pr_tenant_id p) (w_db w') = tenant_view (pr_tenant_id p) (w_db w)"
  shows "fst (run_query pyd p q w') = fst (run_query pyd p q w)"
proof -
  note iso = sr_policy.answer_isolated sr_versions.answer_isolated sr_active.answer_isolated
    sr_outcome.answer_isolated sr_correlation.answer_isolated sr_erasure.answer_isolated
  note iso = iso [OF assms]
  show ?thesis
    by (cases q) (auto simp: run_query_scoped iso act_bind_run act_run_simps split: sum.splits)
qed

lemma run_query_answers:
  assumes "w_pool w"
  shows "snd (run_query pyd p q w) = w" "resp_status (respond (fst (run_query pyd p q w))) \<in> {200, 404, 422}"
proof -
  note st = scoped_answer_status [OF assms(1) found_or_404_status]
  have "snd (run_query pyd p q w) = w \<and> resp_status (respond (fst (run_query pyd p q w))) \<in> {200, 404, 422}"
  proof (cases q)
    case (VersionsRoute i raw)
    show ?thesis
    proof (cases "limit_param pyd raw")
      case (Inl e)
      with VersionsRoute limit_param_Inl [OF Inl] show ?thesis by (simp add: act_bind_run act_run_simps respond_def)
    next
      case (Inr n)
      with VersionsRoute show ?thesis
        by (simp add: act_bind_run act_run_simps run_query_scoped st del: insert_iff)
    qed
  qed (simp_all add: run_query_scoped st del: insert_iff)
  then show "snd (run_query pyd p q w) = w" "resp_status (respond (fst (run_query pyd p q w))) \<in> {200, 404, 422}"
    by blast+
qed

text \<open>
  The query API tells a tenant nothing about another: each of its reads answers 200 or 404 (422 for a limit
  out of range) and changes nothing, and whatever another tenant's operation did to the database in between,
  the answer is the same, so that a resource of another tenant is answered as one that does not exist.
\<close>

theorem query_answers_isolated:
  assumes "w_pool w" and "on_db (tenant_frame t) w w'" and "t \<noteq> pr_tenant_id p"
  shows "fst (run_query pyd p q w') = fst (run_query pyd p q w) \<and> snd (run_query pyd p q w) = w \<and>
    resp_status (respond (fst (run_query pyd p q w))) \<in> {200, 404, 422}"
  using assms(2,3) by (intro conjI run_query_view run_query_answers [OF assms(1)]) (simp_all add: on_db_def tenant_frame_def)

text \<open>
  The configuration a tenant reads is its own: entries of the cache are keyed by the tenant they were read
  for, and reading keeps this so.
\<close>

definition cache_keyed :: "'z config_world_scheme \<Rightarrow> bool" where
  "cache_keyed w \<longleftrightarrow> (\<forall>t e c. map_of (ca_data (cw_cache w)) t = Some (e, c) \<longrightarrow> cf_tenant_id c = t)"

lemma cache_keyed_mono:
  assumes "cache_keyed w" and "map_of (ca_data (cw_cache w')) \<subseteq>\<^sub>m map_of (ca_data (cw_cache w))"
  shows "cache_keyed w'"
  using assms unfolding cache_keyed_def map_le_def by (metis domI)

lemma effective_config_tenant: "cf_tenant_id (effective_config rt t d) = t"
proof (cases "filter (\<lambda>r. tc_tenant_id r = t) (db_config d)")
  case Nil
  then show ?thesis by (simp add: effective_config_def first_row_def default_config_def)
next
  case (Cons r rs)
  then have "tc_tenant_id r = t" using filter_eq_ConsD [OF Cons] by blast
  with Cons show ?thesis by (simp add: effective_config_def first_row_def config_of_row_def)
qed

lemma get_for_tenant_keyed:
  assumes "cache_keyed w" and "w_pool w" and "t \<noteq> []" and "1 \<le> ca_capacity (cw_cache w)"
  shows "\<exists>c w'. get_for_tenant rt t w = (Inr c, w') \<and> cf_tenant_id c = t \<and> cache_keyed w'"
proof (rule get_for_tenant_run [OF assms(2-4), of rt])
  fix e c assume h: "map_of (ca_data (cw_cache w)) t = Some (e, c)" "cw_mono w (cw_reads w) \<le> e"
    "get_for_tenant rt t w = (Inr c, w\<lparr>cw_reads := Suc (cw_reads w)\<rparr>)"
  have "cache_keyed (w\<lparr>cw_reads := Suc (cw_reads w)\<rparr>)" by (rule cache_keyed_mono [OF assms(1)]) simp
  with h assms(1) show ?thesis unfolding cache_keyed_def by blast
next
  fix w1 w' assume m: "map_of (ca_data (cw_cache w1)) \<subseteq>\<^sub>m map_of (ca_data (cw_cache w))"
    "ca_ttl (cw_cache w1) = ca_ttl (cw_cache w)" "w_db w1 = w_db w" "cw_mono w1 = cw_mono w" "cw_reads w \<le> cw_reads w1"
    and cap: "ca_capacity (cw_cache w1) = ca_capacity (cw_cache w)"
    and p: "cache_put t (effective_config rt t (w_db w)) w1 = (Inr (), w')"
    and g: "get_for_tenant rt t w = (Inr (effective_config rt t (w_db w)), w')"
  obtain data where d: "evict (cw_cache w1) = Inr data" "map_of data \<subseteq>\<^sub>m map_of (ca_data (cw_cache w1))"
    using evict_Inr [of "cw_cache w1"] assms(4) cap by metis
  have "cache_keyed (w1\<lparr>cw_cache := (cw_cache w1)\<lparr>ca_data := data\<rparr>\<rparr>)"
    by (rule cache_keyed_mono [OF assms(1)]) (use d(2) m(1) map_le_trans in auto)
  with p run_cache_put [OF d(1), of t "effective_config rt t (w_db w)"] have "cache_keyed w'"
    by (auto simp: cache_keyed_def AList.update_conv' effective_config_tenant split: if_splits)
  with g effective_config_tenant [of rt t "w_db w"] show ?thesis by blast
qed

lemma own_config_answer:
  assumes "cache_keyed w" and "w_pool w" and "pr_tenant_id p \<noteq> []" and "1 \<le> ca_capacity (cw_cache w)"
  shows "\<exists>c w'. get_own_tenant_config rt p w = (Inr (json_response 200 (config_json c)), w') \<and>
    cf_tenant_id c = pr_tenant_id p \<and> cache_keyed w'"
  using get_for_tenant_keyed [OF assms, of rt]
  by (auto simp: get_own_tenant_config_def act_bind_run act_run_simps)

section \<open>A concrete exchange\<close>

definition reader :: "string \<Rightarrow> principal" where
  "reader t = \<lparr>pr_tenant_id = t, pr_subject = ''svc'', pr_scopes = [], pr_token_id = ''j''\<rparr>"

text \<open>Another tenant's audit write between two reads.\<close>

definition neighbour_world :: world where
  "neighbour_world = snd (audit_write (audit_call ''t2'' ''accepted'' ''c'' ''svc'') (erasure_world [''v1'']))"

lemma neighbour_step: "on_db (tenant_frame ''t2'') (erasure_world [''v1'']) neighbour_world"
proof -
  let ?a = "audit_call ''t2'' ''accepted'' ''c'' ''svc''"
  obtain r where "audit_write ?a (erasure_world [''v1'']) = (r, neighbour_world)"
    unfolding neighbour_world_def by (metis prod.collapse)
  from act_preservesD [OF audit_write_step this]
  have "on_db (tenant_step ''t2'') (erasure_world [''v1'']) neighbour_world" by (simp add: audit_call_def)
  then show ?thesis by (simp add: on_db_def tenant_step_def)
qed

theorem query_answers_isolated_witness:
  "fst (run_query strict_pydantic (reader ''t1'') (PolicyRoute ''p'') neighbour_world) =
     Inr (json_response 200 (JObj (row_to_policy (scoped_policy [''v1''])))) \<and>
   fst (run_query strict_pydantic (reader ''t3'') (PolicyRoute ''p'') neighbour_world) = Inl (App (NotFound ''policy'' ''p''))"
proof -
  have "w_pool (erasure_world [''v1''])" by (simp add: erasure_world_def sample_world_def)
  note iso = query_answers_isolated [OF this neighbour_step, of "reader _" strict_pydantic "PolicyRoute ''p''"]
  have "fst (run_query strict_pydantic (reader ''t1'') (PolicyRoute ''p'') (erasure_world [''v1''])) =
      Inr (json_response 200 (JObj (row_to_policy (scoped_policy [''v1'']))))"
    "fst (run_query strict_pydantic (reader ''t3'') (PolicyRoute ''p'') (erasure_world [''v1''])) = Inl (App (NotFound ''policy'' ''p''))"
    by code_simp+
  then show ?thesis using iso [of "''t1''"] iso [of "''t3''"] by (simp add: reader_def)
qed

end
