(* ===== verification/CM_App.thy ===== *)
theory CM_App
  imports CM_Ratelimit CM_Ownership CM_Query
begin

text \<open>
  \<open>app.py\<close>: the choice of the model client, start and stop of the application, the route labels of the metrics
  middleware, the order of the middlewares, and the health and readiness endpoints; and the tenant-context
  middleware.  The migration runner and the loader of the signing key are parameters.
\<close>

section \<open>\_select\_policy\_client\<close>

datatype policy_client_kind = VLLMClient | LlamaCppClient | FingerprintStubClient | DevDefaultPolicyClient

definition env_or :: "(string \<Rightarrow> string option) \<Rightarrow> string \<Rightarrow> string \<Rightarrow> string" where
  "env_or env k dflt = (case env k of None \<Rightarrow> dflt | Some v \<Rightarrow> v)"

definition dev_default_refused :: "string \<Rightarrow> exc" where
  "dev_default_refused env = RuntimeError (''SLM_PROFILE=dev_default is not allowed when COLLECTMIND_ENV='' @ repr_str env
     @ ''. Per ADR-0006, the DevDefaultPolicyClient is gated to local-only foundation smoke. ''
     @ ''Set SLM_PROFILE to one of {vllm, cpu, stub}.'')"

definition select_policy_client :: "(string \<Rightarrow> string option) \<Rightarrow> exc + policy_client_kind" where
  "select_policy_client environ =
     (let profile = lower (env_or environ ''SLM_PROFILE'' ''dev_default'');
          env = lower (env_or environ ''COLLECTMIND_ENV'' ''local'') in
      if profile = ''vllm'' then Inr VLLMClient
      else if profile \<in> {''cpu'', ''llama_cpp''} then Inr LlamaCppClient
      else if profile = ''stub'' then Inr FingerprintStubClient
      else if env \<noteq> ''local'' then Inl (dev_default_refused env)
      else Inr DevDefaultPolicyClient)"

section \<open>\_lifespan\<close>

text \<open>
  What the process holds beside the limiter's state: the started producer, the configuration listener, the
  feedback task, the attributes of \<open>app.state\<close> (set at the end of the start), the flag of the tests and
  whether the limiter object has been made.
\<close>

record 'c app_world = "'c limiter_world" +
  ap_kafka :: bool
  ap_listener :: listener
  ap_feedback :: bool
  ap_state :: bool
  ap_disabled :: bool
  ap_middleware :: bool

definition kafka_start :: "(exc, ('c, 'z) app_world_scheme, unit) act" where
  "kafka_start = act_modify (\<lambda>w. w\<lparr>ap_kafka := True\<rparr>)"

definition kafka_stop :: "(exc, ('c, 'z) app_world_scheme, unit) act" where
  "kafka_stop = act_modify (\<lambda>w. w\<lparr>ap_kafka := False\<rparr>)"

definition lifespan_start ::
  "pyrt \<Rightarrow> (string \<Rightarrow> string option) \<Rightarrow> settings \<Rightarrow> (exc, ('c, 'z) app_world_scheme, unit) act \<Rightarrow>
   (string \<Rightarrow> (exc, ('c, 'z) app_world_scheme, 'key) act) \<Rightarrow>
   (exc, ('c, 'z) app_world_scheme, 'key \<times> policy_client_kind \<times> simulator \<times> rat) act" where
  "lifespan_start rt environ settings apply_pending load_key =
     act_bind (if lower (env_or environ ''MIGRATIONS_AUTO_APPLY'' ''false'') = ''true'' then apply_pending else act_return ()) (\<lambda>_.
     act_bind connect (\<lambda>_.
     act_bind hot_connect (\<lambda>_.
     act_bind kafka_start (\<lambda>_.
     act_bind (act_modify (\<lambda>w. w\<lparr>ap_listener := listener_start (ap_listener w)\<rparr>)) (\<lambda>_.
     act_bind (load_key (env_or environ ''SIGNING_KEY_PATH'' ''./models/dev-signing.key'')) (\<lambda>signer.
     act_bind (act_lift (select_policy_client environ)) (\<lambda>policy_client.
     act_bind (act_lift (simulator_from_env rt environ)) (\<lambda>collector.
     act_bind (act_lift (new_scheduler rt environ (Some (time_acceleration_factor settings)))) (\<lambda>scheduler.
     act_bind (act_modify (\<lambda>w. w\<lparr>ap_state := True, ap_feedback := True\<rparr>)) (\<lambda>_.
     act_return (signer, policy_client, collector, scheduler)))))))))))"

definition lifespan_stop :: "(exc, ('c, 'z) app_world_scheme, unit) act" where
  "lifespan_stop =
     act_bind (act_modify (\<lambda>w. w\<lparr>ap_feedback := False\<rparr>)) (\<lambda>_.
     act_bind (act_modify (\<lambda>w. w\<lparr>ap_listener := listener_stop (ap_listener w)\<rparr>)) (\<lambda>_.
     act_bind kafka_stop (\<lambda>_.
     act_bind hot_close (\<lambda>_. close))))"

section \<open>Route labels and the metrics middleware\<close>

definition id_segment :: "string \<Rightarrow> bool" where
  "id_segment seg \<longleftrightarrow>
     re_match SAFE_ID seg \<noteq> None \<and> list_ex (\<lambda>c. py_isdigit c \<or> c \<in> set ''_-.'') seg"

definition normalize_route :: "string \<Rightarrow> string \<Rightarrow> string" where
  "normalize_route method path =
     (let segments = filter (\<lambda>s. s \<noteq> []) (split_on (CHR ''/'') path);
          out = map (\<lambda>seg. if id_segment seg then '':id'' else seg) segments;
          template = (if out \<noteq> [] then ''/'' @ join ''/'' out else ''/'') in
      upper method @ '' '' @ template)"

definition query_route_prefixes :: "string list" where
  "query_route_prefixes = [''GET /api/v1/policies'', ''GET /api/v1/vehicle-groups'', ''GET /api/v1/findings/:id/outcome'',
     ''GET /api/v1/audit'', ''GET /api/v1/erasure-requests'']"

definition is_query_route :: "string \<Rightarrow> bool" where
  "is_query_route route = list_ex (startswith route) query_route_prefixes"

text \<open>An observation is recorded by the metric and its labels, not by the value observed.\<close>

definition metrics_dispatch ::
  "request \<Rightarrow> (exc, 'z config_world_scheme, http_response) act \<Rightarrow> (exc, 'z config_world_scheme, http_response) act" where
  "metrics_dispatch rq call_next =
     act_bind monotonic (\<lambda>_.
     act_bind call_next (\<lambda>response.
     act_bind monotonic (\<lambda>_.
     let route = normalize_route (rq_method rq) (rq_path rq);
         status_class = show_nat (resp_status response div 100) @ ''xx'' in
     act_bind (metric_inc ''http_request_total'' [route, status_class]) (\<lambda>_.
     act_bind (if is_query_route route then metric_inc ''query_request_latency_seconds'' [route, status_class]
       else act_return ()) (\<lambda>_.
     act_return response)))))"

section \<open>The application\<close>

text \<open>
  The framework answers the exceptions it has a handler for inside the middlewares; any other passes through
  them.
\<close>

definition handled :: "exc \<Rightarrow> bool" where
  "handled e = (case e of App _ \<Rightarrow> True | HTTPException _ _ \<Rightarrow> True | RequestInvalid _ \<Rightarrow> True | _ \<Rightarrow> False)"

definition endpoint :: "(exc, 'w, http_response) act \<Rightarrow> (exc, 'w, http_response) act" where
  "endpoint m = act_catch m (\<lambda>e. if handled e then act_return (render_exception e) else act_raise e)"

definition ratelimit_dispatch ::
  "pyrt \<Rightarrow> ('c, 'k) jwt_lib \<Rightarrow> string \<Rightarrow> request \<Rightarrow> (exc, ('c, 'z) app_world_scheme, http_response) act \<Rightarrow>
   (exc, ('c, 'z) app_world_scheme, http_response) act" where
  "ratelimit_dispatch rt lib script_sha rq call_next w =
     (if ap_disabled w then call_next w
      else if ap_middleware w then dispatch rt lib script_sha rq call_next w
      else if \<not> ap_state w then call_next w
      else dispatch rt lib script_sha rq call_next (w\<lparr>ap_middleware := True, lm_lua_sha := None\<rparr>))"

definition app_call ::
  "pyrt \<Rightarrow> ('c, 'k) jwt_lib \<Rightarrow> string \<Rightarrow> request \<Rightarrow> (exc, ('c, 'z) app_world_scheme, http_response) act \<Rightarrow>
   (exc, ('c, 'z) app_world_scheme, http_response) act" where
  "app_call rt lib script_sha rq handler =
     ratelimit_dispatch rt lib script_sha rq (metrics_dispatch rq (endpoint handler))"

definition health :: http_response where
  "health = json_response 200 (JObj [(''status'', JStr ''ok'')])"

definition ready_word :: "bool \<Rightarrow> json" where
  "ready_word b = JStr (if b then ''ok'' else ''not_ready'')"

text \<open>\<open>app.state.kafka\<close> is the producer object, which is there once the application has started.\<close>

definition ready :: "(exc, ('c, 'z) app_world_scheme, http_response) act" where
  "ready =
     act_bind (act_gets ap_state) (\<lambda>started.
     if \<not> started then act_raise (AttributeError ''db'')
     else
       act_bind (attempted ping) (\<lambda>db_ok.
       act_bind (attempted hot_ping) (\<lambda>redis_ok.
       let db_ready = (db_ok = Inr True); redis_ready = (redis_ok = Inr True); kafka_ready = True;
           all_ready = (db_ready \<and> redis_ready \<and> kafka_ready) in
       act_return (json_response (if all_ready then 200 else 503)
         (JObj [(''ready'', JBool all_ready),
                (''components'', JObj [(''postgres'', ready_word db_ready), (''redis'', ready_word redis_ready),
                   (''kafka'', ready_word kafka_ready)])])))))"

section \<open>registry/middleware/tenant\_context.py\<close>

text \<open>What the middleware puts on \<open>request.state\<close>; a principal of an operator has no tenant.\<close>

record request_state =
  st_principal :: "principal option"
  st_tenant_id :: "string option"
  st_correlation_id :: string

definition tenant_context_dispatch ::
  "string option \<Rightarrow> request_state \<Rightarrow> (request_state \<Rightarrow> (exc, 'w, http_response) act) \<Rightarrow> (exc, 'w, http_response) act" where
  "tenant_context_dispatch correlation_header state call_next =
     (let tenant_id = map_option pr_tenant_id (st_principal state);
          state' = state\<lparr>st_tenant_id := tenant_id, st_correlation_id := (case correlation_header of None \<Rightarrow> [] | Some c \<Rightarrow> c)\<rparr> in
      act_catch (call_next state') act_raise)"

section \<open>Two labellings of a path\<close>

lemma safe_match: "seg \<noteq> [] \<Longrightarrow> list_all safe_char seg \<Longrightarrow> length seg \<le> 256 \<Longrightarrow> re_match SAFE_ID seg \<noteq> None"
  unfolding SAFE_ID_def anchored_match
  by (rule exI [of _ seg], rule exI [of _ "[]"]) (auto simp: list_all_iff Suc_le_eq)

lemma label_segment:
  assumes "re_match SAFE_ID seg \<noteq> None"
  shows "(if id_segment seg then '':id'' else seg) = endpoint_segment seg"
  using assms by (auto simp: id_segment_def endpoint_segment_def list_ex_iff)


section \<open>The query latency\<close>

lemma join_first:
  assumes "join ''/'' out = u @ CHR ''/'' # rest" and "\<forall>s \<in> set out. CHR ''/'' \<notin> set s" and "CHR ''/'' \<notin> set u"
  shows "\<exists>out'. out = u # out' \<and> join ''/'' out' = rest"
proof (cases out)
  case (Cons s out')
  show ?thesis
  proof (cases out')
    case Nil
    with Cons assms(1,2) show ?thesis by auto
  next
    case (Cons s' more)
    with \<open>out = s # out'\<close> assms(1) have "s @ CHR ''/'' # join ''/'' out' = u @ CHR ''/'' # rest" by simp
    from append_sep_inj [OF this] assms(2,3) \<open>out = s # out'\<close> show ?thesis by simp
  qed
qed (use assms(1) in simp)

lemma v1_collapses: "''v1'' \<noteq> (if id_segment seg then '':id'' else seg)"
proof -
  have "id_segment ''v1''" by code_simp
  then show ?thesis by auto
qed

lemma upper_space: "CHR '' '' \<in> set (upper m) \<longleftrightarrow> CHR '' '' \<in> set m"
proof -
  have "ascii_upper c = CHR '' '' \<longleftrightarrow> c = CHR '' ''" for c
  proof
    assume u: "ascii_upper c = CHR '' ''"
    show "c = CHR '' ''"
    proof (cases "97 \<le> code c \<and> code c \<le> 122")
      case True
      with u have "char_of (code c - 32) = CHR '' ''" by (simp add: ascii_upper_def)
      then have "(of_char (char_of (code c - 32) :: char) :: nat) = 32" by simp
      then have "(code c - 32) mod 256 = 32" by simp
      moreover have "(code c - 32) mod 256 = code c - 32" by (rule mod_less) (use True in linarith)
      ultimately show ?thesis using True by linarith
    next
      case False
      with u show ?thesis unfolding ascii_upper_def by (simp only: if_False)
    qed
  qed (simp add: ascii_upper_def)
  then have "CHR '' '' \<in> ascii_upper ` set m \<longleftrightarrow> CHR '' '' \<in> set m" unfolding image_iff by metis
  then show ?thesis by (simp only: upper_def set_map)
qed

lemma not_query_route:
  assumes "CHR '' '' \<notin> set method"
  shows "\<not> is_query_route (normalize_route method path)"
proof
  assume "is_query_route (normalize_route method path)"
  then obtain rest where r: "normalize_route method path = ''GET'' @ CHR '' '' # ''/api/v1/'' @ rest"
    by (auto simp: is_query_route_def query_route_prefixes_def startswith_append)
  let ?out = "map (\<lambda>seg. if id_segment seg then '':id'' else seg) (filter (\<lambda>s. s \<noteq> []) (split_on (CHR ''/'') path))"
  have "upper method @ CHR '' '' # (if ?out \<noteq> [] then ''/'' @ join ''/'' ?out else ''/'') = ''GET'' @ CHR '' '' # ''/api/v1/'' @ rest"
    using r by (simp add: normalize_route_def Let_def del: map_is_Nil_conv map_eq_conv)
  from append_sep_inj [OF this] assms have "(if ?out \<noteq> [] then ''/'' @ join ''/'' ?out else ''/'') = ''/api/v1/'' @ rest"
    by (simp add: upper_space)
  then have j: "join ''/'' ?out = ''api'' @ CHR ''/'' # ''v1'' @ CHR ''/'' # rest" by (simp split: if_splits)
  have sl: "\<forall>s \<in> set ?out. CHR ''/'' \<notin> set s" using split_on_pieces by fastforce
  from join_first [OF j sl] obtain out' where o: "?out = ''api'' # out'" "join ''/'' out' = ''v1'' @ CHR ''/'' # rest" by auto
  from join_first [OF o(2)] sl o(1) obtain out'' where "out' = ''v1'' # out''" by auto
  with o(1) have "''v1'' \<in> set ?out" by simp
  then show False unfolding set_map using v1_collapses by blast
qed

definition latency_count :: "'z world_scheme \<Rightarrow> nat" where
  "latency_count w = length (filter (\<lambda>(m, _). m = ''query_request_latency_seconds'') (w_metrics w))"

text \<open>
  The query latency is never observed: \<open>v1\<close> itself looks like an identifier to the labelling, so that no
  label starts with a query prefix, for no method and no path.  Unless the wrapped application records the
  metric itself, the middleware leaves its observations as they are.
\<close>

theorem query_latency_never_observed:
  assumes "CHR '' '' \<notin> set (rq_method rq)" and "act_preserves (\<lambda>w w'. latency_count w' = latency_count w) call_next"
  shows "\<not> is_query_route (normalize_route (rq_method rq) (rq_path rq)) \<and>
    act_preserves (\<lambda>w w'. latency_count w' = latency_count w) (metrics_dispatch rq call_next)"
proof -
  let ?R = "\<lambda>w w' :: 'a config_world_scheme. latency_count w' = latency_count w"
  have ord: "reflp ?R" "transp ?R" by (auto intro!: reflpI transpI)
  have mono: "act_preserves ?R monotonic"
    by (simp add: act_preserves_def monotonic_def latency_count_def)
  have inc: "act_preserves ?R (metric_inc ''http_request_total'' ls)" for ls
    by (simp add: act_preserves_def metric_inc_def act_run_simps latency_count_def)
  have "act_preserves ?R (metrics_dispatch rq call_next)"
    unfolding metrics_dispatch_def Let_def
    by (intro act_preserves_bind ord mono inc assms(2))
      (simp_all add: not_query_route [OF assms(1)] act_preserves_pure ord)
  then show ?thesis using not_query_route [OF assms(1)] by blast
qed

section \<open>Start, stop and readiness\<close>

text \<open>The development client answers only in the local environment.\<close>

lemma dev_default_only_local:
  assumes "select_policy_client environ = Inr DevDefaultPolicyClient"
  shows "lower (env_or environ ''COLLECTMIND_ENV'' ''local'') = ''local''"
  using assms by (auto simp: select_policy_client_def Let_def split: if_splits)

lemmas run_app = act_bind_run act_run_simps connect_def close_def hot_connect_def hot_close_def kafka_start_def kafka_stop_def

lemma lifespan_stop_releases:
  "\<exists>w'. lifespan_stop w = (Inr (), w') \<and> \<not> w_pool w' \<and> \<not> rs_client w' \<and> \<not> ap_kafka w' \<and> \<not> ap_feedback w' \<and>
     \<not> li_task (ap_listener w') \<and> \<not> li_conn (ap_listener w')"
  by (simp add: lifespan_stop_def run_app listener_stop_def)

text \<open>
  A start that fails after the connections were made, as it does for the development client outside the local
  environment, never reaches the code that releases them.
\<close>

lemma failed_start_keeps_connections:
  assumes "select_policy_client environ = Inl e" and "\<And>p w. load_key p w = (Inr k, w)"
    and "lower (env_or environ ''MIGRATIONS_AUTO_APPLY'' ''false'') \<noteq> ''true''"
  shows "\<exists>w'. lifespan_start rt environ settings mig load_key w = (Inl e, w') \<and> w_pool w' \<and> rs_client w' \<and> ap_kafka w' \<and>
    li_task (ap_listener w')"
  using assms by (simp add: lifespan_start_def run_app listener_start_def)

lemma ready_answer:
  assumes "ap_state w"
  shows "resp_status (respond (fst (ready w))) =
    (if w_pool w \<and> rs_client w \<and> rs_fault w (rs_count w) = None then 200 else 503)"
  using assms
  by (auto simp: ready_def run_app attempted_def ping_def hot_ping_def redis_command_def Let_def respond_def json_response_def
      split: option.splits)

text \<open>A request the limiter turns away never reaches the request counter.\<close>

lemma refused_uncounted:
  assumes "\<not> is_exempt (rq_path rq)" and "ap_middleware w" and "\<not> ap_disabled w" and "rq_authorization rq = None"
  shows "app_call rt lib sha rq handler w = (Inr (unauthenticated ''missing bearer token''), w)"
  using assms by (simp add: app_call_def ratelimit_dispatch_def dispatch_def act_run_simps startswith_def lower_def)

section \<open>Concrete paths\<close>


theorem query_latency_never_observed_witness:
  "\<not> is_query_route (normalize_route ''GET'' ''/api/v1/policies/p'') \<and>
   latency_count (snd (metrics_dispatch sample_rq (act_return (json_response 200 JNull)) sample_config_world)) = 0"
proof -
  let ?next = "act_return (json_response 200 JNull) :: (exc, config_world, http_response) act"
  have keep: "act_preserves (\<lambda>w w'. latency_count w' = latency_count w) ?next" by (simp add: act_preserves_def act_run_simps)
  have "CHR '' '' \<notin> set (rq_method sample_rq)" by (simp add: sample_rq_def)
  note no = query_latency_never_observed [OF this keep]
  obtain r w' where run: "metrics_dispatch sample_rq ?next sample_config_world = (r, w')" by (metis surj_pair)
  have "latency_count sample_config_world = 0" by (simp add: latency_count_def sample_config_world_def)
  with act_preservesD [OF conjunct2 [OF no] run] run no show ?thesis by (simp add: sample_rq_def)
qed

end
