(* ===== verification/CM_Metrics.thy ===== *)
theory CM_Metrics
  imports CM_Feedback CM_Ingest CM_App CM_Erasure
begin

text \<open>
  The metric declarations of \<open>observability/metrics.py\<close> and \<open>ratelimit/metrics.py\<close>, and that the code uses every
  metric with the labels it is declared with: the client library raises for any other number of label values.
  Help texts are left out.
\<close>

section \<open>Declarations\<close>

datatype metric_kind = Counter | Gauge | Histogram "rat list"

record metric =
  me_name :: string
  me_kind :: metric_kind
  me_labelnames :: "string list"

definition REGISTRY_NAMESPACE :: string where
  "REGISTRY_NAMESPACE = ''collectmind''"

definition declare_metric :: "metric_kind \<Rightarrow> string \<Rightarrow> string list \<Rightarrow> metric" where
  "declare_metric kind name labelnames =
     \<lparr>me_name = REGISTRY_NAMESPACE @ ''_'' @ name, me_kind = kind, me_labelnames = labelnames\<rparr>"

definition pipeline_metrics :: "metric list" where
  "pipeline_metrics =
     [declare_metric Counter ''diagnostic_findings_received_total'' [''tenant_id''],
      declare_metric Counter ''policy_generated_total'' [''tenant_id''],
      declare_metric Counter ''policy_validated_total'' [''tenant_id''],
      declare_metric Counter ''policy_deployed_total'' [''tenant_id''],
      declare_metric Counter ''policy_outcome_total'' [''tenant_id'', ''state''],
      declare_metric Counter ''policy_retry_total'' [''tenant_id''],
      declare_metric Gauge ''dead_letter_queue_depth'' [''kind''],
      declare_metric Counter ''authentication_failure_total'' [''reason''],
      declare_metric (Histogram [1/2, 1, 2, 4, 8, 12, 20, 30, 60, 120]) ''time_to_deploy_seconds'' [''tenant_id'']]"

definition request_metrics :: "metric list" where
  "request_metrics =
     [declare_metric (Histogram [1/100, 1/40, 1/20, 1/10, 1/5, 1/2, 1, 2, 5]) ''query_request_latency_seconds''
        [''route'', ''status_class''],
      declare_metric (Histogram [1, 5, 15, 30, 60, 120, 300, 600, 1800]) ''policy_outcome_write_delay_seconds'' [''tenant_id''],
      declare_metric Counter ''http_request_total'' [''route'', ''status_class'']]"

definition slm_metrics :: "metric list" where
  "slm_metrics =
     [declare_metric (Histogram [1/10, 1/4, 1/2, 1, 2, 4, 8, 16]) ''slm_generation_latency_seconds'' [''runtime''],
      declare_metric Counter ''slm_constraint_violation_total'' [''runtime''],
      declare_metric Gauge ''slm_weight_sha_active'' [''sha''],
      declare_metric Gauge ''slm_runtime_image_digest_active'' [''digest'', ''runtime'']]"

definition isolation_metrics :: "metric list" where
  "isolation_metrics =
     [declare_metric Counter ''break_glass_invocation_total'' [''operator_subject'', ''reason_code''],
      declare_metric Counter ''deployment_rejected_total''
        [''policy_declared_tenant_id'', ''vehicle_owning_tenant_id'', ''reason''],
      declare_metric Counter ''cross_tenant_access_attempt_total'' [''endpoint'', ''decision''],
      declare_metric Gauge ''tenant_config_cache_consumer_lag_seconds'' []]"

definition ratelimit_metrics :: "metric list" where
  "ratelimit_metrics =
     [declare_metric Counter ''ratelimit_decision_total'' [''tenant_id'', ''endpoint'', ''decision''],
      declare_metric Counter ''ratelimit_throttled_total'' [''tenant_id'', ''endpoint''],
      declare_metric Counter ''ratelimit_redis_unavailable_total'' [''endpoint'']]"

definition all_metrics :: "metric list" where
  "all_metrics = pipeline_metrics @ request_metrics @ slm_metrics @ isolation_metrics @ ratelimit_metrics"

section \<open>Label use\<close>

text \<open>A use names the metric by the variable it is bound to, or by its full name.\<close>

definition labelled :: "string \<times> string list \<Rightarrow> bool" where
  "labelled u = (case u of (name, labels) \<Rightarrow>
     (case find (\<lambda>m. me_name m = name \<or> me_name m = REGISTRY_NAMESPACE @ ''_'' @ name) all_metrics of
        None \<Rightarrow> False
      | Some m \<Rightarrow> length labels = length (me_labelnames m)))"

lemma labelled_uses:
  "labelled (''diagnostic_findings_received_total'', [a])" "labelled (''policy_generated_total'', [a])"
  "labelled (''policy_validated_total'', [a])" "labelled (''policy_deployed_total'', [a])"
  "labelled (''policy_outcome_total'', [a, b])" "labelled (''policy_retry_total'', [a])"
  "labelled (''time_to_deploy_seconds'', [a])" "labelled (''query_request_latency_seconds'', [a, b])"
  "labelled (''policy_outcome_write_delay_seconds'', [a])" "labelled (''http_request_total'', [a, b])"
  "labelled (''slm_weight_sha_active'', [a])" "labelled (''slm_runtime_image_digest_active'', [a, b])"
  "labelled (''collectmind_ratelimit_decision_total'', [a, b, c])" "labelled (''collectmind_ratelimit_throttled_total'', [a, b])"
  "labelled (''collectmind_ratelimit_redis_unavailable_total'', [a])"
  by (simp_all add: labelled_def all_metrics_def pipeline_metrics_def request_metrics_def slm_metrics_def isolation_metrics_def
      ratelimit_metrics_def declare_metric_def REGISTRY_NAMESPACE_def)

section \<open>What every operation does to the world\<close>

text \<open>
  The components touch the world only by statements on the database, by drawing from the clock and the
  supplies, and by recording metrics with their declared labels.  A relation that these respect is respected
  by every operation.
\<close>

named_theorems obeys \<open>actions that respect the relation\<close>

locale step_relation =
  fixes R :: "'z world_scheme \<Rightarrow> 'z world_scheme \<Rightarrow> bool"
  assumes order: "reflp R" "transp R"
    and steps: "R w (w\<lparr>w_db := d\<rparr>)" "R w (w\<lparr>w_ticks := n\<rparr>)" "R w (w\<lparr>w_nids := n\<rparr>)" "R w (w\<lparr>w_draws := n\<rparr>)"
    and metric_step: "labelled (nm, ls) \<Longrightarrow> R w (w\<lparr>w_metrics := w_metrics w @ [(nm, ls)]\<rparr>)"
begin

lemma obeys_pure [obeys]:
  "act_preserves R (act_return x)" "act_preserves R (act_raise e)" "act_preserves R (act_gets g)"
  "act_preserves R (act_lift r)" "act_preserves R now" "act_preserves R ulid_new"
  "act_preserves R (query q)" "act_preserves R (sql st)" "act_preserves R (draw_values n)"
  by (simp_all add: act_preserves_def act_run_simps now_def ulid_new_def query_def sql_def draw_values_def
      reflpD [OF order(1)] steps split: sum.splits prod.splits)

lemma obeys_metric: "labelled (nm, ls) \<Longrightarrow> act_preserves R (metric_inc nm ls)"
  by (simp add: act_preserves_def metric_inc_def act_run_simps metric_step)

lemma obeys_transaction:
  assumes "act_preserves R m"
  shows "act_preserves R (transaction m)"
proof (rule act_preservesI)
  fix w
  obtain r w' where m: "m w = (r, w')" by (cases "m w")
  have "R w w'" by (rule act_preservesD [OF assms m])
  then show "R w (snd (transaction m w))"
    using transpD [OF order(2) _ steps(1)] by (simp add: transaction_def m split: sum.splits)
qed

lemma obeys_acquire:
  assumes "\<And>c. act_preserves R (body c)"
  shows "act_preserves R (acquire t body)"
proof (rule act_preservesI)
  fix w :: "'z world_scheme"
  have "act_preserves R (transaction (body (tenant_conn t (w_session w))))" by (rule obeys_transaction) (rule assms)
  then show "R w (snd (acquire t body w))"
    using reflpD [OF order(1)] by (simp add: acquire_def act_preserves_def)
qed

lemmas obeys_rules = act_preserves_bind [OF order(2)] act_preserves_catch [OF order(2)] obeys_acquire
  act_preserves_attempted act_preserves_foreach [OF order] keeps_case_option keeps_case_sum keeps_case_prod keeps_if
  obeys_metric labelled_uses

lemma audit_write_obeys [obeys]: "act_preserves R (audit_write a)"
  unfolding audit_write_def by (auto intro!: obeys_rules obeys)

lemma repositories_obey [obeys]:
  "act_preserves R (policy_get t p v)" "act_preserves R (policy_insert rt t policy meta)"
  "act_preserves R (deployment_insert rt t rcd)" "act_preserves R (outcome_insert rt t outcome)"
  "act_preserves R (list_due at0)" "act_preserves R (mark_expired i)"
  unfolding policy_get_def policy_insert_def deployment_insert_def outcome_insert_def list_due_def mark_expired_def
  by (auto intro!: obeys_rules obeys)

lemma post_finding_obeys: "act_preserves R (post_finding cfg p body h directive)"
  unfolding post_finding_def pg_check_def persist_finding_def enqueue_def Let_def
  by (auto intro!: obeys_rules obeys)

lemma tick_obeys: "act_preserves R (tick rt factor)"
  unfolding tick_def process_def observe_delay_def collect_telemetry_def
  by (auto intro!: obeys_rules obeys)

lemma erasure_obeys:
  "act_preserves R (submit_erasure_request rt pyd p body)" "act_preserves R (erasure_dispatch rt task)"
  unfolding submit_erasure_request_def submit_def erasure_dispatch_def erase_registry_def erase_telemetry_def
    redact_audit_def Let_def
  by (auto intro!: obeys_rules obeys)

lemma simulate_obeys [obeys]: "act_preserves R (simulate rt t policy directive)"
  unfolding simulate_def Let_def by (auto intro!: obeys_rules obeys)

lemma graph_run_obeys:
  assumes "\<And>rq. act_preserves R (slm rq)" and "\<And>a. act_preserves R (col a)"
  shows "act_preserves R (graph_run cfg slm col s)"
proof -
  have at0: "act_preserves R (attempt cfg slm s)" for s
    unfolding attempt_def generate_def route_after_validation_def
    by (auto intro!: obeys_rules obeys assms)
  have "act_preserves R (graph_loop cfg slm s n)" for s n
    by (rule act_preservesI) (rule graph_loop_preserves [OF order at0])
  then show ?thesis unfolding graph_run_def deploy_node_def by (auto intro!: obeys_rules obeys assms)
qed

lemma run_async_obeys:
  assumes "\<And>rq. act_preserves R (slm rq)" and "\<And>a. act_preserves R (col a)"
  shows "act_preserves R (run_async rc slm col s directive)"
  unfolding run_async_def run_graph_def runtime_gauges_def persist_policy_def persist_deployment_def Let_def
  by (auto intro!: obeys_rules obeys graph_run_obeys assms)

end

text \<open>The same for the middlewares, which moreover use Redis, the configuration cache and the verifier.\<close>

locale app_relation = step_relation R for R :: "('c, 'z) app_world_scheme \<Rightarrow> ('c, 'z) app_world_scheme \<Rightarrow> bool" +
  assumes app_steps: "R w (w\<lparr>rs_count := n\<rparr>)" "R w (w\<lparr>rs_store := st\<rparr>)" "R w (w\<lparr>rs_scripts := sc\<rparr>)"
    "R w (w\<lparr>cw_reads := n\<rparr>)" "R w (w\<lparr>cw_cache := c\<rparr>)" "R w (w\<lparr>lm_verifier := v\<rparr>)" "R w (w\<lparr>lm_lua_sha := x\<rparr>)"
    "R w (w\<lparr>ap_middleware := b\<rparr>)"
begin

lemma redis_obeys:
  assumes "\<And>t w. R w (snd (f t w))"
  shows "act_preserves R (redis_command f)"
proof (rule act_preservesI)
  fix w
  have "R w (snd (f t (w\<lparr>rs_count := n\<rparr>)))" for t n
    using app_steps(1) assms transpD [OF order(2)] by blast
  then show "R w (snd (redis_command f w))"
    using app_steps(1) reflpD [OF order(1)] by (simp add: redis_command_def Let_def split: option.splits)
qed

lemma limiter_obeys:
  "act_preserves R monotonic" "act_preserves R (set_data d)" "act_preserves R (on_verifier m)"
  "act_preserves R (act_modify (\<lambda>w. w\<lparr>lm_lua_sha := x\<rparr>))" "act_preserves R (script_load sha)"
  "act_preserves R (evalsha sha k n s b)"
  unfolding script_load_def evalsha_def
  using app_steps reflpD [OF order(1)]
  by (auto simp: act_preserves_def monotonic_def set_data_def act_run_simps on_verifier_def Let_def
      split: prod.splits sum.splits option.splits if_splits intro!: redis_obeys [unfolded act_preserves_def, rule_format])

lemma get_for_tenant_obeys: "act_preserves R (get_for_tenant rt t)"
  unfolding get_for_tenant_def cache_get_def cache_put_def Let_def by (auto intro!: obeys_rules obeys limiter_obeys)

lemma dispatch_obeys:
  assumes "act_preserves R call_next"
  shows "act_preserves R (dispatch rt lib sha rq call_next)"
  unfolding dispatch_def limit_principal_def limiter_branches_def take_token_def ensure_lua_loaded_def Let_def
  by (auto intro!: obeys_rules obeys limiter_obeys get_for_tenant_obeys assms)

lemma app_call_obeys:
  assumes "act_preserves R handler"
  shows "act_preserves R (app_call rt lib sha rq handler)"
proof (rule act_preservesI)
  fix w
  have "act_preserves R (metrics_dispatch rq (endpoint handler))"
    unfolding metrics_dispatch_def endpoint_def Let_def
    by (auto intro!: obeys_rules obeys limiter_obeys assms)
  note next0 = this dispatch_obeys [OF this, of rt lib sha rq]
  have "R w (w\<lparr>ap_middleware := True, lm_lua_sha := None\<rparr>)"
    using app_steps(8) app_steps(7) transpD [OF order(2)] by blast
  then show "R w (snd (app_call rt lib sha rq handler w))"
    using next0 transpD [OF order(2)] by (simp add: app_call_def ratelimit_dispatch_def act_preserves_def)
qed

end

section \<open>Declared labels\<close>

definition metered :: "'z world_scheme \<Rightarrow> 'z world_scheme \<Rightarrow> bool" where
  "metered w w' \<longleftrightarrow> (list_all labelled (w_metrics w) \<longrightarrow> list_all labelled (w_metrics w'))"

interpretation metered: step_relation "metered :: 'z world_scheme \<Rightarrow> 'z world_scheme \<Rightarrow> bool"
  by unfold_locales (auto simp: metered_def intro!: reflpI transpI)

interpretation metered_app: app_relation "metered :: ('c, 'z) app_world_scheme \<Rightarrow> ('c, 'z) app_world_scheme \<Rightarrow> bool"
  by unfold_locales (auto simp: metered_def)


lemma simulator_metered: "act_preserves metered (simulator_deploy rt env sim a)"
proof -
  have "act_preserves metered draw_random" "act_preserves metered (act_modify (\<lambda>w. w\<lparr>sim_inflight := f w\<rparr>))" for f
    by (simp_all add: act_preserves_def metered_def draw_random_def act_run_simps)
  then show ?thesis unfolding simulator_deploy_def inject_failure_def Let_def
    by (auto intro!: metered.obeys_rules metered.obeys_pure)
qed


end
