(* ===== verification/CM_Break_Glass.thy ===== *)
theory CM_Break_Glass
  imports CM_Erasure CM_Slm
begin

text \<open>
  The break-glass read of the audit log, \<open>audit_admin/api.py\<close>: an operator's cross-tenant query that records
  itself in the transaction of the read.
\<close>

section \<open>audit\_admin/api.py\<close>

definition break_glass_extras :: "operator_principal \<Rightarrow> break_glass_request \<Rightarrow> dict" where
  "break_glass_extras op payload =
     [(''operator_principal_subject'', JStr (op_subject op)), (''tenant_scope'', JStr (bg_tenant_scope payload)),
      (''reason_code'', JStr (bg_reason_code payload))]"

text \<open>The row of step 1; the columns the statement does not name are null.\<close>

definition break_glass_row :: "operator_principal \<Rightarrow> break_glass_request \<Rightarrow> string \<Rightarrow> int \<Rightarrow> audit_row" where
  "break_glass_row op payload event_id occurred_at =
     audit_event_row ((audit_call (bg_tenant_scope payload) ''break_glass'' (bg_correlation_id payload) (op_subject op))
       \<lparr>aa_originating_finding := Some (break_glass_extras op payload)\<rparr>) event_id occurred_at"

definition row_extras :: "audit_row \<Rightarrow> dict" where
  "row_extras r = filter (\<lambda>(k, v). v \<noteq> JNull)
     [(''originating_finding'', ae_originating_finding r), (''policy_ref'', ae_policy_ref r),
      (''deployment_ref'', ae_deployment_ref r), (''outcome_ref'', ae_outcome_ref r)]"

definition projected_event :: "audit_row \<Rightarrow> json" where
  "projected_event r = JObj
     [(''event_id'', JStr (ae_event_id r)), (''tenant_id'', JStr (ae_tenant_id r)), (''kind'', JStr (ae_kind r)),
      (''correlation_id'', JStr (ae_correlation_id r)), (''occurred_at'', JTime (ae_occurred_at r)),
      (''extras'', if row_extras r = [] then JNull else JObj (row_extras r))]"

definition break_glass_query ::
  "pydantic \<Rightarrow> operator_principal \<Rightarrow> json \<Rightarrow> (exc, 'z world_scheme, http_response) act" where
  "break_glass_query pyd op body =
     act_bind (act_lift (case validate_break_glass_request body of
         Inl es \<Rightarrow> Inl (RequestInvalid (JArr (map (verr_json pyd) es))) | Inr q \<Rightarrow> Inr q)) (\<lambda>payload.
     act_bind ulid_new (\<lambda>event_id.
     act_bind (acquire_service_principal (\<lambda>c. transaction
         (act_bind now (\<lambda>t.
          act_bind (sql (insert_audit c (break_glass_row op payload event_id t))) (\<lambda>_.
          query (correlation_rows c (bg_tenant_scope payload) (bg_correlation_id payload))))))) (\<lambda>rows.
     let events = map projected_event rows in
     if events = []
     then act_raise (HTTPException 404 (JObj [(''code'', JStr ''no_events''), (''message'', JStr ''no audit events match'')]))
     else act_return (json_response 200 (JObj [(''events'', JArr events), (''total'', JInt (int (length events)))])))))"

section \<open>What an invocation records\<close>

lemma break_glass_row_simps [simp]:
  "ae_tenant_id (break_glass_row op q e t) = bg_tenant_scope q" "ae_event_id (break_glass_row op q e t) = e"
  "ae_kind (break_glass_row op q e t) = ''break_glass''" "ae_principal_subject (break_glass_row op q e t) = op_subject op"
  "ae_correlation_id (break_glass_row op q e t) = bg_correlation_id q"
  "ae_originating_finding (break_glass_row op q e t) = JObj (break_glass_extras op q)"
  "audit_key (break_glass_row op q e t) = (bg_correlation_id q, ''break_glass'')"
  by (simp_all add: break_glass_row_def audit_call_def audit_event_row_def audit_key_def originating_with_extras_def
      dump_or_null_def break_glass_extras_def)

definition matching_events :: "break_glass_request \<Rightarrow> db \<Rightarrow> audit_row list" where
  "matching_events q d =
     sort_key ae_occurred_at (filter (\<lambda>r. ae_tenant_id r = bg_tenant_scope q \<and> ae_correlation_id r = bg_correlation_id q) (db_audit d))"

definition event_list :: "audit_row list \<Rightarrow> json" where
  "event_list rows = JObj [(''events'', JArr (map projected_event rows)), (''total'', JInt (int (length rows)))]"

definition no_events :: exc where
  "no_events = HTTPException 404 (JObj [(''code'', JStr ''no_events''), (''message'', JStr ''no audit events match'')])"

lemma run_break_glass:
  assumes "w_pool w" and "c_role (w_session w) = Superuser" and "validate_break_glass_request body = Inr q"
  shows "break_glass_query pyd op body w =
    (let w1 = w\<lparr>w_nids := Suc (w_nids w), w_ticks := Suc (w_ticks w)\<rparr> in
     case insert_audit (w_session w) (break_glass_row op q (w_ids w (w_nids w)) (w_clock w (w_ticks w))) (w_db w) of
       Inl e \<Rightarrow> (Inl e, w1)
     | Inr (_, d) \<Rightarrow> (if matching_events q d = [] then Inl no_events else Inr (json_response 200 (event_list (matching_events q d))),
         w1\<lparr>w_db := d\<rparr>))"
  using assms
  by (simp add: break_glass_query_def act_bind_run act_run_simps ulid_new_def acquire_service_principal_def transaction_def
      now_def sql_def query_def Let_def correlation_rows_def select_def visible_def matching_events_def event_list_def
      no_events_def split: sum.splits prod.splits)

text \<open>
  C30. A break-glass read is on record: when an operator's query returns events, the log holds a break-glass
  event under the query's correlation id, the answer is exactly the events of the named tenant under that id,
  in order of occurrence, and the log has changed at most by the event that names the operator, the scope and
  the reason.  When the record cannot be written the query fails and nothing is read or changed.
\<close>

theorem break_glass_on_record:
  assumes "w_pool w" and "c_role (w_session w) = Superuser" and "validate_break_glass_request body = Inr q"
    and "break_glass_query pyd op body w = (r, w')"
  shows "case r of
      Inr resp \<Rightarrow> resp = json_response 200 (event_list (matching_events q (w_db w'))) \<and>
        (bg_correlation_id q, ''break_glass'') \<in> audit_key ` set (db_audit (w_db w')) \<and>
        (w_db w' = w_db w \<or> (\<exists>ev. w_db w' = (w_db w)\<lparr>db_audit := db_audit (w_db w) @ [ev]\<rparr> \<and>
          ae_tenant_id ev = bg_tenant_scope q \<and> ae_principal_subject ev = op_subject op \<and>
          ae_originating_finding ev = JObj (break_glass_extras op q)))
    | Inl e \<Rightarrow> w_db w' = w_db w"
proof -
  let ?ev = "break_glass_row op q (w_ids w (w_nids w)) (w_clock w (w_ticks w))"
  show ?thesis
  proof (cases "insert_audit (w_session w) ?ev (w_db w)")
    case (Inl e)
    with assms show ?thesis by (auto simp: run_break_glass Let_def)
  next
    case (Inr xd)
    obtain x d where xd: "xd = (x, d)" by (cases xd)
    with Inr have d: "d = w_db w \<and> audit_key ?ev \<in> audit_key ` set (db_audit (w_db w)) \<or>
        d = (w_db w)\<lparr>db_audit := db_audit (w_db w) @ [?ev]\<rparr>"
      by (auto simp: insert_audit_def split: if_splits)
    have w': "w_db w' = d" using assms Inr xd by (auto simp: run_break_glass Let_def)
    have r: "r = (if matching_events q d = [] then Inl no_events else Inr (json_response 200 (event_list (matching_events q d))))"
      using assms Inr xd by (simp add: run_break_glass Let_def split: if_splits)
    from d show ?thesis
    proof
      assume "d = w_db w \<and> audit_key ?ev \<in> audit_key ` set (db_audit (w_db w))"
      with r w' show ?thesis by simp
    next
      assume d': "d = (w_db w)\<lparr>db_audit := db_audit (w_db w) @ [?ev]\<rparr>"
      then have "matching_events q d \<noteq> []" by (simp add: matching_events_def flip: length_0_conv)
      with r w' d' show ?thesis by auto
    qed
  qed
qed

lemma validate_break_glass_Inr:
  assumes "validate_break_glass_request body = Inr q"
  shows "bg_tenant_scope q \<noteq> []" "bg_correlation_id q \<noteq> []" "bg_reason_code q \<in> set break_glass_reasons"
proof -
  from assms obtain d where d: "body = JObj d"
    by (cases body) (simp_all add: validate_break_glass_request_def v_fail_def)
  let ?ts = "v_field d [] ''tenant_scope'' (v_str 1 (Some 64) is_slug)"
  let ?ci = "v_field d [] ''correlation_id'' (v_str 1 (Some 64) is_slug)"
  let ?rc = "v_field d [] ''reason_code'' (v_literal break_glass_reasons)"
  from assms d have e: "errs ?ts = []" "errs ?ci = []" "errs ?rc = []"
    and q: "q = \<lparr>bg_tenant_scope = projr ?ts, bg_correlation_id = projr ?ci, bg_reason_code = projr ?rc\<rparr>"
    by (auto simp: validate_break_glass_request_def Let_def split: if_splits)
  have "?ts = Inr (bg_tenant_scope q)" "?ci = Inr (bg_correlation_id q)" "?rc = Inr (bg_reason_code q)"
    using q e by (simp_all add: errs_NilD)
  then show "bg_tenant_scope q \<noteq> []" "bg_correlation_id q \<noteq> []" "bg_reason_code q \<in> set break_glass_reasons"
    by (auto simp: v_field_Inr v_str_Inr v_literal_Inr)
qed

lemma break_glass_checks:
  assumes "validate_break_glass_request body = Inr q" and "op_subject op \<noteq> []" and "e \<noteq> []"
  shows "audit_checks (break_glass_row op q e t)"
  using validate_break_glass_Inr(2) [OF assms(1)] assms(2,3)
  by (simp add: audit_checks_def audit_kinds_def break_glass_row_def audit_call_def audit_event_row_def)

text \<open>
  The first invocation under a correlation id is always recorded and always answered, if only with its own
  record: the 404 for no events is out of reach.
\<close>

lemma break_glass_first:
  assumes "w_pool w" and "c_role (w_session w) = Superuser" and "validate_break_glass_request body = Inr q"
    and "(bg_correlation_id q, ''break_glass'') \<notin> audit_key ` set (db_audit (w_db w))"
    and "op_subject op \<noteq> []" and "w_ids w (w_nids w) \<noteq> []"
    and "w_ids w (w_nids w) \<notin> ae_event_id ` set (db_audit (w_db w))" and "bg_tenant_scope q \<in> set (db_tenants (w_db w))"
  shows "\<exists>w' ev. break_glass_query pyd op body w = (Inr (json_response 200 (event_list (matching_events q (w_db w')))), w') \<and>
    w_db w' = (w_db w)\<lparr>db_audit := db_audit (w_db w) @ [ev]\<rparr> \<and> ae_tenant_id ev = bg_tenant_scope q \<and>
    ae_principal_subject ev = op_subject op \<and> audit_key ev = (bg_correlation_id q, ''break_glass'')"
proof -
  let ?ev = "break_glass_row op q (w_ids w (w_nids w)) (w_clock w (w_ticks w))"
  let ?d = "(w_db w)\<lparr>db_audit := db_audit (w_db w) @ [?ev]\<rparr>"
  have "insert_audit (w_session w) ?ev (w_db w) = Inr (Some (w_ids w (w_nids w)), ?d)"
    using assms break_glass_checks [OF assms(3,5,6)] by (simp add: insert_audit_def visible_def)
  moreover have "matching_events q ?d \<noteq> []" by (simp add: matching_events_def flip: length_0_conv)
  ultimately show ?thesis using assms(1-3)
    by (intro exI [of _ "w\<lparr>w_nids := Suc (w_nids w), w_ticks := Suc (w_ticks w), w_db := ?d\<rparr>"] exI [of _ ?ev])
      (simp add: run_break_glass Let_def)
qed

text \<open>
  C31. A correlation id covers only one break-glass read: once the log holds a break-glass event under an id,
  of whatever operator and tenant, every further query with that id, of another operator or for another tenant
  or reason, leaves no trace in the log and is still answered with the events of the tenant it names.
\<close>

theorem break_glass_reuse_unrecorded:
  assumes "w_pool w" and "c_role (w_session w) = Superuser" and "validate_break_glass_request body = Inr q"
    and "(bg_correlation_id q, ''break_glass'') \<in> audit_key ` set (db_audit (w_db w))"
    and "op_subject op \<noteq> []" and "w_ids w (w_nids w) \<noteq> []"
  shows "\<exists>w'. w_db w' = w_db w \<and> break_glass_query pyd op body w =
    (if matching_events q (w_db w) = [] then Inl no_events else Inr (json_response 200 (event_list (matching_events q (w_db w)))), w')"
proof -
  from assms(2,4) break_glass_checks [OF assms(3,5,6)] have "insert_audit (w_session w) (break_glass_row op q (w_ids w (w_nids w)) (w_clock w (w_ticks w))) (w_db w) =
      Inr (None, w_db w)" by (simp add: insert_audit_def visible_def)
  with assms(1-3) show ?thesis by (simp add: run_break_glass Let_def)
qed

text \<open>An invocation is a step of the tenant it names.\<close>

lemma keeps_service:
  assumes "reflp R" and "\<And>c. act_preserves (on_db R) (body c)"
  shows "act_preserves (on_db R) (acquire_service_principal body)"
  using assms by (auto simp: act_preserves_def acquire_service_principal_def on_db_def env_kept_order dest: reflpD)

lemma insert_audit_any_step:
  assumes "insert_audit c r d = Inr (x, d')"
  shows "tenant_step (ae_tenant_id r) d d'"
  using assms tenant_step_order(1) [of "ae_tenant_id r"]
  by (auto simp: insert_audit_def split: if_splits intro: tenant_step_audit dest: reflpD)

lemma break_glass_insert_step:
  "insert_audit c (break_glass_row op q e t) d = Inr (x, d') \<Longrightarrow> tenant_step (bg_tenant_scope q) d d'"
  using insert_audit_any_step by fastforce

lemma act_lift_Inr: "act_lift (Inr x) = act_return x"
  by (rule ext) (simp add: act_run_simps)

lemma break_glass_step:
  assumes "\<And>q. validate_break_glass_request body = Inr q \<Longrightarrow> bg_tenant_scope q = t"
  shows "act_preserves (on_db (tenant_step t)) (break_glass_query pyd op body)"
proof (cases "validate_break_glass_request body")
  case (Inl es)
  then show ?thesis by (auto simp: break_glass_query_def act_bind_run act_run_simps act_preserves_def
      intro: reflpD [OF on_db_order(1) [OF tenant_step_order(1)]])
next
  case (Inr q)
  with assms have "bg_tenant_scope q = t" by blast
  then show ?thesis unfolding break_glass_query_def Let_def Inr sum.case act_lift_Inr act_return_bind
    by (auto intro!: keeps_rules keeps_sql keeps keeps_service keeps_transaction tenant_orders intro: break_glass_insert_step)
qed

section \<open>Two operators\<close>

definition operator_named :: "string \<Rightarrow> operator_principal" where
  "operator_named s = \<lparr>op_subject = s, op_token_id = ''j'', op_scopes = []\<rparr>"

definition glass_body :: "string \<Rightarrow> json" where
  "glass_body tenant = JObj [(''tenant_scope'', JStr tenant), (''correlation_id'', JStr ''c''), (''reason_code'', JStr ''legal_hold'')]"

definition glass_request :: "string \<Rightarrow> break_glass_request" where
  "glass_request tenant = \<lparr>bg_tenant_scope = tenant, bg_correlation_id = ''c'', bg_reason_code = ''legal_hold''\<rparr>"

lemma glass_body_valid:
  "validate_break_glass_request (glass_body ''t1'') = Inr (glass_request ''t1'')"
  "validate_break_glass_request (glass_body ''t2'') = Inr (glass_request ''t2'')"
  by code_simp+

lemma glass_request_simps [simp]:
  "bg_tenant_scope (glass_request t) = t" "bg_correlation_id (glass_request t) = ''c''" "op_subject (operator_named s) = s"
  by (simp_all add: glass_request_def operator_named_def)

lemma sample_session_role: "c_role (w_session sample_world) = Superuser"
  by (simp add: sample_world_def new_session_def)

lemma glass_first:
  obtains w' ev where "break_glass_query strict_pydantic (operator_named ''alice'') (glass_body ''t1'') sample_world =
      (Inr (json_response 200 (event_list (matching_events (glass_request ''t1'') (w_db w')))), w')"
    and "w_db w' = (w_db sample_world)\<lparr>db_audit := [ev]\<rparr>" and "ae_tenant_id ev = ''t1''"
    and "audit_key ev = (''c'', ''break_glass'')"
  using break_glass_first [OF _ sample_session_role glass_body_valid(1), of "operator_named ''alice''" strict_pydantic]
  by (auto simp: sample_world_def intro: that)

theorem break_glass_on_record_witness:
  "\<exists>resp w'. break_glass_query strict_pydantic (operator_named ''alice'') (glass_body ''t1'') sample_world = (Inr resp, w') \<and>
     (''c'', ''break_glass'') \<in> audit_key ` set (db_audit (w_db w'))"
proof -
  obtain w' ev where run: "break_glass_query strict_pydantic (operator_named ''alice'') (glass_body ''t1'') sample_world =
      (Inr (json_response 200 (event_list (matching_events (glass_request ''t1'') (w_db w')))), w')"
    by (rule glass_first)
  have "w_pool sample_world" by (simp add: sample_world_def)
  from break_glass_on_record [OF this sample_session_role glass_body_valid(1) run] run show ?thesis by auto
qed

definition glass_world :: world where
  "glass_world = sample_world\<lparr>w_db := (w_db sample_world)\<lparr>db_audit :=
     [break_glass_row (operator_named ''alice'') (glass_request ''t1'') ''e'' 0,
      (break_glass_row (operator_named ''alice'') (glass_request ''t2'') ''f'' 0)\<lparr>ae_kind := ''accepted''\<rparr>]\<rparr>\<rparr>"

theorem break_glass_reuse_unrecorded_witness:
  "\<exists>resp w'. break_glass_query strict_pydantic (operator_named ''bob'') (glass_body ''t2'') glass_world = (Inr resp, w') \<and>
     w_db w' = w_db glass_world"
proof -
  have "w_pool glass_world" "c_role (w_session glass_world) = Superuser" "w_ids glass_world (w_nids glass_world) \<noteq> []"
    by (simp_all add: glass_world_def sample_world_def new_session_def)
  moreover have "(''c'', ''break_glass'') \<in> audit_key ` set (db_audit (w_db glass_world))" by (simp add: glass_world_def)
  moreover have "matching_events (glass_request ''t2'') (w_db glass_world) \<noteq> []"
    by (simp add: matching_events_def glass_world_def flip: length_0_conv)
  ultimately show ?thesis
    using break_glass_reuse_unrecorded [OF _ _ glass_body_valid(2), of glass_world "operator_named ''bob''" strict_pydantic]
    by auto
qed

end
