(* ===== verification/CM_Service.thy ===== *)
theory CM_Service
  imports CM_Metrics CM_Break_Glass
begin

text \<open>
  The running service: the routes of all routers behind the middlewares, the tasks the handlers start, the
  feedback worker and the notifications of the configuration channel, as a transition system.  A request, a
  task and a turn of the worker are each one transition; they follow each other in any order.  The framework's
  reading of the authorization header and its answers to requests without a route are parameters.
\<close>

section \<open>State and configuration\<close>

text \<open>Beside the application's state: the operator verifier and the tasks started and not yet run.\<close>

record 'c service_world = "'c app_world" +
  sv_operator :: "'c verifier"
  sv_runs :: "task list"
  sv_erasures :: "erasure_task list"

record http_request = request +
  hr_body :: "json option"
  hr_correlation_id :: "string option"
  hr_directive :: "string option"
  hr_limit :: "string option"

record ('c, 'k, 'w) service =
  svc_ingest :: ingest_cfg
  svc_lib :: "('c, 'k) jwt_lib"
  svc_script_sha :: string
  svc_runner :: runner_cfg
  svc_slm :: "'w slm_client"
  svc_collector :: "'w collector"
  svc_credentials :: "string option \<Rightarrow> credentials"
  svc_unrouted :: "request \<Rightarrow> http_response"
  svc_exposition :: "(string \<times> string list) list \<Rightarrow> http_response"
  svc_body_invalid :: json

abbreviation svc_rt :: "('c, 'k, 'w) service \<Rightarrow> pyrt" where
  "svc_rt sv \<equiv> in_rt (svc_ingest sv)"

abbreviation svc_pyd :: "('c, 'k, 'w) service \<Rightarrow> pydantic" where
  "svc_pyd sv \<equiv> in_pyd (svc_ingest sv)"

section \<open>Routes\<close>

datatype target =
    PostFinding
  | PostErasure
  | BreakGlass
  | Query query_route
  | OwnConfig
  | Health
  | Ready
  | Metrics

definition api_path :: "string \<Rightarrow> string list option" where
  "api_path path =
     (case split_on (CHR ''/'') path of
        lead # api # v1 # rest \<Rightarrow> if lead = [] \<and> api = ''api'' \<and> v1 = ''v1'' then Some rest else None
      | _ \<Rightarrow> None)"

text \<open>The routes of \<open>GET\<close>; a path parameter is a non-empty segment.\<close>

definition get_route :: "string option \<Rightarrow> string list \<Rightarrow> target option" where
  "get_route limit rest =
     (case rest of
        [a] \<Rightarrow> if a = ''health'' then Some Health else if a = ''ready'' then Some Ready else None
      | [a, i] \<Rightarrow>
          if i = [] then None
          else if a = ''policies'' then Some (Query (PolicyRoute i))
          else if a = ''audit'' then Some (Query (AuditRoute i))
          else if a = ''erasure-requests'' then Some (Query (ErasureRoute i))
          else if a = ''tenant-config'' \<and> i = ''self'' then Some OwnConfig
          else None
      | [a, i, b] \<Rightarrow>
          if i = [] then None
          else if a = ''policies'' \<and> b = ''versions'' then Some (Query (VersionsRoute i limit))
          else if a = ''vehicle-groups'' \<and> b = ''active-policy'' then Some (Query (ActivePolicyRoute i))
          else if a = ''findings'' \<and> b = ''outcome'' then Some (Query (OutcomeRoute i))
          else None
      | _ \<Rightarrow> None)"

definition post_route :: "string list \<Rightarrow> target option" where
  "post_route rest =
     (if rest = [''findings''] then Some PostFinding
      else if rest = [''erasure-requests''] then Some PostErasure
      else if rest = [''audit'', ''break-glass'', ''query''] then Some BreakGlass
      else None)"

definition route_of :: "http_request \<Rightarrow> target option" where
  "route_of hr =
     (if rq_method hr = ''GET'' \<and> rq_path hr = ''/health'' then Some Health
      else if rq_method hr = ''GET'' \<and> rq_path hr = ''/ready'' then Some Ready
      else if rq_method hr = ''GET'' \<and> rq_path hr = ''/metrics'' then Some Metrics
      else case api_path (rq_path hr) of
        None \<Rightarrow> None
      | Some rest \<Rightarrow>
          if rq_method hr = ''GET'' then get_route (hr_limit hr) rest
          else if rq_method hr = ''POST'' then post_route rest
          else None)"

section \<open>Handlers\<close>

definition caller :: "('c, 'k, 'w) service \<Rightarrow> http_request \<Rightarrow> (exc, ('c, 'z) service_world_scheme, principal) act" where
  "caller sv hr = on_verifier (authenticated_principal (svc_lib sv) (svc_credentials sv (rq_authorization hr)))"

definition operator :: "('c, 'k, 'w) service \<Rightarrow> http_request \<Rightarrow> (exc, ('c, 'z) service_world_scheme, operator_principal) act" where
  "operator sv hr w =
     (case authenticated_operator_principal (svc_lib sv) (svc_credentials sv (rq_authorization hr)) (sv_operator w) of
        (r, v) \<Rightarrow> (r, w\<lparr>sv_operator := v\<rparr>))"

text \<open>A declared body is parsed before the dependencies are resolved.\<close>

definition parsed_body :: "('c, 'k, 'w) service \<Rightarrow> http_request \<Rightarrow> (exc, ('c, 'z) service_world_scheme, json) act" where
  "parsed_body sv hr =
     (case hr_body hr of None \<Rightarrow> act_raise (RequestInvalid (svc_body_invalid sv)) | Some j \<Rightarrow> act_return j)"

definition start_run :: "task option \<Rightarrow> (exc, ('c, 'z) service_world_scheme, unit) act" where
  "start_run task = act_modify (\<lambda>w. w\<lparr>sv_runs := sv_runs w @ (case task of None \<Rightarrow> [] | Some t \<Rightarrow> [t])\<rparr>)"

definition start_erasure :: "erasure_task \<Rightarrow> (exc, ('c, 'z) service_world_scheme, unit) act" where
  "start_erasure task = act_modify (\<lambda>w. w\<lparr>sv_erasures := sv_erasures w @ [task]\<rparr>)"

fun serve :: "('c, 'k, 'w) service \<Rightarrow> http_request \<Rightarrow> target \<Rightarrow> (exc, ('c, 'z) service_world_scheme, http_response) act" where
  "serve sv hr PostFinding =
     act_bind (caller sv hr) (\<lambda>p.
     act_bind (post_finding (svc_ingest sv) p (hr_body hr) (hr_correlation_id hr) (hr_directive hr)) (\<lambda>(response, task).
     act_bind (start_run task) (\<lambda>_. act_return response)))"
| "serve sv hr PostErasure =
     act_bind (parsed_body sv hr) (\<lambda>body.
     act_bind (caller sv hr) (\<lambda>p.
     act_bind (submit_erasure_request (svc_rt sv) (svc_pyd sv) p body) (\<lambda>(response, task).
     act_bind (start_erasure task) (\<lambda>_. act_return response))))"
| "serve sv hr BreakGlass =
     act_bind (parsed_body sv hr) (\<lambda>body.
     act_bind (operator sv hr) (\<lambda>op. break_glass_query (svc_pyd sv) op body))"
| "serve sv hr (Query q) = act_bind (caller sv hr) (\<lambda>p. run_query (svc_pyd sv) p q)"
| "serve sv hr OwnConfig = act_bind (caller sv hr) (get_own_tenant_config (svc_rt sv))"
| "serve sv hr Health = act_return health"
| "serve sv hr Ready = ready"
| "serve sv hr Metrics = act_bind (act_gets w_metrics) (\<lambda>ms. act_return (svc_exposition sv ms))"

definition handle :: "('c, 'k, 'w) service \<Rightarrow> http_request \<Rightarrow> (exc, ('c, 'z) service_world_scheme, http_response) act" where
  "handle sv hr =
     (case route_of hr of
        None \<Rightarrow> act_return (svc_unrouted sv (request.truncate hr))
      | Some target \<Rightarrow> serve sv hr target)"

definition answer :: "('c, 'k, 'w) service \<Rightarrow> http_request \<Rightarrow> (exc, ('c, 'z) service_world_scheme, http_response) act" where
  "answer sv hr = app_call (svc_rt sv) (svc_lib sv) (svc_script_sha sv) (request.truncate hr) (handle sv hr)"

section \<open>Transitions\<close>

datatype event =
    Answered http_request "exc + http_response"
  | Ran session "string option" "exc + unit"
  | Erased erasure_task "exc + unit"
  | Ticked "exc + nat"
  | Notified string

inductive service_step ::
  "('c, 'k, ('c, 'z) service_world_scheme) service \<Rightarrow> ('c, 'z) service_world_scheme \<Rightarrow> event \<Rightarrow>
   ('c, 'z) service_world_scheme \<Rightarrow> bool" for sv where
  request: "ap_state w \<Longrightarrow> answer sv hr w = (r, w') \<Longrightarrow> service_step sv w (Answered hr r) w'"
| run: "sv_runs w = before @ (s, directive) # rest \<Longrightarrow>
    run_async (svc_runner sv) (svc_slm sv) (svc_collector sv) s directive (w\<lparr>sv_runs := before @ rest\<rparr>) = (r, w') \<Longrightarrow>
    service_step sv w (Ran s directive r) w'"
| erase: "sv_erasures w = before @ task # rest \<Longrightarrow>
    erasure_dispatch (svc_rt sv) task (w\<lparr>sv_erasures := before @ rest\<rparr>) = (r, w') \<Longrightarrow>
    service_step sv w (Erased task r) w'"
| feedback: "tick (svc_rt sv) (rc_factor (svc_runner sv)) w = (r, w') \<Longrightarrow> service_step sv w (Ticked r) w'"
| notify: "on_notify payload w = (r, w') \<Longrightarrow> service_step sv w (Notified payload) w'"

inductive_cases service_stepE: "service_step sv w ev w'"

inductive served ::
  "('c, 'k, ('c, 'z) service_world_scheme) service \<Rightarrow> ('c, 'z) service_world_scheme \<Rightarrow> event list \<Rightarrow>
   ('c, 'z) service_world_scheme \<Rightarrow> bool" for sv where
  idle: "served sv w [] w"
| next_event: "served sv w tr w1 \<Longrightarrow> service_step sv w1 ev w2 \<Longrightarrow> served sv w (tr @ [ev]) w2"

section \<open>What a transition spares\<close>

text \<open>
  \<open>spares T\<close>: the schema invariant holds as before, the rows of the tenants in \<open>T\<close> are as they were, and no
  event disappears from the audit log.
\<close>

definition events_kept :: "db \<Rightarrow> db \<Rightarrow> bool" where
  "events_kept d d' \<longleftrightarrow> (\<forall>t cid k. has_event t cid k d \<longrightarrow> has_event t cid k d')"

definition spares :: "string set \<Rightarrow> db \<Rightarrow> db \<Rightarrow> bool" where
  "spares T d d' \<longleftrightarrow> (db_wf d \<longrightarrow> db_wf d') \<and> (\<forall>t \<in> T. tenant_view t d' = tenant_view t d) \<and> events_kept d d'"

lemma spares_order: "reflp (spares T)" "transp (spares T)"
  by (auto simp: spares_def events_kept_def intro!: reflpI transpI)

lemma spares_frame: "tenant_frame t d d' \<Longrightarrow> events_kept d d' \<Longrightarrow> t \<notin> T \<Longrightarrow> spares T d d'"
  by (auto simp: spares_def tenant_frame_def)

lemma spares_step: "tenant_step t d d' \<Longrightarrow> t \<notin> T \<Longrightarrow> spares T d d'"
  by (rule spares_frame) (auto simp: tenant_step_def events_kept_def has_event_def rows_kept_def)

lemma spares_action:
  assumes "act_preserves (on_db (tenant_step t)) m" and "t \<notin> T"
  shows "act_preserves (on_db (spares T)) m"
  using assms by (auto simp: act_preserves_def on_db_def intro: spares_step)

lemma act_preserves_bind_post:
  assumes "transp R" and "act_preserves R m" and "\<And>x s s'. m s = (Inr x, s') \<Longrightarrow> act_preserves R (f x)"
  shows "act_preserves R (act_bind m f)"
proof (rule act_preservesI)
  fix s
  obtain r s' where m: "m s = (r, s')" by (cases "m s")
  have "R s s'" by (rule act_preservesD [OF assms(2) m])
  then show "R s (snd (act_bind m f s))"
    using m assms(1) assms(3) [of s _ s']
    by (cases r) (auto simp: act_bind_run act_preserves_def dest: transpD)
qed

lemmas spares_bind = keeps_bind [OF spares_order(2)]
lemmas spares_bind_post = act_preserves_bind_post [OF on_db_order(2) [OF spares_order(2)]]

section \<open>The middlewares leave the database alone\<close>

lemma keeps_elsewhere:
  assumes "reflp R" and "\<And>w. w_db (snd (m w)) = w_db w \<and> env_kept w (snd (m w))"
  shows "act_preserves (on_db R) m"
  using assms by (auto simp: act_preserves_def on_db_def dest: reflpD)

lemma limiter_keeps [keeps]:
  assumes "reflp R"
  shows "act_preserves (on_db R) monotonic" "act_preserves (on_db R) (set_data d)" "act_preserves (on_db R) (on_verifier m)"
    "act_preserves (on_db R) (act_modify (\<lambda>w. w\<lparr>lm_lua_sha := x\<rparr>))" "act_preserves (on_db R) (script_load sha)"
    "act_preserves (on_db R) (evalsha sha k n s b)" "act_preserves (on_db R) hot_ping" "act_preserves (on_db R) ping"
    "act_preserves (on_db R) (operator sv hr)" "act_preserves (on_db R) (start_run task)"
    "act_preserves (on_db R) (start_erasure etask)"
  unfolding script_load_def evalsha_def redis_command_def hot_ping_def ping_def operator_def start_run_def start_erasure_def
  by (rule keeps_elsewhere [OF assms], auto simp: env_kept_def monotonic_def set_data_def act_run_simps on_verifier_def Let_def
      split: prod.splits sum.splits option.splits if_splits)+

lemma get_for_tenant_keeps [keeps]: "reflp R \<Longrightarrow> transp R \<Longrightarrow> act_preserves (on_db R) (get_for_tenant rt t)"
  unfolding get_for_tenant_def cache_get_def cache_put_def Let_def by (auto intro!: keeps_rules keeps)

lemma take_token_keeps: "reflp R \<Longrightarrow> transp R \<Longrightarrow> act_preserves (on_db R) (take_token sha key n limits)"
  unfolding take_token_def ensure_lua_loaded_def by (auto intro!: keeps_rules keeps)

lemma dispatch_keeps:
  assumes "reflp R" and "transp R" and "act_preserves (on_db R) call_next"
  shows "act_preserves (on_db R) (dispatch rt lib sha rq call_next)"
  unfolding dispatch_def limit_principal_def limiter_branches_def Let_def
  by (auto intro!: keeps_rules keeps assms take_token_keeps act_preserves_attempted)

lemma app_call_keeps:
  assumes "reflp R" and "transp R" and "act_preserves (on_db R) handler"
  shows "act_preserves (on_db R) (app_call rt lib sha rq handler)"
proof (rule act_preservesI)
  fix w
  have "act_preserves (on_db R) (metrics_dispatch rq (endpoint handler))"
    unfolding metrics_dispatch_def endpoint_def Let_def
    by (auto intro!: keeps_rules keeps assms)
  note next0 = this dispatch_keeps [OF assms(1,2) this, of rt lib sha rq]
  have "on_db R w (snd (dispatch rt lib sha rq (metrics_dispatch rq (endpoint handler)) (w\<lparr>ap_middleware := b, lm_lua_sha := x\<rparr>)))" for b x
    using next0(2) [unfolded act_preserves_def, rule_format, of "w\<lparr>ap_middleware := b, lm_lua_sha := x\<rparr>"]
    by (simp add: on_db_def env_kept_def)
  then show "on_db R w (snd (app_call rt lib sha rq handler w))"
    using next0 by (simp add: app_call_def ratelimit_dispatch_def act_preserves_def)
qed

section \<open>The handlers and tasks\<close>

lemma insert_request_step: "insert_request (tenant_conn t c) r d = Inr (u, d') \<Longrightarrow> tenant_step t d d'"
  by (auto simp: insert_request_def insert_row_def res_bind_Inr split: if_splits intro!: tenant_step_erasure)

lemma submit_erasure_step:
  "act_preserves (on_db (tenant_step (pr_tenant_id p))) (submit_erasure_request rt pyd p body)"
  unfolding submit_erasure_request_def submit_def Let_def
  by (auto intro!: keeps_rules keeps_sql keeps tenant_orders audit_write_tenant_step intro: insert_request_step
      simp: audit_call_def)

lemma process_step:
  assumes "dt_tenant_id r = PUBLIC"
  shows "act_preserves (on_db (tenant_step PUBLIC)) (process rt factor r)"
  unfolding process_def assms
  by (auto intro!: keeps_rules keeps tenant_orders outcome_insert_step audit_write_tenant_step
      simp: audit_outcome_def audit_call_def assms)

lemma list_due_public: "list_due at0 w = (Inr rows, w') \<Longrightarrow> r \<in> set rows \<Longrightarrow> dt_tenant_id r = PUBLIC"
  by (auto simp: list_due_def acquire_def transaction_def query_def act_run_simps select_due_def select_def
      split: if_splits dest!: in_set_takeD)

lemma foreach_step:
  assumes "\<And>x. x \<in> set xs \<Longrightarrow> act_preserves R (f x)" and "reflp R" and "transp R"
  shows "act_preserves R (act_foreach f xs)"
  using assms(1) by (induction xs) (auto intro!: act_preserves_bind act_preserves_pure assms(2,3))

lemma tick_step: "act_preserves (on_db (tenant_step PUBLIC)) (tick rt factor)"
proof -
  note ord = on_db_order(1) [OF tenant_step_order(1)] on_db_order(2) [OF tenant_step_order(2)]
  show ?thesis unfolding tick_def
    by (rule act_preserves_bind [OF ord(2)], intro keeps tenant_orders, rule act_preserves_bind_post [OF ord(2)],
        intro keeps tenant_orders, rule act_preserves_bind [OF ord(2)], rule foreach_step [OF process_step ord],
        erule list_due_public, assumption, intro keeps tenant_orders)
qed

lemma update_events:
  assumes "redact_events rt c t s d = Inr (u, d')"
  shows "events_kept d d'"
proof -
  from assms obtain rows where d': "d' = d\<lparr>db_audit := rows\<rparr>" and u: "list_all2 (\<lambda>r r'.
      if visible c (ae_tenant_id r) \<and> ae_tenant_id r = t \<and> names_subject rt s r then redact_event c s r = Inr r' else r' = r)
      (db_audit d) rows"
    by (auto simp: redact_events_def res_bind_Inr update_rows_Inr)
  have "map (\<lambda>r. (ae_tenant_id r, audit_key r)) rows = map (\<lambda>r. (ae_tenant_id r, audit_key r)) (db_audit d)"
    by (rule list_all2_map_eq [OF u]) (auto dest: redact_event_Inr(2,3) split: if_splits)
  from arg_cong [OF this, of set] have "(\<lambda>r. (ae_tenant_id r, audit_key r)) ` set rows =
      (\<lambda>r. (ae_tenant_id r, audit_key r)) ` set (db_audit d)" by simp
  moreover have "has_event t cid k e \<longleftrightarrow> (t, cid, k) \<in> (\<lambda>r. (ae_tenant_id r, audit_key r)) ` set (db_audit e)" for t cid k e
    by (force simp: has_event_def)
  ultimately show ?thesis by (simp add: events_kept_def d')
qed

lemma audit_same_events: "db_audit d' = db_audit d \<Longrightarrow> events_kept d d'"
  by (simp add: events_kept_def has_event_def)

lemma erasure_spares:
  assumes "et_tenant_id task \<notin> T"
  shows "act_preserves (on_db (spares T)) (erasure_dispatch rt task)"
proof -
  let ?t = "et_tenant_id task"
  have "spares T d d'" if "erase_policies c ?t v d = Inr (u, d')" for c v d u d'
    using erase_policies_frame [OF that] that assms
    by (auto intro!: spares_frame audit_same_events simp: erase_policies_def res_bind_Inr)
  moreover have "spares T d d'" if "delete_telemetry c ?t v d = Inr (u, d')" for c v d u d'
    using delete_telemetry_frame [OF that] that assms
    by (auto intro!: spares_frame audit_same_events simp: delete_telemetry_def)
  moreover have "spares T d d'" if "redact_events rt c ?t s d = Inr (u, d')" for c s d u d'
    using redact_events_frame(1) [OF that] update_events [OF that] assms by (rule spares_frame)
  moreover have "spares T d d'" if "finish_request (tenant_conn ?t c) i (erasure_status ps) j at0 d = Inr (u, d')"
    for c i ps j at0 d u d'
    using finish_status_frame [OF that] that assms
    by (auto intro!: spares_frame audit_same_events simp: finish_request_def)
  ultimately show ?thesis
    unfolding erasure_dispatch_def erase_registry_def erase_telemetry_def redact_audit_def Let_def
    by (auto intro!: keeps_rules keeps_sql keeps spares_order act_preserves_attempted)
qed

section \<open>Isolation\<close>

text \<open>
  An event that is not one of a tenant in \<open>T\<close>: a request that no state of the verifier's key cache
  authenticates as one of them, and whose body does not name one of them as the scope of a break-glass query;
  a task of another tenant; a turn of the feedback worker, which acts for the built-in tenant.
\<close>

definition foreign_event :: "('c, 'k, 'w) service \<Rightarrow> string set \<Rightarrow> event \<Rightarrow> bool" where
  "foreign_event sv T ev =
     (case ev of
        Answered hr _ \<Rightarrow>
          (\<forall>v p v'. authenticated_principal (svc_lib sv) (svc_credentials sv (rq_authorization hr)) v = (Inr p, v') \<longrightarrow>
             pr_tenant_id p \<notin> T) \<and>
          (\<forall>body q. hr_body hr = Some body \<longrightarrow> validate_break_glass_request body = Inr q \<longrightarrow> bg_tenant_scope q \<notin> T)
      | Ran s _ _ \<Rightarrow> ses_tenant_id s \<notin> T
      | Erased task _ \<Rightarrow> et_tenant_id task \<notin> T
      | Ticked _ \<Rightarrow> PUBLIC \<notin> T
      | Notified _ \<Rightarrow> True)"

lemma foreign_to_none: "foreign_event sv {} ev"
  by (simp add: foreign_event_def split: event.splits)

lemma caller_foreign:
  assumes "foreign_event sv T (Answered hr r)" and "caller sv hr w = (Inr p, w')"
  shows "pr_tenant_id p \<notin> T"
  using assms by (auto simp: foreign_event_def caller_def on_verifier_def split: prod.splits)

lemma break_glass_spares:
  assumes "\<And>q. validate_break_glass_request body = Inr q \<Longrightarrow> bg_tenant_scope q \<notin> T"
  shows "act_preserves (on_db (spares T)) (break_glass_query pyd op body)"
proof (cases "validate_break_glass_request body")
  case (Inl es)
  then show ?thesis by (auto simp: break_glass_query_def act_bind_run act_run_simps act_preserves_def
      intro: reflpD [OF on_db_order(1) [OF spares_order(1)]])
next
  case (Inr q)
  show ?thesis by (rule spares_action [OF break_glass_step]) (use assms Inr in auto)
qed

lemma run_query_world [simp]: "snd (run_query pyd p q w) = w"
  by (cases q) (auto simp: run_query_scoped act_bind_run act_run_simps split: sum.splits)

lemma run_query_keeps [keeps]: "reflp R \<Longrightarrow> act_preserves (on_db R) (run_query pyd p q)"
  by (rule keeps_elsewhere) (simp_all add: env_kept_order)

lemma serve_spares:
  fixes sv :: "('c, 'k, 'w) service"
  assumes "foreign_event sv T (Answered hr r)"
  shows "act_preserves (on_db (spares T)) (serve sv hr target :: (exc, ('c, 'z) service_world_scheme, http_response) act)"
proof -
  note rules = spares_bind_post keeps spares_order keeps_case_prod
  have body: "act_preserves (on_db (spares T)) (parsed_body sv hr :: (exc, ('c, 'z) service_world_scheme, json) act)"
    unfolding parsed_body_def by (auto intro!: keeps_rules keeps spares_order)
  have bg: "bg_tenant_scope q \<notin> T"
    if "parsed_body sv hr w = (Inr b, w')" and "validate_break_glass_request b = Inr q"
    for b q and w w' :: "('c, 'z) service_world_scheme"
    using assms that by (auto simp: foreign_event_def parsed_body_def act_run_simps split: option.splits)
  have call: "act_preserves (on_db (spares T)) (caller sv hr :: (exc, ('c, 'z) service_world_scheme, principal) act)"
    unfolding caller_def by (intro keeps spares_order)
  note own = caller_foreign [OF assms]
  show ?thesis
  proof (cases target)
    case PostFinding
    then show ?thesis unfolding PostFinding serve.simps
      by (intro rules call spares_action [OF post_finding_step]) (erule own)
  next
    case PostErasure
    then show ?thesis unfolding PostErasure serve.simps
      by (intro rules call body spares_action [OF submit_erasure_step]) (erule own)
  next
    case BreakGlass
    then show ?thesis unfolding BreakGlass serve.simps
      by (intro rules body break_glass_spares) (erule bg)
  next
    case (Query q)
    then show ?thesis unfolding Query serve.simps by (intro rules call)
  next
    case OwnConfig
    then show ?thesis unfolding OwnConfig serve.simps get_own_tenant_config_def by (intro rules call)
  next
    case Ready
    then show ?thesis unfolding Ready serve.simps ready_def Let_def
      by (auto intro!: keeps_rules keeps spares_order act_preserves_attempted)
  qed (auto intro!: keeps_rules keeps spares_order)
qed

lemma answer_spares:
  assumes "foreign_event sv T (Answered hr r)"
  shows "act_preserves (on_db (spares T)) (answer sv hr)"
  unfolding answer_def handle_def
  by (intro app_call_keeps spares_order keeps_case_option serve_spares [OF assms] keeps)

lemma on_db_elsewhere: "on_db R (w\<lparr>sv_runs := rs\<rparr>) w' = on_db R w w'" "on_db R (w\<lparr>sv_erasures := es\<rparr>) w' = on_db R w w'"
  by (simp_all add: on_db_def env_kept_def)

lemma on_notify_keeps [keeps]: "reflp R \<Longrightarrow> transp R \<Longrightarrow> act_preserves (on_db R) (on_notify payload)"
  unfolding on_notify_def cache_invalidate_def by (auto intro!: keeps_rules keeps)

lemma step_spares:
  fixes w w' :: "('c, 'z) service_world_scheme"
  assumes "policy_client (svc_slm sv)" and "collector_client (svc_collector sv)"
    and "service_step sv w ev w'" and "foreign_event sv T ev"
  shows "on_db (spares T) w w'"
  using assms(3)
proof (cases rule: service_step.cases)
  case (request hr r)
  from act_preservesD [OF answer_spares request(3)] assms(4) request(1) show ?thesis by blast
next
  case (run before s directive rest r)
  have "act_preserves (on_db (spares T)) (run_async (svc_runner sv) (svc_slm sv) (svc_collector sv) s directive)"
    by (rule spares_action [OF run_async_step [OF assms(1,2)]]) (use assms(4) run(1) in \<open>simp add: foreign_event_def\<close>)
  from act_preservesD [OF this run(3)] show ?thesis by (simp add: on_db_elsewhere)
next
  case (erase before task rest r)
  have "act_preserves (on_db (spares T) :: ('c, 'z) service_world_scheme \<Rightarrow> _) (erasure_dispatch (svc_rt sv) task)"
    by (rule erasure_spares) (use assms(4) erase(1) in \<open>simp add: foreign_event_def\<close>)
  from act_preservesD [OF this erase(3)] show ?thesis by (simp add: on_db_elsewhere)
next
  case (feedback r)
  have "act_preserves (on_db (spares T) :: ('c, 'z) service_world_scheme \<Rightarrow> _) (tick (svc_rt sv) (rc_factor (svc_runner sv)))"
    by (rule spares_action [OF tick_step]) (use assms(4) feedback(1) in \<open>simp add: foreign_event_def\<close>)
  from act_preservesD [OF this feedback(2)] show ?thesis .
next
  case (notify payload r)
  from act_preservesD [OF on_notify_keeps [OF spares_order] notify(2)] show ?thesis .
qed

lemma served_spares:
  assumes "policy_client (svc_slm sv)" and "collector_client (svc_collector sv)"
    and "served sv w tr w'" and "\<forall>ev \<in> set tr. foreign_event sv T ev"
  shows "on_db (spares T) w w'"
  using assms(3,4)
proof (induction rule: served.induct)
  case (idle w)
  show ?case by (rule reflpD [OF on_db_order(1) [OF spares_order(1)]])
next
  case (next_event w tr w1 ev w2)
  from next_event.IH next_event.prems have "on_db (spares T) w w1" by simp
  moreover have "on_db (spares T) w1 w2"
    by (rule step_spares [OF assms(1,2) next_event.hyps(2)]) (use next_event.prems in simp)
  ultimately show ?case by (rule transpD [OF on_db_order(2) [OF spares_order(2)]])
qed

text \<open>
  C1. Whatever the service does for others, a tenant reads the same: take any sequence of requests of other
  tenants and of operators that name other tenants, of graph runs and erasures of other tenants, of turns of
  the feedback worker and of notifications, in any order.  Afterwards each query of the tenant's callers is
  answered as before, and the database still satisfies its schema.
\<close>

theorem service_isolates_tenants:
  assumes "policy_client (svc_slm sv)" and "collector_client (svc_collector sv)"
    and "served sv w tr w'" and "\<forall>ev \<in> set tr. foreign_event sv {pr_tenant_id p} ev"
  shows "fst (run_query pyd p q w') = fst (run_query pyd p q w) \<and> (db_wf (w_db w) \<longrightarrow> db_wf (w_db w'))"
  using served_spares [OF assms] by (intro conjI run_query_view) (simp_all add: on_db_def spares_def)

section \<open>Accepted findings\<close>

definition acknowledged :: "('c, 'k, 'w) service \<Rightarrow> http_response \<Rightarrow> string \<Rightarrow> string \<Rightarrow> bool" where
  "acknowledged sv resp t cid \<longleftrightarrow>
     (\<exists>f at0. resp = json_response 202 (accepted_body (svc_rt sv) t f cid at0 False))"

lemma acknowledged_not_error: "acknowledged sv resp t cid \<Longrightarrow> resp \<noteq> render_exception e"
  by (cases e) (auto simp: acknowledged_def accepted_body_def json_response_def collectmind_error_handler_def to_response_def)

lemma acknowledged_not_limiter:
  assumes "acknowledged sv resp t cid"
  shows "resp \<noteq> unauthenticated m" "resp \<noteq> limiter_response s c m' n"
  using assms by (auto simp: acknowledged_def accepted_body_def json_response_def unauthenticated_def limiter_response_def)

lemma endpoint_passes:
  assumes "endpoint m w = (Inr resp, w')" and "acknowledged sv resp t cid"
  shows "m w = (Inr resp, w')"
  using assms acknowledged_not_error [OF assms(2)]
  by (cases "m w") (auto simp: endpoint_def act_catch_def act_run_simps split: sum.splits if_splits)

lemma metrics_passes:
  assumes "metrics_dispatch rq m w = (Inr resp, w')"
  obtains w0 w1 where "m w0 = (Inr resp, w1)" and "sv_runs w' = sv_runs w1" and "w_db w' = w_db w1"
  using assms
  by (auto simp: metrics_dispatch_def Let_def monotonic_def metric_inc_def act_run_simps elim!: act_bind_InrE split: if_splits)

lemma dispatch_passes:
  assumes "dispatch rt lib sha rq m w = (Inr resp, w')" and "acknowledged sv resp t cid"
  obtains w0 where "m w0 = (Inr resp, w')"
proof -
  note refused = acknowledged_not_limiter [OF assms(2)]
  show thesis
  proof (cases "is_exempt (rq_path rq)")
    case True
    with assms(1) that show thesis by (simp add: dispatch_def)
  next
    case False
    with assms(1) refused(1) [of "''invalid token''"] refused(1) [of "''missing bearer token''"] obtain p w1 where "limit_principal rt sha rq m p w1 = (Inr resp, w')"
      by (auto simp: dispatch_def Let_def act_run_simps attempted_def split: if_splits sum.splits prod.splits elim!: act_bind_InrE)
    from limit_principal_outcomes [OF this] refused(2) obtain w2 where "m w2 = (Inr resp, w')" by auto
    then show thesis by (rule that)
  qed
qed

lemma answer_passes:
  fixes w w' :: "('c, 'z) service_world_scheme"
  assumes "answer sv hr w = (Inr resp, w')" and "acknowledged sv resp t cid"
  obtains w0 w1 :: "('c, 'z) service_world_scheme" where "handle sv hr w0 = (Inr resp, w1)" and "sv_runs w' = sv_runs w1" and "w_db w' = w_db w1"
proof -
  let ?m = "metrics_dispatch (request.truncate hr) (endpoint (handle sv hr))"
  obtain w2 where "?m w2 = (Inr resp, w')"
    using assms(1)
    by (auto simp: answer_def app_call_def ratelimit_dispatch_def split: if_splits elim: dispatch_passes [OF _ assms(2)])
  then obtain w0 w1 :: "('c, 'z) service_world_scheme" where
    e: "endpoint (handle sv hr) w0 = (Inr resp, w1)" and rest: "sv_runs w' = sv_runs w1" "w_db w' = w_db w1"
    by (rule metrics_passes)
  show thesis by (rule that [OF endpoint_passes [OF e assms(2)] rest])
qed

lemma post_finding_task:
  assumes "post_finding cfg p body x dir w = (Inr (resp, None), w')" and "pr_tenant_id p \<noteq> []"
  shows "\<exists>f cid at0. resp = json_response 202 (accepted_body (in_rt cfg) (pr_tenant_id p) f cid at0 True)"
proof -
  obtain d f where cb: "check_body cfg p body = Inr (d, f)" using post_finding_body [OF assms(1)] by blast
  have pool: "w_pool w" by (rule post_finding_pool [OF assms(1)])
  show ?thesis
  proof (cases "seen_store (w_db w) (pr_tenant_id p, f_finding_id f) = None")
    case True
    from assms(1) cb assms(2) True show ?thesis by (rule post_finding_firstE) simp
  next
    case False
    show ?thesis by (rule post_finding_replay [OF cb pool assms(2) False, of x dir]) (use assms(1) in auto)
  qed
qed

lemma accepted_body_inject:
  "accepted_body rt t f cid at0 b = accepted_body rt t' f' cid' at1 b' \<Longrightarrow> t = t' \<and> cid = cid' \<and> b = b'"
  by (simp add: accepted_body_def)

lemma post_acknowledged:
  fixes w w' :: "('c, 'z) service_world_scheme"
  assumes "serve sv hr PostFinding w = (Inr resp, w')" and "acknowledged sv resp t cid"
  shows "\<exists>s. (s, hr_directive hr) \<in> set (sv_runs w') \<and> ses_tenant_id s = t \<and> ses_correlation_id s = cid \<and>
    has_event t cid ''accepted'' (w_db w')"
proof -
  from assms(1) obtain p w1 task w2 where c: "caller sv hr w = (Inr p, w1)"
    and r: "post_finding (svc_ingest sv) p (hr_body hr) (hr_correlation_id hr) (hr_directive hr) w1 = (Inr (resp, task), w2)"
    and w': "start_run task w2 = (Inr (), w')"
    by (auto simp: act_run_simps elim!: act_bind_InrE)
  from c obtain v v' where "authenticated_principal (svc_lib sv) (svc_credentials sv (rq_authorization hr)) v = (Inr p, v')"
    by (auto simp: caller_def on_verifier_def split: prod.splits)
  then have t: "pr_tenant_id p \<noteq> []"
    by (rule authenticated_InrE) (use verify_token_Inr principal_of_Inr(2) in blast)
  from assms(2) obtain f at0 where resp: "resp = json_response 202 (accepted_body (svc_rt sv) t f cid at0 False)"
    by (auto simp: acknowledged_def)
  obtain s d where task: "task = Some (s, d)"
  proof (cases task)
    case None
    from post_finding_task [OF r [unfolded None] t] resp show thesis
      by (auto simp: json_response_def dest!: accepted_body_inject)
  qed auto
  from post_finding_accepted [OF r [unfolded task] t] resp have "d = hr_directive hr" "ses_tenant_id s = t"
    "ses_correlation_id s = cid" "has_event t cid ''accepted'' (w_db w2)"
    by (auto simp: json_response_def dest!: accepted_body_inject)
  moreover have "sv_runs w' = sv_runs w2 @ [(s, d)]" "w_db w' = w_db w2"
    using w' task by (auto simp: start_run_def act_run_simps)
  ultimately show ?thesis by auto
qed

text \<open>A task that was started stays until it is run.\<close>

definition runs_grow :: "('c, 'z) service_world_scheme \<Rightarrow> ('c, 'z) service_world_scheme \<Rightarrow> bool" where
  "runs_grow w w' \<longleftrightarrow> (\<exists>new. sv_runs w' = sv_runs w @ new)"

interpretation runs: app_relation "runs_grow :: ('c, 'z) service_world_scheme \<Rightarrow> ('c, 'z) service_world_scheme \<Rightarrow> bool"
  by unfold_locales (auto simp: runs_grow_def intro!: reflpI transpI)

lemma runs_elsewhere: "(\<And>w. sv_runs (snd (m w)) = sv_runs w) \<Longrightarrow> act_preserves runs_grow m"
  by (simp add: act_preserves_def runs_grow_def)

lemma runs_service: "(\<And>c. act_preserves runs_grow (m c)) \<Longrightarrow> act_preserves runs_grow (acquire_service_principal m)"
  by (auto simp: act_preserves_def acquire_service_principal_def runs_grow_def)

lemma serve_runs: "act_preserves runs_grow (serve sv hr target)"
proof -
  have steps: "act_preserves runs_grow (caller sv hr)" "act_preserves runs_grow (operator sv hr)"
    "act_preserves runs_grow (start_erasure task)" "act_preserves runs_grow (run_query pyd p q)"
    "act_preserves runs_grow (hot_ping)" "act_preserves runs_grow (ping)"
    for task pyd p q
    by (rule runs_elsewhere, simp add: caller_def on_verifier_def operator_def start_erasure_def act_run_simps hot_ping_def
        redis_command_def ping_def Let_def split: prod.splits option.splits)+
  have start: "act_preserves runs_grow (start_run task)" for task
    by (simp add: act_preserves_def runs_grow_def start_run_def act_run_simps)
  have bg: "act_preserves runs_grow (break_glass_query pyd op body)" for pyd op body
    unfolding break_glass_query_def Let_def
    by (auto intro!: runs.obeys_rules runs.obeys_pure runs.obeys_transaction runs_service)
  show ?thesis
    by (cases target) (auto simp: parsed_body_def get_own_tenant_config_def ready_def Let_def
        intro!: runs.obeys_rules runs.obeys_pure steps start bg runs.post_finding_obeys runs.erasure_obeys runs.get_for_tenant_obeys)
qed

lemma answer_runs: "act_preserves runs_grow (answer sv hr)"
  unfolding answer_def handle_def
  by (intro runs.app_call_obeys keeps_case_option serve_runs runs.obeys_pure)

lemma step_runs:
  assumes "\<And>g. act_preserves runs_grow (svc_slm sv g)" and "\<And>a. act_preserves runs_grow (svc_collector sv a)"
    and "service_step sv w ev w'" and "(s, d) \<in> set (sv_runs w)"
  shows "(s, d) \<in> set (sv_runs w') \<or> (\<exists>r. ev = Ran s d r)"
  using assms(3)
proof (cases rule: service_step.cases)
  case (request hr r)
  from act_preservesD [OF answer_runs request(3)] assms(4) show ?thesis by (auto simp: runs_grow_def)
next
  case (run before s' d' rest r)
  from act_preservesD [OF runs.run_async_obeys [OF assms(1,2)] run(3)] assms(4) run(1,2) show ?thesis
    by (auto simp: runs_grow_def)
next
  case (erase before task rest r)
  from act_preservesD [OF runs.erasure_obeys(2) erase(3)] assms(4) show ?thesis by (auto simp: runs_grow_def)
next
  case (feedback r)
  from act_preservesD [OF runs.tick_obeys feedback(2)] assms(4) show ?thesis by (auto simp: runs_grow_def)
next
  case (notify payload r)
  have "act_preserves runs_grow (on_notify payload)"
    by (rule runs_elsewhere) (simp add: on_notify_def cache_invalidate_def act_bind_run act_run_simps set_data_def)
  from act_preservesD [OF this notify(2)] assms(4) show ?thesis by (auto simp: runs_grow_def)
qed

lemma served_accounts:
  assumes "policy_client (svc_slm sv)" and "collector_client (svc_collector sv)"
    and "\<And>g. act_preserves runs_grow (svc_slm sv g)" and "\<And>a. act_preserves runs_grow (svc_collector sv a)"
    and "served sv w tr w'" and "(s, d) \<in> set (sv_runs w)"
  shows "(s, d) \<in> set (sv_runs w') \<or> (\<exists>e. Ran s d (Inl e) \<in> set tr) \<or> settled (ses_tenant_id s) (ses_correlation_id s) (w_db w')"
  using assms(5,6)
proof (induction rule: served.induct)
  case (next_event w tr w1 ev w2)
  have kept: "settled t c (w_db w1) \<Longrightarrow> settled t c (w_db w2)" for t c
    using step_spares [OF assms(1,2) next_event.hyps(2) foreign_to_none]
    by (auto simp: on_db_def spares_def events_kept_def settled_def)
  consider "(s, d) \<in> set (sv_runs w1)" | e where "Ran s d (Inl e) \<in> set tr" | "settled (ses_tenant_id s) (ses_correlation_id s) (w_db w1)"
    using next_event.IH next_event.prems by blast
  then show ?case
  proof cases
    case 1
    from step_runs [OF assms(3,4) next_event.hyps(2) this] show ?thesis
    proof
      assume "\<exists>r. ev = Ran s d r"
      then obtain r where ev: "ev = Ran s d r" by blast
      with next_event.hyps(2) obtain w3 where run: "run_async (svc_runner sv) (svc_slm sv) (svc_collector sv) s d w3 = (r, w2)"
        by (auto elim: service_step.cases)
      show ?thesis
      proof (cases r)
        case (Inr u)
        from run_async_settles [OF assms(1) run [unfolded Inr unit_eq [of u]]] show ?thesis by blast
      qed (use ev in auto)
    qed simp
  qed (use kept in auto)
qed simp

text \<open>
  C2. An accepted finding is never lost track of: once a request for a finding was answered 202 and not as a
  replay, then whatever the service does afterwards, in whatever order and for whomever, the tenant's audit log
  holds the \<open>accepted\<close> event under the correlation id of the answer, and the graph run of the finding is still
  to come, or it ended in the log with a rejection or a deployment, or its last resort, recording its own
  failure, failed as well.
\<close>

theorem accepted_findings_accounted_for:
  fixes w w1 w' :: "('c, 'z) service_world_scheme"
  assumes "policy_client (svc_slm sv)" and "collector_client (svc_collector sv)"
    and "\<And>g. act_preserves runs_grow (svc_slm sv g)" and "\<And>a. act_preserves runs_grow (svc_collector sv a)"
    and "route_of hr = Some PostFinding" and "service_step sv w (Answered hr (Inr resp)) w1"
    and "acknowledged sv resp t cid" and "served sv w1 tr w'"
  shows "has_event t cid ''accepted'' (w_db w') \<and>
    (\<exists>s d. ses_tenant_id s = t \<and> ses_correlation_id s = cid \<and>
      ((s, d) \<in> set (sv_runs w') \<or> (\<exists>e. Ran s d (Inl e) \<in> set tr) \<or>
       has_event t cid ''rejected'' (w_db w') \<or> has_event t cid ''deployed'' (w_db w')))"
proof -
  from assms(6) have "answer sv hr w = (Inr resp, w1)" by (auto elim: service_step.cases)
  then obtain w2 w3 :: "('c, 'z) service_world_scheme" where h: "handle sv hr w2 = (Inr resp, w3)" and eq: "sv_runs w1 = sv_runs w3" "w_db w1 = w_db w3"
    by (rule answer_passes [OF _ assms(7)])
  from post_acknowledged [OF _ assms(7), of hr w2 w3] h assms(5) obtain s where
    s: "(s, hr_directive hr) \<in> set (sv_runs w3)" "ses_tenant_id s = t" "ses_correlation_id s = cid"
      "has_event t cid ''accepted'' (w_db w3)" by (auto simp: handle_def)
  from served_accounts [OF assms(1-4,8) s(1) [folded eq(1)]] s(2,3) have
    "(s, hr_directive hr) \<in> set (sv_runs w') \<or> (\<exists>e. Ran s (hr_directive hr) (Inl e) \<in> set tr) \<or>
      has_event t cid ''rejected'' (w_db w') \<or> has_event t cid ''deployed'' (w_db w')" by (simp add: settled_def)
  moreover have "has_event t cid ''accepted'' (w_db w')"
    using served_spares [OF assms(1,2,8), of "{}"] s(4) eq(2) foreign_to_none
    by (auto simp: on_db_def spares_def events_kept_def)
  ultimately show ?thesis using s(2,3) by blast
qed

section \<open>A concrete service\<close>

definition toy_service :: "(nat, unit, nat service_world) service" where
  "toy_service = \<lparr>svc_ingest = sample_ingest, svc_lib = sample_lib, svc_script_sha = ''sha'', svc_runner = sample_rc,
     svc_slm = fixed_slm (JObj sample_policy_doc), svc_collector = real_deploy False,
     svc_credentials = (\<lambda>_. Some (''Bearer'', ''tok'')), svc_unrouted = (\<lambda>_. json_response 404 JNull),
     svc_exposition = (\<lambda>_. json_response 200 JNull), svc_body_invalid = JNull\<rparr>"

definition toy_world :: "nat service_world" where
  "toy_world =
     \<lparr>w_db = empty_db [''t1'', ''t2''], w_pool = True, w_session = new_session,
      w_clock = int, w_ticks = 0, w_ids = (\<lambda>n. replicate (Suc n) (CHR ''i'')), w_nids = 0,
      w_random = (\<lambda>_. 0), w_draws = 0, w_metrics = [],
      rs_store = Map.empty, rs_scripts = [], rs_time = int, rs_fault = (\<lambda>_. None), rs_count = 0, rs_client = True,
      cw_cache = new_cache, cw_mono = of_nat, cw_reads = 0, lm_verifier = stale_verifier, lm_lua_sha = None,
      ap_kafka = True, ap_listener = \<lparr>li_conn = True, li_stopping = False, li_task = True\<rparr>, ap_feedback = True,
      ap_state = True, ap_disabled = True, ap_middleware = False,
      sv_operator = get_operator_verifier default_settings, sv_runs = [], sv_erasures = []\<rparr>"

definition toy_request :: http_request where
  "toy_request = \<lparr>rq_method = ''POST'', rq_path = ''/api/v1/findings'', rq_authorization = Some ''Bearer tok'',
     hr_body = Some (JObj (dump_finding sample_finding)), hr_correlation_id = None, hr_directive = None, hr_limit = None\<rparr>"

definition toy_caller :: principal where
  "toy_caller = \<lparr>pr_tenant_id = ''t1'', pr_subject = ''svc'', pr_scopes = [], pr_token_id = []\<rparr>"

lemma toy_route: "route_of toy_request = Some PostFinding"
  by code_simp

lemma toy_authenticated:
  "authenticated_principal sample_lib (Some (''Bearer'', ''tok'')) stale_verifier =
     (Inr toy_caller, stale_verifier\<lparr>jv_jwks_client := Some 1\<rparr>)"
  by (simp add: authenticated_principal_def act_catch_def lower_bearer verify_token_def act_bind_run act_run_simps
      ensure_client_def signing_key_or_refresh_def ask_client_def refresh_jwks_def resolve_jwks_uri_def stale_verifier_def
      sample_lib_def default_audiences sample_principal toy_caller_def)

lemma toy_body: "check_body sample_ingest toy_caller (Some (JObj (dump_finding sample_finding))) =
    Inr (dump_finding sample_finding, sample_finding)"
  using sample_check_body by (simp add: check_body_def tenant_check_def toy_caller_def sample_principal_def)

lemma metrics_returns:
  assumes "m (w\<lparr>cw_reads := Suc (cw_reads w)\<rparr>) = (Inr resp, w1)"
  shows "\<exists>w'. metrics_dispatch rq m w = (Inr resp, w')"
  using assms
  by (simp add: metrics_dispatch_def act_bind_run [of monotonic] monotonic_def act_bind_run [of m] Let_def)
    (auto simp: act_bind_run metric_inc_def act_run_simps)

lemma toy_answer:
  obtains resp cid w1 where "answer toy_service toy_request toy_world = (Inr resp, w1)" and "acknowledged toy_service resp ''t1'' cid"
proof -
  let ?w = "toy_world\<lparr>cw_reads := 1, lm_verifier := stale_verifier\<lparr>jv_jwks_client := Some 1\<rparr>\<rparr>"
  have p: "pr_tenant_id toy_caller = ''t1''" "pr_subject toy_caller = ''svc''" by (simp_all add: toy_caller_def)
  have "\<exists>resp s w'. post_finding sample_ingest toy_caller (Some (JObj (dump_finding sample_finding))) None None ?w =
      (Inr (resp, Some (s, None)), w')"
    by (rule post_finding_returns [OF toy_body]) (simp_all add: toy_world_def toy_caller_def empty_db_def)
  then obtain resp s w2 where r: "post_finding sample_ingest toy_caller (Some (JObj (dump_finding sample_finding))) None None ?w =
      (Inr (resp, Some (s, None)), w2)" by blast
  have "pr_tenant_id toy_caller \<noteq> []" by (simp add: p)
  from post_finding_accepted [OF r this] have "acknowledged toy_service resp ''t1'' (ses_correlation_id s)"
    by (auto simp: acknowledged_def toy_service_def p)
  moreover have "caller toy_service toy_request (toy_world\<lparr>cw_reads := 1\<rparr>) = (Inr toy_caller, ?w)"
    by (simp add: caller_def on_verifier_def toy_service_def toy_world_def toy_authenticated)
  then have "handle toy_service toy_request (toy_world\<lparr>cw_reads := 1\<rparr>) = (Inr resp, w2\<lparr>sv_runs := sv_runs w2 @ [(s, None)]\<rparr>)"
    using r by (simp add: handle_def toy_route act_bind_run act_run_simps start_run_def)
      (simp add: toy_service_def toy_request_def act_bind_run act_run_simps start_run_def)
  then have "endpoint (handle toy_service toy_request) (toy_world\<lparr>cw_reads := Suc (cw_reads toy_world)\<rparr>) =
      (Inr resp, w2\<lparr>sv_runs := sv_runs w2 @ [(s, None)]\<rparr>)"
    by (simp add: endpoint_def act_catch_def) (simp add: toy_world_def)
  from metrics_returns [where m = "endpoint (handle toy_service toy_request)" and w = toy_world, OF this] have "\<exists>w1. answer toy_service toy_request toy_world = (Inr resp, w1)"
    by (simp add: answer_def app_call_def ratelimit_dispatch_def toy_world_def)
  ultimately show thesis using that by blast
qed

lemma toy_clients:
  "policy_client (svc_slm toy_service)" "collector_client (svc_collector toy_service)"
  "act_preserves runs_grow (svc_slm toy_service g)" "act_preserves runs_grow (svc_collector toy_service a)"
proof -
  show "policy_client (svc_slm toy_service)" using fixed_slm_client by (simp add: toy_service_def)
  show "collector_client (svc_collector toy_service)" using real.collector_client_axioms by (simp add: toy_service_def)
  show "act_preserves runs_grow (svc_slm toy_service g)" "act_preserves runs_grow (svc_collector toy_service a)"
    by (simp_all add: toy_service_def fixed_slm_def real_deploy_def runs.obeys_pure)
qed

lemma toy_step:
  obtains resp cid w1 where "service_step toy_service toy_world (Answered toy_request (Inr resp)) w1"
    and "acknowledged toy_service resp ''t1'' cid" and "served toy_service toy_world [Answered toy_request (Inr resp)] w1"
proof -
  obtain resp cid w1 where a: "answer toy_service toy_request toy_world = (Inr resp, w1)" "acknowledged toy_service resp ''t1'' cid"
    by (rule toy_answer)
  have "ap_state toy_world" by (simp add: toy_world_def)
  then have step: "service_step toy_service toy_world (Answered toy_request (Inr resp)) w1" using a(1) by (rule request)
  from next_event [OF idle this] a(2) step that show thesis by simp
qed

lemma toy_tick: "\<exists>r w'. served sv w1 [Ticked r] w'"
proof -
  obtain r w' where "tick (svc_rt sv) (rc_factor (svc_runner sv)) w1 = (r, w')" by (metis surj_pair)
  from next_event [OF idle feedback [OF this]] show ?thesis by auto
qed

theorem service_isolates_tenants_witness:
  "\<exists>resp cid w'. served toy_service toy_world [Answered toy_request (Inr resp)] w' \<and>
     acknowledged toy_service resp ''t1'' cid \<and>
     fst (run_query strict_pydantic (reader ''t2'') (AuditRoute cid) w') =
       fst (run_query strict_pydantic (reader ''t2'') (AuditRoute cid) toy_world)"
proof -
  obtain resp cid w1 where s: "acknowledged toy_service resp ''t1'' cid" "served toy_service toy_world [Answered toy_request (Inr resp)] w1"
    by (rule toy_step)
  have "pr_tenant_id p = ''t1''" if "authenticated_principal sample_lib c v = (Inr p, v')" for c v p v'
    using that by (rule authenticated_InrE)
      (auto dest!: verify_token_Inr simp: sample_lib_def sample_principal split: if_splits)
  moreover have "isl (validate_break_glass_request (JObj (dump_finding sample_finding)))" by code_simp
  ultimately have "foreign_event toy_service {pr_tenant_id (reader ''t2'')} (Answered toy_request (Inr resp))"
    by (auto simp: foreign_event_def toy_service_def toy_request_def reader_def)
  with service_isolates_tenants [OF toy_clients(1,2) s(2), of "reader ''t2''" strict_pydantic "AuditRoute cid"] s
  show ?thesis by auto
qed

theorem accepted_findings_accounted_for_witness:
  "\<exists>resp cid w1 r w'. service_step toy_service toy_world (Answered toy_request (Inr resp)) w1 \<and>
     acknowledged toy_service resp ''t1'' cid \<and> served toy_service w1 [Ticked r] w' \<and>
     has_event ''t1'' cid ''accepted'' (w_db w') \<and>
     (\<exists>s d. ses_tenant_id s = ''t1'' \<and> ses_correlation_id s = cid \<and>
       ((s, d) \<in> set (sv_runs w') \<or> has_event ''t1'' cid ''rejected'' (w_db w') \<or> has_event ''t1'' cid ''deployed'' (w_db w')))"
proof -
  obtain resp cid w1 where s: "service_step toy_service toy_world (Answered toy_request (Inr resp)) w1"
    "acknowledged toy_service resp ''t1'' cid" by (rule toy_step)
  obtain r w' where t: "served toy_service w1 [Ticked r] w'" using toy_tick by blast
  from accepted_findings_accounted_for [OF toy_clients toy_route s t] have "has_event ''t1'' cid ''accepted'' (w_db w')"
    "\<exists>s d. ses_tenant_id s = ''t1'' \<and> ses_correlation_id s = cid \<and>
       ((s, d) \<in> set (sv_runs w') \<or> has_event ''t1'' cid ''rejected'' (w_db w') \<or> has_event ''t1'' cid ''deployed'' (w_db w'))"
    by simp_all
  with s t show ?thesis by blast
qed

end
