(* ===== verification/CM_Migrations.thy ===== *)
theory CM_Migrations
  imports CM_Regex CM_Errors "HOL-Library.AList"
begin

text \<open>
  The migration runner, \<open>registry/migrations/runner.py\<close>.  The directory listing, the files' contents and what
  the database does with a script are parameters; the schema a script changes is an abstract value.
\<close>

section \<open>Discovery\<close>

record migration =
  mi_version :: string
  mi_name :: string
  mi_up_path :: string
  mi_down_path :: "string option"

definition name_char :: "char \<Rightarrow> bool" where
  "name_char c \<longleftrightarrow> is_ascii_lower c \<or> is_digit c \<or> c = CHR ''_''"

definition script_pattern :: "string \<Rightarrow> re" where
  "script_pattern ending = re_seq [Bol, Grp 1 (Rep 3 None is_digit), Lit ''_'', Grp 2 (Rep 1 None name_char), Lit ending, Eol]"

definition UP_PATTERN :: re where
  "UP_PATTERN = script_pattern ''.up.sql''"

definition DOWN_PATTERN :: re where
  "DOWN_PATTERN = script_pattern ''.down.sql''"

type_synonym script_pairs = "(string \<times> string option \<times> string option) list"

definition pair_of :: "script_pairs \<Rightarrow> string \<Rightarrow> string option \<times> string option" where
  "pair_of pairs key = (case map_of pairs key of None \<Rightarrow> (None, None) | Some p \<Rightarrow> p)"

definition pair_key :: "mstate \<Rightarrow> string" where
  "pair_key st = group st 1 @ ''_'' @ group st 2"

definition add_entry :: "string \<times> bool \<Rightarrow> script_pairs \<Rightarrow> script_pairs" where
  "add_entry entry pairs =
     (case entry of (name, is_file) \<Rightarrow>
        if \<not> is_file then pairs
        else case re_match UP_PATTERN name of
          Some st \<Rightarrow> AList.update (pair_key st) (Some name, snd (pair_of pairs (pair_key st))) pairs
        | None \<Rightarrow>
            (case re_match DOWN_PATTERN name of
               Some st \<Rightarrow> AList.update (pair_key st) (fst (pair_of pairs (pair_key st)), Some name) pairs
             | None \<Rightarrow> pairs))"

text \<open>\<open>key.split("_", 1)\<close>.\<close>

definition split_key :: "string \<Rightarrow> string \<times> string" where
  "split_key key = (takeWhile (\<lambda>c. c \<noteq> CHR ''_'') key, drop 1 (dropWhile (\<lambda>c. c \<noteq> CHR ''_'') key))"

definition discover_migrations :: "(string \<times> bool) list \<Rightarrow> migration list" where
  "discover_migrations entries =
     (let pairs = fold add_entry (sort_key fst entries) [] in
      concat (map (\<lambda>key. case pair_of pairs key of
          (None, _) \<Rightarrow> []
        | (Some up, down) \<Rightarrow> (case split_key key of (version, name) \<Rightarrow>
            [\<lparr>mi_version = version, mi_name = name, mi_up_path = up, mi_down_path = down\<rparr>]))
        (sort (map fst pairs))))"

section \<open>Application\<close>

text \<open>The schema, and \<open>schema_migrations\<close> once it exists.\<close>

record 'd migration_db =
  mg_schema :: 'd
  mg_table :: "(string \<times> string) list option"

definition ensure_migrations_table :: "'d migration_db \<Rightarrow> 'd migration_db" where
  "ensure_migrations_table s = (case mg_table s of None \<Rightarrow> s\<lparr>mg_table := Some []\<rparr> | Some _ \<Rightarrow> s)"

definition applied_versions :: "'d migration_db \<Rightarrow> string list" where
  "applied_versions s = (case mg_table s of None \<Rightarrow> [] | Some rows \<Rightarrow> map fst rows)"

text \<open>One migration in its transaction: the script, then its row under the table's primary key.\<close>

definition apply_one :: "(string \<Rightarrow> 'd \<Rightarrow> exc + 'd) \<Rightarrow> string \<Rightarrow> migration \<Rightarrow> 'd migration_db \<Rightarrow> exc + 'd migration_db" where
  "apply_one execute script m s =
     (case execute script (mg_schema s) of
        Inl e \<Rightarrow> Inl e
      | Inr d \<Rightarrow>
          if mi_version m \<in> set (applied_versions s) then Inl (PgError UniqueViolation)
          else Inr (s\<lparr>mg_schema := d, mg_table := map_option (\<lambda>rows. rows @ [(mi_version m, mi_name m)]) (mg_table s)\<rparr>))"

fun apply_loop ::
  "(string \<Rightarrow> exc + string) \<Rightarrow> (string \<Rightarrow> 'd \<Rightarrow> exc + 'd) \<Rightarrow> string list \<Rightarrow> migration list \<Rightarrow> 'd migration_db \<Rightarrow>
   (exc + string list) \<times> 'd migration_db" where
  "apply_loop read_text execute existing [] s = (Inr [], s)"
| "apply_loop read_text execute existing (m # ms) s =
     (if mi_version m \<in> set existing then apply_loop read_text execute existing ms s
      else case read_text (mi_up_path m) of
        Inl e \<Rightarrow> (Inl e, s)
      | Inr script \<Rightarrow>
          (case apply_one execute script m s of
             Inl e \<Rightarrow> (Inl e, s)
           | Inr s' \<Rightarrow>
               (case apply_loop read_text execute existing ms s' of
                  (Inl e, s'') \<Rightarrow> (Inl e, s'')
                | (Inr vs, s'') \<Rightarrow> (Inr (mi_version m # vs), s''))))"

text \<open>\<open>migrations or discover_migrations()\<close>: an empty list counts as none given.\<close>

definition planned :: "(string \<times> bool) list \<Rightarrow> migration list option \<Rightarrow> migration list" where
  "planned entries migrations = (case migrations of Some (m # ms) \<Rightarrow> m # ms | _ \<Rightarrow> discover_migrations entries)"

definition apply_pending ::
  "(string \<Rightarrow> exc + string) \<Rightarrow> (string \<Rightarrow> 'd \<Rightarrow> exc + 'd) \<Rightarrow> (string \<times> bool) list \<Rightarrow> migration list option \<Rightarrow> 'd migration_db \<Rightarrow>
   (exc + string list) \<times> 'd migration_db" where
  "apply_pending read_text execute entries migrations s =
     (let s1 = ensure_migrations_table s in
      apply_loop read_text execute (applied_versions s1) (planned entries migrations) s1)"

text \<open>\<open>{m.version: m for m in discover_migrations()}\<close>: the last of a version.\<close>

definition rollback_one ::
  "(string \<Rightarrow> exc + string) \<Rightarrow> (string \<Rightarrow> 'd \<Rightarrow> exc + 'd) \<Rightarrow> (string \<times> bool) list \<Rightarrow> string \<Rightarrow> 'd migration_db \<Rightarrow>
   (exc + unit) \<times> 'd migration_db" where
  "rollback_one read_text execute entries version s =
     (case find (\<lambda>m. mi_version m = version) (rev (discover_migrations entries)) of
        None \<Rightarrow> (Inl (ValueError (''unknown migration version: '' @ version)), s)
      | Some target \<Rightarrow>
          (case mi_down_path target of
             None \<Rightarrow> (Inl (ValueError (''migration '' @ version @ '' has no down.sql; refusing to rollback'')), s)
           | Some path \<Rightarrow>
               (case read_text path of
                  Inl e \<Rightarrow> (Inl e, s)
                | Inr script \<Rightarrow>
                    (let s1 = ensure_migrations_table s in
                     if version \<notin> set (applied_versions s1) then (Inr (), s1)
                     else case execute script (mg_schema s1) of
                       Inl e \<Rightarrow> (Inl e, s1)
                     | Inr d \<Rightarrow> (Inr (), s1\<lparr>mg_schema := d,
                         mg_table := map_option (filter (\<lambda>(v, _). v \<noteq> version)) (mg_table s1)\<rparr>)))))"

section \<open>All or nothing, and resumption\<close>

abbreviation pending :: "string list \<Rightarrow> migration list \<Rightarrow> migration list" where
  "pending existing ms \<equiv> filter (\<lambda>m. mi_version m \<notin> set existing) ms"

lemma apply_one_Inr:
  assumes "apply_one ex script m s = Inr s'" and "mg_table s = Some rows"
  shows "mg_table s' = Some (rows @ [(mi_version m, mi_name m)])"
  using assms by (auto simp: apply_one_def split: sum.splits if_splits)

text \<open>A run stops at the first failure, in the state that the migrations before it alone lead to.\<close>

lemma apply_loop_stops:
  assumes "apply_loop rd ex existing ms s = (r, s')" and "mg_table s = Some rows"
  shows "\<exists>dn rest. pending existing ms = dn @ rest \<and>
    mg_table s' = Some (rows @ map (\<lambda>m. (mi_version m, mi_name m)) dn) \<and>
    apply_loop rd ex existing dn s = (Inr (map mi_version dn), s') \<and>
    (case r of Inr vs \<Rightarrow> vs = map mi_version dn \<and> rest = [] | Inl e \<Rightarrow> rest \<noteq> [])"
  using assms
proof (induction ms arbitrary: s rows r)
  case Nil
  then show ?case by auto
next
  case (Cons m ms)
  show ?case
  proof (cases "mi_version m \<in> set existing")
    case True
    with Cons show ?thesis by simp
  next
    case new: False
    show ?thesis
    proof (cases "\<exists>script s1. rd (mi_up_path m) = Inr script \<and> apply_one ex script m s = Inr s1")
      case False
      with Cons.prems new have "(\<exists>e. r = Inl e) \<and> s' = s"
        by (auto split: sum.splits)
      with Cons.prems(2) new show ?thesis
        by (intro exI [of _ "[]"] exI [of _ "m # pending existing ms"]) auto
    next
      case True
      then obtain script s1 where ok: "rd (mi_up_path m) = Inr script" "apply_one ex script m s = Inr s1" by blast
      obtain r1 where run: "apply_loop rd ex existing ms s1 = (r1, s')"
        and r: "r = (case r1 of Inl e \<Rightarrow> Inl e | Inr vs \<Rightarrow> Inr (mi_version m # vs))"
        using Cons.prems(1) new ok by (auto split: prod.splits sum.splits)
      from Cons.IH [OF run apply_one_Inr [OF ok(2) Cons.prems(2)]] obtain dn rest where
        h: "pending existing ms = dn @ rest"
          "mg_table s' = Some ((rows @ [(mi_version m, mi_name m)]) @ map (\<lambda>m. (mi_version m, mi_name m)) dn)"
          "apply_loop rd ex existing dn s1 = (Inr (map mi_version dn), s')"
          "case r1 of Inr vs \<Rightarrow> vs = map mi_version dn \<and> rest = [] | Inl e \<Rightarrow> rest \<noteq> []" by blast
      with new ok r show ?thesis
        by (intro exI [of _ "m # dn"] exI [of _ rest]) (auto split: sum.splits)
    qed
  qed
qed

lemma ensure_table:
  obtains rows where "mg_table (ensure_migrations_table s) = Some rows" "applied_versions s = map fst rows"
    "applied_versions (ensure_migrations_table s) = applied_versions s"
  by (cases "mg_table s") (auto simp: ensure_migrations_table_def applied_versions_def)

lemma apply_loop_pending:
  "apply_loop rd ex existing ms s = apply_loop rd ex existing (pending existing ms) s"
  by (induction ms arbitrary: s) (auto split: sum.splits prod.splits)


text \<open>
  Two scripts under one version number: the first run fails at the second of them, and every later run
  succeeds without ever applying it.
\<close>

lemma duplicate_version_skipped:
  assumes "mi_version a = v" and "mi_version b = v" and "v \<notin> set (applied_versions s)"
    and "rd (mi_up_path a) = Inr x" and "rd (mi_up_path b) = Inr y" and "\<And>z d. ex z d = Inr (f z d)"
  shows "\<exists>s'. apply_pending rd ex entries (Some [a, b]) s = (Inl (PgError UniqueViolation), s') \<and>
    apply_pending rd ex entries (Some [a, b]) s' = (Inr [], s')"
proof -
  obtain rows where t: "mg_table (ensure_migrations_table s) = Some rows" "applied_versions s = map fst rows"
    "applied_versions (ensure_migrations_table s) = applied_versions s" by (rule ensure_table)
  let ?s1 = "ensure_migrations_table s"
  let ?s' = "?s1\<lparr>mg_schema := f x (mg_schema ?s1), mg_table := Some (rows @ [(v, mi_name a)])\<rparr>"
  have "apply_one ex x a ?s1 = Inr ?s'" using assms t by (simp add: apply_one_def)
  moreover have v: "applied_versions ?s' = applied_versions s @ [v]" using t(2) by (simp add: applied_versions_def)
  then have "apply_one ex y b ?s' = Inl (PgError UniqueViolation)" using assms by (simp add: apply_one_def)
  moreover have "ensure_migrations_table ?s' = ?s'" by (simp add: ensure_migrations_table_def)
  ultimately show ?thesis
    using assms t(3) v by (intro exI [of _ ?s']) (simp add: apply_pending_def planned_def Let_def)
qed

text \<open>Rolling back a migration undoes it when its script does.\<close>

lemma rollback_undoes:
  assumes "apply_one ex up m s = Inr s'" and "mg_table s = Some rows"
    and "find (\<lambda>x. mi_version x = mi_version m) (rev (discover_migrations entries)) = Some m"
    and "mi_down_path m = Some path" and "rd path = Inr script" and "ex script (mg_schema s') = Inr (mg_schema s)"
  shows "rollback_one rd ex entries (mi_version m) s' = (Inr (), s)"
proof -
  from assms(1) have new: "mi_version m \<notin> set (applied_versions s)" by (auto simp: apply_one_def split: sum.splits if_splits)
  have tab: "mg_table s' = Some (rows @ [(mi_version m, mi_name m)])" by (rule apply_one_Inr [OF assms(1,2)])
  have "filter (\<lambda>(v, _). v \<noteq> mi_version m) rows = rows"
    using new assms(2) by (force simp: filter_id_conv applied_versions_def)
  then show ?thesis using assms(3-6) tab assms(2)
    by (simp add: rollback_one_def ensure_migrations_table_def Let_def applied_versions_def)
qed

section \<open>The scripts of the repository\<close>

definition sql_directory :: "(string \<times> bool) list" where
  "sql_directory =
    [(''001_init_extensions.sql'', True),
     (''002_tenants.sql'', True),
     (''003_diagnostic_findings.sql'', True),
     (''004_vehicle_groups.sql'', True),
     (''005_collection_policies.sql'', True),
     (''006_deployment_targets.sql'', True),
     (''007_policy_outcomes.sql'', True),
     (''008_audit_events.sql'', True),
     (''009_telemetry_observations.sql'', True),
     (''010_erasure_requests.sql'', True),
     (''011_row_level_security.sql'', True),
     (''012_rls_restrictive.down.sql'', True),
     (''012_rls_restrictive.up.sql'', True),
     (''013_audit_kind_widening.down.sql'', True),
     (''013_audit_kind_widening.up.sql'', True),
     (''014_tenant_config.down.sql'', True),
     (''014_tenant_config.up.sql'', True),
     (''015_tenant_vehicles.down.sql'', True),
     (''015_tenant_vehicles.up.sql'', True),
     (''016_audit_events_uniqueness.down.sql'', True),
     (''016_audit_events_uniqueness.up.sql'', True),
     (''017_tenant_role.down.sql'', True),
     (''017_tenant_role.up.sql'', True)]"

lemma sql_directory_discovered:
  "discover_migrations sql_directory =
     [\<lparr>mi_version = ''012'', mi_name = ''rls_restrictive'', mi_up_path = ''012_rls_restrictive.up.sql'',
        mi_down_path = Some ''012_rls_restrictive.down.sql''\<rparr>,
      \<lparr>mi_version = ''013'', mi_name = ''audit_kind_widening'', mi_up_path = ''013_audit_kind_widening.up.sql'',
        mi_down_path = Some ''013_audit_kind_widening.down.sql''\<rparr>,
      \<lparr>mi_version = ''014'', mi_name = ''tenant_config'', mi_up_path = ''014_tenant_config.up.sql'',
        mi_down_path = Some ''014_tenant_config.down.sql''\<rparr>,
      \<lparr>mi_version = ''015'', mi_name = ''tenant_vehicles'', mi_up_path = ''015_tenant_vehicles.up.sql'',
        mi_down_path = Some ''015_tenant_vehicles.down.sql''\<rparr>,
      \<lparr>mi_version = ''016'', mi_name = ''audit_events_uniqueness'', mi_up_path = ''016_audit_events_uniqueness.up.sql'',
        mi_down_path = Some ''016_audit_events_uniqueness.down.sql''\<rparr>,
      \<lparr>mi_version = ''017'', mi_name = ''tenant_role'', mi_up_path = ''017_tenant_role.up.sql'',
        mi_down_path = Some ''017_tenant_role.down.sql''\<rparr>]"
  by code_simp

text \<open>A database that counts scripts and refuses the second.\<close>

definition refusing :: "string \<Rightarrow> nat \<Rightarrow> exc + nat" where
  "refusing script d = (if d = 1 then Inl (PgError DataError) else Inr (Suc d))"


end
