(* ===== verification/CM_Issuer.thy ===== *)
theory CM_Issuer
  imports CM_Auth "HOL-Library.Countable"
begin

text \<open>
  The two development token issuers, \<open>infra/compose/mock-issuer/main.py\<close> and
  \<open>infra/compose/operator-issuer/main.py\<close>, whose code is the same up to the configuration file, and the
  script \<open>scripts/dev_issue_jwt.py\<close> that asks them for a token.  The configuration is read from YAML into a
  record; the RSA key, signing (\<open>jwt.encode\<close>), the clock and the token identifier are parameters.
\<close>

section \<open>Configuration\<close>

record issuer_client =
  ic_client_id :: string
  ic_client_secret :: string
  ic_tenant_id :: string
  ic_scopes :: "string list option"

record issuer_config =
  is_issuer :: string
  is_audience :: string
  is_key_id :: string
  is_clients :: "issuer_client list"

definition mock_issuer_config :: issuer_config where
  "mock_issuer_config =
     (let cl = (\<lambda>name. \<lparr>ic_client_id = name, ic_client_secret = ''local-dev-only'', ic_tenant_id = name,
        ic_scopes = Some [''findings:write'', ''findings:read'']\<rparr>) in
      \<lparr>is_issuer = ''http://mock-issuer:8088'', is_audience = ''collectmind-api'', is_key_id = ''dev-key-1'',
       is_clients = [cl ''feature-001-default'', cl ''tenant-a'', cl ''tenant-b'']\<rparr>)"

definition operator_issuer_config :: issuer_config where
  "operator_issuer_config =
     (let cl = (\<lambda>name scopes. \<lparr>ic_client_id = name, ic_client_secret = ''local-dev-only'', ic_tenant_id = ''operator'',
        ic_scopes = Some scopes\<rparr>) in
      \<lparr>is_issuer = ''http://operator-issuer:8088'', is_audience = ''collectmind-operator'', is_key_id = ''operator-dev-key-1'',
       is_clients = [cl ''operator-alice'' [''audit:break-glass'', ''tenant-config:write'', ''tenant-vehicles:write''],
         cl ''operator-bob'' [''audit:break-glass'']]\<rparr>)"

text \<open>\<open>{c["client_id"]: c for c in config["clients"]}\<close>: the last of two clients with one identifier wins.\<close>

definition clients_by_id :: "issuer_config \<Rightarrow> string \<Rightarrow> issuer_client option" where
  "clients_by_id cfg name = find (\<lambda>c. ic_client_id c = name) (rev (is_clients cfg))"

section \<open>Publishing the key\<close>

record rsa_numbers =
  rsa_n :: nat
  rsa_e :: nat

text \<open>\<open>int.bit_length\<close> and \<open>int.to_bytes(k, "big")\<close>.\<close>

fun bit_length :: "nat \<Rightarrow> nat" where
  "bit_length n = (if n = 0 then 0 else Suc (bit_length (n div 2)))"

declare bit_length.simps [simp del]

primrec to_bytes :: "nat \<Rightarrow> nat \<Rightarrow> nat list" where
  "to_bytes 0 n = []"
| "to_bytes (Suc k) n = to_bytes k (n div 256) @ [n mod 256]"

text \<open>\<open>base64.urlsafe_b64encode\<close> and \<open>rstrip(b"=")\<close>.\<close>

definition b64_alphabet :: string where
  "b64_alphabet = ''ABCDEFGHIJKLMNOPQRSTUVWXYZabcdefghijklmnopqrstuvwxyz0123456789-_''"

definition b64_char :: "nat \<Rightarrow> char" where
  "b64_char i = b64_alphabet ! i"

fun urlsafe_b64encode :: "nat list \<Rightarrow> string" where
  "urlsafe_b64encode [] = []"
| "urlsafe_b64encode [a] = [b64_char (a div 4), b64_char (a mod 4 * 16), CHR ''='', CHR ''='']"
| "urlsafe_b64encode [a, b] =
     [b64_char (a div 4), b64_char (a mod 4 * 16 + b div 16), b64_char (b mod 16 * 4), CHR ''='']"
| "urlsafe_b64encode (a # b # c # bs) =
     [b64_char (a div 4), b64_char (a mod 4 * 16 + b div 16), b64_char (b mod 16 * 4 + c div 64), b64_char (c mod 64)]
     @ urlsafe_b64encode bs"

definition rstrip_pad :: "string \<Rightarrow> string" where
  "rstrip_pad s = rev (dropWhile (\<lambda>c. c = CHR ''='') (rev s))"

definition jwk_number :: "nat \<Rightarrow> string" where
  "jwk_number n = rstrip_pad (urlsafe_b64encode (to_bytes ((bit_length n + 7) div 8) n))"

definition public_key_to_jwk :: "rsa_numbers \<Rightarrow> string \<Rightarrow> json" where
  "public_key_to_jwk numbers kid =
     JObj [(''kty'', JStr ''RSA''), (''use'', JStr ''sig''), (''alg'', JStr ''RS256''), (''kid'', JStr kid),
       (''n'', JStr (jwk_number (rsa_n numbers))), (''e'', JStr (jwk_number (rsa_e numbers)))]"

section \<open>The endpoints\<close>

definition openid_configuration :: "issuer_config \<Rightarrow> json" where
  "openid_configuration cfg =
     JObj [(''issuer'', JStr (is_issuer cfg)),
       (''token_endpoint'', JStr (is_issuer cfg @ ''/token'')),
       (''jwks_uri'', JStr (is_issuer cfg @ ''/.well-known/jwks.json'')),
       (''grant_types_supported'', JArr [JStr ''client_credentials'']),
       (''id_token_signing_alg_values_supported'', JArr [JStr ''RS256''])]"

definition jwks :: "issuer_config \<Rightarrow> rsa_numbers \<Rightarrow> json" where
  "jwks cfg public_key = JObj [(''keys'', JArr [public_key_to_jwk public_key (is_key_id cfg)])]"

definition issuer_health :: json where
  "issuer_health = JObj [(''status'', JStr ''ok'')]"

definition token_ttl_seconds :: int where
  "token_ttl_seconds = 3600"

definition token_scope :: "issuer_client \<Rightarrow> string option \<Rightarrow> string" where
  "token_scope client scope =
     (case scope of
        Some (c # cs) \<Rightarrow> c # cs
      | _ \<Rightarrow> join '' '' (case ic_scopes client of None \<Rightarrow> [] | Some ss \<Rightarrow> ss))"

definition token_payload :: "issuer_config \<Rightarrow> issuer_client \<Rightarrow> int \<Rightarrow> string \<Rightarrow> string \<Rightarrow> string option \<Rightarrow> dict" where
  "token_payload cfg client now jti client_id scope =
     [(''iss'', JStr (is_issuer cfg)), (''aud'', JStr (is_audience cfg)), (''sub'', JStr client_id),
      (''iat'', JInt now), (''exp'', JInt (now + token_ttl_seconds)), (''jti'', JStr jti),
      (''tenant_id'', JStr (ic_tenant_id client)), (''scope'', JStr (token_scope client scope))]"

text \<open>
  The form's fields as the framework has read them; \<open>encode\<close> stands for \<open>jwt.encode\<close> with the issuer's
  private key and the key identifier in the header.
\<close>

record token_form =
  tf_grant_type :: string
  tf_client_id :: string
  tf_client_secret :: string
  tf_scope :: "string option"

definition token :: "issuer_config \<Rightarrow> (dict \<Rightarrow> string) \<Rightarrow> int \<Rightarrow> string \<Rightarrow> token_form \<Rightarrow> exc + http_response" where
  "token cfg encode now jti form =
     (if tf_grant_type form \<noteq> ''client_credentials''
      then Inl (HTTPException 400 (JObj [(''error'', JStr ''unsupported_grant_type'')]))
      else case clients_by_id cfg (tf_client_id form) of
        None \<Rightarrow> Inl (HTTPException 401 (JObj [(''error'', JStr ''invalid_client'')]))
      | Some client \<Rightarrow>
          if ic_client_secret client \<noteq> tf_client_secret form
          then Inl (HTTPException 401 (JObj [(''error'', JStr ''invalid_client'')]))
          else
            let payload = token_payload cfg client now jti (tf_client_id form) (tf_scope form) in
            Inr (json_response 200 (JObj [(''access_token'', JStr (encode payload)), (''token_type'', JStr ''Bearer''),
              (''expires_in'', JInt token_ttl_seconds), (''scope'', JStr (token_scope client (tf_scope form)))])))"

text \<open>The operator issuer runs the same code over its own configuration and key.\<close>

definition operator_public_key_to_jwk :: "rsa_numbers \<Rightarrow> string \<Rightarrow> json" where
  "operator_public_key_to_jwk = public_key_to_jwk"

definition operator_openid_configuration :: json where
  "operator_openid_configuration = openid_configuration operator_issuer_config"

definition operator_jwks :: "rsa_numbers \<Rightarrow> json" where
  "operator_jwks = jwks operator_issuer_config"

definition operator_token :: "(dict \<Rightarrow> string) \<Rightarrow> int \<Rightarrow> string \<Rightarrow> token_form \<Rightarrow> exc + http_response" where
  "operator_token = token operator_issuer_config"

section \<open>scripts/dev\_issue\_jwt.py\<close>

text \<open>
  The arguments after parsing: exactly one of \<open>--tenant\<close> and \<open>--operator\<close>, which \<open>argparse\<close> enforces.
\<close>

datatype dev_who =
    Tenant string
  | Operator string

record dev_args =
  da_who :: dev_who
  da_audience :: "string option"
  da_issuer_url :: "string option"
  da_client_secret :: string

definition str_or :: "string option \<Rightarrow> string \<Rightarrow> string" where
  "str_or x dflt = (case x of Some (c # cs) \<Rightarrow> c # cs | _ \<Rightarrow> dflt)"

definition dev_target :: "dev_args \<Rightarrow> string \<times> string" where
  "dev_target args =
     (case da_who args of
        Tenant name \<Rightarrow> (str_or (da_issuer_url args) ''http://localhost:8088'', ''feature-001-default'')
      | Operator name \<Rightarrow> (str_or (da_issuer_url args) ''http://localhost:8089'', ''operator-'' @ name))"

text \<open>
  \<open>post\<close> is the HTTP request, \<open>Inl\<close> the transport's error; \<open>raise_for_status\<close> raises on every status of
  400 and above.  The result is the exit code with the line written to standard output, if any.
\<close>

definition dev_issue_jwt :: "(string \<Rightarrow> token_form \<Rightarrow> string + http_response) \<Rightarrow> dev_args \<Rightarrow> exc + nat \<times> json option" where
  "dev_issue_jwt post args =
     (case dev_target args of (issuer_url, client_id) \<Rightarrow>
       (case post (issuer_url @ ''/token'') \<lparr>tf_grant_type = ''client_credentials'', tf_client_id = client_id,
           tf_client_secret = da_client_secret args, tf_scope = None\<rparr> of
          Inl e \<Rightarrow> Inr (1, None)
        | Inr response \<Rightarrow>
            if 400 \<le> resp_status response then Inr (1, None)
            else (case resp_body response of
                JObj body \<Rightarrow> (case dict_get body ''access_token'' of
                    None \<Rightarrow> Inl (KeyError ''access_token'')
                  | Some tok \<Rightarrow> Inr (0, Some tok))
              | _ \<Rightarrow> Inl (TypeError ''access_token''))))"

section \<open>The published key\<close>

text \<open>What a client of the key set does with a number: RFC 7518's base64url integer.\<close>

definition b64_value :: "char \<Rightarrow> nat" where
  "b64_value c = length (takeWhile (\<lambda>x. x \<noteq> c) b64_alphabet)"

fun b64url_decode :: "string \<Rightarrow> nat list" where
  "b64url_decode (w # x # y # z # cs) =
     [b64_value w * 4 + b64_value x div 16, b64_value x mod 16 * 16 + b64_value y div 4, b64_value y mod 4 * 64 + b64_value z]
     @ b64url_decode cs"
| "b64url_decode [w, x, y] = [b64_value w * 4 + b64_value x div 16, b64_value x mod 16 * 16 + b64_value y div 4]"
| "b64url_decode [w, x] = [b64_value w * 4 + b64_value x div 16]"
| "b64url_decode _ = []"

definition from_bytes :: "nat list \<Rightarrow> nat" where
  "from_bytes bs = foldl (\<lambda>a b. a * 256 + b) 0 bs"

definition jwk_number_value :: "string \<Rightarrow> nat" where
  "jwk_number_value s = from_bytes (b64url_decode s)"

lemma position_in_distinct:
  "distinct xs \<Longrightarrow> i < length xs \<Longrightarrow> length (takeWhile (\<lambda>x. x \<noteq> xs ! i) xs) = i"
proof (induction xs arbitrary: i)
  case (Cons x xs)
  then show ?case by (cases i) auto
qed simp

lemma b64_alphabet_shape: "distinct b64_alphabet" "length b64_alphabet = 64" "CHR ''='' \<notin> set b64_alphabet"
  by (code_simp, code_simp, code_simp)

lemma b64_value_char [simp]: "i < 64 \<Longrightarrow> b64_value (b64_char i) = i"
  using position_in_distinct [of b64_alphabet i] by (simp add: b64_value_def b64_char_def b64_alphabet_shape)

lemma b64_char_not_pad [simp]: "i < 64 \<Longrightarrow> b64_char i \<noteq> CHR ''=''"
  using nth_mem [of i b64_alphabet] b64_alphabet_shape by (metis b64_char_def)

lemma rstrip_pad_append: "CHR ''='' \<notin> set pre \<Longrightarrow> rstrip_pad (pre @ s) = pre @ rstrip_pad s"
  unfolding rstrip_pad_def
  by (induction pre rule: rev_induct) (auto simp: dropWhile_append)

lemma b64_bounds:
  fixes a b c :: nat
  assumes "a < 256" "b < 256" "c < 256"
  shows "a div 4 < 64" "a mod 4 * 16 < 64" "a mod 4 * 16 + b div 16 < 64" "b mod 16 * 4 < 64"
    "b mod 16 * 4 + c div 64 < 64" "c mod 64 < 64"
proof -
  have pack: "x < 4 \<Longrightarrow> y < 16 \<Longrightarrow> x * 16 + y < 64" "y < 16 \<Longrightarrow> x < 4 \<Longrightarrow> y * 4 + x < 64" for x y :: nat by simp_all
  from assms have parts: "b div 16 < 16" "c div 64 < 4" by (simp_all add: div_less_iff_less_mult)
  show "a div 4 < 64" using assms by (simp add: div_less_iff_less_mult)
  show "a mod 4 * 16 < 64" "b mod 16 * 4 < 64" using pack(1) [of "a mod 4" 0] pack(2) [of "b mod 16" 0] by simp_all
  show "a mod 4 * 16 + b div 16 < 64" "b mod 16 * 4 + c div 64 < 64" by (rule pack; use parts in simp)+
qed simp

lemmas b64_values = b64_bounds [THEN b64_value_char] b64_bounds [THEN b64_char_not_pad]

lemma b64_bytes:
  fixes a b c :: nat
  assumes "a < 256" "b < 256" "c < 256"
  shows "a div 4 * 4 + (a mod 4 * 16 + b div 16) div 16 = a"
    "(a mod 4 * 16 + b div 16) mod 16 * 16 + (b mod 16 * 4 + c div 64) div 4 = b"
    "(b mod 16 * 4 + c div 64) mod 4 * 64 + c mod 64 = c"
proof -
  from assms have "b div 16 < 16" "c div 64 < 4" by (auto simp: div_less_iff_less_mult)
  then show "a div 4 * 4 + (a mod 4 * 16 + b div 16) div 16 = a"
    "(a mod 4 * 16 + b div 16) mod 16 * 16 + (b mod 16 * 4 + c div 64) div 4 = b"
    "(b mod 16 * 4 + c div 64) mod 4 * 64 + c mod 64 = c" by simp_all
qed

lemma b64url_round_trip:
  "list_all (\<lambda>b. b < 256) bs \<Longrightarrow> b64url_decode (rstrip_pad (urlsafe_b64encode bs)) = bs"
proof (induction bs rule: urlsafe_b64encode.induct)
  case (2 a)
  then have "rstrip_pad (urlsafe_b64encode [a]) = [b64_char (a div 4), b64_char (a mod 4 * 16)]"
    using b64_values [of a 0 0] by (simp add: rstrip_pad_def)
  with 2 show ?case using b64_values [of a 0 0] by simp
next
  case (3 a b)
  then have ab: "a < 256" "b < 256" by simp_all
  have "rstrip_pad (urlsafe_b64encode [a, b]) =
      [b64_char (a div 4), b64_char (a mod 4 * 16 + b div 16), b64_char (b mod 16 * 4)]"
    using b64_values [OF ab, of 0] by (simp add: rstrip_pad_def)
  with b64_bytes [OF ab, of 0] show ?case by (simp add: b64_values [OF ab, of 0])
next
  case (4 a b c bs)
  then have abc: "a < 256" "b < 256" "c < 256" by simp_all
  have "rstrip_pad (urlsafe_b64encode (a # b # c # bs)) =
      [b64_char (a div 4), b64_char (a mod 4 * 16 + b div 16), b64_char (b mod 16 * 4 + c div 64), b64_char (c mod 64)]
      @ rstrip_pad (urlsafe_b64encode bs)"
    unfolding urlsafe_b64encode.simps by (rule rstrip_pad_append) (use b64_values [OF abc] in \<open>auto dest: sym\<close>)
  then show ?case using 4 b64_bytes [OF abc] by (simp add: b64_values [OF abc])
qed (simp add: rstrip_pad_def)

lemma from_to_bytes: "from_bytes (to_bytes k n) = n mod 256 ^ k"
proof (induction k arbitrary: n)
  case (Suc k)
  then show ?case by (simp add: from_bytes_def mod_mult2_eq mult.commute)
qed (simp add: from_bytes_def)

lemma to_bytes_range: "list_all (\<lambda>b. b < 256) (to_bytes k n)"
  by (induction k arbitrary: n) simp_all

lemma bit_length_bound: "n < 2 ^ bit_length n"
proof (induction n rule: bit_length.induct)
  case (1 n)
  then show ?case
  proof (cases "n = 0")
    case False
    with 1 have "n div 2 < 2 ^ bit_length (n div 2)" by simp
    then have "n < 2 ^ Suc (bit_length (n div 2))" by simp
    with False show ?thesis by (simp add: bit_length.simps [of n])
  qed (simp add: bit_length.simps [of 0])
qed

lemma to_bytes_fits: "n < 256 ^ ((bit_length n + 7) div 8)"
proof -
  have "n < 2 ^ bit_length n" by (rule bit_length_bound)
  also have "\<dots> \<le> 2 ^ (8 * ((bit_length n + 7) div 8))" by (rule power_increasing) simp_all
  also have "\<dots> = 256 ^ ((bit_length n + 7) div 8)" by (simp add: power_mult)
  finally show ?thesis .
qed

lemma jwk_number_round_trip: "jwk_number_value (jwk_number n) = n"
  by (simp add: jwk_number_value_def jwk_number_def b64url_round_trip to_bytes_range from_to_bytes to_bytes_fits)

lemma jwks_determine_key: "jwks cfg key = jwks cfg key' \<longleftrightarrow> key = (key' :: rsa_numbers)"
proof
  assume "jwks cfg key = jwks cfg key'"
  then have "jwk_number (rsa_n key) = jwk_number (rsa_n key')" "jwk_number (rsa_e key) = jwk_number (rsa_e key')"
    by (simp_all add: jwks_def public_key_to_jwk_def)
  then have "rsa_n key = rsa_n key'" "rsa_e key = rsa_e key'" using jwk_number_round_trip by metis+
  then show "key = key'" by simp
qed simp

text \<open>
  Round trip of the published key: the document at \<open>/.well-known/jwks.json\<close> holds one key, under the
  configured identifier, and decoding its two base64url numbers as RFC 7518 prescribes gives exactly the
  modulus and the exponent of the issuer's key, whatever they are.
\<close>

theorem published_key_recoverable:
  "\<exists>d n e. jwks cfg key = JObj [(''keys'', JArr [JObj d])] \<and> dict_get d ''kid'' = Some (JStr (is_key_id cfg)) \<and>
     dict_get d ''n'' = Some (JStr n) \<and> jwk_number_value n = rsa_n key \<and>
     dict_get d ''e'' = Some (JStr e) \<and> jwk_number_value e = rsa_e key"
  by (simp add: jwks_def public_key_to_jwk_def dict_get_def jwk_number_round_trip)

section \<open>The token endpoint\<close>

lemma token_ok:
  assumes "token cfg encode now jti form = Inr resp"
  obtains client where "clients_by_id cfg (tf_client_id form) = Some client"
    and "ic_client_secret client = tf_client_secret form" and "tf_grant_type form = ''client_credentials''"
    and "resp = json_response 200 (JObj [
      (''access_token'', JStr (encode (token_payload cfg client now jti (tf_client_id form) (tf_scope form)))),
      (''token_type'', JStr ''Bearer''), (''expires_in'', JInt token_ttl_seconds),
      (''scope'', JStr (token_scope client (tf_scope form)))])"
  using assms by (auto simp: token_def Let_def split: if_splits option.splits)

lemma token_refuses:
  "token cfg encode now jti form = Inl e \<Longrightarrow> \<exists>st body. e = HTTPException st body \<and> st \<in> {400, 401}"
  by (auto simp: token_def Let_def split: if_splits option.splits)

lemma client_configured: "clients_by_id cfg name = Some client \<Longrightarrow> client \<in> set (is_clients cfg) \<and> ic_client_id client = name"
  by (auto simp: clients_by_id_def find_Some_iff rev_nth)

text \<open>The identity a token of the issuer stands for.\<close>

definition client_principal :: "issuer_client \<Rightarrow> string \<Rightarrow> string option \<Rightarrow> principal" where
  "client_principal client jti scope =
     \<lparr>pr_tenant_id = ic_tenant_id client, pr_subject = ic_client_id client,
      pr_scopes = split_ws (token_scope client scope), pr_token_id = jti\<rparr>"

lemma payload_principal:
  assumes "ic_client_id client \<noteq> []" and "ic_tenant_id client \<noteq> []"
  shows "principal_of (token_payload cfg client now jti (ic_client_id client) scope) =
    Inr (client_principal client jti scope)"
  using assms
  by (cases "token_scope client scope") (auto simp: principal_of_def token_payload_def dict_get_def scopes_of_def client_principal_def res_bind_def
      split_ws_def neq_Nil_conv)

text \<open>
  What the code relies on of the JWT library, at time \<open>t\<close> (seconds, with fractions): a token encoded by the
  issuer decodes under the issuer's key, for the audience and issuer it names, to the encoded claims, unless its
  expiry plus the leeway has passed, which raises \<open>ExpiredSignatureError\<close>; and a key client made for the
  issuer's address finds the issuer's key for it.
\<close>

definition decodes_issued :: "('c, 'k) jwt_lib \<Rightarrow> (dict \<Rightarrow> string) \<Rightarrow> 'k \<Rightarrow> rat \<Rightarrow> bool" where
  "decodes_issued lib encode key t \<longleftrightarrow>
     (\<forall>payload aud iss skew iat exp.
        dict_get payload ''aud'' = Some (JStr aud) \<and> dict_get payload ''iss'' = Some (JStr iss) \<and>
        dict_get payload ''iat'' = Some (JInt iat) \<and> of_int iat \<le> t + of_int skew \<and>
        dict_get payload ''exp'' = Some (JInt exp) \<longrightarrow>
        jl_decode lib (encode payload) key aud iss skew =
          (if of_int exp \<le> t - of_int skew then Inl ExpiredSignatureError else Inr payload))"

definition serves_key :: "('c, 'k) jwt_lib \<Rightarrow> (dict \<Rightarrow> string) \<Rightarrow> 'k \<Rightarrow> string \<Rightarrow> bool" where
  "serves_key lib encode key uri \<longleftrightarrow>
     (\<forall>ttl payload. encode payload \<noteq> [] \<and> fst (jl_signing_key lib (jl_new_client lib uri ttl) (encode payload)) = Inr key)"

lemma verify_first_token:
  assumes "serves_key lib encode key (is_issuer cfg @ ''/.well-known/jwks.json'')"
    and "jl_discover lib (is_issuer cfg @ ''/.well-known/openid-configuration'') = Some (openid_configuration cfg)"
    and "rstrip_slash (is_issuer cfg) = is_issuer cfg"
  shows "fst (verify_token lib (encode payload) (new_verifier (is_issuer cfg) aud ttl skew)) =
    (case jl_decode lib (encode payload) key aud (is_issuer cfg) skew of
       Inl e \<Rightarrow> Inl (decode_error e) | Inr claims \<Rightarrow> principal_of claims)"
proof -
  let ?uri = "is_issuer cfg @ ''/.well-known/jwks.json''"
  define c where "c = jl_new_client lib ?uri ttl"
  have tok: "encode payload \<noteq> []" and key: "fst (jl_signing_key lib c (encode payload)) = Inr key"
    using assms(1) by (simp_all add: serves_key_def c_def)
  then obtain c' where c': "jl_signing_key lib c (encode payload) = (Inr key, c')"
    by (cases "jl_signing_key lib c (encode payload)") simp
  define v where "v = (new_verifier (is_issuer cfg) aud ttl skew)\<lparr>jv_jwks_uri := Some ?uri, jv_jwks_client := Some c\<rparr>"
  have "ensure_client lib (new_verifier (is_issuer cfg) aud ttl skew) = (Inr (), v)"
    using assms(2,3)
    by (simp add: v_def c_def new_verifier_def ensure_client_def resolve_jwks_uri_def jwks_uri_of_def
        openid_configuration_def dict_get_def act_bind_run act_run_simps)
  moreover have "signing_key_or_refresh lib (encode payload) v = (Inr key, v\<lparr>jv_jwks_client := Some c'\<rparr>)"
    using c' by (simp add: v_def signing_key_or_refresh_def ask_client_def act_bind_run act_run_simps)
  moreover have "jv_audience v = aud" "jv_issuer_url v = is_issuer cfg" "jv_clock_skew v = skew"
    using assms(3) by (simp_all add: v_def new_verifier_def)
  ultimately show ?thesis
    using tok by (simp add: verify_token_def act_bind_run act_run_simps split: sum.splits)
qed

lemma authenticated_fst:
  assumes "lower scheme = ''bearer''" and "tok \<noteq> []"
  shows "fst (authenticated_principal lib (Some (scheme, tok)) v) =
    (case fst (verify_token lib tok v) of
       Inl (App err) \<Rightarrow> Inl (to_http_exception err) | Inl e \<Rightarrow> Inl e | Inr p \<Rightarrow> Inr p)"
proof (cases "verify_token lib tok v")
  case (Pair r v')
  show ?thesis
  proof (cases r)
    case (Inl e)
    with Pair assms show ?thesis
      by (cases e) (simp_all add: authenticated_principal_def act_catch_def act_run_simps)
  qed (use Pair assms in \<open>simp add: authenticated_principal_def act_catch_def\<close>)
qed


text \<open>An operator's token reaches the operator endpoints with the operator's name and scopes.\<close>

lemma issued_operator_token:
  assumes "fst (authenticated_principal lib cr v) = Inr (client_principal client jti scope)"
  shows "fst (authenticated_operator_principal lib cr v) =
    Inr \<lparr>op_subject = ic_client_id client, op_token_id = jti, op_scopes = split_ws (token_scope client scope)\<rparr>"
  using assms
  by (cases "authenticated_principal lib cr v")
    (simp add: authenticated_operator_principal_def act_bind_run act_run_simps client_principal_def)

text \<open>
  A restarted issuer has a new key under the old key identifier.  A verifier whose client still
  holds the old key finds it under that identifier, so the lookup succeeds, the signature does not match, and
  the token is refused while the client is kept: the key set is not fetched again.
\<close>

theorem restarted_issuer_refused:
  assumes "jv_jwks_client v = Some c" and "jl_signing_key lib c tok = (Inr old_key, c')"
    and "jl_decode lib tok old_key (jv_audience v) (jv_issuer_url v) (jv_clock_skew v) = Inl InvalidSignatureError"
    and "tok \<noteq> []"
  shows "verify_token lib tok v = (Inl (App AuthInvalidToken), v\<lparr>jv_jwks_client := Some c'\<rparr>)"
  using assms
  by (simp add: verify_token_def ensure_client_def signing_key_or_refresh_def ask_client_def act_bind_run act_run_simps
      decode_error_def)

section \<open>The token script\<close>

text \<open>
  The tenant named on the command line and the audience do not reach the issuer: every tenant is given the
  same client's token.
\<close>

theorem dev_issue_ignores_tenant:
  assumes "da_who args = Tenant a" and "da_who args' = Tenant b" and "da_issuer_url args' = da_issuer_url args"
    and "da_client_secret args' = da_client_secret args"
  shows "dev_issue_jwt post args' = dev_issue_jwt post args"
  using assms by (simp add: dev_issue_jwt_def dev_target_def)

text \<open>Against the development issuer, the script prints the token of the client \<open>feature-001-default\<close>.\<close>

definition issuer_post :: "issuer_config \<Rightarrow> (dict \<Rightarrow> string) \<Rightarrow> int \<Rightarrow> string \<Rightarrow> string \<Rightarrow> token_form \<Rightarrow> string + http_response" where
  "issuer_post cfg encode now jti url form =
     (case token cfg encode now jti form of Inl e \<Rightarrow> Inr (render_exception e) | Inr resp \<Rightarrow> Inr resp)"

lemma dev_issue_default_tenant:
  "dev_issue_jwt (issuer_post mock_issuer_config encode now jti)
     \<lparr>da_who = Tenant name, da_audience = aud, da_issuer_url = url, da_client_secret = ''local-dev-only''\<rparr> =
   Inr (0, Some (JStr (encode [(''iss'', JStr ''http://mock-issuer:8088''), (''aud'', JStr ''collectmind-api''),
     (''sub'', JStr ''feature-001-default''), (''iat'', JInt now), (''exp'', JInt (now + 3600)), (''jti'', JStr jti),
     (''tenant_id'', JStr ''feature-001-default''), (''scope'', JStr ''findings:write findings:read'')])))"
  by (simp add: dev_issue_jwt_def dev_target_def issuer_post_def token_def clients_by_id_def mock_issuer_config_def Let_def
      json_response_def dict_get_def token_payload_def token_ttl_seconds_def token_scope_def)

section \<open>A concrete library\<close>

instance json :: countable
  by countable_datatype

text \<open>A library in which a token is the number of its claims in unary, and the only key is the issuer's.\<close>

definition unary_encode :: "dict \<Rightarrow> string" where
  "unary_encode payload = replicate (Suc (to_nat payload)) CHR ''x''"

definition unary_decode :: "rat \<Rightarrow> string \<Rightarrow> unit \<Rightarrow> string \<Rightarrow> string \<Rightarrow> int \<Rightarrow> jwt_exc + dict" where
  "unary_decode t tok key aud iss skew =
     (let payload = from_nat (length tok - 1) in
      if dict_get payload ''aud'' \<noteq> Some (JStr aud) then Inl InvalidAudienceError
      else if dict_get payload ''iss'' \<noteq> Some (JStr iss) then Inl InvalidIssuerError
      else case dict_get payload ''exp'' of
        Some (JInt x) \<Rightarrow> if of_int x \<le> t - of_int skew then Inl ExpiredSignatureError else Inr payload
      | _ \<Rightarrow> Inl DecodeError)"

definition unary_lib :: "rat \<Rightarrow> (string, unit) jwt_lib" where
  "unary_lib t = \<lparr>jl_discover = (\<lambda>_. Some (openid_configuration mock_issuer_config)), jl_new_client = (\<lambda>uri _. uri),
     jl_signing_key = (\<lambda>c tok. (Inr (), c)), jl_decode = unary_decode t\<rparr>"

lemma unary_lib_laws:
  "decodes_issued (unary_lib t) unary_encode () t" "serves_key (unary_lib t) unary_encode () uri"
  by (simp_all add: decodes_issued_def serves_key_def unary_lib_def unary_decode_def unary_encode_def)

definition tenant_a_form :: token_form where
  "tenant_a_form = \<lparr>tf_grant_type = ''client_credentials'', tf_client_id = ''tenant-a'',
     tf_client_secret = ''local-dev-only'', tf_scope = None\<rparr>"

definition tenant_a_claims :: dict where
  "tenant_a_claims = [(''iss'', JStr ''http://mock-issuer:8088''), (''aud'', JStr ''collectmind-api''),
     (''sub'', JStr ''tenant-a''), (''iat'', JInt 1000), (''exp'', JInt 4600), (''jti'', JStr ''j''),
     (''tenant_id'', JStr ''tenant-a''), (''scope'', JStr ''findings:write findings:read'')]"

lemma tenant_a_token:
  "token mock_issuer_config unary_encode 1000 ''j'' tenant_a_form = Inr (json_response 200 (JObj [
     (''access_token'', JStr (unary_encode tenant_a_claims)), (''token_type'', JStr ''Bearer''),
     (''expires_in'', JInt 3600), (''scope'', JStr ''findings:write findings:read'')]))"
  "resp_body (json_response 200 j) = j" "dict_get ((''access_token'', j) # d) ''access_token'' = Some j"
  by (simp_all add: token_def clients_by_id_def mock_issuer_config_def tenant_a_form_def Let_def token_payload_def
      token_ttl_seconds_def token_scope_def tenant_a_claims_def json_response_def dict_get_def)

lemma mock_issuer_facts:
  "\<forall>client \<in> set (is_clients mock_issuer_config). ic_client_id client \<noteq> [] \<and> ic_tenant_id client \<noteq> []"
  "rstrip_slash (is_issuer mock_issuer_config) = is_issuer mock_issuer_config"
  by (simp_all add: mock_issuer_config_def rstrip_slash_def Let_def)


end
