(* ===== verification/CM_Webhook.thy ===== *)
theory CM_Webhook
  imports CM_Json
begin

text \<open>
  The webhook receiver of \<open>scripts/local_webhook.py\<close>: a threaded HTTP server whose handlers share a bounded
  buffer of alert envelopes under a lock.  A handler's work before the lock and its answer after it are
  functions; what it does with the lock and the buffer are the transitions of a step relation, one per
  statement, so that the threads interleave between any two of them.  Decoding the request body is a parameter.
\<close>

section \<open>Requests\<close>

text \<open>What \<open>json.loads(raw.decode("utf-8"))\<close> can do.\<close>

datatype loaded =
    Loaded json
  | JSONDecodeError string
  | UnicodeDecodeError

datatype wh_request =
    GET string
  | DELETE string
  | POST string "string option" string

datatype wh_op =
    Snapshot
  | Drain
  | Append json

text \<open>
  Where a handler thread is: not started, waiting for the lock, holding it before its first statement on the
  buffer, holding it with the copy that \<open>do_DELETE\<close> has made, holding it with its answer ready, answered, or
  ended by an exception without an answer.
\<close>

datatype wh_thread =
    Idle
  | Wants wh_op
  | Holds wh_op
  | Taken "json list"
  | Leaving nat json
  | Answered nat json
  | Failed exc

definition not_found :: "string \<Rightarrow> wh_thread" where
  "not_found path = Answered 404 (JObj [(''error'', JStr ''not_found''), (''path'', JStr path)])"

definition do_GET :: "string \<Rightarrow> wh_thread" where
  "do_GET path =
     (if path = ''/healthz'' then Answered 200 (JObj [(''status'', JStr ''ok'')])
      else if path = ''/captured'' then Wants Snapshot
      else not_found path)"

definition do_DELETE :: "string \<Rightarrow> wh_thread" where
  "do_DELETE path = (if path = ''/captured'' then Wants Drain else not_found path)"

text \<open>
  The header is read by \<open>int\<close>; \<open>rfile.read\<close> returns what the body has of that length, all of it for a
  negative one.
\<close>

definition content_length :: "string option \<Rightarrow> exc + int" where
  "content_length header =
     (case header of Some (c # cs) \<Rightarrow> py_int (JStr (c # cs)) | _ \<Rightarrow> Inr 0)"

definition read_body :: "int \<Rightarrow> string \<Rightarrow> string" where
  "read_body len body = (if len = 0 then [] else if len < 0 then body else take (nat len) body)"

definition do_POST :: "(string \<Rightarrow> loaded) \<Rightarrow> string \<Rightarrow> string option \<Rightarrow> string \<Rightarrow> wh_thread" where
  "do_POST loads path header body =
     (if path \<noteq> ''/webhook'' then not_found path
      else case content_length header of
        Inl e \<Rightarrow> Failed e
      | Inr len \<Rightarrow>
          (let raw = read_body len body in
           case (if raw = [] then Loaded (JObj []) else loads raw) of
             Loaded envelope \<Rightarrow> Wants (Append envelope)
           | JSONDecodeError detail \<Rightarrow>
               Answered 400 (JObj [(''error'', JStr ''invalid_json''), (''detail'', JStr detail)])
           | UnicodeDecodeError \<Rightarrow> Failed (ValueError ''utf-8'')))"

definition handle_request :: "(string \<Rightarrow> loaded) \<Rightarrow> wh_request \<Rightarrow> wh_thread" where
  "handle_request loads req =
     (case req of
        GET path \<Rightarrow> do_GET path
      | DELETE path \<Rightarrow> do_DELETE path
      | POST path header body \<Rightarrow> do_POST loads path header body)"

section \<open>The shared buffer\<close>

definition buffer_size :: nat where
  "buffer_size = 1000"

text \<open>\<open>deque(maxlen=n).append\<close>: past the bound the oldest entry goes.\<close>

definition last_n :: "nat \<Rightarrow> 'a list \<Rightarrow> 'a list" where
  "last_n n xs = drop (length xs - n) xs"

definition deque_append :: "nat \<Rightarrow> 'a list \<Rightarrow> 'a \<Rightarrow> 'a list" where
  "deque_append n xs x = (if length xs < n then xs @ [x] else drop (Suc (length xs) - n) (xs @ [x]))"

text \<open>
  The server: the buffer, the holder of the lock, the threads, and a record of what was done to the buffer
  by whom, which the code does not keep.
\<close>

datatype wh_event =
    Appended nat json
  | ReadBack nat "json list"
  | Drained nat "json list"

record wh_server =
  wh_buffer :: "json list"
  wh_lock :: "nat option"
  wh_threads :: "nat \<Rightarrow> wh_thread"
  wh_history :: "wh_event list"

definition wh_init :: wh_server where
  "wh_init = \<lparr>wh_buffer = [], wh_lock = None, wh_threads = (\<lambda>_. Idle), wh_history = []\<rparr>"

inductive wh_step :: "(string \<Rightarrow> loaded) \<Rightarrow> wh_server \<Rightarrow> wh_server \<Rightarrow> bool" for loads where
  accept: "wh_threads s i = Idle \<Longrightarrow>
    wh_step loads s (s\<lparr>wh_threads := (wh_threads s)(i := handle_request loads req)\<rparr>)"
| acquire: "wh_threads s i = Wants op \<Longrightarrow> wh_lock s = None \<Longrightarrow>
    wh_step loads s (s\<lparr>wh_lock := Some i, wh_threads := (wh_threads s)(i := Holds op)\<rparr>)"
| snapshot: "wh_threads s i = Holds Snapshot \<Longrightarrow>
    wh_step loads s (s\<lparr>wh_threads := (wh_threads s)(i := Leaving 200 (JArr (wh_buffer s))),
      wh_history := wh_history s @ [ReadBack i (wh_buffer s)]\<rparr>)"
| take_copy: "wh_threads s i = Holds Drain \<Longrightarrow>
    wh_step loads s (s\<lparr>wh_threads := (wh_threads s)(i := Taken (wh_buffer s))\<rparr>)"
| clear_buffer: "wh_threads s i = Taken xs \<Longrightarrow>
    wh_step loads s (s\<lparr>wh_buffer := [], wh_threads := (wh_threads s)(i := Leaving 200 (JArr xs)),
      wh_history := wh_history s @ [Drained i xs]\<rparr>)"
| append_envelope: "wh_threads s i = Holds (Append envelope) \<Longrightarrow>
    wh_step loads s (s\<lparr>wh_buffer := deque_append buffer_size (wh_buffer s) envelope,
      wh_threads := (wh_threads s)(i := Leaving 200 (JObj [(''received'', JInt 1)])),
      wh_history := wh_history s @ [Appended i envelope]\<rparr>)"
| release: "wh_threads s i = Leaving st body \<Longrightarrow>
    wh_step loads s (s\<lparr>wh_lock := None, wh_threads := (wh_threads s)(i := Answered st body)\<rparr>)"

section \<open>What the receiver promises\<close>

text \<open>
  Read one operation at a time, a history is right when it can be replayed on the envelopes received since
  the last drain: an append adds one, and what was read or drained is the last thousand of them.
\<close>

fun replay :: "wh_event list \<Rightarrow> json list \<Rightarrow> json list option" where
  "replay [] seg = Some seg"
| "replay (Appended i e # h) seg = replay h (seg @ [e])"
| "replay (ReadBack i xs # h) seg = (if xs = last_n buffer_size seg then replay h seg else None)"
| "replay (Drained i xs # h) seg = (if xs = last_n buffer_size seg then replay h [] else None)"

lemma replay_append: "replay (h @ h') seg = Option.bind (replay h seg) (replay h')"
  by (induction h seg rule: replay.induct) auto

lemma last_n_append: "0 < n \<Longrightarrow> deque_append n (last_n n xs) x = last_n n (xs @ [x])"
  by (auto simp: deque_append_def last_n_def Suc_diff_le)

lemma last_n_length: "length (last_n n xs) = min n (length xs)"
  by (auto simp: last_n_def)

fun in_section :: "wh_thread \<Rightarrow> bool" where
  "in_section (Holds _) = True"
| "in_section (Taken _) = True"
| "in_section (Leaving _ _) = True"
| "in_section _ = False"

fun answer_of :: "wh_thread \<Rightarrow> json list option" where
  "answer_of (Leaving _ (JArr xs)) = Some xs"
| "answer_of (Answered _ (JArr xs)) = Some xs"
| "answer_of _ = None"

definition wh_inv :: "wh_server \<Rightarrow> bool" where
  "wh_inv s \<longleftrightarrow>
     (\<exists>seg. replay (wh_history s) [] = Some seg \<and> wh_buffer s = last_n buffer_size seg) \<and>
     (\<forall>i. in_section (wh_threads s i) \<longleftrightarrow> wh_lock s = Some i) \<and>
     (\<forall>i xs. wh_threads s i = Taken xs \<longrightarrow> xs = wh_buffer s) \<and>
     (\<forall>i xs. answer_of (wh_threads s i) = Some xs \<longrightarrow>
        ReadBack i xs \<in> set (wh_history s) \<or> Drained i xs \<in> set (wh_history s))"

lemma fresh_thread: "\<not> in_section (handle_request loads req) \<and> answer_of (handle_request loads req) = None \<and>
    (\<forall>xs. handle_request loads req \<noteq> Taken xs)"
  by (auto simp: handle_request_def do_GET_def do_DELETE_def do_POST_def not_found_def Let_def
      split: wh_request.splits sum.splits loaded.splits)

lemma wh_init_inv: "wh_inv wh_init"
  by (simp add: wh_inv_def wh_init_def last_n_def)

text \<open>The invariant after thread \<open>i\<close> has moved, leaving the other threads where they were.\<close>

lemma wh_inv_move:
  assumes "wh_inv s" and "wh_threads s' = (wh_threads s)(i := th)" and "wh_history s' = wh_history s @ h"
    and "\<exists>seg. replay (wh_history s @ h) [] = Some seg \<and> wh_buffer s' = last_n buffer_size seg"
    and "in_section th \<longleftrightarrow> wh_lock s' = Some i" and "\<And>j. j \<noteq> i \<Longrightarrow> wh_lock s' = Some j \<longleftrightarrow> wh_lock s = Some j"
    and "\<And>xs. th = Taken xs \<Longrightarrow> xs = wh_buffer s'" and "wh_buffer s' = wh_buffer s \<or> wh_lock s = Some i"
    and "\<And>xs. answer_of th = Some xs \<Longrightarrow> ReadBack i xs \<in> set (wh_history s @ h) \<or> Drained i xs \<in> set (wh_history s @ h)"
  shows "wh_inv s'"
proof -
  have taken: "xs = wh_buffer s'" if "j \<noteq> i" "wh_threads s j = Taken xs" for j xs
  proof -
    from that assms(1) have "wh_lock s = Some j" "xs = wh_buffer s"
      unfolding wh_inv_def by (metis in_section.simps(2), metis)
    with that(1) assms(8) show ?thesis by auto
  qed
  have answers: "ReadBack j xs \<in> set (wh_history s @ h) \<or> Drained j xs \<in> set (wh_history s @ h)"
    if "answer_of (wh_threads s j) = Some xs" for j xs
    using assms(1) that unfolding wh_inv_def by auto
  have locks: "in_section (wh_threads s j) \<longleftrightarrow> wh_lock s = Some j" for j
    using assms(1) by (simp add: wh_inv_def)
  show ?thesis
    unfolding wh_inv_def assms(2,3) using assms(4,5,6,7,9) taken answers locks by (simp split: if_splits)
qed

lemma wh_inv_parts:
  assumes "wh_inv s"
  obtains seg where "replay (wh_history s) [] = Some seg" and "wh_buffer s = last_n buffer_size seg"
    and "\<And>i. in_section (wh_threads s i) \<longleftrightarrow> wh_lock s = Some i"
    and "\<And>i xs. wh_threads s i = Taken xs \<Longrightarrow> xs = wh_buffer s"
    and "\<And>i xs. answer_of (wh_threads s i) = Some xs \<Longrightarrow>
      ReadBack i xs \<in> set (wh_history s) \<or> Drained i xs \<in> set (wh_history s)"
  using assms unfolding wh_inv_def by blast

lemma wh_step_inv:
  assumes "wh_step loads s s'" and "wh_inv s"
  shows "wh_inv s'"
proof -
  from assms(2) obtain seg where seg: "replay (wh_history s) [] = Some seg" "wh_buffer s = last_n buffer_size seg"
    and lock: "\<And>i. in_section (wh_threads s i) \<longleftrightarrow> wh_lock s = Some i"
    and taken: "\<And>i xs. wh_threads s i = Taken xs \<Longrightarrow> xs = wh_buffer s"
    and ans: "\<And>i xs. answer_of (wh_threads s i) = Some xs \<Longrightarrow>
      ReadBack i xs \<in> set (wh_history s) \<or> Drained i xs \<in> set (wh_history s)" by (rule wh_inv_parts) blast
  have kept: "\<exists>seg. replay (wh_history s @ []) [] = Some seg \<and> wh_buffer s = last_n buffer_size seg" using seg by simp
  note move = wh_inv_move [OF assms(2)]
  from assms(1) show ?thesis
  proof cases
    case (accept i req)
    then show ?thesis
      by (intro move [where i = i and th = "handle_request loads req" and h = "[]"])
        (use kept fresh_thread [of loads req] lock [of i] in simp_all)
  next
    case (acquire i op)
    then show ?thesis by (intro move [where i = i and th = "Holds op" and h = "[]"]) (use kept in simp_all)
  next
    case (snapshot i)
    then show ?thesis
      by (intro move [where i = i and th = "Leaving 200 (JArr (wh_buffer s))" and h = "[ReadBack i (wh_buffer s)]"])
        (use seg lock [of i] in \<open>simp_all add: replay_append\<close>)
  next
    case (take_copy i)
    then show ?thesis
      by (intro move [where i = i and th = "Taken (wh_buffer s)" and h = "[]"]) (use kept lock [of i] in simp_all)
  next
    case (clear_buffer i xs)
    then show ?thesis
      by (intro move [where i = i and th = "Leaving 200 (JArr xs)" and h = "[Drained i xs]"])
        (use seg lock [of i] taken [of i xs] in \<open>simp_all add: replay_append last_n_def\<close>)
  next
    case (append_envelope i e)
    then show ?thesis
      by (intro move [where i = i and th = "Leaving 200 (JObj [(''received'', JInt 1)])" and h = "[Appended i e]"])
        (use seg lock [of i] in \<open>simp_all add: replay_append last_n_append buffer_size_def\<close>)
  next
    case (release i st body)
    have "answer_of (Answered st body) = answer_of (Leaving st body)" by (cases body) simp_all
    with release show ?thesis
      by (intro move [where i = i and th = "Answered st body" and h = "[]"]) (use kept lock [of i] ans [of i] in simp_all)
  qed
qed

definition wh_reaches :: "(string \<Rightarrow> loaded) \<Rightarrow> wh_server \<Rightarrow> wh_server \<Rightarrow> bool" where
  "wh_reaches loads = (wh_step loads)\<^sup>*\<^sup>*"

lemma wh_reaches_inv: "wh_reaches loads s s' \<Longrightarrow> wh_inv s \<Longrightarrow> wh_inv s'"
  unfolding wh_reaches_def by (induction rule: rtranclp_induct) (auto intro: wh_step_inv)


text \<open>The lock is always given back: its holder can finish on its own, and then a waiting thread can.\<close>

lemma wh_reaches_step: "wh_step loads s s1 \<Longrightarrow> wh_reaches loads s1 s2 \<Longrightarrow> wh_reaches loads s s2"
  unfolding wh_reaches_def by (rule converse_rtranclp_into_rtranclp)

lemma wh_reaches_refl: "wh_reaches loads s s"
  by (simp add: wh_reaches_def)

lemma wh_reaches_trans: "wh_reaches loads s s1 \<Longrightarrow> wh_reaches loads s1 s2 \<Longrightarrow> wh_reaches loads s s2"
  unfolding wh_reaches_def by (rule rtranclp_trans)

definition finishes :: "(string \<Rightarrow> loaded) \<Rightarrow> nat \<Rightarrow> wh_server \<Rightarrow> bool" where
  "finishes loads i s \<longleftrightarrow>
     (\<exists>s' st body. wh_reaches loads s s' \<and> wh_lock s' = None \<and> wh_threads s' = (wh_threads s)(i := Answered st body))"

lemma finishes_step:
  assumes "wh_step loads s s1" and "wh_threads s1 = (wh_threads s)(i := th)" and "finishes loads i s1"
  shows "finishes loads i s"
proof -
  from assms(3) obtain s' st body where "wh_reaches loads s1 s'" "wh_lock s' = None"
    "wh_threads s' = (wh_threads s1)(i := Answered st body)" unfolding finishes_def by blast
  with assms(2) wh_reaches_step [OF assms(1)] show ?thesis unfolding finishes_def by (metis fun_upd_upd)
qed

lemma leaving_finishes:
  assumes "wh_threads s i = Leaving st body"
  shows "finishes loads i s"
proof -
  define s' where "s' = s\<lparr>wh_lock := None, wh_threads := (wh_threads s)(i := Answered st body)\<rparr>"
  have "wh_reaches loads s s'"
    unfolding s'_def by (rule wh_reaches_step [OF wh_step.release [OF assms] wh_reaches_refl])
  moreover have "wh_lock s' = None" "wh_threads s' = (wh_threads s)(i := Answered st body)" by (simp_all add: s'_def)
  ultimately show ?thesis unfolding finishes_def by blast
qed

lemma taken_finishes:
  assumes "wh_threads s i = Taken xs"
  shows "finishes loads i s"
  by (rule finishes_step [OF wh_step.clear_buffer [OF assms], where th = "Leaving 200 (JArr xs)"])
    (simp, rule leaving_finishes, simp)

lemma holder_finishes:
  assumes "in_section (wh_threads s i)"
  shows "finishes loads i s"
proof (cases "wh_threads s i")
  case (Holds op)
  show ?thesis
  proof (cases op)
    case Snapshot
    with Holds have "wh_threads s i = Holds Snapshot" by simp
    from finishes_step [OF wh_step.snapshot [OF this], where th = "Leaving 200 (JArr (wh_buffer s))"] show ?thesis
      by (simp add: leaving_finishes)
  next
    case Drain
    with Holds have "wh_threads s i = Holds Drain" by simp
    from finishes_step [OF wh_step.take_copy [OF this], where th = "Taken (wh_buffer s)"] show ?thesis
      by (simp add: taken_finishes)
  next
    case (Append e)
    with Holds have "wh_threads s i = Holds (Append e)" by simp
    from finishes_step [OF wh_step.append_envelope [OF this], where th = "Leaving 200 (JObj [(''received'', JInt 1)])"]
    show ?thesis by (simp add: leaving_finishes)
  qed
qed (use assms leaving_finishes taken_finishes in auto)

lemma finishes_answered:
  assumes "finishes loads i s"
  obtains s' st body where "wh_reaches loads s s'" and "wh_threads s' i = Answered st body"
proof -
  from assms obtain s' st body where "wh_reaches loads s s'" "wh_threads s' = (wh_threads s)(i := Answered st body)"
    unfolding finishes_def by blast
  with that show thesis by simp
qed

theorem waiting_request_answered:
  assumes "wh_reaches loads wh_init s" and "wh_threads s i = Wants op"
  shows "\<exists>s' st body. wh_reaches loads s s' \<and> wh_threads s' i = Answered st body"
proof -
  have free: "finishes loads i s" if "wh_lock s = None" "wh_threads s i = Wants op" for s
    using finishes_step [OF wh_step.acquire [OF that(2,1)], where th = "Holds op"] by (simp add: holder_finishes)
  show ?thesis
  proof (cases "wh_lock s")
    case None
    from finishes_answered [OF free [OF this assms(2)]] show ?thesis by blast
  next
    case (Some j)
    have "wh_inv s" using wh_reaches_inv [OF assms(1) wh_init_inv] .
    with Some have "in_section (wh_threads s j)" by (simp add: wh_inv_def)
    with assms(2) have "j \<noteq> i" by auto
    from holder_finishes [OF \<open>in_section (wh_threads s j)\<close>, of loads] obtain s1 st body where s1: "wh_reaches loads s s1" "wh_lock s1 = None"
      "wh_threads s1 = (wh_threads s)(j := Answered st body)" by (auto simp: finishes_def)
    with \<open>j \<noteq> i\<close> assms(2) have "finishes loads i s1" by (intro free) simp_all
    then obtain s2 st2 body2 where "wh_reaches loads s1 s2" "wh_threads s2 i = Answered st2 body2" by (rule finishes_answered)
    with wh_reaches_trans [OF s1(1)] show ?thesis by blast
  qed
qed

text \<open>
  C38. The receiver loses no envelope to a race: however the handler threads interleave, the operations on
  the buffer have an order in which each append adds one envelope and everything that a \<open>GET /captured\<close> or
  \<open>DELETE /captured\<close> has answered is exactly the last thousand envelopes received since the previous drain;
  in particular nothing arrives between the copy and the clearing of a drain.
\<close>

theorem captured_linearizable:
  assumes "wh_reaches loads wh_init s"
  shows "(\<exists>seg. replay (wh_history s) [] = Some seg \<and> wh_buffer s = last_n 1000 seg) \<and>
    (\<forall>i st xs. wh_threads s i = Answered st (JArr xs) \<longrightarrow>
       ReadBack i xs \<in> set (wh_history s) \<or> Drained i xs \<in> set (wh_history s))"
proof -
  from assms wh_init_inv have "wh_inv s" by (rule wh_reaches_inv)
  have "answer_of (Answered st (JArr xs)) = Some xs" for st xs by simp
  then show ?thesis
    using \<open>wh_inv s\<close> unfolding wh_inv_def buffer_size_def [symmetric] by metis
qed

text \<open>One thread posts an envelope, another drains the buffer.\<close>

definition posted_and_drained :: wh_server where
  "posted_and_drained = \<lparr>wh_buffer = [], wh_lock = None,
     wh_threads = (\<lambda>_. Idle)(0 := Answered 200 (JObj [(''received'', JInt 1)]), 1 := Answered 200 (JArr [JObj []])),
     wh_history = [Appended 0 (JObj []), Drained 1 [JObj []]]\<rparr>"

lemma posted_and_drained_reached: "wh_reaches loads wh_init posted_and_drained"
proof -
  let ?pd = "\<lambda>b l t0 t1 h. \<lparr>wh_buffer = b, wh_lock = l, wh_threads = (\<lambda>_. Idle)(0 := t0, 1 := t1), wh_history = h\<rparr>"
  let ?a = "Append (JObj [])" and ?ok = "JObj [(''received'', JInt 1)]" and ?e = "[JObj []]"
  let ?h1 = "[Appended 0 (JObj [])]" and ?h2 = "[Appended 0 (JObj []), Drained 1 [JObj []]]"
  have post: "handle_request loads (POST ''/webhook'' None []) = Wants ?a"
    and del: "handle_request loads (DELETE ''/captured'') = Wants Drain"
    by (simp_all add: handle_request_def do_POST_def do_DELETE_def content_length_def read_body_def Let_def)
  have s1: "wh_step loads (?pd [] None Idle Idle []) (?pd [] None (Wants ?a) Idle [])"
    using wh_step.accept [of "?pd [] None Idle Idle []" 0 loads "POST ''/webhook'' None []"] by (simp add: post fun_upd_twist)
  have s2: "wh_step loads (?pd [] None (Wants ?a) Idle []) (?pd [] None (Wants ?a) (Wants Drain) [])"
    using wh_step.accept [of "?pd [] None (Wants ?a) Idle []" 1 loads "DELETE ''/captured''"] by (simp add: del)
  have s3: "wh_step loads (?pd [] None (Wants ?a) (Wants Drain) []) (?pd [] (Some 0) (Holds ?a) (Wants Drain) [])"
    using wh_step.acquire [of "?pd [] None (Wants ?a) (Wants Drain) []" 0 ?a loads] by (simp add: fun_upd_twist)
  have s4: "wh_step loads (?pd [] (Some 0) (Holds ?a) (Wants Drain) []) (?pd ?e (Some 0) (Leaving 200 ?ok) (Wants Drain) ?h1)"
    using wh_step.append_envelope [of "?pd [] (Some 0) (Holds ?a) (Wants Drain) []" 0 "JObj []" loads]
    by (simp add: fun_upd_twist deque_append_def buffer_size_def)
  have s5: "wh_step loads (?pd ?e (Some 0) (Leaving 200 ?ok) (Wants Drain) ?h1) (?pd ?e None (Answered 200 ?ok) (Wants Drain) ?h1)"
    using wh_step.release [of "?pd ?e (Some 0) (Leaving 200 ?ok) (Wants Drain) ?h1" 0 200 ?ok loads] by (simp add: fun_upd_twist)
  have s6: "wh_step loads (?pd ?e None (Answered 200 ?ok) (Wants Drain) ?h1) (?pd ?e (Some 1) (Answered 200 ?ok) (Holds Drain) ?h1)"
    using wh_step.acquire [of "?pd ?e None (Answered 200 ?ok) (Wants Drain) ?h1" 1 Drain loads] by simp
  have s7: "wh_step loads (?pd ?e (Some 1) (Answered 200 ?ok) (Holds Drain) ?h1) (?pd ?e (Some 1) (Answered 200 ?ok) (Taken ?e) ?h1)"
    using wh_step.take_copy [of "?pd ?e (Some 1) (Answered 200 ?ok) (Holds Drain) ?h1" 1 loads] by simp
  have s8: "wh_step loads (?pd ?e (Some 1) (Answered 200 ?ok) (Taken ?e) ?h1) (?pd [] (Some 1) (Answered 200 ?ok) (Leaving 200 (JArr ?e)) ?h2)"
    using wh_step.clear_buffer [of "?pd ?e (Some 1) (Answered 200 ?ok) (Taken ?e) ?h1" 1 ?e loads] by simp
  have s9: "wh_step loads (?pd [] (Some 1) (Answered 200 ?ok) (Leaving 200 (JArr ?e)) ?h2) posted_and_drained"
    using wh_step.release [of "?pd [] (Some 1) (Answered 200 ?ok) (Leaving 200 (JArr ?e)) ?h2" 1 200 "JArr ?e" loads]
    by (simp add: posted_and_drained_def)
  have init: "wh_init = ?pd [] None Idle Idle []" by (simp add: wh_init_def fun_eq_iff)
  note from_here = wh_reaches_step [OF s5 wh_reaches_step [OF s6 wh_reaches_step [OF s7 wh_reaches_step [OF s8
    wh_reaches_step [OF s9 wh_reaches_refl]]]]]
  show ?thesis
    unfolding init by (rule wh_reaches_step [OF s1 wh_reaches_step [OF s2 wh_reaches_step [OF s3 wh_reaches_step [OF s4 from_here]]]])
qed

theorem captured_linearizable_witness:
  "replay (wh_history posted_and_drained) [] = Some [] \<and>
   (ReadBack 1 [JObj []] \<in> set (wh_history posted_and_drained) \<or> Drained 1 [JObj []] \<in> set (wh_history posted_and_drained))"
  using captured_linearizable [OF posted_and_drained_reached]
  by (auto simp: posted_and_drained_def last_n_def buffer_size_def)

end
