(* ===== verification/CM_Kafka.thy ===== *)
theory CM_Kafka
  imports CM_Json
begin

text \<open>
  The Kafka producer and consumer classes, \<open>kafka/producer.py\<close> and \<open>kafka/consumer.py\<close>.  A topic is one
  log of messages; a consumer group has a committed offset in each, and a started consumer a position.  The
  message handler is a parameter that acts on the same world.
\<close>

section \<open>State\<close>

text \<open>\<open>str.encode("utf-8")\<close> on the modelled code points.\<close>

definition utf8 :: "string \<Rightarrow> nat list" where
  "utf8 s = concat (map (\<lambda>c. if code c < 128 then [code c] else [192 + code c div 64, 128 + code c mod 64]) s)"

type_synonym headers = "(string \<times> nat list) list"

record kafka_message =
  km_headers :: headers
  km_value :: json

text \<open>
  \<open>kf_handled\<close> records the offsets whose handler has returned; the code does not keep it.
\<close>

record kafka =
  kf_producer :: bool
  kf_log :: "string \<Rightarrow> kafka_message list"
  kf_consumer :: bool
  kf_position :: "string \<Rightarrow> nat"
  kf_committed :: "string \<Rightarrow> nat"
  kf_commit_error :: "exc option"
  kf_handled :: "(string \<times> nat) set"

section \<open>kafka/producer.py\<close>

definition producer_start :: "(exc, 'z kafka_scheme, unit) act" where
  "producer_start = act_modify (\<lambda>w. w\<lparr>kf_producer := True\<rparr>)"

definition producer_stop :: "(exc, 'z kafka_scheme, unit) act" where
  "producer_stop = act_modify (\<lambda>w. w\<lparr>kf_producer := False\<rparr>)"

definition publish_headers :: "string \<Rightarrow> string \<Rightarrow> string option \<Rightarrow> headers" where
  "publish_headers tenant_id correlation_id schema_version =
     [(''tenant_id'', utf8 tenant_id), (''correlation_id'', utf8 correlation_id)] @
     (case schema_version of None \<Rightarrow> [] | Some v \<Rightarrow> [(''schema_version'', utf8 v)])"

text \<open>
  The payload is written with \<open>json.dumps\<close> and read back with \<open>json.loads\<close>.
\<close>

definition on_wire :: "pyrt \<Rightarrow> json \<Rightarrow> exc + json" where
  "on_wire rt v = (case rt_loads rt (dumps rt v) of Some v' \<Rightarrow> Inr v' | None \<Rightarrow> Inl (ValueError ''json''))"

definition publish ::
  "pyrt \<Rightarrow> string \<Rightarrow> dict \<Rightarrow> string \<Rightarrow> string \<Rightarrow> string option \<Rightarrow> (exc, 'z kafka_scheme, unit) act" where
  "publish rt topic payload tenant_id correlation_id schema_version =
     act_bind (act_gets kf_producer) (\<lambda>started.
     if \<not> started then act_raise (RuntimeError ''kafka producer is not started'')
     else
       act_bind (act_lift (on_wire rt (JObj payload))) (\<lambda>value.
       act_modify (\<lambda>w. w\<lparr>kf_log := (kf_log w)(topic := kf_log w topic @
         [\<lparr>km_headers = publish_headers tenant_id correlation_id schema_version, km_value = value\<rparr>])\<rparr>)))"

section \<open>kafka/consumer.py\<close>

text \<open>Starting the consumer puts its position at the group's committed offsets (\<open>"earliest"\<close> where there is none).\<close>

definition consumer_start :: "(exc, 'z kafka_scheme, unit) act" where
  "consumer_start = act_modify (\<lambda>w. w\<lparr>kf_consumer := True, kf_position := kf_committed w\<rparr>)"

definition consumer_stop :: "(exc, 'z kafka_scheme, unit) act" where
  "consumer_stop = act_modify (\<lambda>w. w\<lparr>kf_consumer := False\<rparr>)"

text \<open>\<open>commit()\<close> without arguments commits the position in every topic.\<close>

definition commit :: "(exc, 'z kafka_scheme, unit) act" where
  "commit = (\<lambda>w. case kf_commit_error w of
     Some e \<Rightarrow> (Inl e, w)
   | None \<Rightarrow> (Inr (), w\<lparr>kf_committed := kf_position w\<rparr>))"

text \<open>A dictionary built from the header pairs keeps the last value of a repeated key.\<close>

definition header_dict :: "headers \<Rightarrow> string \<Rightarrow> nat list option" where
  "header_dict hs = map_of (rev hs)"

type_synonym 'z handler = "(string \<Rightarrow> nat list option) \<Rightarrow> json \<Rightarrow> (exc, 'z kafka_scheme, unit) act"

text \<open>
  One turn of the loop on a topic that has a message: the iterator returns it and moves the position past it,
  then the handler runs, then the commit.
\<close>

definition consume_one :: "'z handler \<Rightarrow> string \<Rightarrow> (exc, 'z kafka_scheme, unit) act" where
  "consume_one handler topic =
     act_bind (act_gets (\<lambda>w. (kf_position w topic, kf_log w topic))) (\<lambda>(pos, log).
     if pos < length log then
       act_bind (act_modify (\<lambda>w. w\<lparr>kf_position := (kf_position w)(topic := Suc pos)\<rparr>)) (\<lambda>_.
       act_bind (handler (header_dict (km_headers (log ! pos))) (km_value (log ! pos))) (\<lambda>_.
       act_bind (act_modify (\<lambda>w. w\<lparr>kf_handled := insert (topic, pos) (kf_handled w)\<rparr>)) (\<lambda>_.
       commit)))
     else act_return ())"

text \<open>
  The loop over the messages the broker returns, in the order of topics it chooses; a topic without a new
  message is passed over.
\<close>

definition consumer_run :: "'z handler \<Rightarrow> string list \<Rightarrow> (exc, 'z kafka_scheme, unit) act" where
  "consumer_run handler schedule =
     act_bind (act_gets kf_consumer) (\<lambda>started.
     if \<not> started then act_raise (RuntimeError ''kafka consumer is not started'')
     else act_foreach (consume_one handler) schedule)"

section \<open>Delivery\<close>

text \<open>What a handler may not do: move the consumer or the log of messages behind its back.\<close>

definition same_offsets :: "'z kafka_scheme \<Rightarrow> 'z kafka_scheme \<Rightarrow> bool" where
  "same_offsets w w' \<longleftrightarrow> kf_position w' = kf_position w \<and> kf_committed w' = kf_committed w \<and> kf_handled w' = kf_handled w \<and>
     kf_consumer w' = kf_consumer w"

definition well_behaved :: "'z handler \<Rightarrow> bool" where
  "well_behaved handler \<longleftrightarrow> (\<forall>h v. act_preserves same_offsets (handler h v))"

definition committed_handled :: "'z kafka_scheme \<Rightarrow> bool" where
  "committed_handled w \<longleftrightarrow> (\<forall>t n. n < kf_committed w t \<longrightarrow> (t, n) \<in> kf_handled w)"

definition position_handled :: "'z kafka_scheme \<Rightarrow> bool" where
  "position_handled w \<longleftrightarrow> (\<forall>t n. n < kf_position w t \<longrightarrow> (t, n) \<in> kf_handled w)"

lemma consume_one_keeps:
  assumes "well_behaved handler" and "consume_one handler t w = (r, w')"
    and "committed_handled w" and "position_handled w"
  shows "committed_handled w'" and "r = Inr () \<Longrightarrow> position_handled w'"
proof -
  let ?pos = "kf_position w t"
  have goal: "committed_handled w' \<and> (r = Inr () \<longrightarrow> position_handled w')"
  proof (cases "?pos < length (kf_log w t)")
    case True
    let ?m = "kf_log w t ! ?pos" and ?w1 = "w\<lparr>kf_position := (kf_position w)(t := Suc ?pos)\<rparr>"
    obtain r2 w2 where h: "handler (header_dict (km_headers ?m)) (km_value ?m) ?w1 = (r2, w2)" by (rule prod.exhaust)
    have same: "same_offsets ?w1 w2" using assms(1) h by (auto simp: well_behaved_def dest: act_preservesD)
    show ?thesis
    proof (cases r2)
      case (Inl e)
      with h True assms(2) have "w' = w2" "r = Inl e" by (auto simp: consume_one_def act_bind_run act_run_simps)
      with same assms(3) show ?thesis by (simp add: same_offsets_def committed_handled_def)
    next
      case (Inr u)
      define w3 where "w3 = w2\<lparr>kf_handled := insert (t, ?pos) (kf_handled w2)\<rparr>"
      have run: "commit w3 = (r, w')"
        using h True assms(2) Inr by (simp add: consume_one_def act_bind_run act_run_simps w3_def)
      have pos: "position_handled w3" and com: "committed_handled w3"
        using same assms(3,4)
        by (auto simp: same_offsets_def committed_handled_def position_handled_def w3_def less_Suc_eq)
      from run pos com show ?thesis
        by (auto simp: commit_def committed_handled_def position_handled_def split: option.splits)
    qed
  qed (use assms(2-4) in \<open>simp add: consume_one_def act_bind_run act_run_simps\<close>)
  from goal show "committed_handled w'" and "r = Inr () \<Longrightarrow> position_handled w'" by simp_all
qed

lemma consume_all_keeps:
  assumes "well_behaved handler" and "act_foreach (consume_one handler) ts w = (r, w')"
    and "committed_handled w" and "position_handled w"
  shows "committed_handled w'"
  using assms(2-4)
proof (induction ts arbitrary: w)
  case (Cons t ts)
  obtain r1 w1 where one: "consume_one handler t w = (r1, w1)" by (rule prod.exhaust)
  note kept = consume_one_keeps [OF assms(1) one Cons.prems(2,3)]
  show ?case
  proof (cases r1)
    case (Inl e)
    with one Cons.prems(1) kept(1) show ?thesis by (simp add: act_bind_run)
  next
    case (Inr u)
    with one Cons.prems(1) have "act_foreach (consume_one handler) ts w1 = (r, w')" by (simp add: act_bind_run)
    from Cons.IH [OF this kept(1)] kept(2) Inr show ?thesis by simp
  qed
qed (simp add: act_run_simps)

lemma consumer_run_keeps:
  assumes "well_behaved handler" and "consumer_run handler ts w = (r, w')"
    and "committed_handled w" and "position_handled w"
  shows "committed_handled w'"
proof (cases "kf_consumer w")
  case True
  with assms(2) have "act_foreach (consume_one handler) ts w = (r, w')"
    by (simp add: consumer_run_def act_bind_run act_run_simps)
  from consume_all_keeps [OF assms(1) this assms(3,4)] show ?thesis .
qed (use assms(2,3) in \<open>auto simp: consumer_run_def act_bind_run act_run_simps\<close>)

text \<open>
  The life of a consumer group: messages are published, and consumers are started, run for as long as the
  broker and the handler let them, and stopped or lost.
\<close>

definition session :: "'z handler \<Rightarrow> string list \<Rightarrow> (exc, 'z kafka_scheme, unit) act" where
  "session handler schedule = act_bind consumer_start (\<lambda>_. consumer_run handler schedule)"

inductive group_life :: "'z handler \<Rightarrow> 'z kafka_scheme \<Rightarrow> 'z kafka_scheme \<Rightarrow> bool" for handler w where
  begun: "group_life handler w w"
| published: "group_life handler w w1 \<Longrightarrow> publish rt topic payload tenant corr ver w1 = (r, w2) \<Longrightarrow> group_life handler w w2"
| consumed: "group_life handler w w1 \<Longrightarrow> session handler schedule w1 = (r, w2) \<Longrightarrow> group_life handler w w2"
| stopped: "group_life handler w w1 \<Longrightarrow> consumer_stop w1 = (r, w2) \<Longrightarrow> group_life handler w w2"
| broker: "group_life handler w w1 \<Longrightarrow> group_life handler w (w1\<lparr>kf_commit_error := e\<rparr>)"

lemma publish_offsets: "publish rt topic payload tenant corr ver w = (r, w') \<Longrightarrow> same_offsets w w'"
  by (auto simp: publish_def act_bind_run act_run_simps same_offsets_def split: if_splits sum.splits)

lemma same_offsets_committed: "same_offsets w w' \<Longrightarrow> committed_handled w \<Longrightarrow> committed_handled w'"
  by (simp add: same_offsets_def committed_handled_def)

lemma session_keeps:
  assumes "well_behaved handler" and "session handler ts w = (r, w')" and "committed_handled w"
  shows "committed_handled w'"
proof -
  let ?w1 = "w\<lparr>kf_consumer := True, kf_position := kf_committed w\<rparr>"
  have "consumer_run handler ts ?w1 = (r, w')"
    using assms(2) by (simp add: session_def consumer_start_def act_bind_run act_run_simps)
  moreover have "committed_handled ?w1" "position_handled ?w1"
    using assms(3) by (simp_all add: committed_handled_def position_handled_def)
  ultimately show ?thesis using consumer_run_keeps [OF assms(1)] by blast
qed

text \<open>
  C39. At least once: over any sequence of publications and consumer sessions, with handlers and commits
  failing anywhere, an offset below the group's committed one belongs to a message whose handler has returned.
  A message whose handler raised is therefore delivered again by the next session.
\<close>

theorem committed_messages_handled:
  assumes "well_behaved handler" and "group_life handler w w'"
    and "\<And>t. kf_committed w t = 0" and "n < kf_committed w' t"
  shows "(t, n) \<in> kf_handled w'"
proof -
  from assms(2) have "committed_handled w'"
  proof induction
    case begun
    then show ?case using assms(3) by (simp add: committed_handled_def)
  next
    case (published w1 rt topic payload tenant corr ver r w2)
    then show ?case using publish_offsets same_offsets_committed by blast
  next
    case (consumed w1 ts r w2)
    then show ?case using session_keeps [OF assms(1)] by blast
  next
    case (stopped w1 r w2)
    then show ?case by (auto simp: consumer_stop_def act_run_simps committed_handled_def)
  next
    case (broker w1 e)
    then show ?case by (simp add: committed_handled_def)
  qed
  with assms(4) show ?thesis by (simp add: committed_handled_def)
qed

text \<open>
  The sessions matter: a consumer that is run again after its handler raised, without being started anew, goes on behind
  the failed message, and its next commit covers it.
\<close>

definition fail_first :: "unit handler" where
  "fail_first headers value = (if value = JInt 1 then act_raise (RuntimeError ''handler'') else act_return ())"

definition two_messages :: kafka where
  "two_messages = \<lparr>kf_producer = True, kf_log = (\<lambda>_. [\<lparr>km_headers = [], km_value = JInt 1\<rparr>, \<lparr>km_headers = [], km_value = JInt 2\<rparr>]),
     kf_consumer = True, kf_position = (\<lambda>_. 0), kf_committed = (\<lambda>_. 0), kf_commit_error = None, kf_handled = {}\<rparr>"

lemma rerun_skips_failed:
  "\<exists>w1 w2. consumer_run fail_first [''t''] two_messages = (Inl (RuntimeError ''handler''), w1) \<and>
     consumer_run fail_first [''t''] w1 = (Inr (), w2) \<and> kf_committed w2 ''t'' = 2 \<and> (''t'', 0) \<notin> kf_handled w2"
  by (simp add: consumer_run_def consume_one_def act_bind_run act_run_simps two_messages_def fail_first_def commit_def)

lemma fail_first_offsets: "well_behaved fail_first"
  by (simp add: well_behaved_def act_preserves_def fail_first_def act_run_simps same_offsets_def)

text \<open>What is published is what the handler is given.\<close>

lemma utf8_ascii: "\<forall>c \<in> set s. code c < 128 \<Longrightarrow> utf8 s = map of_char s"
  unfolding utf8_def by (induction s) auto

lemma published_headers:
  "header_dict (publish_headers tenant corr ver) ''tenant_id'' = Some (utf8 tenant)"
  "header_dict (publish_headers tenant corr ver) ''correlation_id'' = Some (utf8 corr)"
  "header_dict (publish_headers tenant corr ver) ''schema_version'' = map_option utf8 ver"
  by (simp_all add: header_dict_def publish_headers_def split: option.splits)

definition ignore_all :: "unit handler" where
  "ignore_all headers value = act_return ()"

definition after_session :: kafka where
  "after_session = two_messages\<lparr>kf_position := (\<lambda>_. 0)(''t'' := 2), kf_committed := (\<lambda>_. 0)(''t'' := 2),
     kf_handled := {(''t'', 0), (''t'', 1)}\<rparr>"

theorem committed_messages_handled_witness: "(''t'', 1) \<in> kf_handled after_session"
proof (rule committed_messages_handled [of ignore_all two_messages])
  have "session ignore_all [''t'', ''t''] two_messages = (Inr (), after_session)"
    by (simp add: session_def consumer_start_def consumer_run_def consume_one_def act_bind_run act_run_simps two_messages_def
        ignore_all_def commit_def after_session_def insert_commute numeral_2_eq_2)
  then show "group_life ignore_all two_messages after_session" by (rule group_life.consumed [OF group_life.begun])
qed (simp_all add: well_behaved_def act_preserves_def ignore_all_def act_run_simps same_offsets_def two_messages_def after_session_def)

end
