(* ===== verification/CM_Records.thy ===== *)
theory CM_Records
  imports CM_Feedback CM_Ingest CM_Erasure
begin

text \<open>
  The record models that the code documents its stored data with but does not run: \<open>models/audit.py\<close>,
  \<open>models/outcome.py\<close>, the persistence classes of \<open>models/finding.py\<close> and \<open>models/erasure.py\<close>; and the
  synthetic findings of \<open>simulators/diagnostic_finding_generator.py\<close>.  The theorems say which of the
  stored rows, as the reads return them, satisfy these models.
\<close>

section \<open>Models as lists of fields\<close>

text \<open>A field is its name, whether it must be present, and the check of its value.\<close>

type_synonym model_field = "string \<times> bool \<times> (string list \<Rightarrow> json \<Rightarrow> verr list)"

definition model_errors :: "model_field list \<Rightarrow> string list \<Rightarrow> json \<Rightarrow> verr list" where
  "model_errors fs loc j =
     (case j of
        JObj d \<Rightarrow>
          concat (map (\<lambda>(name, required, check).
            case dict_get d name of
              None \<Rightarrow> if required then [\<lparr>verr_loc = loc @ [name], verr_type = ''missing''\<rparr>] else []
            | Some v \<Rightarrow> check (loc @ [name]) v) fs) @ v_extra d loc (map fst fs)
      | _ \<Rightarrow> [\<lparr>verr_loc = loc, verr_type = ''model_type''\<rparr>])"

definition f_str :: "string list \<Rightarrow> json \<Rightarrow> verr list" where
  "f_str loc j = errs (v_str 0 None any_str loc j)"

definition f_nonempty :: "string list \<Rightarrow> json \<Rightarrow> verr list" where
  "f_nonempty loc j = errs (v_nonempty loc j)"

definition f_literal :: "string list \<Rightarrow> string list \<Rightarrow> json \<Rightarrow> verr list" where
  "f_literal opts loc j = errs (v_literal opts loc j)"

definition f_datetime :: "pydantic \<Rightarrow> string list \<Rightarrow> json \<Rightarrow> verr list" where
  "f_datetime pyd loc j = errs (v_datetime pyd loc j)"

definition f_int :: "pydantic \<Rightarrow> (int \<Rightarrow> bool) \<Rightarrow> string list \<Rightarrow> json \<Rightarrow> verr list" where
  "f_int pyd P loc j = errs (v_int pyd P loc j)"

definition f_float :: "pydantic \<Rightarrow> (rat \<Rightarrow> bool) \<Rightarrow> string list \<Rightarrow> json \<Rightarrow> verr list" where
  "f_float pyd P loc j = errs (v_float pyd P loc j)"

definition f_strs :: "string list \<Rightarrow> json \<Rightarrow> verr list" where
  "f_strs loc j = errs (v_list 0 (v_str 0 None any_str) loc j)"

definition f_dict :: "string list \<Rightarrow> json \<Rightarrow> verr list" where
  "f_dict loc j = errs (v_dict loc j)"

definition f_str_dict :: "string list \<Rightarrow> json \<Rightarrow> verr list" where
  "f_str_dict loc j =
     (case j of JObj d \<Rightarrow> concat (map (\<lambda>(k, v). f_str (loc @ [k]) v) d) | _ \<Rightarrow> f_dict loc j)"

definition f_optional :: "(string list \<Rightarrow> json \<Rightarrow> verr list) \<Rightarrow> string list \<Rightarrow> json \<Rightarrow> verr list" where
  "f_optional f loc j = (if j = JNull then [] else f loc j)"

section \<open>models/audit.py\<close>

definition AuditKind :: "string list" where
  "AuditKind = [''accepted'', ''rejected'', ''generated'', ''validated'', ''deployed'', ''outcome'', ''erasure'']"

definition AuditEvent :: "pydantic \<Rightarrow> model_field list" where
  "AuditEvent pyd =
     [(''event_id'', True, f_str), (''tenant_id'', True, f_str), (''kind'', True, f_literal AuditKind),
      (''correlation_id'', True, f_str), (''principal_subject'', True, f_str), (''occurred_at'', True, f_datetime pyd),
      (''originating_finding'', False, f_optional f_str_dict), (''policy_ref'', False, f_optional f_dict),
      (''deployment_ref'', False, f_optional f_dict), (''outcome_ref'', False, f_optional f_dict), (''error'', False, f_optional f_dict),
      (''slm_repo'', False, f_optional f_str), (''slm_revision_sha'', False, f_optional f_str),
      (''slm_runtime'', False, f_optional f_str), (''slm_runtime_version'', False, f_optional f_str),
      (''slm_quantization'', False, f_optional f_str), (''slm_decoding_seed'', False, f_optional (f_int pyd (\<lambda>_. True))),
      (''prompt_template_version'', False, f_optional f_str), (''inbound_schema_version'', False, f_optional f_str),
      (''time_acceleration_factor'', False, f_optional (f_float pyd (\<lambda>_. True)))]"

section \<open>models/outcome.py\<close>

definition HypothesisState :: "string list" where
  "HypothesisState = [''confirmed'', ''ruled_out'', ''no_data'']"

definition OriginatingFindingRef :: "model_field list" where
  "OriginatingFindingRef = [(''tenant_id'', True, f_str), (''finding_id'', True, f_str)]"

definition PolicyRef :: "model_field list" where
  "PolicyRef = [(''tenant_id'', True, f_str), (''policy_id'', True, f_str), (''version'', True, f_str)]"

definition PolicyOutcome :: "pydantic \<Rightarrow> model_field list" where
  "PolicyOutcome pyd =
     [(''outcome_id'', True, f_str), (''originating_finding'', True, model_errors OriginatingFindingRef),
      (''policy_ref'', False, f_optional (model_errors PolicyRef)), (''hypothesis_state'', True, f_literal HypothesisState),
      (''evaluated_at'', True, f_datetime pyd), (''signals_collected_count'', False, f_int pyd (\<lambda>n. 0 \<le> n)),
      (''data_quality_score'', False, f_float pyd (\<lambda>q. 0 \<le> q \<and> q \<le> 1)), (''evidence_summary'', False, f_dict)]"

section \<open>models/finding.py and models/erasure.py\<close>

text \<open>The library reads \<open>bytes\<close> from a string.\<close>

definition DiagnosticFindingRecord :: "pydantic \<Rightarrow> model_field list" where
  "DiagnosticFindingRecord pyd =
     [(''tenant_id'', True, f_nonempty), (''finding_id'', True, f_nonempty), (''schema_version'', True, \<lambda>loc j. errs (v_semver loc j)),
      (''anomaly_type'', True, f_nonempty), (''hypothesis_class'', True, f_nonempty), (''hypothesis_statement'', True, f_str),
      (''candidate_signals'', True, f_strs), (''vehicle_scope'', True, f_strs),
      (''upstream_confidence'', True, f_float pyd (\<lambda>_. True)), (''received_at'', True, f_datetime pyd),
      (''received_payload_sha256'', True, f_str)]"

definition ErasureStatus :: "string list" where
  "ErasureStatus = [''requested'', ''in_progress'', ''completed'', ''partial'']"

definition ErasureReceipt :: "pydantic \<Rightarrow> model_field list" where
  "ErasureReceipt pyd = [(''request_id'', True, f_str), (''target_completion_at'', True, f_datetime pyd)]"

definition PerStoreStatus :: "model_field list" where
  "PerStoreStatus = [(''registry'', False, f_str), (''telemetry'', False, f_str), (''audit'', False, f_str)]"

definition ErasureRecord :: "pydantic \<Rightarrow> model_field list" where
  "ErasureRecord pyd =
     [(''request_id'', True, f_str), (''tenant_id'', True, f_str), (''subject_kind'', True, f_literal subject_kinds),
      (''subject_identifier'', True, f_str), (''requested_by'', True, f_str), (''requested_at'', True, f_datetime pyd),
      (''target_completion_at'', True, f_datetime pyd), (''status'', True, f_literal ErasureStatus),
      (''per_store_status'', False, model_errors PerStoreStatus), (''mode'', False, f_literal erasure_modes),
      (''completed_at'', False, f_optional (f_datetime pyd))]"

section \<open>simulators/diagnostic\_finding\_generator.py\<close>

text \<open>\<open>{i:03d}\<close>.\<close>

definition show_pad3 :: "nat \<Rightarrow> string" where
  "show_pad3 n = (let s = show_nat n in replicate (3 - length s) (CHR ''0'') @ s)"

text \<open>The random draw, the identifier's digits and the current time are arguments.\<close>

definition brake_wear_finding :: "rat \<Rightarrow> string \<Rightarrow> string \<Rightarrow> string option \<Rightarrow> nat \<Rightarrow> rat option \<Rightarrow> dict" where
  "brake_wear_finding draw hex8 now_iso finding_id vehicle_count upstream_confidence =
     (let confidence = (case upstream_confidence of Some c \<Rightarrow> c | None \<Rightarrow> draw) in
      [(''schema_version'', JStr ''1.0.0''),
       (''finding_id'', JStr (case finding_id of Some (c # cs) \<Rightarrow> c # cs | _ \<Rightarrow> ''F-sim-'' @ hex8)),
       (''anomaly_type'', JStr ''brake_wear_early_stage''), (''hypothesis_class'', JStr ''brake_wear''),
       (''hypothesis_statement'', JStr ''rotor temperature excursions correlated with mileage''),
       (''candidate_signals'', JArr [JStr ''Vehicle.Chassis.Brake.PadWear'',
          JStr ''Vehicle.Powertrain.CombustionEngine.EngineOilTemperature'']),
       (''vehicle_scope'', JArr (map (\<lambda>i. JStr (''VIN-sim-'' @ show_pad3 i)) [0..<vehicle_count])),
       (''upstream_confidence'', JFloat (py_round3 confidence)),
       (''_simulator_emitted_at'', JStr now_iso)])"

section \<open>Which rows conform\<close>

lemma v_extra_covered: "fst ` set d \<subseteq> set names \<Longrightarrow> v_extra d loc names = []"
  by (auto simp: v_extra_def filter_empty_conv)

text \<open>
  The outcome that the query interface returns for a row satisfies \<open>PolicyOutcome\<close> whenever the row
  passes the table's checks, refers to a finding by its two keys and carries an evidence object.
\<close>

theorem stored_outcome_conforms:
  assumes "exact_coercion pyd" and "outcome_checks r"
    and "po_originating_finding r = JObj [(''tenant_id'', JStr t), (''finding_id'', JStr f)]"
    and "po_evidence_summary r = JObj evidence"
  shows "model_errors (PolicyOutcome pyd) [] (JObj (row_to_outcome r)) = []"
  using assms
  by (auto simp: model_errors_def PolicyOutcome_def row_to_outcome_def dict_get_def OriginatingFindingRef_def PolicyRef_def
      f_str_def f_literal_def f_datetime_def f_int_def f_float_def f_dict_def f_optional_def v_str_def v_literal_def
      v_datetime_def v_int_def v_float_def v_dict_def any_str_def errs_def exact_coercion_def outcome_checks_def
      HypothesisState_def v_extra_def)

text \<open>
  An event the audit read returns satisfies \<open>AuditEvent\<close> only for the seven kinds the model lists: the four
  kinds the schema added later do not conform, and neither does an event whose error was stored among
  the finding's keys.
\<close>

theorem newer_kinds_not_conforming:
  assumes "ae_kind r \<notin> set AuditKind"
  shows "model_errors (AuditEvent pyd) [] (row_to_event r) \<noteq> []"
  using assms
  by (simp add: model_errors_def AuditEvent_def row_to_event_def dict_get_def f_literal_def v_literal_def v_fail_def errs_def)

lemma newer_kinds: "set audit_kinds - set AuditKind =
    {''break_glass'', ''tenant_config_change'', ''deployment_rejected'', ''vehicle_assignment_change''}"
  by (auto simp: audit_kinds_def AuditKind_def)

lemma error_event_not_conforming:
  assumes "ae_originating_finding r = JObj d" and "(''_extras'', JObj e) \<in> set d"
  shows "model_errors (AuditEvent pyd) [] (row_to_event r) \<noteq> []"
proof -
  have "f_str [''originating_finding'', ''_extras''] (JObj e) \<noteq> []" by (simp add: f_str_def v_str_def v_fail_def errs_def)
  with assms(2) have "f_str_dict [''originating_finding''] (JObj d) \<noteq> []" by (force simp: f_str_dict_def)
  with assms(1) show ?thesis
    by (simp add: model_errors_def AuditEvent_def row_to_event_def dict_get_def f_optional_def)
qed

text \<open>
  The ingest endpoint refuses every finding of the generator: its time stamp is a field the request model
  does not have.
\<close>

theorem generated_finding_refused:
  "\<exists>e. post_finding cfg p (Some (JObj (brake_wear_finding draw hex8 now_iso fid n conf))) x dir w = (Inl e, w)"
proof -
  let ?d = "brake_wear_finding draw hex8 now_iso fid n conf"
  have "''_simulator_emitted_at'' \<in> fst ` set ?d" by (simp add: brake_wear_finding_def Let_def)
  then have "\<not> fst ` set ?d \<subseteq> set finding_fields" by (auto simp: finding_fields_def)
  then have n: "validate_finding pyd (JObj ?d) \<noteq> Inr f" for pyd f by (simp add: validate_finding_Inr)
  have "\<exists>e. check_body cfg p (Some (JObj ?d)) = Inl e"
    by (cases "check_body cfg p (Some (JObj ?d))") (auto simp: check_body_def res_bind_Inr n split: sum.splits)
  then show ?thesis by (auto simp: post_finding_def act_bind_run act_run_simps)
qed

text \<open>Without that field it would be accepted, for at least one vehicle and a confidence in range.\<close>

lemma generated_finding_valid:
  assumes "exact_coercion pyd" and "0 < n" and "length hex8 \<le> 250" and "0 \<le> py_round3 c" and "py_round3 c \<le> 1"
  shows "\<exists>f. validate_finding pyd (JObj (butlast (brake_wear_finding draw hex8 now_iso None n (Some c)))) = Inr f"
proof -
  define f where "f = \<lparr>f_schema_version = ''1.0.0'', f_finding_id = ''F-sim-'' @ hex8, f_anomaly_type = ''brake_wear_early_stage'',
    f_hypothesis_class = ''brake_wear'', f_hypothesis_statement = ''rotor temperature excursions correlated with mileage'',
    f_candidate_signals = [''Vehicle.Chassis.Brake.PadWear'', ''Vehicle.Powertrain.CombustionEngine.EngineOilTemperature''],
    f_vehicle_scope = map (\<lambda>i. ''VIN-sim-'' @ show_pad3 i) [0..<n], f_upstream_confidence = py_round3 c\<rparr>"
  have sv: "v_semver loc (JStr ''1.0.0'') = Inr ''1.0.0''" for loc by code_simp
  have "validate_finding pyd (JObj (butlast (brake_wear_finding draw hex8 now_iso None n (Some c)))) = Inr f"
    unfolding validate_finding_Inr
    using assms
    by (auto simp: f_def brake_wear_finding_def v_field_Inr v_str_Inr v_nonempty_Inr v_nonempty_list_Inr v_float_Inr sv
        any_str_def exact_coercion_def dict_get_def finding_fields_def)
  then show ?thesis ..
qed

end
