(* ===== verification/CM_Logging.thy ===== *)
theory CM_Logging
  imports CM_Regex CM_Json "HOL-Library.Sublist"
begin

text \<open>
  The PII filter of the structured log, \<open>observability/logging.py\<close>, and that what the first three patterns
  describe does not survive it.
\<close>

section \<open>observability/logging.py\<close>

definition separator :: "char \<Rightarrow> bool" where
  "separator c \<longleftrightarrow> c = CHR ''-'' \<or> c = CHR ''.'' \<or> py_isspace c"

definition email_local :: "char \<Rightarrow> bool" where
  "email_local c \<longleftrightarrow> is_ascii_alpha c \<or> is_digit c \<or> c \<in> set ''._%+-''"

definition email_domain :: "char \<Rightarrow> bool" where
  "email_domain c \<longleftrightarrow> is_ascii_alpha c \<or> is_digit c \<or> c \<in> set ''.-''"

text \<open>Decimal coordinate pairs, phone numbers, e-mail addresses and social security numbers.\<close>

definition GEO_PAIR :: re where
  "GEO_PAIR = re_seq [Opt (Lit ''-''), Rep 1 (Some 3) is_digit, Lit ''.'', Rep 4 None is_digit,
     Rep 0 None py_isspace, Lit '','', Rep 0 None py_isspace,
     Opt (Lit ''-''), Rep 1 (Some 3) is_digit, Lit ''.'', Rep 4 None is_digit]"

definition PHONE :: re where
  "PHONE = re_seq [Opt (Lit ''+''), Rep 1 (Some 3) is_digit, Opt (Cls separator), Opt (Lit ''(''), Rep 1 (Some 4) is_digit,
     Opt (Lit '')''), Opt (Cls separator), Rep 3 (Some 4) is_digit, Opt (Cls separator), Rep 4 (Some 4) is_digit]"

definition EMAIL :: re where
  "EMAIL = re_seq [Rep 1 None email_local, Lit ''@'', Rep 1 None email_domain, Lit ''.'', Rep 2 None is_ascii_alpha]"

definition SSN :: re where
  "SSN = re_seq [WordB, Rep 3 (Some 3) is_digit, Lit ''-'', Rep 2 (Some 2) is_digit, Lit ''-'', Rep 4 (Some 4) is_digit, WordB]"

definition PII_PATTERNS :: "re list" where
  "PII_PATTERNS = [GEO_PAIR, PHONE, EMAIL, SSN]"

definition REDACTED :: string where
  "REDACTED = ''[redacted]''"

definition strip_text :: "string \<Rightarrow> string" where
  "strip_text s = fold (\<lambda>pat value. re_sub pat REDACTED value) PII_PATTERNS s"

text \<open>\<open>_strip_pii\<close>: a value that is not a string is left alone.\<close>

definition strip_pii :: "pyrt \<Rightarrow> json \<Rightarrow> json" where
  "strip_pii rt v =
     (case v of JStr s \<Rightarrow> JStr (strip_text s) | JTime t \<Rightarrow> JStr (strip_text (rt_isoformat rt t)) | _ \<Rightarrow> v)"

definition pii_value :: "pyrt \<Rightarrow> json \<Rightarrow> json" where
  "pii_value rt v = (case v of JObj d \<Rightarrow> JObj (map (\<lambda>(k, iv). (k, strip_pii rt iv)) d) | _ \<Rightarrow> strip_pii rt v)"

definition pii_processor :: "pyrt \<Rightarrow> dict \<Rightarrow> dict" where
  "pii_processor rt event_dict = map (\<lambda>(k, v). (k, pii_value rt v)) event_dict"

section \<open>Words of a pattern\<close>

text \<open>The constructs of the first three patterns: whether they match a word does not depend on the text around it.\<close>

fun plain :: "re \<Rightarrow> bool" where
  "plain Eps \<longleftrightarrow> True"
| "plain (Cls P) \<longleftrightarrow> True"
| "plain (Lit w) \<longleftrightarrow> True"
| "plain (Seq a b) \<longleftrightarrow> plain a \<and> plain b"
| "plain (Opt a) \<longleftrightarrow> plain a"
| "plain (Rep m n P) \<longleftrightarrow> True"
| "plain _ \<longleftrightarrow> False"

definition word_of :: "re \<Rightarrow> string \<Rightarrow> bool" where
  "word_of r u \<longleftrightarrow> (\<forall>q t h. \<exists>h'. (rev u @ q, t, h') \<in> set (re_run r (q, u @ t, h)))"

lemma word_of_run: "word_of r u \<Longrightarrow> \<exists>h'. (rev u @ q, t, h') \<in> set (re_run r (q, u @ t, h))"
  by (simp add: word_of_def)

lemma word_of_Seq: "word_of a u \<Longrightarrow> word_of b v \<Longrightarrow> word_of (Seq a b) (u @ v)"
  unfolding word_of_def
  by (auto simp del: re_run.simps simp: re_run.simps(4)) (metis append_assoc)

lemma run_Lit:
  assumes "(p', s', g') \<in> set (re_run (Lit w) (p, s, g))"
  shows "s = w @ s'" and "p' = rev w @ p"
proof -
  from assms have "take (length w) s = w" and e: "(p', s', g') = consume (length w) (p, s, g)"
    by (auto simp: startswith_def split: if_splits)
  then show "s = w @ s'" "p' = rev w @ p" by (auto simp: consume_def) (metis append_take_drop_id)
qed

lemma run_word:
  assumes "plain r" and "(p', s', g') \<in> set (re_run r (p, s, g))"
  shows "\<exists>u. s = u @ s' \<and> p' = rev u @ p \<and> word_of r u"
  using assms
proof (induction r arbitrary: p s g p' s' g')
  case (Seq a b)
  then obtain p1 s1 g1 where 1: "(p1, s1, g1) \<in> set (re_run a (p, s, g))" "(p', s', g') \<in> set (re_run b (p1, s1, g1))"
    by auto
  from Seq.IH(1) [OF _ 1(1)] Seq.prems obtain u where u: "s = u @ s1" "p1 = rev u @ p" "word_of a u" by auto
  from Seq.IH(2) [OF _ 1(2)] Seq.prems obtain v where v: "s1 = v @ s'" "p' = rev v @ p1" "word_of b v" by auto
  from u v word_of_Seq [OF u(3) v(3)] show ?case by (intro exI [of _ "u @ v"]) simp
next
  case (Rep m n P)
  then obtain u where "s = u @ s'" "p' = rev u @ p" "m \<le> length u" "\<forall>k. n = Some k \<longrightarrow> length u \<le> k" "\<forall>c \<in> set u. P c"
    unfolding re_run_Rep_iff by auto
  then show ?case unfolding word_of_def re_run_Rep_iff by auto
next
  case (Lit w)
  note run_Lit [OF Lit.prems(2)]
  moreover have "word_of (Lit w) w" by (simp add: word_of_def consume_def startswith_def)
  ultimately show ?case by blast
next
  case (Cls P)
  then obtain c where "s = c # s'" "p' = c # p" "P c" by (cases s) (auto split: if_splits)
  then show ?case by (intro exI [of _ "[c]"]) (simp add: word_of_def)
next
  case (Opt a)
  then consider "(p', s', g') = (p, s, g)" | "(p', s', g') \<in> set (re_run a (p, s, g))" by auto
  then show ?case
  proof cases
    case 1
    then show ?thesis by (intro exI [of _ "[]"]) (auto simp: word_of_def)
  next
    case 2
    from Opt.IH [OF _ 2] Opt.prems obtain u where "s = u @ s'" "p' = rev u @ p" "word_of a u" by auto
    moreover from this(3) have "word_of (Opt a) u" unfolding word_of_def by (simp only: re_run.simps set_append) blast
    ultimately show ?thesis by blast
  qed
qed (auto simp: word_of_def)

text \<open>Characters no word has, and characters every word has one of.\<close>

fun avoids :: "char \<Rightarrow> re \<Rightarrow> bool" where
  "avoids c Eps \<longleftrightarrow> True"
| "avoids c (Cls P) \<longleftrightarrow> \<not> P c"
| "avoids c (Lit w) \<longleftrightarrow> c \<notin> set w"
| "avoids c (Seq a b) \<longleftrightarrow> avoids c a \<and> avoids c b"
| "avoids c (Opt a) \<longleftrightarrow> avoids c a"
| "avoids c (Rep m n P) \<longleftrightarrow> \<not> P c"
| "avoids c _ \<longleftrightarrow> False"

fun demands :: "(char \<Rightarrow> bool) \<Rightarrow> re \<Rightarrow> bool" where
  "demands Q (Lit w) \<longleftrightarrow> list_ex Q w"
| "demands Q (Seq a b) \<longleftrightarrow> demands Q a \<or> demands Q b"
| "demands Q (Rep m n P) \<longleftrightarrow> 1 \<le> m \<and> (\<forall>c. P c \<longrightarrow> Q c)"
| "demands Q _ \<longleftrightarrow> False"

lemma run_avoids:
  assumes "avoids c r" and "(p', s', g') \<in> set (re_run r (p, s, g))"
  shows "\<exists>u. s = u @ s' \<and> p' = rev u @ p \<and> c \<notin> set u"
  using assms
proof (induction r arbitrary: p s g p' s' g')
  case (Seq a b)
  then obtain p1 s1 g1 where 1: "(p1, s1, g1) \<in> set (re_run a (p, s, g))" "(p', s', g') \<in> set (re_run b (p1, s1, g1))"
    by auto
  from Seq.IH(1) [OF _ 1(1)] Seq.prems obtain u where u: "s = u @ s1" "p1 = rev u @ p" "c \<notin> set u" by auto
  from Seq.IH(2) [OF _ 1(2)] Seq.prems obtain v where v: "s1 = v @ s'" "p' = rev v @ p1" "c \<notin> set v" by auto
  from u v show ?case by (intro exI [of _ "u @ v"]) simp
next
  case (Rep m n P)
  then show ?case unfolding re_run_Rep_iff by auto
next
  case (Lit w)
  from run_Lit [OF Lit.prems(2)] show ?case using Lit.prems(1) by auto
next
  case (Cls P)
  then obtain d where "s = d # s'" "p' = d # p" "P d" by (cases s) (auto split: if_splits)
  with Cls show ?case by (intro exI [of _ "[d]"]) auto
next
  case (Opt a)
  then consider "(p', s', g') = (p, s, g)" | "(p', s', g') \<in> set (re_run a (p, s, g))" by auto
  then show ?case
  proof cases
    case 2
    from Opt.IH [OF _ 2] Opt.prems show ?thesis by auto
  qed auto
qed auto

lemma word_avoids: "avoids c r \<Longrightarrow> word_of r u \<Longrightarrow> c \<notin> set u"
proof -
  assume r: "avoids c r" and "word_of r u"
  then obtain h where "(rev u @ [], [], h) \<in> set (re_run r ([], u @ [], []))" using word_of_run by blast
  from run_avoids [OF r this] show ?thesis by auto
qed

lemma run_demands:
  assumes "demands Q r" and "(p', s', g') \<in> set (re_run r (p, s, g))"
  shows "\<exists>u. s = u @ s' \<and> p' = rev u @ p \<and> (\<exists>c \<in> set u. Q c)"
  using assms
proof (induction r arbitrary: p s g p' s' g')
  case (Seq a b)
  then obtain p1 s1 g1 where 1: "(p1, s1, g1) \<in> set (re_run a (p, s, g))" "(p', s', g') \<in> set (re_run b (p1, s1, g1))"
    by auto
  from re_run_consumes [OF 1(1)] obtain u where u: "s = u @ s1" "p1 = rev u @ p" by blast
  from re_run_consumes [OF 1(2)] obtain v where v: "s1 = v @ s'" "p' = rev v @ p1" by blast
  have "(\<exists>c \<in> set u. Q c) \<or> (\<exists>c \<in> set v. Q c)"
    using Seq.IH(1) [OF _ 1(1)] Seq.IH(2) [OF _ 1(2)] Seq.prems(1) u v by auto
  with u v show ?case by (intro exI [of _ "u @ v"]) auto
next
  case (Rep m n P)
  from Rep.prems(2) obtain u where u: "s = u @ s'" "p' = rev u @ p" "m \<le> length u" "\<forall>c \<in> set u. P c"
    unfolding re_run_Rep_iff by auto
  with Rep.prems(1) have "u \<noteq> []" by auto
  with u Rep.prems(1) show ?case by (intro exI [of _ u]) (cases u, auto)
next
  case (Lit w)
  from run_Lit [OF Lit.prems(2)] show ?case using Lit.prems(1) by (auto simp: list_ex_iff)
qed auto

lemma word_demands: "demands Q r \<Longrightarrow> word_of r u \<Longrightarrow> \<exists>c \<in> set u. Q c"
proof -
  assume r: "demands Q r" and "word_of r u"
  then obtain h where "(rev u @ [], [], h) \<in> set (re_run r ([], u @ [], []))" using word_of_run by blast
  from run_demands [OF r this] show ?thesis by auto
qed

section \<open>What a substitution leaves\<close>

text \<open>A text that could not come from the mark: without its brackets, and with a character the mark has not.\<close>

definition foreign :: "string \<Rightarrow> bool" where
  "foreign u \<longleftrightarrow> CHR ''['' \<notin> set u \<and> CHR '']'' \<notin> set u \<and> (\<exists>c \<in> set u. c \<notin> set REDACTED)"

lemma re_sub_cases:
  obtains (nil) "s = []" "re_sub_from r repl p s = []"
  | (skip) c cs where "s = c # cs" "re_sub_from r repl p s = c # re_sub_from r repl (c # p) cs"
      "re_run r (p, s, []) = [] \<or> (\<exists>p' s' g'. (p', s', g') \<in> set (re_run r (p, s, [])) \<and> \<not> length s' < length s)"
  | (hit) p' s' g' where "(p', s', g') \<in> set (re_run r (p, s, []))" "length s' < length s"
      "re_sub_from r repl p s = repl @ re_sub_from r repl p' s'"
proof (cases s)
  case Nil
  then show thesis by (intro nil) (simp_all add: re_sub_from.simps)
next
  case (Cons c cs)
  show thesis
  proof (cases "re_run r (p, s, [])")
    case Nil
    with Cons show thesis by (intro skip) (simp_all add: re_sub_from.simps [of r repl p "c # cs"])
  next
    case (Cons st sts)
    obtain p' s' g' where st: "st = (p', s', g')" by (cases st)
    note step = re_sub_from.simps [of r repl p "c # cs"]
    show thesis
    proof (cases "length s' < length s")
      case True
      with Cons st \<open>s = c # cs\<close> show thesis by (intro hit [of p' s' g']) (auto simp: step)
    next
      case False
      with Cons st \<open>s = c # cs\<close> show thesis by (intro skip [of c cs]) (auto simp: step)
    qed
  qed
qed

lemma mark_parts:
  assumes "sublist u (REDACTED @ v)" and "foreign u"
  shows "sublist u v"
proof -
  from assms(1) consider "sublist u REDACTED" | "sublist u v" | a b where "u = a @ b" "suffix a REDACTED" "prefix b v"
    by (auto simp: sublist_append)
  then show ?thesis
  proof cases
    case 1
    then have "set u \<subseteq> set REDACTED" by (rule set_mono_sublist)
    with assms(2) show ?thesis by (auto simp: foreign_def)
  next
    case (3 a b)
    have "a = []"
    proof (rule ccontr)
      assume "a \<noteq> []"
      with 3(2) have "last a = CHR '']''" by (auto simp: suffix_def REDACTED_def) (metis last.simps last_appendR list.simps(3))
      with last_in_set [OF \<open>a \<noteq> []\<close>] 3(1) assms(2) show False by (simp add: foreign_def)
    qed
    with 3 show ?thesis by (simp add: prefix_imp_sublist)
  qed
qed

lemma sub_prefix:
  "prefix u (re_sub_from r REDACTED p s) \<Longrightarrow> CHR ''['' \<notin> set u \<Longrightarrow> prefix u s"
proof (induction s arbitrary: p u rule: length_induct)
  case (1 s)
  show ?case
  proof (cases rule: re_sub_cases [of s r REDACTED p])
    case (skip c cs)
    with "1.prems" show ?thesis
    proof (cases u)
      case (Cons d u')
      with "1.prems" skip have "d = c" "prefix u' (re_sub_from r REDACTED (c # p) cs)" "CHR ''['' \<notin> set u'" by auto
      with "1.IH" skip(1) Cons show ?thesis by simp
    qed simp
  next
    case (hit p' s' g')
    with "1.prems" have "u = []" by (cases u) (auto simp: REDACTED_def)
    then show ?thesis by simp
  qed (use "1.prems" in simp)
qed

lemma sub_origin:
  "sublist u (re_sub_from r REDACTED p s) \<Longrightarrow> foreign u \<Longrightarrow> sublist u s"
proof (induction s arbitrary: p rule: length_induct)
  case (1 s)
  show ?case
  proof (cases rule: re_sub_cases [of s r REDACTED p])
    case (skip c cs)
    with "1.prems"(1) consider "prefix u (re_sub_from r REDACTED p s)" | "sublist u (re_sub_from r REDACTED (c # p) cs)"
      by (auto simp: sublist_Cons_right)
    then show ?thesis
    proof cases
      case 1
      from sub_prefix [OF this] "1.prems"(2) show ?thesis by (simp add: foreign_def prefix_imp_sublist)
    next
      case 2
      have "length cs < length s" using skip(1) by simp
      with 2 "1.IH" "1.prems"(2) have "sublist u cs" by blast
      with skip(1) show ?thesis by (simp add: sublist_Cons_right)
    qed
  next
    case (hit p' s' g')
    with "1.prems" mark_parts have "sublist u (re_sub_from r REDACTED p' s')" by simp
    with "1.IH" "1.prems"(2) hit(2) have "sublist u s'" by blast
    moreover from re_run_consumes [OF hit(1)] obtain v where "s = v @ s'" by blast
    ultimately show ?thesis by (simp add: sublist_append)
  qed (use "1.prems" in simp)
qed

text \<open>No word of a pattern survives the substitution of that pattern.\<close>

lemma sub_removes:
  assumes "plain r" and "\<And>v. word_of r v \<Longrightarrow> foreign v" and "word_of r u"
  shows "\<not> sublist u (re_sub_from r REDACTED p s)"
proof (induction s arbitrary: p rule: length_induct)
  case (1 s)
  have u: "foreign u" "u \<noteq> []" using assms(2) [OF assms(3)] by (auto simp: foreign_def)
  show ?case
  proof (cases rule: re_sub_cases [of s r REDACTED p])
    case (skip c cs)
    have none: "re_run r (p, s, []) = []"
    proof -
      have False if "(p', s', g') \<in> set (re_run r (p, s, []))" "\<not> length s' < length s" for p' s' g'
      proof -
        from run_word [OF assms(1) that(1)] obtain v where "s = v @ s'" "word_of r v" by blast
        with assms(2) [of v] that(2) show False by (auto simp: foreign_def)
      qed
      with skip(3) show ?thesis by blast
    qed
    have "\<not> prefix u (re_sub_from r REDACTED p s)"
    proof
      assume "prefix u (re_sub_from r REDACTED p s)"
      then have "prefix u s" using sub_prefix u(1) by (auto simp: foreign_def)
      then obtain t where "s = u @ t" by (auto simp: prefix_def)
      with word_of_run [OF assms(3), of p t "[]"] none show False by auto
    qed
    moreover have "length cs < length s" using skip(1) by simp
    with "1.IH" have "\<not> sublist u (re_sub_from r REDACTED (c # p) cs)" by blast
    ultimately show ?thesis using skip(2) by (simp add: sublist_Cons_right)
  next
    case (hit p' s' g')
    with "1.IH" have "\<not> sublist u (re_sub_from r REDACTED p' s')" by blast
    with mark_parts u(1) hit(3) show ?thesis by auto
  qed (use u(2) in simp)
qed

lemma search_word:
  assumes "plain r"
  shows "re_search_from r p s = Some st \<Longrightarrow> \<exists>u. word_of r u \<and> sublist u s"
proof (induction s arbitrary: p)
  case Nil
  then obtain p' s' g' where "(p', s', g') \<in> set (re_run r (p, [], []))" by (cases "re_run r (p, [], [])") auto
  from run_word [OF assms this] show ?case by auto
next
  case (Cons c cs)
  show ?case
  proof (cases "re_run r (p, c # cs, [])")
    case Nil
    with Cons show ?thesis by (auto simp: sublist_Cons_right)
  next
    case (Cons st' sts)
    then obtain p' s' g' where "(p', s', g') \<in> set (re_run r (p, c # cs, []))" by (cases st') auto
    from run_word [OF assms this] show ?thesis by (metis sublist_appendI append_Nil)
  qed
qed

section \<open>The filter\<close>

lemma redacted_chars: "set REDACTED = set ''[redacted]''"
  by (simp add: REDACTED_def)

lemma plain_patterns: "plain GEO_PAIR" "plain PHONE" "plain EMAIL"
  by (simp_all add: GEO_PAIR_def PHONE_def EMAIL_def re_seq_def)

lemma not_brackets:
  "\<not> is_digit (CHR ''['')" "\<not> is_digit (CHR '']'')" "\<not> py_isspace (CHR ''['')" "\<not> py_isspace (CHR '']'')"
  "\<not> separator (CHR ''['')" "\<not> separator (CHR '']'')" "\<not> email_local (CHR ''['')" "\<not> email_local (CHR '']'')"
  "\<not> email_domain (CHR ''['')" "\<not> email_domain (CHR '']'')" "\<not> is_ascii_alpha (CHR ''['')" "\<not> is_ascii_alpha (CHR '']'')"
  by code_simp+

lemma digit_not_mark: "is_digit c \<Longrightarrow> c \<notin> set REDACTED"
  by (auto simp: REDACTED_def is_digit_def)

lemma pattern_words_foreign:
  assumes "r \<in> {GEO_PAIR, PHONE, EMAIL}" and "word_of r u"
  shows "foreign u"
proof -
  have "avoids (CHR ''['') r" "avoids (CHR '']'') r"
    using assms(1) not_brackets by (auto simp: GEO_PAIR_def PHONE_def EMAIL_def re_seq_def)
  moreover have "demands (\<lambda>c. c \<notin> set REDACTED) r"
    using assms(1) digit_not_mark by (auto simp: GEO_PAIR_def PHONE_def EMAIL_def re_seq_def REDACTED_def)
  ultimately show ?thesis using assms(2) word_avoids word_demands unfolding foreign_def by blast
qed

text \<open>
  C34. What the filter is to remove does not survive it: in no text that has passed the filter does the pattern
  for coordinate pairs, for phone numbers or for e-mail addresses match anywhere, whatever the text was and
  although the patterns are applied one after the other.
\<close>

theorem stripped_text_clean:
  assumes "r \<in> {GEO_PAIR, PHONE, EMAIL}"
  shows "re_search r (strip_text s) = None"
proof (rule ccontr)
  assume "re_search r (strip_text s) \<noteq> None"
  with assms search_word plain_patterns obtain u where u: "word_of r u" "sublist u (strip_text s)"
    unfolding re_search_def by blast
  have f: "foreign u" by (rule pattern_words_foreign [OF assms u(1)])
  have gone: "\<not> sublist u (re_sub r REDACTED x)" for x
    unfolding re_sub_def by (rule sub_removes) (use assms plain_patterns pattern_words_foreign u(1) in auto)
  have orig: "sublist u (re_sub q REDACTED x) \<Longrightarrow> sublist u x" for q x
    unfolding re_sub_def by (rule sub_origin [OF _ f])
  have "sublist u (re_sub SSN REDACTED (re_sub EMAIL REDACTED (re_sub PHONE REDACTED (re_sub GEO_PAIR REDACTED s))))"
    using u(2) by (simp add: strip_text_def PII_PATTERNS_def)
  then show False using assms gone orig by blast
qed

lemma stripped_sample: "strip_text ''mail a.b@c.de now'' = ''mail [redacted] now''"
  by code_simp

theorem stripped_text_clean_witness:
  "strip_text ''mail a.b@c.de now'' = ''mail [redacted] now'' \<and> re_search EMAIL (strip_text ''mail a.b@c.de now'') = None"
  using stripped_text_clean [of EMAIL "''mail a.b@c.de now''"] stripped_sample by simp

text \<open>Lists, and what lies deeper than one dict, pass the processor as they are.\<close>

lemma nested_values_kept:
  "pii_value rt (JArr xs) = JArr xs" "pii_value rt (JObj [(k, JObj d)]) = JObj [(k, JObj d)]"
  by (simp_all add: pii_value_def strip_pii_def)

end
