(* ===== verification/CM_Runbooks.thy ===== *)
theory CM_Runbooks
  imports CM_Regex CM_Json
begin

text \<open>
  The alert and runbook guard, \<open>scripts/check_runbook_completeness.py\<close>: every alert names a runbook page with
  the four required sections, and every page is named by an alert or listed as an exception.  The file tree and
  the YAML parser are parameters; paths are relative to the repository, with \<open>/\<close> between components.
\<close>

section \<open>Python on parsed documents\<close>

record file_tree =
  ft_read :: "string \<Rightarrow> string option"
  ft_list :: "string \<Rightarrow> string list option"

text \<open>\<open>x.get(k, d)\<close> and \<open>for y in x\<close> on a parsed value.\<close>

definition py_get :: "json \<Rightarrow> string \<Rightarrow> json \<Rightarrow> exc + json" where
  "py_get j k dflt = (case j of JObj d \<Rightarrow> Inr (dict_get_or d k dflt) | _ \<Rightarrow> Inl (AttributeError ''get''))"

definition py_iter :: "json \<Rightarrow> exc + json list" where
  "py_iter j =
     (case j of
        JArr xs \<Rightarrow> Inr xs
      | JObj d \<Rightarrow> Inr (map (\<lambda>(k, _). JStr k) d)
      | JStr s \<Rightarrow> Inr (map (\<lambda>c. JStr [c]) s)
      | _ \<Rightarrow> Inl (TypeError ''not iterable''))"

definition py_or :: "json \<Rightarrow> json \<Rightarrow> json" where
  "py_or j dflt = (if truthy j then j else dflt)"

text \<open>The first string operation on a value that should be a string.\<close>

definition as_str :: "json \<Rightarrow> exc + string" where
  "as_str j =
     (case j of
        JStr s \<Rightarrow> Inr s
      | JArr _ \<Rightarrow> Inl (AttributeError ''startswith'')
      | JObj _ \<Rightarrow> Inl (AttributeError ''startswith'')
      | _ \<Rightarrow> Inl (TypeError ''not iterable''))"

text \<open>\<open>s.partition(sep)\<close>: what stands before and behind the first \<open>sep\<close>, when there is one.\<close>

fun partition_at :: "string \<Rightarrow> string \<Rightarrow> (string \<times> string) option" where
  "partition_at sep [] = (if sep = [] then Some ([], []) else None)"
| "partition_at sep (c # cs) =
     (if startswith (c # cs) sep then Some ([], drop (length sep) (c # cs))
      else map_option (\<lambda>(a, b). (c # a, b)) (partition_at sep cs))"

section \<open>Resolving a link\<close>

definition runbook_dir :: string where
  "runbook_dir = ''observability/runbooks''"

definition strip_host :: "string \<Rightarrow> string" where
  "strip_host url =
     (case partition_at ''://'' url of
        None \<Rightarrow> url
      | Some (_, rest) \<Rightarrow>
          (case partition_at ''/'' rest of
             None \<Rightarrow> []
           | Some (_, name) \<Rightarrow> takeWhile (\<lambda>c. c \<noteq> CHR ''#'') (takeWhile (\<lambda>c. c \<noteq> CHR ''?'') name)))"

definition resolve_runbook_target :: "string \<Rightarrow> string" where
  "resolve_runbook_target url =
     (let name = strip_host url;
          name = (if CHR ''/'' \<in> set name \<and> \<not> startswith name (runbook_dir @ ''/'')
                  then last (split_on (CHR ''/'') name) else name)
      in if startswith name (runbook_dir @ ''/'') then name else runbook_dir @ ''/'' @ name)"

text \<open>\<open>Path.name\<close>: the last component; a path drops empty components and dots.\<close>

definition path_name :: "string \<Rightarrow> string" where
  "path_name p =
     (case rev (filter (\<lambda>c. c \<noteq> [] \<and> c \<noteq> ''.'') (split_on (CHR ''/'') p)) of [] \<Rightarrow> [] | n # _ \<Rightarrow> n)"

section \<open>The alerts of a rules document\<close>

record alert =
  al_group :: json
  al_name :: json
  al_rule :: json

text \<open>
  What the generator yields, in order; an exception ends it.
\<close>

fun rule_alerts :: "json \<Rightarrow> json list \<Rightarrow> (exc + alert) list" where
  "rule_alerts grp [] = []"
| "rule_alerts grp (rule # rules) =
     (case py_get rule ''alert'' JNull of
        Inl e \<Rightarrow> [Inl e]
      | Inr JNull \<Rightarrow> rule_alerts grp rules
      | Inr name \<Rightarrow> Inr \<lparr>al_group = grp, al_name = name, al_rule = rule\<rparr> # rule_alerts grp rules)"

fun stops :: "(exc + 'a) list \<Rightarrow> bool" where
  "stops [] = False"
| "stops (Inl e # _) = True"
| "stops (Inr x # xs) = stops xs"

definition group_alerts :: "json \<Rightarrow> (exc + alert) list" where
  "group_alerts grp =
     (case res_bind (py_get grp ''name'' (JStr ''<unnamed>'')) (\<lambda>name.
           res_bind (py_get grp ''rules'' (JArr [])) (\<lambda>rules.
           res_bind (py_iter rules) (\<lambda>rules. Inr (name, rules)))) of
        Inl e \<Rightarrow> [Inl e]
      | Inr (name, rules) \<Rightarrow> rule_alerts name rules)"

fun groups_alerts :: "json list \<Rightarrow> (exc + alert) list" where
  "groups_alerts [] = []"
| "groups_alerts (grp # grps) =
     (let here = group_alerts grp in if stops here then here else here @ groups_alerts grps)"

definition iter_alerts :: "json \<Rightarrow> (exc + alert) list" where
  "iter_alerts doc =
     (case res_bind (py_get doc ''groups'' (JArr [])) py_iter of
        Inl e \<Rightarrow> [Inl e]
      | Inr groups \<Rightarrow> groups_alerts groups)"

definition annotations :: "alert \<Rightarrow> exc + json" where
  "annotations a = res_bind (py_get (al_rule a) ''annotations'' JNull) (\<lambda>j. Inr (py_or j (JObj [])))"

definition runbook_url :: "alert \<Rightarrow> exc + json" where
  "runbook_url a = res_bind (annotations a) (\<lambda>ann. py_get ann ''runbook_url'' JNull)"

section \<open>Backward: pages without an alert\<close>

text \<open>A whitelist entry is compared by its text; \<open>str\<close> of a value that is not a string is a parameter.\<close>

definition load_orphan_whitelist :: "file_tree \<Rightarrow> (string \<Rightarrow> exc + json) \<Rightarrow> (json \<Rightarrow> string) \<Rightarrow> string \<Rightarrow> exc + string set" where
  "load_orphan_whitelist ft yaml str path =
     (case ft_read ft path of
        None \<Rightarrow> Inr {}
      | Some text \<Rightarrow>
          res_bind (yaml text) (\<lambda>doc.
          res_bind (py_get (py_or doc (JObj [])) ''whitelist'' JNull) (\<lambda>entries.
          res_bind (py_iter (py_or entries (JArr []))) (\<lambda>entries.
          Inr (set (map (\<lambda>j. case j of JStr s \<Rightarrow> s | _ \<Rightarrow> str j) entries))))))"

fun referenced :: "(exc + alert) list \<Rightarrow> exc + string set" where
  "referenced [] = Inr {}"
| "referenced (Inl e # _) = Inl e"
| "referenced (Inr a # as) =
     res_bind (runbook_url a) (\<lambda>url.
     if \<not> truthy url then referenced as
     else res_bind (as_str url) (\<lambda>url.
          res_bind (referenced as) (\<lambda>names. Inr (insert (path_name (resolve_runbook_target url)) names))))"

text \<open>\<open>Path.suffix == ".md"\<close>: the name ends in it and has something before the dot.\<close>

definition is_markdown :: "string \<Rightarrow> bool" where
  "is_markdown name \<longleftrightarrow> 3 < length name \<and> drop (length name - 3) name = ''.md''"

definition find_orphan_runbooks ::
  "file_tree \<Rightarrow> (string \<Rightarrow> exc + json) \<Rightarrow> (json \<Rightarrow> string) \<Rightarrow> json \<Rightarrow> string \<Rightarrow> string set option \<Rightarrow> exc + string list" where
  "find_orphan_runbooks ft yaml str rules_doc dir whitelist =
     (case ft_list ft dir of
        None \<Rightarrow> Inr []
      | Some entries \<Rightarrow>
          res_bind (case whitelist of
              Some wl \<Rightarrow> Inr wl
            | None \<Rightarrow> load_orphan_whitelist ft yaml str (dir @ ''/.orphan-whitelist.yaml'')) (\<lambda>wl.
          res_bind (referenced (iter_alerts rules_doc)) (\<lambda>names.
          Inr (filter (\<lambda>name. ft_read ft (dir @ ''/'' @ name) \<noteq> None \<and> is_markdown name \<and> name \<notin> wl \<and> name \<notin> names)
            (sort entries)))))"

section \<open>Forward: alerts without a page\<close>

text \<open>One constructor per message.\<close>

datatype runbook_error =
    RulesMissing
  | NoGroups
  | MissingUrl json json
  | MissingSummary json json
  | PageMissing json json string string
  | MissingSections string "string list"
  | OrphanRunbook string

definition required_sections :: "string list" where
  "required_sections = [''Symptoms'', ''Dashboard'', ''Mitigation'', ''Escalation'']"

text \<open>\<open>(?m)^#+\s*Section\b\<close>, tried at the start of the text and behind every newline.\<close>

fun line_starts :: "string \<Rightarrow> string list" where
  "line_starts [] = []"
| "line_starts (c # cs) = (if c = CHR 0x0A then cs # line_starts cs else line_starts cs)"

definition section_heading :: "string \<Rightarrow> re" where
  "section_heading s = re_seq [Rep 1 None (\<lambda>c. c = CHR ''#''), Rep 0 None py_isspace, Lit s, WordB]"

definition has_section :: "string \<Rightarrow> string \<Rightarrow> bool" where
  "has_section body s \<longleftrightarrow> list_ex (\<lambda>rest. re_match (section_heading s) rest \<noteq> None) (body # line_starts body)"

definition check_alert :: "file_tree \<Rightarrow> alert \<Rightarrow> exc + runbook_error list" where
  "check_alert ft a =
     res_bind (annotations a) (\<lambda>ann.
     res_bind (py_get ann ''runbook_url'' JNull) (\<lambda>url.
     res_bind (py_get ann ''summary'' JNull) (\<lambda>summary.
     if \<not> truthy url then Inr [MissingUrl (al_group a) (al_name a)]
     else
       let no_summary = (if truthy summary then [] else [MissingSummary (al_group a) (al_name a)]) in
       res_bind (as_str url) (\<lambda>url.
       let target = resolve_runbook_target url in
       Inr (no_summary @
         (case ft_read ft target of
            None \<Rightarrow> [PageMissing (al_group a) (al_name a) url target]
          | Some body \<Rightarrow>
              let missing = filter (\<lambda>s. \<not> has_section body s) required_sections in
              if missing \<noteq> [] then [MissingSections (path_name target) missing] else []))))))"

fun check_alerts :: "file_tree \<Rightarrow> (exc + alert) list \<Rightarrow> exc + runbook_error list" where
  "check_alerts ft [] = Inr []"
| "check_alerts ft (Inl e # _) = Inl e"
| "check_alerts ft (Inr a # as) =
     res_bind (check_alert ft a) (\<lambda>errs. res_bind (check_alerts ft as) (\<lambda>more. Inr (errs @ more)))"

definition rules_path :: string where
  "rules_path = ''observability/prometheus/rules.yaml''"

definition check_runbooks :: "file_tree \<Rightarrow> (string \<Rightarrow> exc + json) \<Rightarrow> (json \<Rightarrow> string) \<Rightarrow> exc + runbook_error list" where
  "check_runbooks ft yaml str =
     (case ft_read ft rules_path of
        None \<Rightarrow> Inr [RulesMissing]
      | Some text \<Rightarrow>
          res_bind (yaml text) (\<lambda>doc.
          let doc = py_or doc (JObj []) in
          res_bind (py_get doc ''groups'' JNull) (\<lambda>groups.
          if \<not> truthy groups then Inr [NoGroups]
          else
            res_bind (check_alerts ft (iter_alerts doc)) (\<lambda>errors.
            res_bind (load_orphan_whitelist ft yaml str (runbook_dir @ ''/.orphan-whitelist.yaml'')) (\<lambda>whitelist.
            res_bind (find_orphan_runbooks ft yaml str doc runbook_dir (Some whitelist)) (\<lambda>orphans.
            Inr (errors @ map OrphanRunbook orphans)))))))"

definition runbooks_main :: "file_tree \<Rightarrow> (string \<Rightarrow> exc + json) \<Rightarrow> (json \<Rightarrow> string) \<Rightarrow> exc + nat" where
  "runbooks_main ft yaml str = res_bind (check_runbooks ft yaml str) (\<lambda>errors. Inr (if errors \<noteq> [] then 1 else 0))"

section \<open>What a passing run means\<close>

lemma as_str_Inr [simp]: "as_str j = Inr s \<longleftrightarrow> j = JStr s"
  by (cases j) (auto simp: as_str_def)

text \<open>The page an alert links to, and what the guard wants of an alert.\<close>

definition alert_page :: "alert \<Rightarrow> string option" where
  "alert_page a = (case runbook_url a of Inr (JStr (c # cs)) \<Rightarrow> Some (resolve_runbook_target (c # cs)) | _ \<Rightarrow> None)"

definition page_complete :: "file_tree \<Rightarrow> string \<Rightarrow> bool" where
  "page_complete ft target \<longleftrightarrow> (\<exists>body. ft_read ft target = Some body \<and> (\<forall>s \<in> set required_sections. has_section body s))"

definition alert_documented :: "file_tree \<Rightarrow> alert \<Rightarrow> bool" where
  "alert_documented ft a \<longleftrightarrow>
     (\<exists>ann summary target. annotations a = Inr ann \<and> py_get ann ''summary'' JNull = Inr summary \<and> truthy summary \<and>
        alert_page a = Some target \<and> page_complete ft target)"

lemma alert_page_Some:
  "alert_page a = Some target \<longleftrightarrow>
     (\<exists>ann url. annotations a = Inr ann \<and> py_get ann ''runbook_url'' JNull = Inr (JStr url) \<and> url \<noteq> [] \<and>
        target = resolve_runbook_target url)"
  by (auto simp: alert_page_def runbook_url_def res_bind_def neq_Nil_conv
      split: sum.splits json.splits list.splits)

lemma check_alert_passes: "check_alert ft a = Inr [] \<longleftrightarrow> alert_documented ft a"
proof
  assume "check_alert ft a = Inr []"
  then obtain ann url summary where ann: "annotations a = Inr ann" "py_get ann ''runbook_url'' JNull = Inr (JStr url)"
    "py_get ann ''summary'' JNull = Inr summary" "url \<noteq> []" "truthy summary"
    and page: "page_complete ft (resolve_runbook_target url)"
    by (auto simp: check_alert_def res_bind_Inr Let_def page_complete_def filter_empty_conv
        split: if_splits option.splits)
  then show "alert_documented ft a" by (auto simp: alert_documented_def alert_page_Some)
next
  assume "alert_documented ft a"
  then show "check_alert ft a = Inr []"
    by (auto simp: alert_documented_def alert_page_Some check_alert_def page_complete_def as_str_def Let_def filter_empty_conv)
qed

lemma check_alerts_pass: "check_alerts ft items = Inr [] \<longleftrightarrow> (\<exists>as. items = map Inr as \<and> list_all (alert_documented ft) as)"
proof (induction ft items rule: check_alerts.induct)
  case (3 ft a as)
  have "check_alerts ft (Inr a # as) = Inr [] \<longleftrightarrow> check_alert ft a = Inr [] \<and> check_alerts ft as = Inr []"
    by (auto simp: res_bind_Inr)
  also have "\<dots> \<longleftrightarrow> alert_documented ft a \<and> (\<exists>as'. as = map Inr as' \<and> list_all (alert_documented ft) as')"
    using 3 by (auto simp: check_alert_passes)
  also have "\<dots> \<longleftrightarrow> (\<exists>as'. Inr a # as = map Inr as' \<and> list_all (alert_documented ft) as')"
    by (auto simp: Cons_eq_map_conv)
  finally show ?case .
qed auto

lemma referenced_pages:
  "list_all (alert_documented ft) as \<Longrightarrow>
   referenced (map Inr as) = Inr (path_name ` {target. \<exists>a \<in> set as. alert_page a = Some target})"
proof (induction as)
  case (Cons a as)
  then obtain target where target: "alert_page a = Some target" by (auto simp: alert_documented_def)
  then obtain url where "runbook_url a = Inr (JStr url)" "url \<noteq> []" "target = resolve_runbook_target url"
    by (auto simp: alert_page_Some runbook_url_def)
  with Cons target have "referenced (map Inr (a # as)) =
      Inr (insert (path_name target) (path_name ` {target. \<exists>a \<in> set as. alert_page a = Some target}))"
    by (simp add: as_str_def)
  also have "insert (path_name target) (path_name ` {target. \<exists>a \<in> set as. alert_page a = Some target}) =
      path_name ` {target. \<exists>a \<in> set (a # as). alert_page a = Some target}"
    using target by (auto simp: image_iff)
  finally show ?case .
qed simp

definition page_accounted :: "file_tree \<Rightarrow> string set \<Rightarrow> alert list \<Rightarrow> string \<Rightarrow> bool" where
  "page_accounted ft whitelist as name \<longleftrightarrow>
     ft_read ft (runbook_dir @ ''/'' @ name) = None \<or> \<not> is_markdown name \<or> name \<in> whitelist \<or>
     (\<exists>target. (\<exists>a \<in> set as. alert_page a = Some target) \<and> name = path_name target)"

lemma no_orphans:
  assumes "iter_alerts doc = map Inr as" and "list_all (alert_documented ft) as"
  shows "find_orphan_runbooks ft yaml str doc runbook_dir (Some wl) = Inr [] \<longleftrightarrow>
    (\<forall>entries. ft_list ft runbook_dir = Some entries \<longrightarrow> list_all (page_accounted ft wl as) entries)"
  using assms
  by (auto simp: find_orphan_runbooks_def referenced_pages filter_empty_conv page_accounted_def list_all_iff image_iff
      split: option.splits)

text \<open>The rules parse, every alert is documented and every page accounted for.\<close>

definition runbooks_complete :: "file_tree \<Rightarrow> (string \<Rightarrow> exc + json) \<Rightarrow> (json \<Rightarrow> string) \<Rightarrow> bool" where
  "runbooks_complete ft yaml str \<longleftrightarrow>
     (\<exists>text doc groups as whitelist.
        ft_read ft rules_path = Some text \<and> yaml text = Inr doc \<and> truthy doc \<and>
        py_get doc ''groups'' JNull = Inr groups \<and> truthy groups \<and>
        iter_alerts doc = map Inr as \<and> list_all (alert_documented ft) as \<and>
        load_orphan_whitelist ft yaml str (runbook_dir @ ''/.orphan-whitelist.yaml'') = Inr whitelist \<and>
        (\<forall>entries. ft_list ft runbook_dir = Some entries \<longrightarrow> list_all (page_accounted ft whitelist as) entries))"


text \<open>The guard on a small tree: one alert whose page is given, and a page that is or is not listed.\<close>

definition small_tree :: "string \<Rightarrow> file_tree" where
  "small_tree page = \<lparr>ft_read = (\<lambda>p.
       if p = rules_path then Some ''rules''
       else if p = ''observability/runbooks/a.md'' then Some page
       else if p = ''observability/runbooks/INDEX.md'' then Some []
       else if p = ''observability/runbooks/.orphan-whitelist.yaml'' then Some ''list''
       else None),
     ft_list = (\<lambda>p. if p = runbook_dir then Some [''a.md'', ''INDEX.md'', ''.orphan-whitelist.yaml''] else None)\<rparr>"

definition small_yaml :: "string list \<Rightarrow> string \<Rightarrow> exc + json" where
  "small_yaml listed src =
     (if src = ''list'' then Inr (JObj [(''whitelist'', JArr (map JStr listed))])
      else Inr (JObj [(''groups'', JArr [JObj [(''name'', JStr ''slo''), (''rules'', JArr [JObj [(''alert'', JStr ''A''),
        (''annotations'', JObj [(''runbook_url'', JStr ''https://host/x/a.md?v=1''), (''summary'', JStr ''s'')])]])]])]))"

definition full_page :: string where
  "full_page = ''# Symptoms'' @ [CHR 0x0A] @ ''## Dashboard'' @ [CHR 0x0A] @ ''#Mitigation'' @ [CHR 0x0A] @ ''# Escalation''"

lemma small_tree_verdicts:
  "check_runbooks (small_tree full_page) (small_yaml [''INDEX.md'']) (\<lambda>_. []) = Inr []"
  "check_runbooks (small_tree full_page) (small_yaml []) (\<lambda>_. []) = Inr [OrphanRunbook ''INDEX.md'']"
  "check_runbooks (small_tree ''# Symptoms'') (small_yaml [''INDEX.md'']) (\<lambda>_. []) =
     Inr [MissingSections ''a.md'' [''Dashboard'', ''Mitigation'', ''Escalation'']]"
  by (code_simp, code_simp, code_simp)

end
