(* ===== verification/CM_Guards.thy ===== *)
theory CM_Guards
  imports CM_Logging CM_Metrics CM_Runbooks
begin

text \<open>
  The remaining repository guards: \<open>scripts/check_slm_pinning.py\<close>, \<open>scripts/verify_slm_manifest.py\<close>,
  \<open>scripts/check_no_todo_fixme.py\<close>, \<open>scripts/check_secrets.py\<close>, \<open>scripts/check_log_pii.py\<close> and the
  dashboard check of \<open>observability/dashboard_provisioner.py\<close>.  The last two run the modelled log filter and
  read the modelled metric declarations.  Reported messages are constructors; the file tree, the digest and
  the external scanner are parameters.
\<close>

section \<open>Lines and patterns\<close>

text \<open>\<open>str.splitlines()\<close>.\<close>

definition line_break :: "char \<Rightarrow> bool" where
  "line_break c \<longleftrightarrow> (10 \<le> code c \<and> code c \<le> 13) \<or> (28 \<le> code c \<and> code c \<le> 30) \<or> code c = 133"

fun splitlines_acc :: "string \<Rightarrow> string \<Rightarrow> string list" where
  "splitlines_acc acc [] = (if acc = [] then [] else [rev acc])"
| "splitlines_acc acc (c # cs) =
     (if c = CHR 0x0D \<and> startswith cs [CHR 0x0A] then rev acc # splitlines_acc [] (drop 1 cs)
      else if line_break c then rev acc # splitlines_acc [] cs
      else splitlines_acc (c # acc) cs)"

definition splitlines :: "string \<Rightarrow> string list" where
  "splitlines s = splitlines_acc [] s"

text \<open>A literal under \<open>re.IGNORECASE\<close>.\<close>

definition ilit :: "string \<Rightarrow> re" where
  "ilit w = re_seq (map (\<lambda>x. Cls (\<lambda>c. ascii_lower c = ascii_lower x)) w)"

section \<open>scripts/check\_slm\_pinning.py\<close>

definition is_hex_lower :: "char \<Rightarrow> bool" where
  "is_hex_lower c \<longleftrightarrow> is_digit c \<or> (97 \<le> code c \<and> code c \<le> 102)"

definition DIGEST_PATTERN :: re where
  "DIGEST_PATTERN = re_seq [Lit ''@sha256:'', Rep 64 (Some 64) is_hex_lower]"

definition quote_mark :: "char \<Rightarrow> bool" where
  "quote_mark c \<longleftrightarrow> c = CHR 0x22 \<or> c = CHR 0x27"

definition DEV_DEFAULT_PATTERN :: re where
  "DEV_DEFAULT_PATTERN = re_seq [ilit ''SLM_PROFILE'', Rep 0 None py_isspace, Cls (\<lambda>c. c = CHR '':'' \<or> c = CHR ''=''),
     Rep 0 None py_isspace, Opt (Cls quote_mark), ilit ''dev_default'', Opt (Cls quote_mark)]"

datatype pinning_error =
    ManifestMissing
  | ManifestEmpty
  | DockerfileMissing
  | DigestMissing
  | DevDefault string nat

definition weight_manifest :: string where
  "weight_manifest = ''config/slm/qwen2.5-7b-instruct/manifest.sha256''"

definition gpu_dockerfile :: string where
  "gpu_dockerfile = ''infra/compose/gpu-profile/Dockerfile.vllm''"

definition compose_file :: string where
  "compose_file = ''infra/compose/docker-compose.yaml''"

definition workflows_dir :: string where
  "workflows_dir = ''.github/workflows''"

definition check_weight_manifest :: "file_tree \<Rightarrow> pinning_error list" where
  "check_weight_manifest ft =
     (case ft_read ft weight_manifest of
        None \<Rightarrow> [ManifestMissing]
      | Some body \<Rightarrow> if strip body = [] then [ManifestEmpty] else [])"

definition check_gpu_dockerfile :: "file_tree \<Rightarrow> pinning_error list" where
  "check_gpu_dockerfile ft =
     (case ft_read ft gpu_dockerfile of
        None \<Rightarrow> [DockerfileMissing]
      | Some body \<Rightarrow> if re_search DIGEST_PATTERN body = None then [DigestMissing] else [])"

definition check_no_dev_default :: "file_tree \<Rightarrow> string \<Rightarrow> pinning_error list" where
  "check_no_dev_default ft path =
     (case ft_read ft path of
        None \<Rightarrow> []
      | Some body \<Rightarrow> map (\<lambda>(lineno, _). DevDefault path lineno)
          (filter (\<lambda>(_, line). re_search DEV_DEFAULT_PATTERN line \<noteq> None) (enumerate 1 (splitlines body))))"

definition ends_with :: "string \<Rightarrow> string \<Rightarrow> bool" where
  "ends_with ending name \<longleftrightarrow> length ending \<le> length name \<and> drop (length name - length ending) name = ending"

text \<open>\<open>sorted(dir.glob("*.yaml")) + sorted(dir.glob("*.yml"))\<close>.\<close>

definition workflow_files :: "file_tree \<Rightarrow> string list" where
  "workflow_files ft =
     (case ft_list ft workflows_dir of
        None \<Rightarrow> []
      | Some names \<Rightarrow> sort (filter (ends_with ''.yaml'') names) @ sort (filter (ends_with ''.yml'') names))"

definition check_slm_pinning :: "file_tree \<Rightarrow> pinning_error list" where
  "check_slm_pinning ft =
     check_weight_manifest ft @ check_gpu_dockerfile ft @ check_no_dev_default ft compose_file @
     concat (map (\<lambda>name. check_no_dev_default ft (workflows_dir @ ''/'' @ name)) (workflow_files ft))"

definition slm_pinning_main :: "file_tree \<Rightarrow> nat" where
  "slm_pinning_main ft = (if check_slm_pinning ft \<noteq> [] then 1 else 0)"

section \<open>scripts/verify\_slm\_manifest.py\<close>

datatype weight_entry =
    WeightFile string
  | WeightDir

text \<open>
  The digest object holds what it was updated with; the file is read a chunk at a time until a read
  returns nothing.
\<close>

function read_all :: "nat \<Rightarrow> string \<Rightarrow> string \<Rightarrow> string" where
  "read_all n digest fh =
     (let chunk = take n fh in
      if chunk = [] then digest else read_all n (digest @ chunk) (drop n fh))"
  by pat_completeness auto
termination
  by (relation "measure (\<lambda>(n, digest, fh). length fh)") (auto simp: Let_def)

declare read_all.simps [simp del]

definition sha256_file :: "(string \<Rightarrow> string) \<Rightarrow> nat \<Rightarrow> string \<Rightarrow> string" where
  "sha256_file sha256 chunk_size content = sha256 (read_all chunk_size [] content)"

definition path_join :: "string \<Rightarrow> string \<Rightarrow> string" where
  "path_join root_dir rel = (if startswith rel ''/'' then rel else root_dir @ ''/'' @ rel)"

text \<open>\<open>line.split(maxsplit=1)\<close> of a stripped line: the first word and the rest, if there are two.\<close>

definition split_once :: "string \<Rightarrow> (string \<times> string) option" where
  "split_once line =
     (let rest = dropWhile py_isspace (dropWhile (\<lambda>c. \<not> py_isspace c) line) in
      if rest = [] then None else Some (takeWhile (\<lambda>c. \<not> py_isspace c) line, rest))"

definition line_fails ::
  "(string \<Rightarrow> weight_entry option) \<Rightarrow> (string \<Rightarrow> string) \<Rightarrow> string \<Rightarrow> string \<Rightarrow> exc + bool" where
  "line_fails files sha256 root_dir line0 =
     (let line = strip line0 in
      if line = [] \<or> startswith line ''#'' then Inr False
      else case split_once line of
        None \<Rightarrow> Inr True
      | Some (expected, relative) \<Rightarrow>
          (case files (path_join root_dir (strip relative)) of
             None \<Rightarrow> Inr True
           | Some WeightDir \<Rightarrow> Inl (ClientError ''IsADirectoryError'')
           | Some (WeightFile content) \<Rightarrow> Inr (sha256_file sha256 1048576 content \<noteq> expected)))"

fun count_failures :: "(string \<Rightarrow> exc + bool) \<Rightarrow> string list \<Rightarrow> nat \<Rightarrow> exc + nat" where
  "count_failures fails [] n = Inr n"
| "count_failures fails (l # ls) n =
     res_bind (fails l) (\<lambda>bad. count_failures fails ls (if bad then Suc n else n))"

definition verify_slm_manifest ::
  "(string \<Rightarrow> weight_entry option) \<Rightarrow> (string \<Rightarrow> string) \<Rightarrow> string \<Rightarrow> string option \<Rightarrow> exc + nat" where
  "verify_slm_manifest files sha256 weights_root manifest =
     (case manifest of
        None \<Rightarrow> Inr 1
      | Some body \<Rightarrow>
          res_bind (count_failures (line_fails files sha256 weights_root) (splitlines body) 0) (\<lambda>failures.
          Inr (if failures \<noteq> 0 then 1 else 0)))"

section \<open>scripts/check\_no\_todo\_fixme.py\<close>

definition MARKER_PATTERN :: re where
  "MARKER_PATTERN = re_seq [WordB, Grp 1 (Alt (ilit ''TODO'') (Alt (ilit ''FIXME'') (Alt (ilit ''XXX'') (ilit ''@todo'')))), WordB]"

definition INCLUDE_SUFFIXES :: "string list" where
  "INCLUDE_SUFFIXES = [''.py'', ''.sql'', ''.yaml'', ''.yml'', ''.toml'', ''.sh'', ''.dockerfile'', ''.tf'']"

definition EXCLUDE_PREFIXES :: "string list" where
  "EXCLUDE_PREFIXES = [''.git/'', ''.hypothesis/'', ''.mypy_cache/'', ''.ruff_cache/'', ''.pytest_cache/'', ''.specify/'',
     ''.claude/'', ''docs/'', ''specs/'', ''models/'', ''node_modules/'', ''build/'', ''dist/'',
     ''scripts/check_no_todo_fixme.py'', ''.pre-commit-config.yaml'']"

definition VENV_HINT :: re where
  "VENV_HINT = re_seq [Alt Bol (Lit ''/''), Opt (Lit ''.''), Lit ''venv'', Rep 0 None (\<lambda>c. c \<noteq> CHR ''/''), Alt (Lit ''/'') Eol]"

definition excluded :: "string \<Rightarrow> bool" where
  "excluded rel \<longleftrightarrow>
     list_ex (startswith rel) EXCLUDE_PREFIXES \<or> partition_at ''__pycache__'' rel \<noteq> None \<or> re_search VENV_HINT rel \<noteq> None"

text \<open>\<open>Path.suffix\<close>: from the last dot of the name, unless it is the first or the last character.\<close>

definition path_suffix :: "string \<Rightarrow> string" where
  "path_suffix name =
     (let ending = rev (takeWhile (\<lambda>c. c \<noteq> CHR ''.'') (rev name)) in
      if ending = [] \<or> length name \<le> Suc (length ending) then [] else ''.'' @ ending)"

definition scanned :: "string \<Rightarrow> bool" where
  "scanned rel \<longleftrightarrow>
     \<not> excluded rel \<and>
     (lower (path_suffix (path_name rel)) \<in> set INCLUDE_SUFFIXES \<or> path_name rel \<in> {''Dockerfile'', ''Makefile''})"

text \<open>The files of the tree with their text, \<open>None\<close> where it cannot be read.\<close>

definition marker_violations :: "(string \<times> string option) list \<Rightarrow> (string \<times> nat \<times> string) list" where
  "marker_violations tree =
     concat (map (\<lambda>(rel, body). if \<not> scanned rel then [] else case body of
         None \<Rightarrow> []
       | Some body \<Rightarrow> map (\<lambda>(lineno, line). (rel, lineno, strip line))
           (filter (\<lambda>(_, line). re_search MARKER_PATTERN line \<noteq> None) (enumerate 1 (splitlines body)))) tree)"

definition no_todo_main :: "(string \<times> string option) list \<Rightarrow> nat" where
  "no_todo_main tree = (if marker_violations tree \<noteq> [] then 1 else 0)"

section \<open>scripts/check\_secrets.py\<close>

text \<open>The command line, and the exit code from the scanner's.\<close>

definition secrets_command :: "string \<Rightarrow> string \<Rightarrow> bool \<Rightarrow> string list \<Rightarrow> string list" where
  "secrets_command binary repo_root allowlist argv =
     [binary, ''detect'', ''--source'', repo_root, ''--no-banner'', ''--redact'', ''--verbose''] @
     (if allowlist then [''--config'', repo_root @ ''/.gitleaks.toml''] else []) @ argv"

definition secrets_main :: "string option \<Rightarrow> (string list \<Rightarrow> int) \<Rightarrow> string \<Rightarrow> bool \<Rightarrow> string list \<Rightarrow> nat" where
  "secrets_main which run repo_root allowlist argv =
     (case which of
        None \<Rightarrow> 2
      | Some binary \<Rightarrow> if run (secrets_command binary repo_root allowlist argv) = 0 then 0 else 1)"

section \<open>scripts/check\_log\_pii.py\<close>

definition PII_FIXTURES :: "(string \<times> string) list" where
  "PII_FIXTURES =
     [(''contact: support@example.com please respond'', ''support@example.com''),
      (''call us at +1 202 555 0100 today'', ''+1 202 555 0100''),
      (''coords 47.6062, -122.3321 captured'', ''47.6062''),
      (''ssn 123-45-6789 on file'', ''123-45-6789'')]"

definition PRESERVE_FIXTURES :: "(string \<times> string) list" where
  "PRESERVE_FIXTURES =
     [(''tenant_id'', ''tenant-a''), (''correlation_id'', ''cid-abc-123''), (''policy_id'', ''policy-2026-05-11-001''),
      (''vehicle_id'', ''VIN-1HGCM82633A123456''), (''endpoint'', ''POST /api/v1/findings'')]"

definition PII_LABEL_FRAGMENTS :: "string list" where
  "PII_LABEL_FRAGMENTS = [''email'', ''phone'', ''ssn'', ''personal_'', ''address'', ''geolocation'']"

datatype pii_gate_error =
    TokenSurvived string string
  | IdentifierChanged string
  | LabelMatches string string string

text \<open>\<open>str\<close> of a dictionary of strings, none of which needs an escape here.\<close>

definition show_str_dict :: "dict \<Rightarrow> string" where
  "show_str_dict d =
     ''{'' @ join '', '' (map (\<lambda>(k, v). [CHR 0x27] @ k @ [CHR 0x27] @ '': '' @
       (case v of JStr s \<Rightarrow> [CHR 0x27] @ s @ [CHR 0x27] | _ \<Rightarrow> [])) d) @ ''}''"

definition check_strips :: "pyrt \<Rightarrow> pii_gate_error list" where
  "check_strips rt =
     concat (map (\<lambda>(input, leak).
       let processed = pii_processor rt [(''event'', JStr ''synthetic''), (''value'', JStr input)] in
       if partition_at leak (show_str_dict processed) \<noteq> None then [TokenSurvived leak input] else []) PII_FIXTURES)"

definition check_preserves :: "pyrt \<Rightarrow> pii_gate_error list" where
  "check_preserves rt =
     (let event = (''event'', JStr ''policy_generated'') # map (\<lambda>(k, v). (k, JStr v)) PRESERVE_FIXTURES;
          processed = pii_processor rt event in
      concat (map (\<lambda>(key, expected). if dict_get processed key \<noteq> Some (JStr expected) then [IdentifierChanged key] else [])
        PRESERVE_FIXTURES))"

text \<open>The metric object's \<open>_name\<close>: the client library takes \<open>_total\<close> off a counter's name.\<close>

definition prom_name :: "metric \<Rightarrow> string" where
  "prom_name m =
     (if me_kind m = Counter \<and> ends_with ''_total'' (me_name m) then take (length (me_name m) - 6) (me_name m) else me_name m)"

definition scanned_metrics :: "metric list" where
  "scanned_metrics = filter (\<lambda>m. startswith (prom_name m) ''collectmind_'') all_metrics"

definition check_label_names :: "pii_gate_error list" where
  "check_label_names =
     concat (map (\<lambda>m. concat (map (\<lambda>label. concat (map (\<lambda>fragment.
       if partition_at fragment (lower label) \<noteq> None then [LabelMatches (prom_name m) label fragment] else [])
       PII_LABEL_FRAGMENTS)) (me_labelnames m))) scanned_metrics)"

definition check_log_pii :: "pyrt \<Rightarrow> pii_gate_error list" where
  "check_log_pii rt = check_strips rt @ check_preserves rt @ check_label_names"

definition log_pii_main :: "pyrt \<Rightarrow> nat" where
  "log_pii_main rt = (if check_log_pii rt \<noteq> [] then 1 else 0)"

section \<open>observability/dashboard\_provisioner.py\<close>

definition ref_char :: "char \<Rightarrow> bool" where
  "ref_char c \<longleftrightarrow> is_ascii_lower c \<or> is_digit c \<or> c = CHR ''_''"

definition METRIC_REF :: re where
  "METRIC_REF = re_seq [WordB, Rep 1 (Some 1) is_ascii_lower, Rep 0 None ref_char, WordB]"

definition SUFFIXES :: "string list" where
  "SUFFIXES = [[], ''_total'', ''_created'', ''_bucket'', ''_sum'', ''_count'']"

text \<open>\<open>p.findall(s)\<close> for a pattern without groups that never matches the empty string.\<close>

function findall_from :: "re \<Rightarrow> string \<Rightarrow> string \<Rightarrow> string list" where
  "findall_from r p s =
     (case s of
        [] \<Rightarrow> []
      | c # cs \<Rightarrow>
          (case re_run r (p, s, []) of
             [] \<Rightarrow> findall_from r (c # p) cs
           | (p', s', _) # _ \<Rightarrow>
               if length s' < length s then take (length s - length s') s # findall_from r p' s'
               else findall_from r (c # p) cs))"
  by pat_completeness auto
termination
  by (relation "measure (\<lambda>(r, p, s). length s)") auto

declare findall_from.simps [simp del]

definition findall :: "re \<Rightarrow> string \<Rightarrow> string list" where
  "findall r s = findall_from r [] s"

definition declared_metric_names :: "string list" where
  "declared_metric_names = concat (map (\<lambda>m. map (\<lambda>suffix. prom_name m @ suffix) SUFFIXES) scanned_metrics)"

fun referenced_metric_names :: "json list \<Rightarrow> exc + string list" where
  "referenced_metric_names [] = Inr []"
| "referenced_metric_names (target # targets) =
     res_bind (py_get target ''expr'' JNull) (\<lambda>expr.
     res_bind (referenced_metric_names targets) (\<lambda>refs.
     Inr ((case expr of
         JStr s \<Rightarrow> filter (\<lambda>tok. startswith tok ''collectmind_'') (findall METRIC_REF s)
       | _ \<Rightarrow> []) @ refs)))"

text \<open>An error is the panel's identifier and the reference; the order within a panel is not fixed by the code.\<close>

fun panel_errors :: "json list \<Rightarrow> exc + (json \<times> string) list" where
  "panel_errors [] = Inr []"
| "panel_errors (panel # panels) =
     res_bind (py_get panel ''targets'' (JArr [])) (\<lambda>targets.
     res_bind (py_iter targets) (\<lambda>targets.
     res_bind (referenced_metric_names targets) (\<lambda>refs.
     res_bind (py_get panel ''id'' JNull) (\<lambda>ident.
     res_bind (panel_errors panels) (\<lambda>errors.
     Inr (map (\<lambda>ref. (ident, ref)) (filter (\<lambda>ref. declared_metric_names \<noteq> [] \<and> ref \<notin> set declared_metric_names) (remdups refs)) @ errors))))))"

definition validate_dashboard :: "pyrt \<Rightarrow> string \<Rightarrow> exc + (json \<times> string) list" where
  "validate_dashboard rt body =
     res_bind (loads rt body) (\<lambda>doc.
     res_bind (py_get doc ''panels'' (JArr [])) (\<lambda>panels.
     res_bind (py_iter panels) panel_errors))"

section \<open>What the guards accept\<close>

lemma read_all_whole: "0 < n \<Longrightarrow> read_all n digest fh = digest @ fh"
proof (induction n digest fh rule: read_all.induct)
  case (1 n digest fh)
  show ?case
  proof (cases "fh = []")
    case False
    with "1.prems" have "take n fh \<noteq> []" by simp
    with 1 show ?thesis by (simp add: read_all.simps [of n digest fh] Let_def)
  qed (simp add: read_all.simps [of n digest "[]"])
qed

lemma sha256_file_whole: "sha256_file sha256 1048576 content = sha256 content"
  by (simp add: sha256_file_def read_all_whole)

definition line_verified :: "(string \<Rightarrow> weight_entry option) \<Rightarrow> (string \<Rightarrow> string) \<Rightarrow> string \<Rightarrow> string \<Rightarrow> bool" where
  "line_verified files sha256 root_dir line \<longleftrightarrow>
     strip line = [] \<or> startswith (strip line) ''#'' \<or>
     (\<exists>expected relative content. split_once (strip line) = Some (expected, relative) \<and>
        files (path_join root_dir (strip relative)) = Some (WeightFile content) \<and> sha256 content = expected)"

lemma line_fails_iff: "line_fails files sha256 root_dir line = Inr False \<longleftrightarrow> line_verified files sha256 root_dir line"
  by (auto simp: line_fails_def line_verified_def Let_def sha256_file_whole split: option.splits weight_entry.splits)

lemma count_failures_zero: "count_failures fails ls n = Inr 0 \<longleftrightarrow> n = 0 \<and> list_all (\<lambda>l. fails l = Inr False) ls"
proof (induction fails ls n rule: count_failures.induct)
  case (2 fails l ls n)
  then show ?case by (cases "fails l") (auto split: if_splits)
qed auto

theorem manifest_verified_iff:
  "verify_slm_manifest files sha256 weights_root manifest = Inr 0 \<longleftrightarrow>
     (\<exists>body. manifest = Some body \<and> list_all (line_verified files sha256 weights_root) (splitlines body))"
proof (cases manifest)
  case (Some body)
  have "verify_slm_manifest files sha256 weights_root manifest = Inr 0 \<longleftrightarrow>
      count_failures (line_fails files sha256 weights_root) (splitlines body) 0 = Inr 0"
    by (auto simp: verify_slm_manifest_def Some res_bind_Inr split: if_splits)
  then show ?thesis by (simp add: count_failures_zero line_fails_iff Some)
qed (simp add: verify_slm_manifest_def)

lemma split_first:
  "(\<exists>u v. c # cs = u @ v \<and> P u v) \<longleftrightarrow> P [] (c # cs) \<or> (\<exists>u v. cs = u @ v \<and> P (c # u) v)"
  unfolding Cons_eq_append_conv by blast

lemma search_from_iff: "re_search_from r p s \<noteq> None \<longleftrightarrow> (\<exists>u v. s = u @ v \<and> re_run r (rev u @ p, v, []) \<noteq> [])"
proof (induction r p s rule: re_search_from.induct)
  case (2 r p c cs)
  show ?case
  proof (cases "re_run r (p, c # cs, []) = []")
    case True
    with 2 have "re_search_from r p (c # cs) \<noteq> None \<longleftrightarrow> (\<exists>u v. cs = u @ v \<and> re_run r (rev u @ c # p, v, []) \<noteq> [])" by simp
    also have "\<dots> \<longleftrightarrow> (\<exists>u v. c # cs = u @ v \<and> re_run r (rev u @ p, v, []) \<noteq> [])"
      using True split_first [of c cs "\<lambda>u v. re_run r (rev u @ p, v, []) \<noteq> []"] by simp
    finally show ?thesis .
  next
    case False
    then have "re_search_from r p (c # cs) \<noteq> None" by (auto simp: neq_Nil_conv)
    moreover from False have "\<exists>u v. c # cs = u @ v \<and> re_run r (rev u @ p, v, []) \<noteq> []"
      by (intro exI [of _ "[]"] exI [of _ "c # cs"]) simp
    ultimately show ?thesis by blast
  qed
qed (auto split: list.splits)

lemma search_iff: "re_search r s \<noteq> None \<longleftrightarrow> (\<exists>u v. s = u @ v \<and> re_run r (rev u, v, []) \<noteq> [])"
  using search_from_iff [of r "[]" s] by (simp add: re_search_def)

lemma ilit_run:
  "re_run (ilit w) (p, s, g) =
     (if length w \<le> length s \<and> lower (take (length w) s) = lower w
      then [(rev (take (length w) s) @ p, drop (length w) s, g)] else [])"
proof (induction w arbitrary: p s)
  case (Cons x w)
  show ?case
  proof (cases s)
    case (Cons c cs)
    then show ?thesis using Cons.IH [of "c # p" cs] by (simp add: ilit_def re_seq_def lower_def)
  qed (simp add: ilit_def re_seq_def)
qed (simp add: ilit_def re_seq_def lower_def)


text \<open>
  A line is reported exactly when one of the three words stands in it alone, in any case; the fourth
  alternative of the pattern never decides.
\<close>

definition MARKERS :: "string list" where
  "MARKERS = [''todo'', ''fixme'', ''xxx'']"

lemma letter_of_lower: "is_ascii_lower (ascii_lower c) \<Longrightarrow> py_isword c"
  by (auto simp: is_ascii_lower_def ascii_lower_def py_isword_def is_ascii_alpha_def split: if_splits)

lemma marker_letters: "w \<in> set MARKERS \<Longrightarrow> w \<noteq> [] \<and> list_all is_ascii_lower w"
  by (auto simp: MARKERS_def is_ascii_lower_def)

lemma word_at_letters: "x \<noteq> [] \<Longrightarrow> list_all py_isword x \<Longrightarrow> word_at (x @ s)"
  by (cases x) (simp_all add: word_at_def)

lemma marker_word_at:
  assumes "lower x \<in> set MARKERS"
  shows "word_at (x @ s)" and "word_at (rev x @ p)"
proof -
  from marker_letters [OF assms] have "x \<noteq> []" "list_all py_isword x"
    by (auto simp: lower_def list_all_iff letter_of_lower)
  then show "word_at (x @ s)" "word_at (rev x @ p)" by (auto simp: list_all_iff intro!: word_at_letters)
qed

lemma ilit_run_mem:
  "(p', s', g') \<in> set (re_run (ilit w) (p, s, g)) \<longleftrightarrow> g' = g \<and> (\<exists>x. s = x @ s' \<and> p' = rev x @ p \<and> lower x = lower w)"
proof
  assume "(p', s', g') \<in> set (re_run (ilit w) (p, s, g))"
  then show "g' = g \<and> (\<exists>x. s = x @ s' \<and> p' = rev x @ p \<and> lower x = lower w)"
    by (auto simp: ilit_run split: if_splits intro: exI [of _ "take (length w) s"])
next
  assume "g' = g \<and> (\<exists>x. s = x @ s' \<and> p' = rev x @ p \<and> lower x = lower w)"
  then obtain x where x: "g' = g" "s = x @ s'" "p' = rev x @ p" "lower x = lower w" by blast
  then have "length x = length w" by (metis length_map lower_def)
  with x show "(p', s', g') \<in> set (re_run (ilit w) (p, s, g))" by (simp add: ilit_run)
qed

definition marker_alts :: re where
  "marker_alts = Alt (ilit ''TODO'') (Alt (ilit ''FIXME'') (Alt (ilit ''XXX'') (ilit ''@todo'')))"

lemma marker_alts_mem:
  "(p', s', g') \<in> set (re_run marker_alts (p, s, g)) \<longleftrightarrow>
     g' = g \<and> (\<exists>x. s = x @ s' \<and> p' = rev x @ p \<and> lower x \<in> set (''@todo'' # MARKERS))"
proof -
  have low: "lower ''TODO'' = ''todo''" "lower ''FIXME'' = ''fixme''" "lower ''XXX'' = ''xxx''" "lower ''@todo'' = ''@todo''"
    by code_simp+
  show ?thesis unfolding marker_alts_def by (auto simp: ilit_run_mem MARKERS_def low)
qed

lemma marker_run:
  "re_run MARKER_PATTERN (p, s, []) \<noteq> [] \<longleftrightarrow>
     word_at p \<noteq> word_at s \<and>
     (\<exists>x v. s = x @ v \<and> lower x \<in> set (''@todo'' # MARKERS) \<and> word_at (rev x @ p) \<noteq> word_at v)"
proof -
  have grp: "re_run (Grp i a) (p, s, g) = map (\<lambda>st. (fst st, fst (snd st),
      (i, rev (take (length (fst st) - length p) (fst st))) # snd (snd st))) (re_run a (p, s, g))" for i a g
    by (simp add: split_beta)
  have wordb: "re_run (Seq WordB Eps) st = (if word_at (fst st) \<noteq> word_at (fst (snd st)) then [st] else [])" for st
    by (cases st) simp
  have "re_run MARKER_PATTERN (p, s, []) = (if word_at p \<noteq> word_at s then
      concat (map (re_run (Seq WordB Eps)) (re_run (Grp 1 marker_alts) (p, s, []))) else [])"
    by (simp add: MARKER_PATTERN_def marker_alts_def re_seq_def)
  then have "re_run MARKER_PATTERN (p, s, []) \<noteq> [] \<longleftrightarrow>
      word_at p \<noteq> word_at s \<and> (\<exists>(p', s', g') \<in> set (re_run marker_alts (p, s, [])). word_at p' \<noteq> word_at s')"
    unfolding grp wordb by (auto simp: split_beta split: if_splits)
  also have "(\<exists>(p', s', g') \<in> set (re_run marker_alts (p, s, [])). word_at p' \<noteq> word_at s') \<longleftrightarrow>
      (\<exists>x v. s = x @ v \<and> lower x \<in> set (''@todo'' # MARKERS) \<and> word_at (rev x @ p) \<noteq> word_at v)"
    unfolding Bex_def split_paired_Ex prod.case marker_alts_mem by blast
  finally show ?thesis .
qed

lemma at_sign_lower:
  assumes "ascii_lower c = CHR ''@''"
  shows "\<not> py_isword c"
proof -
  have "code (ascii_lower c) = 64" using assms by simp
  then have "code c = 64" by (auto simp: ascii_lower_def split: if_splits)
  then show ?thesis by (simp add: py_isword_def is_ascii_alpha_def py_isdigit_def is_digit_def)
qed

theorem marker_reported_iff:
  "re_search MARKER_PATTERN line \<noteq> None \<longleftrightarrow>
     (\<exists>u x v. line = u @ x @ v \<and> lower x \<in> set MARKERS \<and> \<not> word_at (rev u) \<and> \<not> word_at v)"
proof
  assume "re_search MARKER_PATTERN line \<noteq> None"
  then obtain u s where us: "line = u @ s" "re_run MARKER_PATTERN (rev u, s, []) \<noteq> []"
    unfolding search_iff by blast
  then obtain x v where x: "s = x @ v" "lower x \<in> set (''@todo'' # MARKERS)" "word_at (rev u) \<noteq> word_at s"
    "word_at (rev x @ rev u) \<noteq> word_at v" unfolding marker_run by blast
  show "\<exists>u x v. line = u @ x @ v \<and> lower x \<in> set MARKERS \<and> \<not> word_at (rev u) \<and> \<not> word_at v"
  proof (cases "lower x \<in> set MARKERS")
    case True
    from marker_word_at [OF this] x us(1) True show ?thesis by blast
  next
    case False
    with x(2) obtain c y where y: "x = c # y" "ascii_lower c = CHR ''@''" "lower y = ''todo''"
      by (auto simp: lower_def)
    then have "lower y \<in> set MARKERS" by (simp add: MARKERS_def)
    moreover have "\<not> word_at (rev (u @ [c]))"
      using at_sign_lower [OF y(2)] by (simp add: word_at_def)
    moreover have "\<not> word_at v" using marker_word_at(2) [OF \<open>lower y \<in> set MARKERS\<close>, of "c # rev u"] x(4) y(1) by simp
    moreover have "line = (u @ [c]) @ y @ v" using us(1) x(1) y(1) by simp
    ultimately show ?thesis by blast
  qed
next
  assume "\<exists>u x v. line = u @ x @ v \<and> lower x \<in> set MARKERS \<and> \<not> word_at (rev u) \<and> \<not> word_at v"
  then obtain u x v where x: "line = u @ x @ v" "lower x \<in> set MARKERS" "\<not> word_at (rev u)" "\<not> word_at v" by blast
  then have "re_run MARKER_PATTERN (rev u, x @ v, []) \<noteq> []"
    using marker_word_at [OF x(2)] unfolding marker_run by auto
  with x(1) show "re_search MARKER_PATTERN line \<noteq> None" unfolding search_iff by blast
qed


section \<open>The log guard on the modelled filter and metrics\<close>

lemma strip_plain: "strip_text ''synthetic'' = ''synthetic''"
  by code_simp

lemma strip_email:
  "strip_text ''contact: support@example.com please respond'' = ''contact: [redacted] please respond''"
  by code_simp

lemma strip_phone: "strip_text ''call us at +1 202 555 0100 today'' = ''call us at [redacted] today''"
  by code_simp

lemma strip_coordinates: "strip_text ''coords 47.6062, -122.3321 captured'' = ''coords [redacted] captured''"
  by code_simp

lemma strip_ssn: "strip_text ''ssn 123-45-6789 on file'' = ''ssn [redacted] on file''"
  by code_simp

lemmas strip_fixtures = strip_plain strip_email strip_phone strip_coordinates strip_ssn

lemma kept_fixtures:
  "strip_text ''policy_generated'' = ''policy_generated''" "strip_text ''tenant-a'' = ''tenant-a''"
  "strip_text ''cid-abc-123'' = ''cid-abc-123''" "strip_text ''policy-2026-05-11-001'' = ''policy-2026-05-11-001''"
  "strip_text ''VIN-1HGCM82633A123456'' = ''VIN-1HGCM82633A123456''"
  "strip_text ''POST /api/v1/findings'' = ''POST /api/v1/findings''"
  by (code_simp, code_simp, code_simp, code_simp, code_simp, code_simp)

lemma absent_tokens:
  "partition_at ''support@example.com'' (show_str_dict [(''event'', JStr ''synthetic''), (''value'', JStr ''contact: [redacted] please respond'')]) = None"
  "partition_at ''+1 202 555 0100'' (show_str_dict [(''event'', JStr ''synthetic''), (''value'', JStr ''call us at [redacted] today'')]) = None"
  "partition_at ''47.6062'' (show_str_dict [(''event'', JStr ''synthetic''), (''value'', JStr ''coords [redacted] captured'')]) = None"
  "partition_at ''123-45-6789'' (show_str_dict [(''event'', JStr ''synthetic''), (''value'', JStr ''ssn [redacted] on file'')]) = None"
  by (code_simp, code_simp, code_simp, code_simp)

lemma label_names_clean: "check_label_names = []"
  by code_simp

theorem log_pii_gate_passes: "log_pii_main rt = 0"
proof -
  have "check_strips rt = []"
    by (simp add: check_strips_def PII_FIXTURES_def pii_processor_def pii_value_def strip_pii_def strip_fixtures absent_tokens
        Let_def del: partition_at.simps)
  moreover have "check_preserves rt = []"
    by (simp add: check_preserves_def PRESERVE_FIXTURES_def pii_processor_def pii_value_def strip_pii_def kept_fixtures dict_get_def)
  ultimately show ?thesis by (simp add: log_pii_main_def check_log_pii_def label_names_clean)
qed

text \<open>The gate's identifiers have no run of nine digits; one that does is taken for a telephone number.\<close>

lemma digits_redacted: "strip_text ''VIN-123456789'' = ''VIN-[redacted]''"
  by code_simp

section \<open>The dashboard check\<close>

text \<open>The series the client library exports for a metric; each of them counts as declared.\<close>

definition exported_series :: "metric \<Rightarrow> string list" where
  "exported_series m =
     (case me_kind m of
        Counter \<Rightarrow> [prom_name m @ ''_total'', prom_name m @ ''_created'']
      | Gauge \<Rightarrow> [prom_name m]
      | Histogram _ \<Rightarrow> map (\<lambda>s. prom_name m @ s) [''_bucket'', ''_sum'', ''_count'', ''_created''])"

lemma scanned_all: "scanned_metrics = all_metrics"
  by code_simp

lemma exported_declared: "m \<in> set all_metrics \<Longrightarrow> set (exported_series m) \<subseteq> set declared_metric_names"
  by (auto simp: exported_series_def declared_metric_names_def scanned_all SUFFIXES_def split: metric_kind.splits)

text \<open>The converse fails: a bucket series of a counter passes the check, though the counter has none.\<close>

lemma declared_not_exported:
  "''collectmind_policy_generated_bucket'' \<in> set declared_metric_names"
  "''collectmind_policy_generated_bucket'' \<notin> set (exported_series (declare_metric Counter ''policy_generated_total'' [''tenant_id'']))"
  by (code_simp, code_simp)

lemma panel_errors_none:
  "panel_errors panels = Inr [] \<longleftrightarrow>
     list_all (\<lambda>panel. \<exists>targets xs refs ident. py_get panel ''targets'' (JArr []) = Inr targets \<and> py_iter targets = Inr xs \<and>
       referenced_metric_names xs = Inr refs \<and> py_get panel ''id'' JNull = Inr ident \<and>
       set refs \<subseteq> set declared_metric_names) panels"
proof (induction panels)
  case (Cons panel panels)
  have "declared_metric_names \<noteq> []" by code_simp
  with Cons show ?case by (fastforce simp: res_bind_Inr filter_empty_conv)
qed simp

end
