(* ===== verification/CM_Vss_Fetch.thy ===== *)
theory CM_Vss_Fetch
  imports CM_Validator CM_Runbooks
begin

text \<open>
  The script that derives the signal vocabulary, \<open>scripts/fetch_vss_v6.0.py\<close>: it downloads the signal tree,
  records its leaves under their dotted paths and writes the file the policy validator reads.  The download,
  the digest, \<open>json.loads\<close> and \<open>yaml.safe_dump\<close> are parameters; the written files are returned in order.
\<close>

section \<open>Walking the tree\<close>

definition LEAF_KINDS :: "string list" where
  "LEAF_KINDS = [''sensor'', ''actuator'', ''attribute'']"

text \<open>\<open>kind in LEAF_KINDS\<close>: membership in a set hashes the value.\<close>

definition in_leaf_kinds :: "json \<Rightarrow> exc + bool" where
  "in_leaf_kinds kind =
     (case kind of
        JStr s \<Rightarrow> Inr (s \<in> set LEAF_KINDS)
      | JArr _ \<Rightarrow> Inl (TypeError ''unhashable'')
      | JObj _ \<Rightarrow> Inl (TypeError ''unhashable'')
      | _ \<Rightarrow> Inr False)"

definition leaf_metadata :: "dict \<Rightarrow> json" where
  "leaf_metadata d =
     JObj [(''type'', dict_get_or d ''type'' JNull), (''datatype'', dict_get_or d ''datatype'' JNull),
       (''unit'', dict_get_or d ''unit'' JNull), (''description'', dict_get_or d ''description'' JNull)]"

definition child_path :: "string \<Rightarrow> string \<Rightarrow> string" where
  "child_path path name = (if path \<noteq> [] then path @ ''.'' @ name else name)"

definition children :: "dict \<Rightarrow> dict" where
  "children d = (case dict_get d ''children'' of Some (JObj ch) \<Rightarrow> ch | _ \<Rightarrow> [])"

lemma size_dict_get: "dict_get d k = Some j \<Longrightarrow> size j < size (JObj d)"
proof (induction d)
  case (Cons e d)
  then show ?case by (cases e) (auto simp: dict_get_def split: if_splits)
qed (simp add: dict_get_def)

lemma size_children: "size (JObj (children d)) \<le> size (JObj d)"
  using size_dict_get [of d "''children''"]
  by (auto simp: children_def split: option.splits json.splits intro: less_imp_le)

lemma res_bind_cong [fundef_cong]: "r = r' \<Longrightarrow> (\<And>x. r' = Inr x \<Longrightarrow> f x = g x) \<Longrightarrow> res_bind r f = res_bind r' g"
  by (cases r') simp_all

function walk_signals :: "json \<Rightarrow> string \<Rightarrow> dict \<Rightarrow> exc + dict"
  and walk_children :: "dict \<Rightarrow> string \<Rightarrow> dict \<Rightarrow> exc + dict" where
  "walk_signals node path out =
     (case node of
        JObj d \<Rightarrow>
          res_bind (in_leaf_kinds (dict_get_or d ''type'' JNull)) (\<lambda>leaf.
          walk_children (children d) path (if leaf then dict_put out path (leaf_metadata d) else out))
      | _ \<Rightarrow> Inl (AttributeError ''get''))"
| "walk_children [] path out = Inr out"
| "walk_children ((name, node) # ch) path out =
     res_bind (walk_signals node (child_path path name) out) (\<lambda>out. walk_children ch path out)"
  by pat_completeness auto
termination
  by (relation "measure (\<lambda>x. case x of Inl (node, _, _) \<Rightarrow> 2 * size node + 1 | Inr (ch, _, _) \<Rightarrow> 2 * size (JObj ch))")
    (use size_children [simplified] in \<open>auto simp: less_Suc_eq_le\<close>)

declare walk_signals.simps [simp del]

section \<open>The script\<close>

definition VSS_TAG :: string where
  "VSS_TAG = ''v6.0''"

definition VSS_COMMIT_SHA :: string where
  "VSS_COMMIT_SHA = ''20c609bf95c73b51d483fb8f81a099d1d5b73066''"

definition VSS_RELEASE_BASE :: string where
  "VSS_RELEASE_BASE = ''https://github.com/COVESA/vehicle_signal_specification/releases/download/v6.0''"

definition ASSETS :: "string list" where
  "ASSETS = [''vss.json'', ''vss.csv'', ''quantities.yaml'', ''units.yaml'']"

fun download_all :: "(string \<Rightarrow> exc + string) \<Rightarrow> string list \<Rightarrow> exc + (string \<times> string) list" where
  "download_all download [] = Inr []"
| "download_all download (a # as) =
     res_bind (download (VSS_RELEASE_BASE @ ''/'' @ a)) (\<lambda>data.
     res_bind (download_all download as) (\<lambda>rest. Inr ((a, data) # rest)))"

definition manifest_text :: "(string \<Rightarrow> string) \<Rightarrow> (string \<times> string) list \<Rightarrow> string" where
  "manifest_text sha256 blobs =
     join [CHR 0x0A] ([''# COVESA VSS '' @ VSS_TAG @ '' commit '' @ VSS_COMMIT_SHA, ''# Source: '' @ VSS_RELEASE_BASE,
       ''# Format: <sha256>  <asset>''] @ map (\<lambda>(a, data). sha256 data @ ''  '' @ a) blobs) @ [CHR 0x0A]"

text \<open>\<open>"Vehicle" not in tree\<close> and \<open>tree["Vehicle"]\<close>; \<open>None\<close> is the branch that reports the document's shape.\<close>

definition vehicle_of :: "json \<Rightarrow> exc + json option" where
  "vehicle_of tree =
     (case tree of
        JObj d \<Rightarrow> Inr (dict_get d ''Vehicle'')
      | JArr xs \<Rightarrow> Inl (if JStr ''Vehicle'' \<in> set xs then TypeError ''list indices'' else AttributeError ''keys'')
      | JStr s \<Rightarrow> Inl (if partition_at ''Vehicle'' s \<noteq> None then TypeError ''string indices'' else AttributeError ''keys'')
      | _ \<Rightarrow> Inl (TypeError ''not iterable''))"

definition signals_doc :: "dict \<Rightarrow> json" where
  "signals_doc signals =
     JObj [(''version'', JStr VSS_TAG), (''commit'', JStr VSS_COMMIT_SHA), (''leaf_count'', JInt (int (length signals))),
       (''signals'', JObj signals)]"

definition source_doc :: "dict \<Rightarrow> json" where
  "source_doc signals =
     JObj [(''tag'', JStr VSS_TAG), (''commit'', JStr VSS_COMMIT_SHA), (''release_url'', JStr VSS_RELEASE_BASE),
       (''leaf_count'', JInt (int (length signals))), (''assets'', JArr (map JStr ASSETS))]"

definition fetch_vss ::
  "pyrt \<Rightarrow> (string \<Rightarrow> exc + string) \<Rightarrow> (string \<Rightarrow> string) \<Rightarrow> (string \<Rightarrow> exc + json) \<Rightarrow> (json \<Rightarrow> string) \<Rightarrow>
   exc + nat \<times> (string \<times> string) list" where
  "fetch_vss rt download sha256 loads safe_dump =
     res_bind (download_all download ASSETS) (\<lambda>blobs.
     res_bind (loads (the (map_of blobs ''vss.json''))) (\<lambda>tree.
     res_bind (vehicle_of tree) (\<lambda>vehicle.
     case vehicle of
       None \<Rightarrow> Inr (2, [])
     | Some vehicle \<Rightarrow>
         res_bind (walk_signals vehicle ''Vehicle'' []) (\<lambda>signals.
         Inr (0, [(''signals.yaml'', safe_dump (signals_doc signals)),
           (''manifest.sha256'', manifest_text sha256 blobs),
           (''source.json'', dumps_indent rt 0 (sort_keys (source_doc signals)))] @ blobs)))))"

section \<open>The recorded signals are the leaves\<close>

text \<open>The nodes of a tree with their dotted paths.\<close>

inductive node_at :: "json \<Rightarrow> string \<Rightarrow> dict \<Rightarrow> string \<Rightarrow> bool" where
  here: "node_at (JObj d) path d path"
| below: "(name, node) \<in> set (children d) \<Longrightarrow> node_at node (child_path path name) d' path' \<Longrightarrow> node_at (JObj d) path d' path'"

inductive_simps node_at_JObj: "node_at (JObj d) path d' path'"

definition is_leaf :: "dict \<Rightarrow> bool" where
  "is_leaf d \<longleftrightarrow> in_leaf_kinds (dict_get_or d ''type'' JNull) = Inr True"

definition leaf_at :: "json \<Rightarrow> string \<Rightarrow> string \<Rightarrow> json \<Rightarrow> bool" where
  "leaf_at node path path' v \<longleftrightarrow> (\<exists>d'. node_at node path d' path' \<and> is_leaf d' \<and> v = leaf_metadata d')"

definition child_leaf_at :: "dict \<Rightarrow> string \<Rightarrow> string \<Rightarrow> json \<Rightarrow> bool" where
  "child_leaf_at ch path path' v \<longleftrightarrow> (\<exists>(name, node) \<in> set ch. leaf_at node (child_path path name) path' v)"

lemma leaf_at_JObj:
  "leaf_at (JObj d) path path' v \<longleftrightarrow>
     (path' = path \<and> is_leaf d \<and> v = leaf_metadata d) \<or> child_leaf_at (children d) path path' v"
proof -
  have "leaf_at (JObj d) path path' v \<longleftrightarrow> (\<exists>d'. ((d' = d \<and> path' = path) \<or>
      (\<exists>name node. (name, node) \<in> set (children d) \<and> node_at node (child_path path name) d' path')) \<and>
      is_leaf d' \<and> v = leaf_metadata d')"
    unfolding leaf_at_def by (subst node_at_JObj) blast
  also have "\<dots> \<longleftrightarrow> (path' = path \<and> is_leaf d \<and> v = leaf_metadata d) \<or>
      (\<exists>name node. (name, node) \<in> set (children d) \<and> leaf_at node (child_path path name) path' v)"
    unfolding leaf_at_def by blast
  also have "(\<exists>name node. (name, node) \<in> set (children d) \<and> leaf_at node (child_path path name) path' v) \<longleftrightarrow>
      child_leaf_at (children d) path path' v"
    unfolding child_leaf_at_def by auto
  finally show ?thesis .
qed

text \<open>
  Walking adds the leaves: an entry of the result was there before or is a leaf's, and what was
  there before or is a leaf is an entry.
\<close>

definition records :: "dict \<Rightarrow> dict \<Rightarrow> (string \<Rightarrow> json \<Rightarrow> bool) \<Rightarrow> bool" where
  "records out out' leaf \<longleftrightarrow>
     (\<forall>p v. dict_get out' p = Some v \<longrightarrow> dict_get out p = Some v \<or> leaf p v) \<and>
     (\<forall>p v. dict_get out p = Some v \<or> leaf p v \<longrightarrow> dict_get out' p \<noteq> None)"

lemma records_trans:
  assumes "records out out1 l1" and "records out1 out2 l2"
  shows "records out out2 (\<lambda>p v. l1 p v \<or> l2 p v)"
  using assms unfolding records_def by (metis not_None_eq)

lemma records_put: "records out (dict_put out path v) (\<lambda>p v'. p = path \<and> v' = v)"
  by (auto simp: records_def)

lemma records_none: "records out out (\<lambda>_ _. False)"
  by (simp add: records_def)

lemma walk_records:
  "walk_signals node path out = Inr out' \<Longrightarrow> records out out' (leaf_at node path)"
  "walk_children ch path out = Inr out' \<Longrightarrow> records out out' (child_leaf_at ch path)"
proof (induction node path out and ch path out arbitrary: out' and out' rule: walk_signals_walk_children.induct)
  case (1 node path out)
  from "1.prems" obtain d leaf where d: "node = JObj d" "in_leaf_kinds (dict_get_or d ''type'' JNull) = Inr leaf"
    and walk: "walk_children (children d) path (if leaf then dict_put out path (leaf_metadata d) else out) = Inr out'"
    by (auto simp: walk_signals.simps [of node] res_bind_Inr split: json.splits)
  have here: "records out (if leaf then dict_put out path (leaf_metadata d) else out)
      (\<lambda>p v. p = path \<and> is_leaf d \<and> v = leaf_metadata d)"
    using records_put [of out path "leaf_metadata d"] records_none [of out] d(2) by (cases leaf) (auto simp: is_leaf_def)
  have "records out out' (\<lambda>p v. (p = path \<and> is_leaf d \<and> v = leaf_metadata d) \<or> child_leaf_at (children d) path p v)"
    using records_trans [OF here "1.IH" [OF d walk]] .
  then show ?case unfolding d(1) by (simp add: leaf_at_JObj [abs_def])
next
  case (2 path out)
  then show ?case using records_none [of out] by (simp add: child_leaf_at_def [abs_def])
next
  case (3 name node ch path out)
  then obtain out1 where "walk_signals node (child_path path name) out = Inr out1" "walk_children ch path out1 = Inr out'"
    by (auto simp: res_bind_Inr)
  from records_trans [OF "3.IH"(1) [OF this(1)] "3.IH"(2) [OF this]] show ?case
    by (simp add: child_leaf_at_def [abs_def])
qed

lemma download_all_get: "download_all download as = Inr blobs \<Longrightarrow> a \<in> set as \<Longrightarrow>
    \<exists>data. download (VSS_RELEASE_BASE @ ''/'' @ a) = Inr data \<and> map_of blobs a = Some data"
  by (induction download as arbitrary: blobs rule: download_all.induct) (auto simp: res_bind_Inr)

text \<open>Sorting the keys of the written document keeps the vocabulary.\<close>

lemma sorted_vocabulary:
  "\<exists>sigs. vss_from_path (sort_keys (signals_doc signals)) = Inr \<lparr>vss_signals = sigs\<rparr> \<and> (\<forall>k. dict_has sigs k \<longleftrightarrow> dict_has signals k)"
proof -
  let ?sigs = "sort_key fst (map (\<lambda>(k, v). (k, sort_keys v)) signals)"
  have "sort_keys (signals_doc signals) = JObj [(''commit'', JStr VSS_COMMIT_SHA),
      (''leaf_count'', JInt (int (length signals))), (''signals'', JObj ?sigs), (''version'', JStr VSS_TAG)]"
    by (simp add: signals_doc_def)
  then have "vss_from_path (sort_keys (signals_doc signals)) = Inr \<lparr>vss_signals = ?sigs\<rparr>"
    by (simp add: vss_from_path_def dict_get_or_def dict_get_def)
  moreover have "dict_has ?sigs k \<longleftrightarrow> dict_has signals k" for k
    by (force simp: dict_has_def image_iff)
  ultimately show ?thesis by blast
qed

text \<open>
  C37. The validator's vocabulary is the released tree's set of leaves: when the script succeeds, the file it
  writes, read back, gives a validator that accepts a signal name exactly when the downloaded tree has a
  sensor, actuator or attribute at that dotted path below \<open>Vehicle\<close>, whatever the tree's shape.
\<close>

theorem vocabulary_is_tree_leaves:
  assumes "fetch_vss rt download sha256 loads safe_dump = Inr (0, files)"
    and "download (VSS_RELEASE_BASE @ ''/vss.json'') = Inr blob" and "loads blob = Inr (JObj tree)"
    and "dict_get tree ''Vehicle'' = Some vehicle"
    and "\<And>signals. walk_signals vehicle ''Vehicle'' [] = Inr signals \<Longrightarrow>
      safe_load (safe_dump (signals_doc signals)) = sort_keys (signals_doc signals)"
  shows "\<exists>written v. map_of files ''signals.yaml'' = Some written \<and> vss_from_path (safe_load written) = Inr v \<and>
    (\<forall>name. vss_is_valid v name \<longleftrightarrow> (\<exists>metadata. leaf_at vehicle ''Vehicle'' name metadata))"
proof -
  from assms(1) obtain blobs where blobs: "download_all download ASSETS = Inr blobs"
    by (auto simp: fetch_vss_def res_bind_Inr)
  with assms(2) have "map_of blobs ''vss.json'' = Some blob"
    using download_all_get [OF blobs, of "''vss.json''"] by (auto simp: ASSETS_def)
  with assms(1,3,4) blobs obtain signals where walk: "walk_signals vehicle ''Vehicle'' [] = Inr signals"
    and files: "map_of files ''signals.yaml'' = Some (safe_dump (signals_doc signals))"
    by (auto simp: fetch_vss_def res_bind_Inr vehicle_of_def)
  obtain sigs where v: "vss_from_path (sort_keys (signals_doc signals)) = Inr \<lparr>vss_signals = sigs\<rparr>"
    "\<And>k. dict_has sigs k \<longleftrightarrow> dict_has signals k" using sorted_vocabulary [of signals] by blast
  have "dict_has signals k \<longleftrightarrow> (\<exists>metadata. leaf_at vehicle ''Vehicle'' k metadata)" for k
  proof -
    have "dict_get [] p = None" for p by (simp add: dict_get_def)
    with walk_records(1) [OF walk] have "dict_get signals k \<noteq> None \<longleftrightarrow> (\<exists>metadata. leaf_at vehicle ''Vehicle'' k metadata)"
      unfolding records_def by (metis not_None_eq option.distinct(1))
    then show ?thesis by (simp add: dict_has_get)
  qed
  with v(2) have "vss_is_valid \<lparr>vss_signals = sigs\<rparr> name \<longleftrightarrow> (\<exists>metadata. leaf_at vehicle ''Vehicle'' name metadata)" for name
    by (simp add: vss_is_valid_def)
  with files v(1) assms(5) [OF walk] show ?thesis by auto
qed

text \<open>A tree with two leaves and a branch, and the script run on it.\<close>

definition small_vehicle :: json where
  "small_vehicle = JObj [(''type'', JStr ''branch''), (''children'', JObj [
     (''Speed'', JObj [(''type'', JStr ''sensor''), (''datatype'', JStr ''float''), (''unit'', JStr ''km/h'')]),
     (''Cabin'', JObj [(''type'', JStr ''branch''), (''children'', JObj [
        (''Light'', JObj [(''type'', JStr ''actuator''), (''datatype'', JStr ''boolean'')])])])])]"

definition small_signals :: dict where
  "small_signals =
     [(''Vehicle.Speed'', JObj [(''type'', JStr ''sensor''), (''datatype'', JStr ''float''), (''unit'', JStr ''km/h''), (''description'', JNull)]),
      (''Vehicle.Cabin.Light'', JObj [(''type'', JStr ''actuator''), (''datatype'', JStr ''boolean''), (''unit'', JNull), (''description'', JNull)])]"

lemma small_walk: "walk_signals small_vehicle ''Vehicle'' [] = Inr small_signals"
  by (simp add: walk_signals.simps small_vehicle_def small_signals_def in_leaf_kinds_def LEAF_KINDS_def dict_get_or_def dict_get_def
      children_def child_path_def leaf_metadata_def)

lemma small_fetch:
  "fetch_vss plain_rt (\<lambda>_. Inr ''blob'') (\<lambda>_. ''sha'') (\<lambda>_. Inr (JObj [(''Vehicle'', small_vehicle)])) (\<lambda>_. ''yaml'') =
   Inr (0, [(''signals.yaml'', ''yaml''), (''manifest.sha256'', manifest_text (\<lambda>_. ''sha'') (map (\<lambda>a. (a, ''blob'')) ASSETS)),
     (''source.json'', dumps_indent plain_rt 0 (sort_keys (source_doc small_signals)))] @ map (\<lambda>a. (a, ''blob'')) ASSETS)"
  by (simp add: fetch_vss_def ASSETS_def vehicle_of_def dict_get_def small_walk)

theorem vocabulary_is_tree_leaves_witness:
  "\<exists>v. vss_from_path (sort_keys (signals_doc small_signals)) = Inr v \<and>
     (\<forall>name. vss_is_valid v name \<longleftrightarrow> (\<exists>metadata. leaf_at small_vehicle ''Vehicle'' name metadata))"
  using vocabulary_is_tree_leaves [OF small_fetch, of "''blob''" "[(''Vehicle'', small_vehicle)]" small_vehicle
      "\<lambda>_. sort_keys (signals_doc small_signals)"]
  by (simp add: dict_get_def small_walk)

end
