(* ===== verification/CM_Artifacts.thy ===== *)
theory CM_Artifacts
  imports CM_Guards CM_Vss_Fetch
begin

text \<open>
  The files a deployment starts from: the signing key (\<open>deployer/signing.py\<close>), the default locations of
  the model corpus and of the validators' documents (\<open>app.py\<close>, \<open>validator/vss.py\<close>,
  \<open>validator/governance.py\<close>), the set-up of tracing and logging (\<open>observability/otel.py\<close>,
  \<open>observability/logging.py\<close>), and the scripts that fetch and convert the model's weights
  (\<open>scripts/fetch_qwen2.5_weights.py\<close>, \<open>scripts/build_qwen_gguf.py\<close>).  Key generation, PEM encoding, the
  download and the converter are parameters.
\<close>

section \<open>deployer/signing.py: key files\<close>

record 'k key_lib =
  kl_generate :: 'k
  kl_load_pem :: "string \<Rightarrow> exc + 'k"
  kl_to_pem :: "'k \<Rightarrow> string"
  kl_is_ed25519 :: "'k \<Rightarrow> bool"

definition key_signer :: "('k \<Rightarrow> 'pk) \<Rightarrow> 'k \<Rightarrow> string \<Rightarrow> ('k, 'pk) signer" where
  "key_signer public_key sk key_id = \<lparr>sg_private = sk, sg_public = public_key sk, sg_key_id = key_id\<rparr>"

definition generate_for_tests :: "'k key_lib \<Rightarrow> ('k \<Rightarrow> 'pk) \<Rightarrow> string \<Rightarrow> ('k, 'pk) signer" where
  "generate_for_tests lib public_key key_id = key_signer public_key (kl_generate lib) key_id"

text \<open>The file system maps paths to contents; the key is loaded when its file exists and else made and written.\<close>

definition signer_from_path ::
  "'k key_lib \<Rightarrow> ('k \<Rightarrow> 'pk) \<Rightarrow> string \<Rightarrow> string \<Rightarrow> (exc, string \<rightharpoonup> string, ('k, 'pk) signer) act" where
  "signer_from_path lib public_key path key_id =
     act_bind (\<lambda>files. case files path of
         Some pem \<Rightarrow> (kl_load_pem lib pem, files)
       | None \<Rightarrow> (Inr (kl_generate lib), files(path \<mapsto> kl_to_pem lib (kl_generate lib)))) (\<lambda>sk.
     if \<not> kl_is_ed25519 lib sk then act_raise (RuntimeError ''unexpected private key type'')
     else act_return (key_signer public_key sk key_id))"

text \<open>
  A signature outlives the process: the key a first start generates is the key every later start loads, so
  what was signed before a restart verifies after it.
\<close>

theorem signatures_survive_restart:
  assumes "kl_load_pem lib (kl_to_pem lib (kl_generate lib)) = Inr (kl_generate lib)"
    and "kl_load_pem lib' = kl_load_pem lib" and "kl_is_ed25519 lib' = kl_is_ed25519 lib"
    and "\<forall>m. ed_verify (public_key (kl_generate lib)) (ed_sign (kl_generate lib) m) m"
    and "files path = None" and "signer_from_path lib public_key path key_id files = (Inr s, files')"
  shows "\<exists>s'. signer_from_path lib' public_key path key_id files' = (Inr s', files') \<and>
    verify ed_verify rt s' payload (fst (sign ed_sign rt s payload)) (snd (sign ed_sign rt s payload))"
proof -
  from assms(5,6) have ed: "kl_is_ed25519 lib (kl_generate lib)" and s: "s = key_signer public_key (kl_generate lib) key_id"
    and files': "files' = files(path \<mapsto> kl_to_pem lib (kl_generate lib))"
    by (auto simp: signer_from_path_def act_bind_run act_run_simps split: if_splits)
  then have "signer_from_path lib' public_key path key_id files' = (Inr s, files')"
    using assms(1-3) by (simp add: signer_from_path_def act_bind_run act_run_simps)
  moreover have "verify ed_verify rt s payload (fst (sign ed_sign rt s payload)) (snd (sign ed_sign rt s payload))"
    using assms(4) by (simp add: s key_signer_def sign_def verify_def)
  ultimately show ?thesis by blast
qed

section \<open>Default locations\<close>

text \<open>
  A path as its components.  \<open>Path.parents[n]\<close> drops the last \<open>n + 1\<close> of them.
\<close>

type_synonym path = "string list"

definition path_parent :: "path \<Rightarrow> nat \<Rightarrow> path" where
  "path_parent p n = take (length p - Suc n) p"

text \<open>Under a container's root the package has one directory less above it than in the repository.\<close>

definition first_existing :: "(path \<Rightarrow> bool) \<Rightarrow> path \<Rightarrow> path \<Rightarrow> path" where
  "first_existing exists container repo = (if exists container then container else repo)"

definition resolve_corpus_root :: "string option \<Rightarrow> (string \<Rightarrow> path) \<Rightarrow> (path \<Rightarrow> bool) \<Rightarrow> path \<Rightarrow> path" where
  "resolve_corpus_root env to_path exists here =
     (case env of
        Some (c # cs) \<Rightarrow> to_path (c # cs)
      | _ \<Rightarrow> first_existing exists (path_parent here 1 @ [''tests'', ''fixtures'', ''policy_corpus''])
               (path_parent here 2 @ [''tests'', ''fixtures'', ''policy_corpus'']))"

definition vss_default_path :: "(path \<Rightarrow> bool) \<Rightarrow> path \<Rightarrow> path" where
  "vss_default_path exists here =
     first_existing exists (path_parent here 2 @ [''config'', ''vss'', ''v6.0'', ''signals.yaml''])
       (path_parent here 3 @ [''config'', ''vss'', ''v6.0'', ''signals.yaml''])"

definition governance_default_path :: "(path \<Rightarrow> bool) \<Rightarrow> path \<Rightarrow> path" where
  "governance_default_path exists here =
     first_existing exists (path_parent here 2 @ [''config'', ''vss'', ''v6.0'', ''pii_signals.yaml''])
       (path_parent here 3 @ [''config'', ''vss'', ''v6.0'', ''pii_signals.yaml''])"

lemma layouts:
  "resolve_corpus_root None to_path (\<lambda>_. True) [''app'', ''collectmind'', ''app.py''] =
     [''app'', ''tests'', ''fixtures'', ''policy_corpus'']"
  "resolve_corpus_root None to_path (\<lambda>_. False) [''r'', ''src'', ''collectmind'', ''app.py''] =
     [''r'', ''tests'', ''fixtures'', ''policy_corpus'']"
  "vss_default_path (\<lambda>_. True) [''app'', ''collectmind'', ''validator'', ''vss.py''] =
     [''app'', ''config'', ''vss'', ''v6.0'', ''signals.yaml'']"
  "vss_default_path (\<lambda>_. False) [''r'', ''src'', ''collectmind'', ''validator'', ''vss.py''] =
     [''r'', ''config'', ''vss'', ''v6.0'', ''signals.yaml'']"
  by (simp_all add: resolve_corpus_root_def vss_default_path_def first_existing_def path_parent_def)

section \<open>observability/otel.py, observability/logging.py\<close>

text \<open>The tracer providers set so far, with their service name and endpoint.\<close>

record otel_state =
  ot_initialized :: bool
  ot_providers :: "(string \<times> string) list"

definition init_otel :: "string option \<Rightarrow> string \<Rightarrow> string \<Rightarrow> otel_state \<Rightarrow> otel_state" where
  "init_otel disable_otel service exporter s =
     (if ot_initialized s then s
      else if exporter = [] \<or> lower (case disable_otel of None \<Rightarrow> [] | Some v \<Rightarrow> v) \<in> {''1'', ''true'', ''yes''}
      then s\<lparr>ot_initialized := True\<rparr>
      else s\<lparr>ot_initialized := True, ot_providers := ot_providers s @ [(service, exporter)]\<rparr>)"

lemma init_otel_once:
  assumes "ot_providers s = []" and "\<not> ot_initialized s"
  shows "length (ot_providers (fold (\<lambda>(d, n, e). init_otel d n e) calls s)) \<le> 1"
proof (cases calls)
  case (Cons c cs)
  have kept: "fold (\<lambda>(d, n, e). init_otel d n e) cs s' = s'" if "ot_initialized s'" for s'
    using that by (induction cs) (auto simp: init_otel_def split: prod.splits)
  obtain d n e where c: "c = (d, n, e)" by (cases c) auto
  have "ot_initialized (init_otel d n e s)" "length (ot_providers (init_otel d n e s)) \<le> 1"
    using assms by (simp_all add: init_otel_def)
  with kept show ?thesis by (simp add: Cons c)
qed (simp add: assms)

text \<open>\<open>getattr(logging, level.upper(), logging.INFO)\<close> for the level names of the library.\<close>

definition log_threshold :: "string \<Rightarrow> int" where
  "log_threshold level =
     (case map_of [(''CRITICAL'', 50), (''FATAL'', 50), (''ERROR'', 40), (''WARNING'', 30), (''WARN'', 30), (''INFO'', 20),
        (''DEBUG'', 10), (''NOTSET'', 0)] (upper level) of Some n \<Rightarrow> n | None \<Rightarrow> 20)"

datatype log_processor =
    MergeContextvars
  | AddLogLevel
  | TimeStamper
  | StackInfoRenderer
  | FormatExcInfo
  | PiiProcessor
  | JSONRenderer

definition log_processors :: "log_processor list" where
  "log_processors = [MergeContextvars, AddLogLevel, TimeStamper, StackInfoRenderer, FormatExcInfo, PiiProcessor, JSONRenderer]"

text \<open>The filter sees everything the other processors add, the rendered traceback included.\<close>

lemma pii_processor_last: "\<exists>before. log_processors = before @ [PiiProcessor, JSONRenderer]"
  by (simp add: log_processors_def)

section \<open>Weights and manifests\<close>

text \<open>\<open>SystemExit\<close> with a message ends the process with code 1.\<close>

definition fetch_weights :: "(string \<Rightarrow> string \<Rightarrow> exc + unit) option \<Rightarrow> string \<Rightarrow> string \<Rightarrow> exc + nat" where
  "fetch_weights snapshot_download revision cache =
     (if length revision \<noteq> 40 then Inr 1
      else case snapshot_download of
        None \<Rightarrow> Inr 1
      | Some download \<Rightarrow> res_bind (download revision cache) (\<lambda>_. Inr 0))"

text \<open>\<open>convert\<close> runs the command and gives the bytes of the file it wrote.\<close>

definition build_gguf ::
  "(string \<Rightarrow> bool) \<Rightarrow> (string list \<Rightarrow> exc + string) \<Rightarrow> (string \<Rightarrow> string) \<Rightarrow> string \<Rightarrow> string \<Rightarrow> string \<Rightarrow> exc + nat \<times> string" where
  "build_gguf exists convert sha256 source out llama_cpp_bin =
     (if \<not> exists source then Inr (1, [])
      else
        res_bind (convert [''python'', llama_cpp_bin, source, ''--outfile'', out, ''--outtype'', ''q4_k_m'']) (\<lambda>content.
        Inr (0, sha256_file sha256 1048576 content @ ''  '' @ path_name out)))"

text \<open>Reading back lines that were joined with newlines.\<close>

lemma splitlines_acc_line:
  "list_all (\<lambda>c. \<not> line_break c) l \<Longrightarrow> splitlines_acc acc (l @ CHR 0x0A # rest) = (rev acc @ l) # splitlines_acc [] rest"
proof (induction l arbitrary: acc)
  case Nil
  then show ?case by (simp add: line_break_def)
next
  case (Cons c l)
  moreover from Cons.prems have "c \<noteq> CHR 0x0D" by (auto simp: line_break_def)
  ultimately show ?case by simp
qed

lemma splitlines_joined:
  "ls \<noteq> [] \<Longrightarrow> list_all (list_all (\<lambda>c. \<not> line_break c)) ls \<Longrightarrow> splitlines (join [CHR 0x0A] ls @ [CHR 0x0A]) = ls"
  unfolding splitlines_def
proof (induction "[CHR 0x0A]" ls rule: join.induct)
  case (2 p)
  then show ?case using splitlines_acc_line [of p "[]" "[]"] by simp
next
  case (3 p q ps)
  then show ?case using splitlines_acc_line [of p "[]"] by simp
qed simp

text \<open>An entry line: a digest without spaces, two spaces, and a name without spaces.\<close>

definition plain_word :: "string \<Rightarrow> bool" where
  "plain_word w \<longleftrightarrow> w \<noteq> [] \<and> list_all (\<lambda>c. \<not> py_isspace c) w"

lemma line_break_space: "line_break c \<Longrightarrow> py_isspace c"
  by (auto simp: line_break_def py_isspace_def)

lemma strip_id:
  assumes "s \<noteq> []" and "\<not> py_isspace (hd s)" and "\<not> py_isspace (last s)"
  shows "strip s = s"
proof -
  have "dropWhile py_isspace s = s" using assms(1,2) by (cases s) simp_all
  moreover have "dropWhile py_isspace (rev s) = rev s" using assms(1,3) by (cases s rule: rev_cases) simp_all
  ultimately show ?thesis by (simp add: strip_def)
qed

lemma plain_word_ends: "plain_word w \<Longrightarrow> \<not> py_isspace (hd w) \<and> \<not> py_isspace (last w)"
  by (auto simp: plain_word_def list_all_iff)

lemma entry_line:
  assumes "plain_word sha" and "plain_word name"
  shows "strip (sha @ ''  '' @ name) = sha @ ''  '' @ name" and "split_once (sha @ ''  '' @ name) = Some (sha, name)"
    and "strip name = name"
proof -
  have space: "py_isspace (CHR '' '')" by code_simp
  show "strip (sha @ ''  '' @ name) = sha @ ''  '' @ name"
    using plain_word_ends [OF assms(1)] plain_word_ends [OF assms(2)] assms
    by (intro strip_id) (auto simp: plain_word_def hd_append)
  show "strip name = name" using plain_word_ends [OF assms(2)] assms(2) by (intro strip_id) (auto simp: plain_word_def)
  have "takeWhile (\<lambda>c. \<not> py_isspace c) (sha @ ''  '' @ name) = sha"
    "dropWhile (\<lambda>c. \<not> py_isspace c) (sha @ ''  '' @ name) = ''  '' @ name"
    using assms(1) space by (simp_all add: plain_word_def list_all_iff takeWhile_append2 dropWhile_append2)
  moreover have "dropWhile py_isspace (''  '' @ name) = name"
    using assms(2) space by (cases name) (simp_all add: plain_word_def)
  ultimately show "split_once (sha @ ''  '' @ name) = Some (sha, name)"
    using assms(2) by (simp add: split_once_def Let_def plain_word_def)
qed

lemma entry_verified:
  assumes "plain_word (sha256 content)" and "plain_word name" and "\<not> startswith name ''/''"
    and "files (root_dir @ ''/'' @ name) = Some (WeightFile content)"
  shows "line_verified files sha256 root_dir (sha256 content @ ''  '' @ name)"
  using entry_line [OF assms(1,2)] assms(3,4) by (simp add: line_verified_def path_join_def)

text \<open>The converter's output line is a manifest line that verifies the file it wrote.\<close>

theorem built_weights_verify:
  assumes "build_gguf exists convert sha256 source out bin = Inr (0, line)" and "\<And>s. plain_word (sha256 s)"
    and "convert [''python'', bin, source, ''--outfile'', out, ''--outtype'', ''q4_k_m''] = Inr content"
    and "plain_word (path_name out)" and "\<not> startswith (path_name out) ''/''"
    and "files (root_dir @ ''/'' @ path_name out) = Some (WeightFile content)"
  shows "line_verified files sha256 root_dir line"
proof -
  from assms(1,3) have "line = sha256 content @ ''  '' @ path_name out"
    by (auto simp: build_gguf_def sha256_file_whole split: if_splits)
  with entry_verified [of sha256 content "path_name out" files root_dir] assms(2,4,5,6) show ?thesis by simp
qed

text \<open>
  The manifest the vocabulary script writes verifies the assets it wrote beside it.
\<close>

definition manifest_header :: "string list" where
  "manifest_header = [''# COVESA VSS '' @ VSS_TAG @ '' commit '' @ VSS_COMMIT_SHA, ''# Source: '' @ VSS_RELEASE_BASE,
     ''# Format: <sha256>  <asset>'']"

lemma manifest_text_lines:
  "manifest_text sha256 blobs = join [CHR 0x0A] (manifest_header @ map (\<lambda>(a, data). sha256 data @ ''  '' @ a) blobs) @ [CHR 0x0A]"
  by (simp only: manifest_text_def manifest_header_def)

lemma manifest_header_verified:
  "list_all (line_verified files sha256 root_dir) manifest_header"
  "list_all (list_all (\<lambda>c. \<not> line_break c)) manifest_header"
proof -
  have "list_all (\<lambda>l. startswith (strip l) ''#'') manifest_header" by code_simp
  then show "list_all (line_verified files sha256 root_dir) manifest_header"
    by (rule list.pred_mono_strong) (simp add: line_verified_def)
  show "list_all (list_all (\<lambda>c. \<not> line_break c)) manifest_header" by code_simp
qed

lemma download_all_names: "download_all download as = Inr blobs \<Longrightarrow> map fst blobs = as"
  by (induction download as arbitrary: blobs rule: download_all.induct) (auto simp: res_bind_Inr)

lemma asset_words:
  "list_all plain_word ASSETS" "list_all (\<lambda>a. \<not> startswith a ''/'') ASSETS" "distinct ASSETS"
  "list_all (\<lambda>a. a \<notin> set [''signals.yaml'', ''manifest.sha256'', ''source.json'']) ASSETS"
  by (code_simp, code_simp, code_simp, code_simp)

lemma unbroken_entry: "plain_word w \<Longrightarrow> plain_word w' \<Longrightarrow> list_all (\<lambda>c. \<not> line_break c) (w @ ''  '' @ w')"
  using line_break_space by (auto simp: plain_word_def list_all_iff line_break_def)

lemma written_manifest_verifies:
  assumes "map fst blobs = ASSETS" and "\<And>s. plain_word (sha256 s)"
    and "\<And>name body. map_of blobs name = Some body \<Longrightarrow> files (out @ ''/'' @ name) = Some (WeightFile body)"
  shows "verify_slm_manifest files sha256 out (Some (manifest_text sha256 blobs)) = Inr 0"
proof -
  let ?line = "\<lambda>(a, data). sha256 data @ ''  '' @ a"
  have entry: "line_verified files sha256 out (?line e) \<and> list_all (\<lambda>c. \<not> line_break c) (?line e)" if "e \<in> set blobs" for e
  proof -
    obtain a data where e: "e = (a, data)" by (cases e)
    have "fst e \<in> fst ` set blobs" using that by (rule imageI)
    then have a: "a \<in> set ASSETS" by (simp add: e flip: assms(1))
    then have word: "plain_word a" "\<not> startswith a ''/''" using asset_words by (auto simp: list_all_iff)
    have "map_of blobs a = Some data" using that e assms(1) asset_words(3) by (metis map_of_is_SomeI)
    from assms(3) [OF this] entry_verified [of sha256 data a files out] unbroken_entry [of "sha256 data" a] assms(2) word
    show ?thesis by (simp add: e)
  qed
  have "list_all (line_verified files sha256 out) (manifest_header @ map ?line blobs)"
    "list_all (list_all (\<lambda>c. \<not> line_break c)) (manifest_header @ map ?line blobs)"
    using manifest_header_verified entry unfolding list_all_append list_all_iff [of _ "map ?line blobs"] by auto
  moreover have "manifest_header @ map ?line blobs \<noteq> []" by (simp add: manifest_header_def)
  ultimately show ?thesis
    unfolding manifest_verified_iff manifest_text_lines using splitlines_joined by auto
qed

theorem fetched_manifest_verifies:
  assumes "fetch_vss rt download sha256 parse safe_dump = Inr (0, written)" and "\<And>s. plain_word (sha256 s)"
    and "\<And>name body. map_of written name = Some body \<Longrightarrow> files (out @ ''/'' @ name) = Some (WeightFile body)"
  shows "\<exists>m. map_of written ''manifest.sha256'' = Some m \<and> verify_slm_manifest files sha256 out (Some m) = Inr 0"
proof -
  from assms(1) obtain blobs y j where blobs: "download_all download ASSETS = Inr blobs"
    and written: "written = [(''signals.yaml'', y), (''manifest.sha256'', manifest_text sha256 blobs), (''source.json'', j)] @ blobs"
    by (auto simp: fetch_vss_def res_bind_Inr split: option.splits)
  have names: "map fst blobs = ASSETS" using download_all_names [OF blobs] .
  have "files (out @ ''/'' @ name) = Some (WeightFile body)" if "map_of blobs name = Some body" for name body
  proof (rule assms(3))
    have "name \<in> fst ` set blobs" using that by (metis map_of_eq_None_iff option.distinct(1))
    then have "name \<in> set ASSETS" by (simp flip: names)
    then have "name \<notin> set [''signals.yaml'', ''manifest.sha256'', ''source.json'']" using asset_words(4) unfolding list_all_iff by blast
    then show "map_of written name = Some body" using that by (simp add: written)
  qed
  with written_manifest_verifies [OF names, of sha256 files out] assms(2) show ?thesis by (simp add: written)
qed

end
