(* ===== verification/Spec2Isabelle.thy ===== *)
theory Spec2Isabelle
  imports CM_Service CM_Migrations CM_Issuer CM_Webhook CM_Kafka CM_Records CM_Artifacts
begin

text \<open>
  CollectMind, the policy-loop service: a verification development of the repository under \<open>src/\<close>.  File
  names below are relative to \<open>src/src/collectmind/\<close> unless they start with \<open>scripts/\<close> or \<open>infra/\<close>, which
  are relative to \<open>src/\<close>.

  \<^bold>\<open>The program.\<close>  A tenant's diagnostic system posts a finding to the ingest endpoint.  The endpoint checks the
  bearer token, the schema version and the body, makes the request idempotent over the findings table, writes an
  audit event and starts a graph run.  The run asks a language model for a data-collection policy, validates it
  against the signal vocabulary and the governance rules, retries within a budget, and deploys a valid policy to
  the collector or dead-letters the session; what happened is persisted and audited.  A feedback worker later
  reads the telemetry of expired deployments and records the outcome of the hypothesis.  Around this loop stand
  the rate limiter with its token buckets in Redis and its cached tenant configuration, the query endpoints, the
  erasure of data subjects, vehicle ownership, the operators' break-glass read, metrics and logging, the
  migrations, and beside the service its development token issuers, an alert receiver and the repository's
  guard scripts.  All tenant data lives in one database under row-level security.

  \<^bold>\<open>How code is modelled.\<close>  A Python function that reads and writes shared state is an \<open>act\<close> of \<open>CM_Prelude\<close>: a
  function from the state to a result and the new state, the result \<open>Inl\<close> of an exception or \<open>Inr\<close> of a value,
  with the effects made before an exception kept.  \<open>act_bind\<close>, \<open>act_catch\<close> and \<open>act_foreach\<close> are sequencing,
  \<open>try\<close> and \<open>for\<close>.  The state is a record that grows with the component: \<open>world\<close> (database, session, clock, fresh
  identifiers, random draws, metrics), \<open>redis_world\<close>, \<open>config_world\<close>, \<open>limiter_world\<close>, \<open>app_world\<close> and \<open>service_world\<close>,
  each extending the one before, so that an operation of a component runs unchanged in every larger state.
  Values that come from outside are the datatype \<open>json\<close>; dictionaries are association lists in insertion order;
  instants are microseconds as \<open>int\<close>, floats are \<open>rat\<close>, strings are lists of the code points up to 255.
  Exceptions are the datatypes of \<open>CM_Errors\<close>.  Code outside the repository is a parameter: the database driver's
  and validation library's coercions, the JWT library, the model servers, SHA-256, Ed25519, YAML and file trees.
  What is relied on of it is a hypothesis of the theorem that needs it, and a witness shows it can hold.

  \<^bold>\<open>The theories and what they model.\<close>
  \<^item> \<open>CM_Prelude\<close>: the effect monad, Python strings and dictionaries, the rule collections \<open>act_simps\<close> and
    \<open>py_simps\<close> that evaluate them.
  \<^item> \<open>CM_Errors\<close>, \<open>CM_Models\<close>, \<open>CM_Json\<close>, \<open>CM_Regex\<close>: \<open>errors.py\<close>; \<open>models/finding.py\<close>, \<open>models/policy.py\<close>,
    \<open>models/erasure.py\<close>; \<open>json.dumps\<close> and \<open>deployer/signing.py\<close>; the used fragment of \<open>re\<close> with its
    backtracking order.
  \<^item> \<open>CM_Validator\<close>: \<open>validator/vss.py\<close>, \<open>validator/governance.py\<close>, \<open>validator/policy_validator.py\<close>.
  \<^item> \<open>CM_Database\<close>: \<open>registry/db.py\<close> and the tables of \<open>registry/migrations/sql\<close> with their checks, keys, references and
    row-level security policies; the rules (\<open>keeps\<close>, \<open>keeps_rules\<close>, \<open>keeps_sql\<close>, \<open>tenant_orders\<close>) that carry the
    preservation proofs of every component above it.  \<open>CM_Audit\<close>: \<open>registry/audit.py\<close>.  \<open>CM_Repository\<close>: \<open>registry/repository.py\<close>.
    \<open>CM_Migrations\<close>: \<open>registry/migrations/runner.py\<close>.
  \<^item> \<open>CM_Slm\<close>, \<open>CM_Deployer\<close>, \<open>CM_Graph\<close>, \<open>CM_Runner\<close>: the clients of \<open>slm/\<close>, the collector clients of \<open>deployer/\<close> with
    \<open>feedback/scheduler.py\<close>, the nodes and routing of \<open>graph/\<close>, and \<open>graph/runner.py\<close> with
    \<open>simulators/telemetry_generator.py\<close>.
  \<^item> \<open>CM_Feedback\<close>: \<open>feedback/evaluator.py\<close>, \<open>feedback/worker.py\<close>.
  \<^item> \<open>CM_Auth\<close>, \<open>CM_Ingest\<close>, \<open>CM_Query\<close>, \<open>CM_Erasure\<close>, \<open>CM_Break_Glass\<close>: \<open>auth/\<close> and \<open>config.py\<close>, \<open>ingest/\<close>, \<open>query/api.py\<close>,
    \<open>erasure/\<close>, \<open>audit_admin/api.py\<close>.
  \<^item> \<open>CM_Redis\<close>, \<open>CM_Tenant_Config\<close>, \<open>CM_Ratelimit\<close>, \<open>CM_Ownership\<close>: \<open>redis/client.py\<close> and \<open>ratelimit/token_bucket.lua\<close>;
    \<open>registry/tenant_config.py\<close> and \<open>ratelimit/config_cache.py\<close>; \<open>ratelimit/middleware.py\<close>;
    \<open>registry/tenant_vehicles.py\<close>, \<open>cache/ownership_cache.py\<close>, \<open>deployer/tenant_scope_check.py\<close>, \<open>deployer/node.py\<close>.
  \<^item> \<open>CM_App\<close>, \<open>CM_Metrics\<close>, \<open>CM_Logging\<close>: \<open>app.py\<close> and \<open>registry/middleware/tenant_context.py\<close>;
    \<open>observability/metrics.py\<close> and \<open>ratelimit/metrics.py\<close>; \<open>observability/logging.py\<close>.
  \<^item> \<open>CM_Service\<close>: the running application, all routes behind the middlewares, the tasks the handlers start, the
    worker and the notifications, as the transition relation \<open>service_step\<close>.
  \<^item> \<open>CM_Issuer\<close>: \<open>infra/compose/mock-issuer/main.py\<close>, \<open>infra/compose/operator-issuer/main.py\<close>, \<open>scripts/dev_issue_jwt.py\<close>.
    \<open>CM_Webhook\<close>: \<open>scripts/local_webhook.py\<close>, its threads as the step relation \<open>wh_step\<close>.  \<open>CM_Kafka\<close>: \<open>kafka/\<close>.
  \<^item> \<open>CM_Runbooks\<close>, \<open>CM_Guards\<close>, \<open>CM_Vss_Fetch\<close>, \<open>CM_Records\<close>, \<open>CM_Artifacts\<close>: \<open>scripts/check_runbook_completeness.py\<close>; the other
    guard scripts and \<open>observability/dashboard_provisioner.py\<close>; \<open>scripts/fetch_vss_v6.0.py\<close>; the documented record
    models of \<open>models/\<close> and \<open>simulators/diagnostic_finding_generator.py\<close>; key files, default paths, tracing and
    logging set-up, and the weight scripts.

  \<^bold>\<open>Interfaces.\<close>  A component that relies on another does so through a locale, interpreted on the model's own
  definitions: \<open>policy_client\<close> (what a model client promises the graph; interpreted for the stub and the
  development client, and proved of the two server clients under their transport's contract),
  \<open>collector_client\<close> (simulator and disabled real client), \<open>scoped_read\<close> (a read that looks only at the caller's
  tenant; interpreted for every read of the registry), \<open>idempotency_backend\<close> (in-memory and database), and
  \<open>step_relation\<close> with \<open>app_relation\<close> (a relation between states that every operation of the service obeys;
  interpreted for the metric uses and for the started runs).

  \<^bold>\<open>What is proved.\<close>
  \<^item> Of the running service: whatever other tenants, operators and background work do, a tenant's queries are
    answered as before and the schema invariant holds; a finding answered 202 is accounted for by a stored row
    and a run that has ended in a terminal audit event or is still to come.
  \<^item> Of the policy loop: only validated policies are deployed, the retry budget bounds the rounds, every run
    leaves its outcome and a terminal event, policy versions are immutable and read back as stored, and the
    feedback worker records the verdict its rule defines.
  \<^item> Of the boundaries: which requests are accepted and which refused without effect; the handler over the
    database refines the in-memory idempotency store; identities come from verified tokens only; the limiter
    keeps tenants apart, fails closed, and admits at most what rate and burst allow; configuration changes are
    seen within the cache's lifetime; erasure removes what it reports removed; break-glass reads are on record.
  \<^item> Of the surroundings: issued tokens authenticate as their client for one hour plus the skew; the vocabulary is
    exactly the released tree's leaves; the receiver's threads are linearizable; consumed offsets were handled;
    the guards accept exactly what they document; metrics are used as declared; filtered log text has no
    e-mail address, telephone number or coordinate pair; migrations resume.
  \<^item> Where the code falls short of its intent a theorem states what it does instead, for example a
    correlation id shared by two tenants, expiry limited to the built-in tenant, a policy whose only vehicle is
    erased, and rates the bucket script does not limit.

  \<^bold>\<open>Bounds and termination.\<close>  The graph's retry loop is a function whose termination is proved from the retry
  budget.  \<open>run_forever\<close> of the worker and the configuration listener's loop run as long as the process: they take
  the number of turns and the list of connection attempts as arguments, and the service's transition relation
  has no such bound, since each turn is a transition of its own.  Recursions over documents, patterns and files
  terminate by proof.  The bucket's arithmetic is over integers, exact for the script's doubles below \<open>2 ^ 53\<close>.
  The receiver's buffer has the code's bound of 1000.

  \<^bold>\<open>Not modelled.\<close>  Interleaving inside one request, task or worker turn of the service (each is one transition;
  the receiver's handlers are split at every statement under the lock); code points above 255, NUL bytes and NaN;
  indexes, grants and the hypertable, which do not change what a statement answers; metric values, help texts
  and exposition; what logging and tracing libraries add or export; the transport below HTTP, Kafka and Redis
  commands; argument parsing, printed progress and directory creation of the scripts; the OpenAPI document,
  which the web framework derives; the class of \<open>models/deployment.py\<close>, which nothing constructs.
\<close>

lemma tenant_step_frame: "on_db (tenant_step t) w w' \<Longrightarrow> on_db (tenant_frame t) w w'"
  by (auto simp: on_db_def tenant_step_def)

text \<open>
  A policy-generation run of one tenant is invisible to every other tenant: whatever the model
  answers, whether the run completes, is rejected or fails, and whatever it deploys, each of the
  registry reads and the audit read of another tenant returns after the run what it returned before.
\<close>

theorem run_isolates_tenants:
  assumes "policy_client slm" and "collector_client col" and "ses_tenant_id s \<noteq> t"
    and "run_async rc slm col s dir w = (r, w')"
  shows "fst (policy_get t pid v w') = fst (policy_get t pid v w) \<and>
    fst (list_versions t pid n w') = fst (list_versions t pid n w) \<and>
    fst (find_by_finding t fid w') = fst (find_by_finding t fid w) \<and>
    fst (find_active_for_vehicle t vid w') = fst (find_active_for_vehicle t vid w) \<and>
    fst (get_by_finding t fid w') = fst (get_by_finding t fid w) \<and>
    fst (list_for_correlation t cid w') = fst (list_for_correlation t cid w)"
proof -
  have fr: "on_db (tenant_frame (ses_tenant_id s)) w w'"
    by (rule tenant_step_frame, rule act_preservesD [OF run_async_step [OF assms(1,2)] assms(4)])
  note un = sr_policy.unaffected [OF fr assms(3)] sr_versions.unaffected [OF fr assms(3)]
    sr_by_finding.unaffected [OF fr assms(3)] sr_active.unaffected [OF fr assms(3)]
    sr_outcome.unaffected [OF fr assms(3)]
  have "fst (list_for_correlation t cid w') = fst (list_for_correlation t cid w)"
    using fr sr_correlation.not_influenced [OF _ assms(3), of "w_db w" "w_db w'"]
    by (auto simp: list_for_correlation_def acquire_def transaction_def act_bind_run query_def act_run_simps
        on_db_def env_kept_def)
  then show ?thesis
    using un unfolding policy_get_def list_versions_def find_by_finding_def find_active_for_vehicle_def get_by_finding_def
    by blast
qed

theorem run_isolates_tenants_witness:
  "\<exists>w'. run_async sample_rc (fixed_slm (JObj sample_policy_doc)) (simulator_deploy plain_rt no_env default_simulator)
       sample_session (Some ''starve'') sim_start = (Inr (), w') \<and>
     fst (policy_get ''t2'' ''p'' None w') = fst (policy_get ''t2'' ''p'' None sim_start)"
proof -
  obtain w' where "run_graph sample_rc (fixed_slm (JObj sample_policy_doc))
      (simulator_deploy plain_rt no_env default_simulator) sample_session (Some ''starve'') sim_start = (Inr (), w')"
    by (rule sample_full_run)
  then have r: "run_async sample_rc (fixed_slm (JObj sample_policy_doc))
      (simulator_deploy plain_rt no_env default_simulator) sample_session (Some ''starve'') sim_start = (Inr (), w')"
    by (simp add: run_async_def act_catch_def)
  have "ses_tenant_id sample_session \<noteq> ''t2''" by simp
  from run_isolates_tenants [OF fixed_slm_client sim.collector_client_axioms this r] r show ?thesis by blast
qed

end
